(* ===== verification/Prelude.thy ===== *)
theory Prelude
  imports Main "HOL-Library.Sublist"
begin

text \<open>
  Shared vocabulary of the development: the types that stand for Go values, the errors the
  driver returns, the collections of rewrite rules, and the generic facts on lists that the
  component theories use.

  \<^item> A Go \<^verbatim>\<open>string\<close> is a HOL \<^typ>\<open>string\<close>: a list of bytes.
  \<^item> A Go \<^verbatim>\<open>map[string]string\<close> is an association list. The order of the list is the order in
    which one \<^verbatim>\<open>range\<close> over the map visits the entries: Go leaves that order open, and a
    theorem about every list is a theorem about every order.
  \<^item> A Go \<^verbatim>\<open>error\<close> that may be nil is an \<^typ>\<open>'e option\<close>; a pair (value, error) of which exactly
    one is meaningful is a sum.
\<close>

named_theorems go_simps \<open>unfolding of the small library functions\<close>
named_theorems handler_defs \<open>definitions of the request handlers and their parts\<close>

type_synonym gomap = "(string \<times> string) list"

section \<open>Errors\<close>

text \<open>
  The \<^verbatim>\<open>errno\<close> values the code distinguishes (through \<^verbatim>\<open>os.IsNotExist\<close>, \<^verbatim>\<open>os.IsExist\<close> and
  \<^verbatim>\<open>mount.IsCorruptedMnt\<close>); \<open>EWIN\<close> is an error number of Windows, and every other one is \<open>EOTHER\<close>.
\<close>

datatype errno =
    ENOENT | EEXIST | ENOTEMPTY | ENOTDIR | ENOTCONN | ESTALE | EIO | EACCES | EHOSTDOWN
  | EWOULDBLOCK | ENODEV | EWIN nat | EOTHER string

text \<open>The gRPC status codes the handlers use.\<close>

datatype code =
    InvalidArgument | NotFound | Aborted | Internal | Unavailable | Unimplemented

text \<open>
  An error is an operating system error, an error made by \<^verbatim>\<open>fmt.Errorf\<close>, or a gRPC status.
  The last two carry the format string of the source and the error that is formatted into it,
  if there is one; the other arguments of the format are not kept. \<open>Panic\<close> stands for a run-time
  panic that unwinds the goroutine: it has no error value in Go, and no caller can handle it.
\<close>

datatype error =
    Errno errno
  | Errorf string "error option"
  | Status code string "error option"
  | Panic

fun IsNotExist :: "error \<Rightarrow> bool" where
  "IsNotExist (Errno e) = (e = ENOENT)"
| "IsNotExist _ = False"

text \<open>\<^verbatim>\<open>os.IsExist\<close> holds for EEXIST and for ENOTEMPTY.\<close>

fun IsExist :: "error \<Rightarrow> bool" where
  "IsExist (Errno e) = (e = EEXIST \<or> e = ENOTEMPTY)"
| "IsExist _ = False"

fun is_status :: "code \<Rightarrow> error \<Rightarrow> bool" where
  "is_status c (Status c' _ _) = (c = c')"
| "is_status c _ = False"

section \<open>Association lists as Go maps\<close>

text \<open>A Go map holds each key once.\<close>

definition wf_map :: "('k \<times> 'v) list \<Rightarrow> bool" where
  "wf_map m = distinct (map fst m)"

text \<open>\<^verbatim>\<open>m[k]\<close>: the zero value, the empty string, for a missing key.\<close>

definition map_get :: "gomap \<Rightarrow> string \<Rightarrow> string" where
  "map_get m k = (case map_of m k of None \<Rightarrow> [] | Some v \<Rightarrow> v)"

text \<open>\<^verbatim>\<open>m[k] = v\<close>.\<close>

fun map_put :: "'k \<Rightarrow> 'v \<Rightarrow> ('k \<times> 'v) list \<Rightarrow> ('k \<times> 'v) list" where
  "map_put k v [] = [(k, v)]"
| "map_put k v ((k', v') # m) = (if k = k' then (k, v) # m else (k', v') # map_put k v m)"

lemma map_of_map_put [simp]: "map_of (map_put k v m) = (map_of m)(k \<mapsto> v)"
  by (induction m) auto

lemma fst_set_map_put [simp]: "fst ` set (map_put k v m) = insert k (fst ` set m)"
  by (simp add: dom_map_of_conv_image_fst [symmetric])

lemma wf_map_put [intro]: "wf_map m \<Longrightarrow> wf_map (map_put k v m)"
  by (induction m) (auto simp: wf_map_def)

lemma wf_map_Nil [simp]: "wf_map []"
  by (simp add: wf_map_def)

lemma wf_map_Cons: "wf_map ((k, v) # m) \<longleftrightarrow> k \<notin> fst ` set m \<and> wf_map m"
  by (simp add: wf_map_def)

section \<open>Lists\<close>

lemma takeWhile_dropWhile_rev:
  "rev (dropWhile P (rev xs)) @ rev (takeWhile P (rev xs)) = xs"
  by (metis rev_append rev_rev_ident takeWhile_dropWhile_id)

lemma dropWhile_all_not: "(\<forall>x \<in> set xs. \<not> P x) \<Longrightarrow> dropWhile P xs = xs"
  by (cases xs) auto

lemma set_dropWhile_subset: "set (dropWhile P xs) \<subseteq> set xs"
  by (auto dest: set_dropWhileD)

section \<open>Codecs\<close>

text \<open>
  The interface shared by every pair of an encoder and a decoder in the driver: decoding what was
  encoded gives the value back. A client that keys files or volumes by encoded values needs the
  consequence, that the encoder never maps two values to the same key.
\<close>

locale codec =
  fixes enc :: "'a \<Rightarrow> 'b" and dec :: "'b \<Rightarrow> 'a option" and valid :: "'a \<Rightarrow> bool"
  assumes dec_enc: "valid x \<Longrightarrow> dec (enc x) = Some x"
begin

lemma enc_inj: "valid x \<Longrightarrow> valid y \<Longrightarrow> enc x = enc y \<longleftrightarrow> x = y"
  by (metis dec_enc option.inject)

lemma enc_inj_on: "inj_on enc {x. valid x}"
  by (auto simp: inj_on_def enc_inj)

end

end
