(* ===== verification/CSICommon.thy ===== *)
theory CSICommon
  imports GoStrings
begin

text \<open>
  The base of the driver (\<^verbatim>\<open>pkg/csi-common\<close>): its identity, the capabilities it announces and the
  checks of a request against them (\<^verbatim>\<open>driver.go\<close>), and the parsing of the endpoint and the log
  level of a method (\<^verbatim>\<open>utils.go\<close>). The enumerations are those of the CSI protocol that the driver
  names.
\<close>

section \<open>Capabilities\<close>

datatype ControllerRPC =
    CS_UNKNOWN | CREATE_DELETE_VOLUME | CS_SINGLE_NODE_MULTI_WRITER | CLONE_VOLUME | EXPAND_VOLUME
  | PUBLISH_UNPUBLISH_VOLUME | LIST_VOLUMES | GET_CAPACITY | CREATE_DELETE_SNAPSHOT | LIST_SNAPSHOTS

datatype NodeRPC =
    NS_UNKNOWN | STAGE_UNSTAGE_VOLUME | NS_SINGLE_NODE_MULTI_WRITER | VOLUME_MOUNT_GROUP
  | GET_VOLUME_STATS | NS_EXPAND_VOLUME

datatype AccessMode =
    SINGLE_NODE_WRITER | SINGLE_NODE_READER_ONLY | SINGLE_NODE_SINGLE_WRITER | SINGLE_NODE_MULTI_WRITER
  | MULTI_NODE_READER_ONLY | MULTI_NODE_SINGLE_WRITER | MULTI_NODE_MULTI_WRITER

text \<open>The one-field messages that wrap a capability in the protocol.\<close>

datatype ControllerServiceCapability = CSRpc (cs_type: ControllerRPC)
datatype NodeServiceCapability = NSRpc (ns_type: NodeRPC)
datatype VolumeCapability_AccessMode = VAMode (va_mode: AccessMode)

definition NewVolumeCapabilityAccessMode :: "AccessMode \<Rightarrow> VolumeCapability_AccessMode" where
  "NewVolumeCapabilityAccessMode mode = VAMode mode"

definition NewControllerServiceCapability :: "ControllerRPC \<Rightarrow> ControllerServiceCapability" where
  "NewControllerServiceCapability c = CSRpc c"

definition NewNodeServiceCapability :: "NodeRPC \<Rightarrow> NodeServiceCapability" where
  "NewNodeServiceCapability c = NSRpc c"

section \<open>CSIDriver\<close>

record CSIDriver =
  Name :: string
  NodeID :: string
  Version :: string
  Cap :: "ControllerServiceCapability list"
  VC :: "VolumeCapability_AccessMode list"
  NSCap :: "NodeServiceCapability list"

definition NewCSIDriver :: "string \<Rightarrow> string \<Rightarrow> string \<Rightarrow> CSIDriver option" where
  "NewCSIDriver name v nodeID =
     (if name = '''' then None
      else if nodeID = '''' then None
      else Some \<lparr>Name = name, NodeID = nodeID, Version = v, Cap = [], VC = [], NSCap = []\<rparr>)"

text \<open>The message of the error is the name of the refused capability, which is not kept.\<close>

definition ValidateControllerServiceRequest :: "('a CSIDriver_scheme) \<Rightarrow> ControllerRPC \<Rightarrow> error option" where
  "ValidateControllerServiceRequest d c =
     (if c = CS_UNKNOWN then None
      else if list_ex (\<lambda>cap. c = cs_type cap) (Cap d) then None
      else Some (Status InvalidArgument ''%s'' None))"

definition ValidateNodeServiceRequest :: "('a CSIDriver_scheme) \<Rightarrow> NodeRPC \<Rightarrow> error option" where
  "ValidateNodeServiceRequest d c =
     (if c = NS_UNKNOWN then None
      else if list_ex (\<lambda>cap. c = ns_type cap) (NSCap d) then None
      else Some (Status InvalidArgument ''%s'' None))"

text \<open>The three setters replace what was announced before.\<close>

definition AddControllerServiceCapabilities ::
  "ControllerRPC list \<Rightarrow> ('a CSIDriver_scheme) \<Rightarrow> ('a CSIDriver_scheme)" where
  "AddControllerServiceCapabilities cl d = d\<lparr>Cap := map NewControllerServiceCapability cl\<rparr>"

definition AddNodeServiceCapabilities ::
  "NodeRPC list \<Rightarrow> ('a CSIDriver_scheme) \<Rightarrow> ('a CSIDriver_scheme)" where
  "AddNodeServiceCapabilities nl d = d\<lparr>NSCap := map NewNodeServiceCapability nl\<rparr>"

definition AddVolumeCapabilityAccessModes ::
  "AccessMode list \<Rightarrow> ('a CSIDriver_scheme) \<Rightarrow> VolumeCapability_AccessMode list \<times> ('a CSIDriver_scheme)" where
  "AddVolumeCapabilityAccessModes vc d =
     (let vca = map NewVolumeCapabilityAccessMode vc in (vca, d\<lparr>VC := vca\<rparr>))"

definition GetVolumeCapabilityAccessModes :: "('a CSIDriver_scheme) \<Rightarrow> VolumeCapability_AccessMode list" where
  "GetVolumeCapabilityAccessModes d = VC d"

lemma ValidateControllerServiceRequest_added:
  "ValidateControllerServiceRequest (AddControllerServiceCapabilities cl d) c = None \<longleftrightarrow>
   c = CS_UNKNOWN \<or> c \<in> set cl"
  by (auto simp: ValidateControllerServiceRequest_def AddControllerServiceCapabilities_def
      NewControllerServiceCapability_def list_ex_iff)

lemma ValidateNodeServiceRequest_added:
  "ValidateNodeServiceRequest (AddNodeServiceCapabilities nl d) c = None \<longleftrightarrow> c = NS_UNKNOWN \<or> c \<in> set nl"
  by (auto simp: ValidateNodeServiceRequest_def AddNodeServiceCapabilities_def
      NewNodeServiceCapability_def list_ex_iff)

section \<open>Endpoints\<close>

text \<open>
  \<^verbatim>\<open>strings.SplitN(ep, sep, 2)\<close>: the text before and after the first occurrence of the separator.
\<close>

fun split_at :: "string \<Rightarrow> string \<Rightarrow> (string \<times> string) option" where
  "split_at sep s =
     (if HasPrefix s sep then Some ([], drop (length sep) s)
      else (case s of [] \<Rightarrow> None | c # s' \<Rightarrow> map_option (\<lambda>(a, b). (c # a, b)) (split_at sep s')))"

declare split_at.simps [simp del]

definition ParseEndpoint :: "string \<Rightarrow> error + string \<times> string" where
  "ParseEndpoint ep =
     (if HasPrefix (ToLower ep) ''unix://'' \<or> HasPrefix (ToLower ep) ''tcp://''
      then (case split_at ''://'' ep of
              Some (proto, addr) \<Rightarrow>
                if addr \<noteq> '''' then Inr (proto, addr) else Inl (Errorf ''Invalid endpoint: %v'' None)
            | None \<Rightarrow> Inl (Errorf ''Invalid endpoint: %v'' None))
      else Inl (Errorf ''Invalid endpoint: %v'' None))"

lemma split_at_append:
  "CHR '':'' \<notin> set a \<Longrightarrow> split_at ''://'' (a @ ''://'' @ b) = Some (a, b)"
proof (induction a)
  case Nil
  then show ?case by (simp add: split_at.simps HasPrefix_append)
next
  case (Cons c a)
  then have "\<not> HasPrefix ((c # a) @ ''://'' @ b) ''://''" by (auto simp: HasPrefix_def)
  then show ?case using Cons by (subst split_at.simps) simp
qed

lemma split_at_SomeD: "split_at sep s = Some (a, b) \<Longrightarrow> s = a @ sep @ b"
proof (induction sep s arbitrary: a rule: split_at.induct)
  case (1 sep s)
  show ?case
  proof (cases "HasPrefix s sep")
    case True
    then show ?thesis using 1(2) by (auto simp: split_at.simps [of sep s] HasPrefix_iff)
  next
    case False
    then obtain c s' a' where "s = c # s'" "a = c # a'" "split_at sep s' = Some (a', b)"
      using 1(2) by (auto simp: split_at.simps [of sep s] split: list.splits)
    then show ?thesis using 1(1) [OF False] by auto
  qed
qed

section \<open>Logging\<close>

definition getLogLevel :: "string \<Rightarrow> nat" where
  "getLogLevel method =
     (if method = ''/csi.v1.Identity/Probe'' \<or> method = ''/csi.v1.Node/NodeGetCapabilities'' \<or>
         method = ''/csi.v1.Node/NodeGetVolumeStats''
      then 6 else 2)"

end
