(* ===== verification/VolumeLock.thy ===== *)
theory VolumeLock
  imports Prelude
begin

text \<open>
  The set of keys with an operation in progress (\<^verbatim>\<open>pkg/smb/volume_lock.go\<close>), the discipline by
  which the request handlers use it (try to acquire, give up with \<^verbatim>\<open>Aborted\<close>, release when the
  handler returns), and the interleavings of any number of such handlers.
\<close>

section \<open>volumeLocks\<close>

record volumeLocks =
  locks :: "string list"

definition newVolumeLocks :: volumeLocks where
  "newVolumeLocks = \<lparr>locks = []\<rparr>"

text \<open>Each method holds the mutex from its first to its last statement, so it is one step.\<close>

definition TryAcquire :: "string \<Rightarrow> volumeLocks \<Rightarrow> bool \<times> volumeLocks" where
  "TryAcquire volumeID vl =
     (if List.member (locks vl) volumeID then (False, vl)
      else (True, vl\<lparr>locks := volumeID # locks vl\<rparr>))"

definition Release :: "string \<Rightarrow> volumeLocks \<Rightarrow> volumeLocks" where
  "Release volumeID vl = vl\<lparr>locks := removeAll volumeID (locks vl)\<rparr>"

section \<open>The contract of a set of locks\<close>

locale lockset =
  fixes acquire :: "'k \<Rightarrow> 's \<Rightarrow> bool \<times> 's" and release :: "'k \<Rightarrow> 's \<Rightarrow> 's"
    and held :: "'s \<Rightarrow> 'k set"
  assumes acquire_free: "k \<notin> held s \<Longrightarrow> \<exists>s'. acquire k s = (True, s') \<and> held s' = insert k (held s)"
    and acquire_held: "k \<in> held s \<Longrightarrow> acquire k s = (False, s)"
    and release_held: "held (release k s) = held s - {k}"
begin

lemma acquire_iff: "fst (acquire k s) \<longleftrightarrow> k \<notin> held s"
  using acquire_free acquire_held by (metis fst_conv)

lemma acquire_True: "acquire k s = (True, s') \<Longrightarrow> k \<notin> held s \<and> held s' = insert k (held s)"
  using acquire_free acquire_held by (metis Pair_inject)

lemma acquire_False: "acquire k s = (False, s') \<Longrightarrow> k \<in> held s \<and> s' = s"
  using acquire_free acquire_held by (metis Pair_inject)

text \<open>Acquiring, working with a body that leaves the keys alone, and releasing changes nothing.\<close>

lemma bracket:
  assumes "acquire k s = (True, s1)" "held s2 = held s1"
  shows "held (release k s2) = held s"
  using acquire_True [OF assms(1)] assms(2) release_held by auto

end

definition held_keys :: "volumeLocks \<Rightarrow> string set" where
  "held_keys vl = set (locks vl)"

interpretation vl: lockset TryAcquire Release held_keys
  by unfold_locales (auto simp: TryAcquire_def Release_def held_keys_def)

lemma held_newVolumeLocks [simp]: "held_keys newVolumeLocks = {}"
  by (simp add: held_keys_def newVolumeLocks_def)

section \<open>Handlers that run concurrently\<close>

text \<open>
  A handler is idle, has been refused, or works while it holds its key; the identities of the
  handlers are natural numbers, and \<open>hkey\<close> gives the key a handler locks.
\<close>

datatype pc = Idle | Working | Refused | Finished

record sys =
  vl_state :: volumeLocks
  pcs :: "nat \<Rightarrow> pc"

definition init_sys :: sys where
  "init_sys = \<lparr>vl_state = newVolumeLocks, pcs = (\<lambda>_. Idle)\<rparr>"

inductive lock_step :: "(nat \<Rightarrow> string) \<Rightarrow> sys \<Rightarrow> sys \<Rightarrow> bool" for hkey where
  start: "pcs s i = Idle \<Longrightarrow> TryAcquire (hkey i) (vl_state s) = (True, v) \<Longrightarrow>
    lock_step hkey s (s\<lparr>vl_state := v, pcs := (pcs s)(i := Working)\<rparr>)"
| refuse: "pcs s i = Idle \<Longrightarrow> TryAcquire (hkey i) (vl_state s) = (False, v) \<Longrightarrow>
    lock_step hkey s (s\<lparr>vl_state := v, pcs := (pcs s)(i := Refused)\<rparr>)"
| finish: "pcs s i = Working \<Longrightarrow>
    lock_step hkey s (s\<lparr>vl_state := Release (hkey i) (vl_state s), pcs := (pcs s)(i := Finished)\<rparr>)"

inductive_cases lock_stepE: "lock_step hkey s t"

inductive lock_reachable :: "(nat \<Rightarrow> string) \<Rightarrow> sys \<Rightarrow> bool" for hkey where
  init: "lock_reachable hkey init_sys"
| step: "lock_reachable hkey s \<Longrightarrow> lock_step hkey s t \<Longrightarrow> lock_reachable hkey t"

text \<open>The keys held are the keys of the working handlers, and each has one.\<close>

definition working :: "sys \<Rightarrow> nat set" where
  "working s = {i. pcs s i = Working}"

definition lock_inv :: "(nat \<Rightarrow> string) \<Rightarrow> sys \<Rightarrow> bool" where
  "lock_inv hkey s \<longleftrightarrow> held_keys (vl_state s) = hkey ` working s \<and> inj_on hkey (working s)"

lemma lock_inv_init: "lock_inv hkey init_sys"
  by (simp add: lock_inv_def init_sys_def working_def)

lemma working_upd:
  "working (s\<lparr>vl_state := v, pcs := (pcs s)(i := Working)\<rparr>) = insert i (working s)"
  "x \<noteq> Working \<Longrightarrow> working (s\<lparr>vl_state := v, pcs := (pcs s)(i := x)\<rparr>) = working s - {i}"
  "pcs s i \<noteq> Working \<Longrightarrow> i \<notin> working s"
  by (auto simp: working_def)

lemma lock_step_inv:
  assumes "lock_step hkey s t" "lock_inv hkey s"
  shows "lock_inv hkey t"
  using assms
proof (cases rule: lock_step.cases)
  case (start i v)
  have v: "hkey i \<notin> held_keys (vl_state s)" "held_keys v = insert (hkey i) (held_keys (vl_state s))"
    using vl.acquire_True [OF start(3)] by simp_all
  then show ?thesis
    using assms(2) start(1,2) by (auto simp: lock_inv_def working_upd)
next
  case (refuse i v)
  then have "working t = working s" by (auto simp: working_def)
  then show ?thesis
    using assms(2) refuse(1) vl.acquire_False [OF refuse(3)] by (simp add: lock_inv_def)
next
  case (finish i)
  then have i: "i \<in> working s" and t: "working t = working s - {i}" by (auto simp: working_def)
  have inj: "inj_on hkey (working s)" using assms(2) by (simp add: lock_inv_def)
  then have "hkey ` (working s - {i}) = hkey ` working s - {hkey i}"
    using i by (auto simp: inj_on_def)
  then show ?thesis
    using assms(2) finish(1) inj t vl.release_held by (simp add: lock_inv_def inj_on_diff)
qed

lemma reachable_lock_inv: "lock_reachable hkey s \<Longrightarrow> lock_inv hkey s"
  by (induction rule: lock_reachable.induct) (auto intro: lock_inv_init lock_step_inv)

text \<open>
  C12. Mutual exclusion: whatever the order in which any number of handlers try to acquire, are
  refused and release, two handlers that work at the same time have different keys.
\<close>

theorem lock_mutual_exclusion:
  assumes "lock_reachable hkey s" "pcs s i = Working" "pcs s j = Working" "hkey i = hkey j"
  shows "i = j"
  using reachable_lock_inv [OF assms(1)] assms(2,3,4) by (auto simp: lock_inv_def inj_on_def working_def)

lemma two_keys_reachable:
  "\<exists>s. lock_reachable (\<lambda>i. if i = 0 then ''a'' else ''b'') s \<and> pcs s 0 = Working \<and> pcs s 1 = Working"
proof -
  let ?hk = "\<lambda>i. if i = (0 :: nat) then ''a'' else ''b''"
  let ?s1 = "init_sys\<lparr>vl_state := \<lparr>locks = [''a'']\<rparr>, pcs := (pcs init_sys)(0 := Working)\<rparr>"
  let ?s2 = "?s1\<lparr>vl_state := \<lparr>locks = [''b'', ''a'']\<rparr>, pcs := (pcs ?s1)(1 := Working)\<rparr>"
  have "lock_reachable ?hk ?s1"
    by (rule lock_reachable.step [OF lock_reachable.init], rule lock_step.start)
       (simp_all add: init_sys_def TryAcquire_def newVolumeLocks_def)
  then have "lock_reachable ?hk ?s2"
    by (rule lock_reachable.step, intro lock_step.start)
       (simp_all add: init_sys_def TryAcquire_def newVolumeLocks_def)
  then show ?thesis by (intro exI [of _ ?s2]) (simp add: init_sys_def)
qed

theorem lock_mutual_exclusion_witness:
  "\<exists>s. lock_reachable (\<lambda>i. if i = 0 then ''a'' else ''b'') s \<and> pcs s 0 = Working \<and> pcs s 1 = Working \<and>
     (\<forall>j. pcs s j = Working \<and> (if j = (0 :: nat) then ''a'' else ''b'') = ''a'' \<longleftrightarrow> j = 0)"
proof -
  let ?hk = "\<lambda>i. if i = (0 :: nat) then ''a'' else ''b''"
  obtain s where s: "lock_reachable ?hk s" "pcs s 0 = Working" "pcs s 1 = Working"
    using two_keys_reachable by blast
  have "j = 0" if "pcs s j = Working" "?hk j = ''a''" for j
    by (rule lock_mutual_exclusion [OF s(1) that(1) s(2)]) (use that(2) in simp)
  then have "pcs s j = Working \<and> ?hk j = ''a'' \<longleftrightarrow> j = 0" for j
    using s(2) by auto
  then show ?thesis using s by blast
qed

text \<open>
  A finished handler leaves no trace: when no handler works, no key is held, so every later
  attempt succeeds.
\<close>

lemma locks_free_when_idle:
  assumes "lock_reachable hkey s" "\<forall>i. pcs s i \<noteq> Working"
  shows "held_keys (vl_state s) = {} \<and> fst (TryAcquire k (vl_state s))"
  using reachable_lock_inv [OF assms(1)] assms(2) vl.acquire_iff by (simp add: lock_inv_def working_def)

end
