(* ===== verification/TimedCache.thy ===== *)
theory TimedCache
  imports Prelude
begin

text \<open>
  The timed cache that the driver keeps volume statistics and volume deletions in
  (\<^verbatim>\<open>TimedCache\<close> of the vendored package \<^verbatim>\<open>cloud-provider-azure/pkg/cache\<close>), and its contract: a
  value is returned until it is older than the time to live. A nil interface is \<^term>\<open>None\<close>. Times
  are nanoseconds of the wall clock; every operation takes the time at which it runs.
\<close>

section \<open>The cache\<close>

datatype AzureCacheReadType =
  CacheReadTypeDefault | CacheReadTypeUnsafe | CacheReadTypeForceRefresh

record 'd AzureCacheEntry =
  Data :: "'d option"
  CreatedOn :: int

record 'd TimedCache =
  Store :: "string \<rightharpoonup> 'd AzureCacheEntry"
  TTL :: int

type_synonym 'd getter = "string \<Rightarrow> error + 'd option"

definition NewTimedCache :: "int \<Rightarrow> 'd TimedCache" where
  "NewTimedCache ttl = \<lparr>Store = Map.empty, TTL = ttl\<rparr>"

text \<open>\<^verbatim>\<open>getInternal\<close>: a missing key gets an entry without data, created at the zero time.\<close>

definition getInternal :: "string \<Rightarrow> 'd TimedCache \<Rightarrow> 'd AzureCacheEntry \<times> 'd TimedCache" where
  "getInternal key t =
     (case Store t key of
        Some entry \<Rightarrow> (entry, t)
      | None \<Rightarrow> (let newEntry = \<lparr>Data = None, CreatedOn = 0\<rparr>
                 in (newEntry, t\<lparr>Store := (Store t)(key \<mapsto> newEntry)\<rparr>)))"

definition cache_get ::
  "'d getter \<Rightarrow> int \<Rightarrow> string \<Rightarrow> AzureCacheReadType \<Rightarrow> 'd TimedCache \<Rightarrow> (error + 'd option) \<times> 'd TimedCache" where
  "cache_get getter now key crt t =
     (case getInternal key t of (entry, t) \<Rightarrow>
        if Data entry \<noteq> None \<and> crt \<noteq> CacheReadTypeForceRefresh \<and>
           (crt = CacheReadTypeUnsafe \<or> crt = CacheReadTypeDefault \<and> now - CreatedOn entry < TTL t)
        then (Inr (Data entry), t)
        else (case getter key of
                Inl e \<Rightarrow> (Inl e, t)
              | Inr data \<Rightarrow>
                  (Inr data,
                   t\<lparr>Store := (Store t)(key \<mapsto> entry\<lparr>Data := data, CreatedOn := now\<rparr>)\<rparr>)))"

definition cache_Set :: "int \<Rightarrow> string \<Rightarrow> 'd \<Rightarrow> 'd TimedCache \<Rightarrow> 'd TimedCache" where
  "cache_Set now key data t =
     t\<lparr>Store := (Store t)(key \<mapsto> \<lparr>Data = Some data, CreatedOn = now\<rparr>)\<rparr>"

definition cache_Delete :: "string \<Rightarrow> 'd TimedCache \<Rightarrow> 'd TimedCache" where
  "cache_Delete key t = t\<lparr>Store := (Store t)(key := None)\<rparr>"

definition cache_Update :: "int \<Rightarrow> string \<Rightarrow> 'd \<Rightarrow> 'd TimedCache \<Rightarrow> 'd TimedCache" where
  "cache_Update now key data t =
     (case getInternal key t of (entry, t) \<Rightarrow>
        t\<lparr>Store := (Store t)(key \<mapsto> entry\<lparr>Data := Some data, CreatedOn := now\<rparr>)\<rparr>)"

text \<open>The driver's getter has nothing to fetch: it returns nil without an error.\<close>

definition nil_getter :: "'d getter" where
  "nil_getter key = Inr None"

abbreviation cache_read :: "int \<Rightarrow> string \<Rightarrow> 'd TimedCache \<Rightarrow> (error + 'd option) \<times> 'd TimedCache" where
  "cache_read now key t \<equiv> cache_get nil_getter now key CacheReadTypeDefault t"

section \<open>The contract\<close>

locale timed_store =
  fixes read :: "int \<Rightarrow> string \<Rightarrow> 's \<Rightarrow> (error + 'd option) \<times> 's"
    and set :: "int \<Rightarrow> string \<Rightarrow> 'd \<Rightarrow> 's \<Rightarrow> 's"
    and fresh :: "int \<Rightarrow> string \<Rightarrow> 's \<Rightarrow> 'd option"
  assumes read_fresh: "fst (read now key s) = Inr (fresh now key s)"
    and read_keeps: "now \<le> now' \<Longrightarrow> fresh now' key' (snd (read now key s)) = fresh now' key' s"
    and set_other: "key' \<noteq> key \<Longrightarrow> fresh now' key' (set now key d s) = fresh now' key' s"
    and set_same: "fresh now key (set now key d s) = None \<or> fresh now key (set now key d s) = Some d"
begin

lemma read_value: "read now key s = (r, s') \<Longrightarrow> r = Inr (fresh now key s)"
  by (metis fst_conv read_fresh)

lemma read_never_fails: "fst (read now key s) \<noteq> Inl e"
  by (simp add: read_fresh)

lemma read_twice:
  "now \<le> now' \<Longrightarrow> fst (read now' key (snd (read now key s))) = Inr (fresh now' key s)"
  by (simp add: read_fresh read_keeps)

end

text \<open>The value of a key that is not older than the time to live.\<close>

definition cache_fresh :: "int \<Rightarrow> string \<Rightarrow> 'd TimedCache \<Rightarrow> 'd option" where
  "cache_fresh now key t =
     (case Store t key of
        None \<Rightarrow> None
      | Some entry \<Rightarrow> if now - CreatedOn entry < TTL t then Data entry else None)"

interpretation azcache: timed_store cache_read cache_Set cache_fresh
  by unfold_locales
     (auto simp: cache_get_def getInternal_def cache_Set_def cache_fresh_def nil_getter_def Let_def
       split: option.splits)

lemma TTL_cache_get [simp]: "TTL (snd (cache_get g now key crt t)) = TTL t"
  by (auto simp: cache_get_def getInternal_def Let_def split: option.splits sum.splits)

lemma TTL_cache_Set [simp]: "TTL (cache_Set now key d t) = TTL t"
  by (simp add: cache_Set_def)

section \<open>Runs of the cache\<close>

text \<open>
  An abstract cache that never forgets: it keeps the last value of each key with its time, and a
  read returns it if it is young enough. The code's cache overwrites expired entries when they are
  read, which no later read can notice as long as the clock does not go back.
\<close>

datatype 'd cache_op = CRead string | CSet string 'd

fun run_cache :: "(int \<times> 'd cache_op) list \<Rightarrow> 'd TimedCache \<Rightarrow> (error + 'd option) list" where
  "run_cache [] t = []"
| "run_cache ((now, CRead key) # ops) t =
     (case cache_read now key t of (r, t') \<Rightarrow> r # run_cache ops t')"
| "run_cache ((now, CSet key d) # ops) t = run_cache ops (cache_Set now key d t)"

fun run_spec :: "int \<Rightarrow> (int \<times> 'd cache_op) list \<Rightarrow> (string \<rightharpoonup> 'd \<times> int) \<Rightarrow> (error + 'd option) list" where
  "run_spec ttl [] m = []"
| "run_spec ttl ((now, CRead key) # ops) m =
     Inr (case m key of None \<Rightarrow> None | Some (d, at) \<Rightarrow> if now - at < ttl then Some d else None)
     # run_spec ttl ops m"
| "run_spec ttl ((now, CSet key d) # ops) m = run_spec ttl ops (m(key \<mapsto> (d, now)))"

definition cache_sim :: "int \<Rightarrow> 'd TimedCache \<Rightarrow> (string \<rightharpoonup> 'd \<times> int) \<Rightarrow> bool" where
  "cache_sim now t m \<longleftrightarrow>
     (\<forall>now' key. now \<le> now' \<longrightarrow>
        cache_fresh now' key t =
        (case m key of None \<Rightarrow> None | Some (d, at) \<Rightarrow> if now' - at < TTL t then Some d else None))"

lemma cache_sim_read: "cache_sim now t m \<Longrightarrow> now \<le> now' \<Longrightarrow> cache_sim now' (snd (cache_read now' key t)) m"
  by (auto simp: cache_sim_def azcache.read_keeps split: option.splits)

lemma cache_fresh_Set:
  "cache_fresh now' key' (cache_Set now key d t) =
     (if key' = key then if now' - now < TTL t then Some d else None else cache_fresh now' key' t)"
  by (auto simp: cache_fresh_def cache_Set_def split: option.splits)

lemma cache_sim_Set:
  "cache_sim now t m \<Longrightarrow> now \<le> now' \<Longrightarrow> cache_sim now' (cache_Set now' key d t) (m(key \<mapsto> (d, now')))"
  by (auto simp: cache_sim_def cache_fresh_Set split: option.splits)

lemma run_cache_sim:
  "cache_sim now t m \<Longrightarrow> sorted (now # map fst ops) \<Longrightarrow> run_cache ops t = run_spec (TTL t) ops m"
proof (induction ops t arbitrary: now m rule: run_cache.induct)
  case (2 now' key ops t)
  obtain r t' where rt: "cache_read now' key t = (r, t')" by fastforce
  have t': "t' = snd (cache_read now' key t)" using rt by simp
  have "TTL t' = TTL t" unfolding t' by simp
  moreover have "cache_sim now' t' m"
    unfolding t' by (rule cache_sim_read [OF 2(2)]) (use 2(3) in simp)
  moreover have "r = Inr (case m key of None \<Rightarrow> None | Some (d, at) \<Rightarrow> if now' - at < TTL t then Some d else None)"
    using azcache.read_value [OF rt] 2(2,3) by (simp add: cache_sim_def)
  ultimately show ?case using 2 rt by simp
next
  case (3 now' key d ops t)
  then have "cache_sim now' (cache_Set now' key d t) (m(key \<mapsto> (d, now')))"
    by (simp add: cache_sim_Set)
  then have "run_cache ops (cache_Set now' key d t) =
      run_spec (TTL (cache_Set now' key d t)) ops (m(key \<mapsto> (d, now')))"
    by (rule 3(1)) (use 3(3) in simp)
  then show ?case by simp
qed simp

text \<open>
  C14. The cache refines the cache that never forgets: along every sequence of reads and writes
  with a clock that does not go back, starting from a new cache, each read returns the value last
  written under its key if that is younger than the time to live, and nil otherwise.
\<close>

theorem cache_refines_spec:
  fixes ops :: "(int \<times> 'd cache_op) list"
  assumes "sorted (map fst ops)"
  shows "run_cache ops (NewTimedCache ttl) = run_spec ttl ops Map.empty"
proof (cases ops)
  case (Cons op ops')
  have "cache_sim (fst op) (NewTimedCache ttl :: 'd TimedCache) Map.empty"
    by (simp add: cache_sim_def cache_fresh_def NewTimedCache_def)
  moreover have "sorted (fst op # map fst ops)" using assms Cons by simp
  ultimately show ?thesis
    using run_cache_sim [of "fst op" "NewTimedCache ttl" Map.empty ops] by (simp add: NewTimedCache_def)
qed simp

theorem cache_refines_spec_witness:
  "run_cache [(0, CSet ''v'' ''x''), (59, CRead ''v''), (60, CRead ''v''), (61, CRead ''v'')] (NewTimedCache 60)
     = [Inr (Some ''x''), Inr None, Inr None]"
proof -
  let ?ops = "[(0, CSet ''v'' ''x''), (59, CRead ''v''), (60, CRead ''v''), (61, CRead ''v'')]"
  have "sorted (map fst ?ops :: int list)" by simp
  then show ?thesis using cache_refines_spec [of ?ops 60] by simp
qed

end
