(* ===== verification/System.thy ===== *)
theory System
  imports Prelude "HOL-Library.Word"
begin

text \<open>
  What the driver uses of its environment, as a parameter of the model: the Go \<^verbatim>\<open>os\<close> package, the
  \<^verbatim>\<open>mount.Interface\<close> behind \<^verbatim>\<open>d.mounter\<close>, the clock, the secrets of the Kubernetes API and the
  \<^verbatim>\<open>cp\<close> command. The calls that change the outside world are data, so that the theorems can speak
  of the calls a handler makes; the calls that only look are functions of the world.

  The second half holds the control flow of Go functions over a state (early return on an error,
  \<^verbatim>\<open>defer\<close>) and the reasoning principle of the library: a preorder on states that every call of a
  function respects is respected by the function.
\<close>

section \<open>The environment\<close>

datatype goos = Linux | Darwin | Windows

text \<open>
  The calls that change the world. File modes are the numbers of the source. The last four are the
  methods of \<^verbatim>\<open>mounter.CSIProxyMounter\<close>, the mounter of a Windows node.
\<close>

datatype call =
    MkdirAll string nat
  | Mkdir string nat
  | Remove string
  | RemoveAll string
  | Rename string string
  | WriteFile string string nat
  | Chown string int int
  | Symlink string string
  | CreateTemp string string
  | FileWrite string string
  | FileClose string
  | ChmodTree string nat
  | CopyTree string string
  | Mount string string string "string list"
  | MountSensitive string string string "string list" "string list"
  | Unmount string
  | SMBMount string string string "string list" "string list" string
  | SMBUnmount string string
  | Rmdir string
  | MakeDir string

record MountPoint =
  mp_Device :: string
  mp_Path :: string

text \<open>
  The metrics of a file system. Each field is the result of \<^verbatim>\<open>AsInt64\<close> on the quantity: \<^term>\<open>None\<close>
  if it does not convert.
\<close>

record Metrics =
  m_Available :: "64 word option"
  m_Capacity :: "64 word option"
  m_Used :: "64 word option"
  m_InodesFree :: "64 word option"
  m_Inodes :: "64 word option"
  m_InodesUsed :: "64 word option"

text \<open>
  An environment over a world. \<open>exec\<close> carries out a call and returns its error, or its result (the
  name of the file for \<open>CreateTemp\<close>, and the empty string for every other call). \<open>ReadDir1\<close> is the
  error of \<^verbatim>\<open>f.ReadDir(1)\<close> on an opened directory; \<open>ReadDir\<close> gives the names in a directory, as
  many as could be read; \<open>Readlink\<close> gives the empty string on an error. \<open>GetSecret\<close> takes the
  namespace and the name. \<open>CSIProxy\<close> tells whether the mounter is a \<^verbatim>\<open>CSIProxyMounter\<close>, and
  \<open>ExistsPath\<close> is its query. \<open>InTime\<close> tells whether a mount that starts now ends before the timeout,
  and \<open>FileModeFirst\<close> in which order a range visits the map of the two default modes.
\<close>

record 'w os =
  GOOS :: goos
  exec :: "call \<Rightarrow> 'w \<Rightarrow> (error + string) \<times> 'w"
  Stat :: "string \<Rightarrow> 'w \<Rightarrow> error option"
  Lstat :: "string \<Rightarrow> 'w \<Rightarrow> error option"
  Access :: "string \<Rightarrow> 'w \<Rightarrow> error option"
  Open :: "string \<Rightarrow> 'w \<Rightarrow> error option"
  ReadDir1 :: "string \<Rightarrow> 'w \<Rightarrow> error option"
  ReadDir :: "string \<Rightarrow> 'w \<Rightarrow> string list"
  Readlink :: "string \<Rightarrow> 'w \<Rightarrow> string"
  Getwd :: "'w \<Rightarrow> error + string"
  Now :: "'w \<Rightarrow> int"
  StatFS :: "string \<Rightarrow> 'w \<Rightarrow> error + Metrics"
  ListMounts :: "'w \<Rightarrow> error + MountPoint list"
  IsLikelyNotMountPoint :: "string \<Rightarrow> 'w \<Rightarrow> bool \<times> error option"
  IsMountPoint :: "string \<Rightarrow> 'w \<Rightarrow> bool \<times> error option"
  CanSafelySkipMountPointCheck :: "'w \<Rightarrow> bool"
  CSIProxy :: bool
  ExistsPath :: "string \<Rightarrow> 'w \<Rightarrow> error + bool"
  GetSecret :: "string \<Rightarrow> string \<Rightarrow> 'w \<Rightarrow> error + gomap"
  InTime :: "'w \<Rightarrow> bool"
  FileModeFirst :: "'w \<Rightarrow> bool"

text \<open>A call of which only the error is used.\<close>

fun err_of :: "error + 'a \<Rightarrow> error option" where
  "err_of (Inl e) = Some e"
| "err_of (Inr _) = None"

definition sys :: "'w os \<Rightarrow> call \<Rightarrow> 'w \<Rightarrow> error option \<times> 'w" where
  "sys os c w = (case exec os c w of (r, w') \<Rightarrow> (err_of r, w'))"

definition io_EOF :: error where
  "io_EOF = Errorf ''EOF'' None"

section \<open>Control flow\<close>

definition reply :: "'r \<Rightarrow> 's \<Rightarrow> 'r \<times> 's" where
  "reply r s = (r, s)"

abbreviation fails :: "error \<Rightarrow> 's \<Rightarrow> (error + 'r) \<times> 's" where
  "fails e \<equiv> reply (Inl e)"

abbreviation returns :: "'r \<Rightarrow> 's \<Rightarrow> (error + 'r) \<times> 's" where
  "returns r \<equiv> reply (Inr r)"

definition asks :: "('s \<Rightarrow> 's \<Rightarrow> 'r \<times> 's) \<Rightarrow> 's \<Rightarrow> 'r \<times> 's" where
  "asks f s = f s s"

definition bind_st :: "('s \<Rightarrow> 'a \<times> 's) \<Rightarrow> ('a \<Rightarrow> 's \<Rightarrow> 'r \<times> 's) \<Rightarrow> 's \<Rightarrow> 'r \<times> 's" where
  "bind_st f k s = (case f s of (x, s') \<Rightarrow> k x s')"

text \<open>\<^verbatim>\<open>if err := f(); err != nil { return handle(err) }; k\<close>\<close>

definition if_err ::
  "('s \<Rightarrow> error option \<times> 's) \<Rightarrow> (error \<Rightarrow> 's \<Rightarrow> 'r \<times> 's) \<Rightarrow> ('s \<Rightarrow> 'r \<times> 's) \<Rightarrow> 's \<Rightarrow> 'r \<times> 's" where
  "if_err f handle k = bind_st f (\<lambda>err. case err of Some e \<Rightarrow> handle e | None \<Rightarrow> k)"

text \<open>\<^verbatim>\<open>defer cleanup(); body\<close>: the result of the cleanup is dropped.\<close>

definition deferred :: "('s \<Rightarrow> 'a \<times> 's) \<Rightarrow> ('s \<Rightarrow> 'r \<times> 's) \<Rightarrow> 's \<Rightarrow> 'r \<times> 's" where
  "deferred cleanup body = bind_st body (\<lambda>r. bind_st cleanup (\<lambda>_. reply r))"

text \<open>A call whose error is only logged.\<close>

definition ignoring :: "('s \<Rightarrow> 'a \<times> 's) \<Rightarrow> ('s \<Rightarrow> 'r \<times> 's) \<Rightarrow> 's \<Rightarrow> 'r \<times> 's" where
  "ignoring f k = bind_st f (\<lambda>_. k)"

lemmas control_defs = reply_def asks_def bind_st_def if_err_def deferred_def ignoring_def

lemma bind_st_reply [simp]: "bind_st (reply x) k = k x"
  by (simp add: bind_st_def reply_def fun_eq_iff)

lemma bind_st_assoc: "bind_st (bind_st f g) k = bind_st f (\<lambda>x. bind_st (g x) k)"
  by (simp add: bind_st_def fun_eq_iff split: prod.splits)

section \<open>Effects\<close>

text \<open>A function respects a relation if it takes every state to a related one.\<close>

definition keeps :: "('s \<Rightarrow> 's \<Rightarrow> bool) \<Rightarrow> ('s \<Rightarrow> 'r \<times> 's) \<Rightarrow> bool" where
  "keeps R f \<longleftrightarrow> (\<forall>s. R s (snd (f s)))"

lemma keepsI: "(\<And>s. R s (snd (f s))) \<Longrightarrow> keeps R f"
  by (simp add: keeps_def)

lemma keepsD: "keeps R f \<Longrightarrow> f s = (r, s') \<Longrightarrow> R s s'"
  by (metis keeps_def snd_conv)

named_theorems keeps_intros \<open>rules that follow the structure of a function\<close>

lemma keeps_if [keeps_intros]: "(b \<Longrightarrow> keeps R f) \<Longrightarrow> (\<not> b \<Longrightarrow> keeps R g) \<Longrightarrow> keeps R (if b then f else g)"
  by simp

lemma keeps_option [keeps_intros]:
  "(x = None \<Longrightarrow> keeps R f) \<Longrightarrow> (\<And>y. x = Some y \<Longrightarrow> keeps R (g y)) \<Longrightarrow> keeps R (case x of None \<Rightarrow> f | Some y \<Rightarrow> g y)"
  by (cases x) simp_all

lemma keeps_sum [keeps_intros]:
  "(\<And>y. x = Inl y \<Longrightarrow> keeps R (f y)) \<Longrightarrow> (\<And>y. x = Inr y \<Longrightarrow> keeps R (g y)) \<Longrightarrow>
   keeps R (case x of Inl y \<Rightarrow> f y | Inr y \<Rightarrow> g y)"
  by (cases x) simp_all

lemma keeps_prod [keeps_intros]:
  "(\<And>a b. x = (a, b) \<Longrightarrow> keeps R (f a b)) \<Longrightarrow> keeps R (case x of (a, b) \<Rightarrow> f a b)"
  by (cases x) simp

lemma keeps_bool [keeps_intros]:
  "(b \<Longrightarrow> keeps R f) \<Longrightarrow> (\<not> b \<Longrightarrow> keeps R g) \<Longrightarrow> keeps R (case b of True \<Rightarrow> f | False \<Rightarrow> g)"
  by (cases b) simp_all

lemma keeps_Let [keeps_intros]: "(\<And>x. x = e \<Longrightarrow> keeps R (f x)) \<Longrightarrow> keeps R (let x = e in f x)"
  by (simp add: Let_def)

lemma keeps_asks [keeps_intros]: "(\<And>x. keeps R (f x)) \<Longrightarrow> keeps R (asks f)"
  by (simp add: keeps_def asks_def)

text \<open>A function ensures a relation between its result and the state it leaves.\<close>

definition ensures :: "('r \<Rightarrow> 's \<Rightarrow> bool) \<Rightarrow> ('s \<Rightarrow> 'r \<times> 's) \<Rightarrow> bool" where
  "ensures Q f \<longleftrightarrow> (\<forall>s. Q (fst (f s)) (snd (f s)))"

lemma ensuresI: "(\<And>s r s'. f s = (r, s') \<Longrightarrow> Q r s') \<Longrightarrow> ensures Q f"
  by (simp add: ensures_def)

lemma ensuresD: "ensures Q f \<Longrightarrow> f s = (r, s') \<Longrightarrow> Q r s'"
  by (metis ensures_def fst_conv snd_conv)

named_theorems ensures_intros \<open>rules that follow the structure of a function\<close>

lemma ensures_if [ensures_intros]:
  "(b \<Longrightarrow> ensures Q f) \<Longrightarrow> (\<not> b \<Longrightarrow> ensures Q g) \<Longrightarrow> ensures Q (if b then f else g)"
  by simp

lemma ensures_option [ensures_intros]:
  "(x = None \<Longrightarrow> ensures Q f) \<Longrightarrow> (\<And>y. x = Some y \<Longrightarrow> ensures Q (g y)) \<Longrightarrow>
   ensures Q (case x of None \<Rightarrow> f | Some y \<Rightarrow> g y)"
  by (cases x) simp_all

lemma ensures_sum [ensures_intros]:
  "(\<And>y. x = Inl y \<Longrightarrow> ensures Q (f y)) \<Longrightarrow> (\<And>y. x = Inr y \<Longrightarrow> ensures Q (g y)) \<Longrightarrow>
   ensures Q (case x of Inl y \<Rightarrow> f y | Inr y \<Rightarrow> g y)"
  by (cases x) simp_all

lemma ensures_prod [ensures_intros]:
  "(\<And>a b. x = (a, b) \<Longrightarrow> ensures Q (f a b)) \<Longrightarrow> ensures Q (case x of (a, b) \<Rightarrow> f a b)"
  by (cases x) simp

lemma ensures_Let [ensures_intros]: "(\<And>x. x = e \<Longrightarrow> ensures Q (f x)) \<Longrightarrow> ensures Q (let x = e in f x)"
  by (simp add: Let_def)

lemma ensures_asks [ensures_intros]: "(\<And>x. ensures Q (f x)) \<Longrightarrow> ensures Q (asks f)"
  by (simp add: ensures_def asks_def)

lemma ensures_reply [ensures_intros]: "(\<And>s. Q r s) \<Longrightarrow> ensures Q (reply r)"
  by (simp add: ensures_def reply_def)

lemma ensures_bind [ensures_intros]: "(\<And>x. ensures Q (k x)) \<Longrightarrow> ensures Q (bind_st f k)"
  by (simp add: ensures_def bind_st_def case_prod_beta)

lemma ensures_if_err [ensures_intros]: "(\<And>e. ensures Q (h e)) \<Longrightarrow> ensures Q k \<Longrightarrow> ensures Q (if_err f h k)"
  unfolding if_err_def by (intro ensures_intros)

lemma ensures_if_err_last:
  "(\<And>e. ensures Q (h e)) \<Longrightarrow> ensures (\<lambda>e s. e = None \<longrightarrow> Q r s) f \<Longrightarrow> ensures Q (if_err f h (reply r))"
  by (auto simp: ensures_def if_err_def bind_st_def reply_def split: option.splits prod.splits)
     (metis fst_conv snd_conv)+

locale effect =
  fixes R :: "'s \<Rightarrow> 's \<Rightarrow> bool"
  assumes R_refl: "R s s" and R_trans: "R s t \<Longrightarrow> R t u \<Longrightarrow> R s u"
begin

lemma keeps_reply: "keeps R (reply r)"
  by (simp add: keeps_def reply_def R_refl)

lemma keeps_bind: "keeps R f \<Longrightarrow> (\<And>s x. fst (f s) = x \<Longrightarrow> keeps R (k x)) \<Longrightarrow> keeps R (bind_st f k)"
  unfolding keeps_def bind_st_def by (metis (mono_tags, lifting) R_trans case_prod_beta)

lemma keeps_if_err:
  "keeps R f \<Longrightarrow> (\<And>e. keeps R (h e)) \<Longrightarrow> keeps R k \<Longrightarrow> keeps R (if_err f h k)"
  unfolding if_err_def by (intro keeps_bind keeps_option)

lemma keeps_deferred: "keeps R c \<Longrightarrow> keeps R body \<Longrightarrow> keeps R (deferred c body)"
  unfolding deferred_def by (intro keeps_bind keeps_reply)

lemma keeps_ignoring: "keeps R f \<Longrightarrow> keeps R k \<Longrightarrow> keeps R (ignoring f k)"
  unfolding ignoring_def by (intro keeps_bind)

lemmas keeps_control = keeps_reply keeps_bind keeps_if_err keeps_deferred keeps_ignoring

end

text \<open>
  An environment whose calls respect a relation as long as they are allowed. Every function of the
  driver that makes allowed calls only then respects it.
\<close>

locale effect_os = effect R for R :: "'w \<Rightarrow> 'w \<Rightarrow> bool" +
  fixes os :: "'w os" and allowed :: "call \<Rightarrow> bool"
  assumes exec_R: "allowed c \<Longrightarrow> R w (snd (exec os c w))"
begin

lemma keeps_exec: "allowed c \<Longrightarrow> keeps R (exec os c)"
  by (simp add: keeps_def exec_R)

lemma keeps_sys: "allowed c \<Longrightarrow> keeps R (sys os c)"
  by (simp add: keeps_def sys_def case_prod_beta exec_R)

end

text \<open>
  The environment that carries out every call as another one does and writes it down: the world
  is the world of the other one and the calls made so far. The queries are those of the other.
\<close>

definition log_os :: "'w os \<Rightarrow> ('w \<times> call list) os" where
  "log_os os = \<lparr>
     GOOS = GOOS os,
     exec = (\<lambda>c (w, cs). case exec os c w of (r, w') \<Rightarrow> (r, (w', cs @ [c]))),
     Stat = (\<lambda>p (w, _). Stat os p w),
     Lstat = (\<lambda>p (w, _). Lstat os p w),
     Access = (\<lambda>p (w, _). Access os p w),
     Open = (\<lambda>p (w, _). Open os p w),
     ReadDir1 = (\<lambda>p (w, _). ReadDir1 os p w),
     ReadDir = (\<lambda>p (w, _). ReadDir os p w),
     Readlink = (\<lambda>p (w, _). Readlink os p w),
     Getwd = (\<lambda>(w, _). Getwd os w),
     Now = (\<lambda>(w, _). Now os w),
     StatFS = (\<lambda>p (w, _). StatFS os p w),
     ListMounts = (\<lambda>(w, _). ListMounts os w),
     IsLikelyNotMountPoint = (\<lambda>p (w, _). IsLikelyNotMountPoint os p w),
     IsMountPoint = (\<lambda>p (w, _). IsMountPoint os p w),
     CanSafelySkipMountPointCheck = (\<lambda>(w, _). CanSafelySkipMountPointCheck os w),
     CSIProxy = CSIProxy os,
     ExistsPath = (\<lambda>p (w, _). ExistsPath os p w),
     GetSecret = (\<lambda>ns n (w, _). GetSecret os ns n w),
     InTime = (\<lambda>(w, _). InTime os w),
     FileModeFirst = (\<lambda>(w, _). FileModeFirst os w)\<rparr>"

text \<open>Only allowed calls were added to the log.\<close>

definition logs :: "(call \<Rightarrow> bool) \<Rightarrow> 'w \<times> call list \<Rightarrow> 'w \<times> call list \<Rightarrow> bool" where
  "logs allowed w w' \<longleftrightarrow> (\<exists>cs. snd w' = snd w @ cs \<and> list_all allowed cs)"

lemma logs_iff: "logs allowed (w, []) (w', cs) \<longleftrightarrow> list_all allowed cs"
  by (simp add: logs_def)

interpretation logged: effect_os "logs allowed" "log_os os" allowed for allowed and os :: "'w os"
proof
  show "logs allowed s s" for s :: "'w \<times> call list" by (simp add: logs_def)
  show "logs allowed s t \<Longrightarrow> logs allowed t u \<Longrightarrow> logs allowed s u" for s t u :: "'w \<times> call list"
    by (auto simp: logs_def)
  show "allowed c \<Longrightarrow> logs allowed w (snd (exec (log_os os) c w))" for c and w :: "'w \<times> call list"
    by (auto simp: logs_def log_os_def split: prod.splits)
qed

lemma keeps_logsD:
  "keeps (logs allowed) f \<Longrightarrow> f (w, cs) = (r, (w', cs')) \<Longrightarrow> \<exists>ws. cs' = cs @ ws \<and> list_all allowed ws"
  by (auto simp: logs_def dest: keepsD)

lemma exec_log_os: "exec (log_os os) c (w, cs) = (fst (exec os c w), (snd (exec os c w), cs @ [c]))"
  by (simp add: log_os_def split: prod.splits)

lemma sys_logged: "sys (log_os os) c (w, cs) = (fst (sys os c w), (snd (sys os c w), cs @ [c]))"
  by (simp add: sys_def exec_log_os case_prod_beta)

end
