(* ===== verification/MountUtils.thy ===== *)
theory MountUtils
  imports System
begin

text \<open>
  The helpers of the vendored package \<^verbatim>\<open>k8s.io/mount-utils\<close> that the driver calls: the test for a
  corrupted mount, and the removal of a mount point.
\<close>

section \<open>Corrupted mounts\<close>

definition errorNoList :: "nat list" where
  "errorNoList = [53, 54, 59, 64, 65, 66, 67, 1219, 1326, 10064]"

fun IsCorruptedMnt_unix :: "error option \<Rightarrow> bool" where
  "IsCorruptedMnt_unix (Some (Errno e)) =
     List.member [ENOTCONN, ESTALE, EIO, EACCES, EHOSTDOWN, EWOULDBLOCK, ENODEV] e"
| "IsCorruptedMnt_unix _ = False"

fun IsCorruptedMnt_windows :: "error option \<Rightarrow> bool" where
  "IsCorruptedMnt_windows (Some (Errno (EWIN n))) = List.member errorNoList n"
| "IsCorruptedMnt_windows _ = False"

definition IsCorruptedMnt :: "goos \<Rightarrow> error option \<Rightarrow> bool" where
  "IsCorruptedMnt goos err =
     (if goos = Windows then IsCorruptedMnt_windows err else IsCorruptedMnt_unix err)"

text \<open>
  On Unix a path that \<^verbatim>\<open>stat\<close> does not find but \<^verbatim>\<open>access\<close> does is reported as stale.
\<close>

definition PathExists_unix :: "'w os \<Rightarrow> string \<Rightarrow> 'w \<Rightarrow> bool \<times> error option" where
  "PathExists_unix os path w =
     (case Stat os path w of
        None \<Rightarrow> (True, None)
      | Some err \<Rightarrow>
          if IsNotExist err
          then (if Access os path w = None then (True, Some (Errno ESTALE)) else (False, None))
          else if IsCorruptedMnt_unix (Some err) then (True, Some err)
          else (False, Some err))"

definition PathExists_windows :: "'w os \<Rightarrow> string \<Rightarrow> 'w \<Rightarrow> bool \<times> error option" where
  "PathExists_windows os path w =
     (case Stat os path w of
        None \<Rightarrow> (True, None)
      | Some err \<Rightarrow>
          if IsNotExist err then (False, None)
          else if IsCorruptedMnt_windows (Some err) then (True, Some err)
          else (False, Some err))"

definition PathExists :: "'w os \<Rightarrow> string \<Rightarrow> 'w \<Rightarrow> bool \<times> error option" where
  "PathExists os path w =
     (if GOOS os = Windows then PathExists_windows os path w else PathExists_unix os path w)"

section \<open>Removing a mount point\<close>

definition IsNotMountPoint :: "'w os \<Rightarrow> string \<Rightarrow> 'w \<Rightarrow> bool \<times> error option" where
  "IsNotMountPoint os file w =
     (case IsMountPoint os file w of
        (_, Some err) \<Rightarrow> (True, Some err)
      | (isMnt, None) \<Rightarrow> (\<not> isMnt, None))"

definition removePathIfNotMountPoint ::
  "'w os \<Rightarrow> string \<Rightarrow> bool \<Rightarrow> 'w \<Rightarrow> (bool \<times> error option) \<times> 'w" where
  "removePathIfNotMountPoint os mountPath extensive = asks (\<lambda>w.
     case (if extensive then IsNotMountPoint os mountPath w else IsLikelyNotMountPoint os mountPath w) of
       (notMnt, Some err) \<Rightarrow>
         if IsNotExist err then reply (True, None) else reply (notMnt, Some err)
     | (notMnt, None) \<Rightarrow>
         if notMnt then bind_st (sys os (Remove mountPath)) (\<lambda>err. reply (notMnt, err))
         else reply (notMnt, None))"

definition removePath :: "'w os \<Rightarrow> string \<Rightarrow> 'w \<Rightarrow> error option \<times> 'w" where
  "removePath os mountPath =
     if_err (sys os (Remove mountPath))
       (\<lambda>err. if IsNotExist err then reply None else reply (Some err))
       (reply None)"

definition doCleanupMountPoint :: "'w os \<Rightarrow> string \<Rightarrow> bool \<Rightarrow> bool \<Rightarrow> 'w \<Rightarrow> error option \<times> 'w" where
  "doCleanupMountPoint os mountPath extensive corruptedMnt = asks (\<lambda>w.
     if corruptedMnt \<or> CanSafelySkipMountPointCheck os w
     then if_err (sys os (Unmount mountPath)) (\<lambda>err. reply (Some err)) (removePath os mountPath)
     else bind_st (removePathIfNotMountPoint os mountPath extensive) (\<lambda>(notMnt, err).
       if err \<noteq> None \<or> notMnt then reply err
       else if_err (sys os (Unmount mountPath)) (\<lambda>err. reply (Some err))
         (bind_st (removePathIfNotMountPoint os mountPath extensive) (\<lambda>(notMnt, err).
            if notMnt then reply err
            else reply (Some (Errorf ''failed to cleanup mount point %v'' None))))))"

definition mount_CleanupMountPoint :: "'w os \<Rightarrow> string \<Rightarrow> bool \<Rightarrow> 'w \<Rightarrow> error option \<times> 'w" where
  "mount_CleanupMountPoint os mountPath extensive = asks (\<lambda>w.
     case PathExists os mountPath w of (pathExists, pathErr) \<Rightarrow>
       if \<not> pathExists \<and> pathErr = None then reply None
       else if pathErr \<noteq> None \<and> \<not> IsCorruptedMnt (GOOS os) pathErr
       then reply (Some (Errorf ''Error checking path: %v'' pathErr))
       else doCleanupMountPoint os mountPath extensive (IsCorruptedMnt (GOOS os) pathErr))"

section \<open>Effects\<close>

context effect_os
begin

lemma keeps_removePathIfNotMountPoint:
  "allowed (Remove p) \<Longrightarrow> keeps R (removePathIfNotMountPoint os p ext)"
  unfolding removePathIfNotMountPoint_def
  by (intro keeps_intros keeps_control keeps_sys)

lemma keeps_removePath: "allowed (Remove p) \<Longrightarrow> keeps R (removePath os p)"
  unfolding removePath_def by (intro keeps_intros keeps_control keeps_sys)

lemma keeps_CleanupMountPoint:
  "allowed (Remove p) \<Longrightarrow> allowed (Unmount p) \<Longrightarrow> keeps R (mount_CleanupMountPoint os p ext)"
  unfolding mount_CleanupMountPoint_def doCleanupMountPoint_def
  by (intro keeps_intros keeps_control keeps_sys keeps_removePath keeps_removePathIfNotMountPoint)

end

end
