(* ===== verification/SmbUtil.thy ===== *)
theory SmbUtil
  imports GoStrings
begin

text \<open>
  The constants and the small helper functions of \<^verbatim>\<open>pkg/smb/smb.go\<close>, and \<^verbatim>\<open>SetKeyValueInMap\<close> of
  \<^verbatim>\<open>pkg/util/util.go\<close>: case-insensitive maps, mount options, the \<^verbatim>\<open>onDelete\<close> policy and the
  placeholders of the \<^verbatim>\<open>subDir\<close> parameter.
\<close>

section \<open>Constants\<close>

abbreviation usernameField :: string where "usernameField \<equiv> ''username''"
abbreviation passwordField :: string where "passwordField \<equiv> ''password''"
abbreviation sourceField :: string where "sourceField \<equiv> ''source''"
abbreviation subDirField :: string where "subDirField \<equiv> ''subdir''"
abbreviation domainField :: string where "domainField \<equiv> ''domain''"
abbreviation mountOptionsField :: string where "mountOptionsField \<equiv> ''mountoptions''"
abbreviation secretNameField :: string where "secretNameField \<equiv> ''secretname''"
abbreviation secretNamespaceField :: string where "secretNamespaceField \<equiv> ''secretnamespace''"
abbreviation paramOnDelete :: string where "paramOnDelete \<equiv> ''ondelete''"
abbreviation defaultDomainName :: string where "defaultDomainName \<equiv> ''AZURE''"
abbreviation ephemeralField :: string where "ephemeralField \<equiv> ''csi.storage.k8s.io/ephemeral''"
abbreviation podNamespaceField :: string where
  "podNamespaceField \<equiv> ''csi.storage.k8s.io/pod.namespace''"
abbreviation pvcNameKey :: string where "pvcNameKey \<equiv> ''csi.storage.k8s.io/pvc/name''"
abbreviation pvcNamespaceKey :: string where
  "pvcNamespaceKey \<equiv> ''csi.storage.k8s.io/pvc/namespace''"
abbreviation pvNameKey :: string where "pvNameKey \<equiv> ''csi.storage.k8s.io/pv/name''"
abbreviation pvcNameMetadata :: string where "pvcNameMetadata \<equiv> ''${pvc.metadata.name}''"
abbreviation pvcNamespaceMetadata :: string where
  "pvcNamespaceMetadata \<equiv> ''${pvc.metadata.namespace}''"
abbreviation pvNameMetadata :: string where "pvNameMetadata \<equiv> ''${pv.metadata.name}''"
abbreviation retain :: string where "retain \<equiv> ''retain''"
abbreviation archive :: string where "archive \<equiv> ''archive''"
abbreviation fileMode :: string where "fileMode \<equiv> ''file_mode''"
abbreviation dirMode :: string where "dirMode \<equiv> ''dir_mode''"
abbreviation defaultFileMode :: string where "defaultFileMode \<equiv> ''0777''"
abbreviation defaultDirMode :: string where "defaultDirMode \<equiv> ''0777''"
abbreviation trueValue :: string where "trueValue \<equiv> ''true''"

definition supportedOnDeleteValues :: "string list" where
  "supportedOnDeleteValues = ['''', ''delete'', retain, archive]"

section \<open>Case-insensitive maps\<close>

fun getMountOptions :: "gomap \<Rightarrow> string" where
  "getMountOptions [] = ''''"
| "getMountOptions ((k, v) # m) = (if ToLower k = mountOptionsField then v else getMountOptions m)"

text \<open>
  \<^verbatim>\<open>setKeyValueInMap\<close>, and \<^verbatim>\<open>util.SetKeyValueInMap\<close>, which has the same body: a nil map is left
  alone; the entry whose key is equal under case folding is overwritten; otherwise one is added.
\<close>

definition setKeyValueInMap :: "gomap option \<Rightarrow> string \<Rightarrow> string \<Rightarrow> gomap option" where
  "setKeyValueInMap mo key value =
     (case mo of
        None \<Rightarrow> None
      | Some m \<Rightarrow> (case find (\<lambda>(k, _). EqualFold k key) m of
                     Some (k, _) \<Rightarrow> Some (map_put k value m)
                   | None \<Rightarrow> Some (map_put key value m)))"

definition SetKeyValueInMap :: "gomap option \<Rightarrow> string \<Rightarrow> string \<Rightarrow> gomap option" where
  "SetKeyValueInMap mo key value =
     (case mo of
        None \<Rightarrow> None
      | Some m \<Rightarrow> (case find (\<lambda>(k, _). EqualFold k key) m of
                     Some (k, _) \<Rightarrow> Some (map_put k value m)
                   | None \<Rightarrow> Some (map_put key value m)))"

text \<open>What a case-insensitive lookup of a key finds: the first matching entry of a visit.\<close>

definition fold_get :: "gomap \<Rightarrow> string \<Rightarrow> string option" where
  "fold_get m key = map_option snd (find (\<lambda>(k, _). EqualFold k key) m)"

lemma find_EqualFold_SomeD:
  "find (\<lambda>(k, _). EqualFold k key) m = Some (k, v) \<Longrightarrow> EqualFold k key \<and> (k, v) \<in> set m"
  by (induction m) (auto split: if_splits)

lemma find_map_put_same:
  "find (\<lambda>(k, _). EqualFold k key) m = Some (k, v) \<Longrightarrow>
   find (\<lambda>(k, _). EqualFold k key) (map_put k w m) = Some (k, w)"
  by (induction m) (auto split: if_splits dest: find_EqualFold_SomeD)

lemma find_map_put_new:
  "find (\<lambda>(k, _). EqualFold k key) m = None \<Longrightarrow>
   find (\<lambda>(k, _). EqualFold k key) (map_put key w m) = Some (key, w)"
  by (induction m) (auto split: if_splits)

lemma find_map_put_other:
  "\<not> EqualFold k key \<Longrightarrow>
   find (\<lambda>(k, _). EqualFold k key) (map_put k w m) = find (\<lambda>(k, _). EqualFold k key) m"
  by (induction m) auto

lemma setKeyValueInMap_get:
  "setKeyValueInMap (Some m) key v = Some m' \<Longrightarrow> fold_get m' key = Some v"
  by (auto simp: setKeyValueInMap_def fold_get_def find_map_put_same find_map_put_new
      split: option.splits)

lemma setKeyValueInMap_other:
  assumes "setKeyValueInMap (Some m) key v = Some m'" "\<not> EqualFold key other"
  shows "fold_get m' other = fold_get m other"
proof (cases "find (\<lambda>(k, _). EqualFold k key) m")
  case None
  then show ?thesis
    using assms by (auto simp: setKeyValueInMap_def fold_get_def find_map_put_other)
next
  case (Some kv)
  then obtain k w where kv: "find (\<lambda>(k, _). EqualFold k key) m = Some (k, w)" by (cases kv) auto
  then have "\<not> EqualFold k other"
    using assms(2) find_EqualFold_SomeD EqualFold_sym EqualFold_trans by metis
  then show ?thesis
    using assms kv by (auto simp: setKeyValueInMap_def fold_get_def find_map_put_other)
qed

lemma setKeyValueInMap_wf:
  "wf_map m \<Longrightarrow> setKeyValueInMap (Some m) key v = Some m' \<Longrightarrow> wf_map m'"
  by (auto simp: setKeyValueInMap_def split: option.splits)

lemma setKeyValueInMap_total: "\<exists>m'. setKeyValueInMap (Some m) key v = Some m'"
  by (auto simp: setKeyValueInMap_def split: option.splits)

lemma SetKeyValueInMap_eq: "SetKeyValueInMap = setKeyValueInMap"
  by (simp add: fun_eq_iff SetKeyValueInMap_def setKeyValueInMap_def)

section \<open>Mount options\<close>

fun hasGuestMountOptions :: "string list \<Rightarrow> bool" where
  "hasGuestMountOptions [] = False"
| "hasGuestMountOptions (v # options) = (v = ''guest'' \<or> hasGuestMountOptions options)"

lemma hasGuestMountOptions_iff: "hasGuestMountOptions options \<longleftrightarrow> ''guest'' \<in> set options"
  by (induction options) auto

text \<open>The keys for which some option of the list already starts with the key.\<close>

definition included :: "string list \<Rightarrow> gomap \<Rightarrow> string list" where
  "included mountOptions extra =
     map fst (filter (\<lambda>(k, _). list_ex (\<lambda>mo. HasPrefix mo k) mountOptions) extra)"

definition format_option :: "string \<Rightarrow> string \<Rightarrow> string" where
  "format_option k v = (if v \<noteq> '''' then k @ ''='' @ v else k)"

definition appendMountOptions :: "string list \<Rightarrow> gomap \<Rightarrow> string list" where
  "appendMountOptions mountOptions extra =
     mountOptions @
     map (\<lambda>(k, v). format_option k v)
       (filter (\<lambda>(k, _). k \<notin> set (included mountOptions extra)) extra)"

lemma included_iff:
  "wf_map extra \<Longrightarrow> (k, v) \<in> set extra \<Longrightarrow>
   k \<in> set (included mountOptions extra) \<longleftrightarrow> (\<exists>mo \<in> set mountOptions. HasPrefix mo k)"
  by (auto simp: included_def list_ex_iff image_iff)

lemma HasPrefix_format_option [simp]: "HasPrefix (format_option k v) k"
  using HasPrefix_append [of k "[]"] by (simp add: format_option_def)

lemma appendMountOptions_covers:
  assumes "wf_map extra" "(k, v) \<in> set extra"
  shows "\<exists>mo \<in> set (appendMountOptions mountOptions extra). HasPrefix mo k"
proof (cases "\<exists>mo \<in> set mountOptions. HasPrefix mo k")
  case True
  then show ?thesis by (auto simp: appendMountOptions_def)
next
  case False
  then have "k \<notin> set (included mountOptions extra)" using included_iff [OF assms] by simp
  then have "format_option k v \<in> set (appendMountOptions mountOptions extra)"
    using assms(2) by (force simp: appendMountOptions_def)
  then show ?thesis using HasPrefix_format_option by blast
qed

lemma appendMountOptions_keeps:
  assumes "wf_map extra" "(k, v) \<in> set extra" "\<exists>mo \<in> set mountOptions. HasPrefix mo k"
  shows "format_option k v \<in> set (appendMountOptions mountOptions extra) \<Longrightarrow>
    format_option k v \<in> set mountOptions \<or>
    (\<exists>k' v'. (k', v') \<in> set extra \<and> k' \<noteq> k \<and> format_option k' v' = format_option k v)"
  using assms included_iff [OF assms(1,2), of mountOptions]
  by (auto simp: appendMountOptions_def) metis

lemma appendMountOptions_nothing_new:
  assumes "wf_map extra" "\<forall>(k, v) \<in> set extra. \<exists>mo \<in> set mountOptions. HasPrefix mo k"
  shows "appendMountOptions mountOptions extra = mountOptions"
proof -
  have "filter (\<lambda>(k, _). k \<notin> set (included mountOptions extra)) extra = []"
    using assms included_iff [OF assms(1), of _ _ mountOptions] by (auto simp: filter_empty_conv)
  then show ?thesis by (simp add: appendMountOptions_def)
qed

lemma appendMountOptions_idem:
  "wf_map extra \<Longrightarrow>
   appendMountOptions (appendMountOptions mountOptions extra) extra = appendMountOptions mountOptions extra"
  by (rule appendMountOptions_nothing_new) (auto intro: appendMountOptions_covers)

section \<open>The onDelete policy\<close>

definition validateOnDeleteValue :: "string \<Rightarrow> error option" where
  "validateOnDeleteValue onDelete =
     (if list_ex (\<lambda>v. EqualFold v onDelete) supportedOnDeleteValues then None
      else Some (Errorf ''invalid value %s for OnDelete, supported values are %v'' None))"

lemma validateOnDeleteValue_ok:
  "validateOnDeleteValue onDelete = None \<longleftrightarrow>
   ToLower onDelete \<in> {'''', ''delete'', ''retain'', ''archive''}"
  by (auto simp: validateOnDeleteValue_def supportedOnDeleteValues_def EqualFold_def
      ToLower_def lower_char_def)

section \<open>Placeholders\<close>

fun replaceWithMap :: "string \<Rightarrow> gomap \<Rightarrow> string" where
  "replaceWithMap str [] = str"
| "replaceWithMap str ((k, v) # m) =
     replaceWithMap (if k \<noteq> '''' then ReplaceAll str k v else str) m"

text \<open>\<^verbatim>\<open>getRootDir\<close>: the first component; \<^verbatim>\<open>strings.Split\<close> never returns an empty slice.\<close>

definition getRootDir :: "string \<Rightarrow> string" where
  "getRootDir path = hd (Split path (CHR ''/''))"

text \<open>
  A template as the documentation describes it: literal text without a dollar sign, and
  placeholders.
\<close>

datatype seg = Lit string | Var string

fun seg_text :: "seg \<Rightarrow> string" where
  "seg_text (Lit s) = s"
| "seg_text (Var k) = k"

fun seg_value :: "gomap \<Rightarrow> seg \<Rightarrow> string" where
  "seg_value m (Lit s) = s"
| "seg_value m (Var k) = (case map_of m k of None \<Rightarrow> k | Some v \<Rightarrow> v)"

definition template_text :: "seg list \<Rightarrow> string" where
  "template_text segs = concat (map seg_text segs)"

definition metadata_keys :: "string set" where
  "metadata_keys = {pvcNameMetadata, pvcNamespaceMetadata, pvNameMetadata}"

fun seg_ok :: "seg \<Rightarrow> bool" where
  "seg_ok (Lit s) = (CHR ''$'' \<notin> set s)"
| "seg_ok (Var k) = (k \<in> metadata_keys)"

text \<open>The placeholders start with the only dollar sign they have, and none is a prefix of another.\<close>

lemma metadata_key_shape: "k \<in> metadata_keys \<Longrightarrow> \<exists>t. k = CHR ''$'' # t \<and> CHR ''$'' \<notin> set t"
  by (auto simp: metadata_keys_def)

lemma metadata_keys_prefix_free:
  "k \<in> metadata_keys \<Longrightarrow> k' \<in> metadata_keys \<Longrightarrow> prefix k k' \<Longrightarrow> k = k'"
  by (auto simp: metadata_keys_def)

lemma ReplaceAll_other_key:
  assumes "k \<in> metadata_keys" "k' \<in> metadata_keys" "k \<noteq> k'"
  shows "ReplaceAll (k' @ t) k v = k' @ ReplaceAll t k v"
proof -
  obtain r where r: "k' = CHR ''$'' # r" "CHR ''$'' \<notin> set r"
    using metadata_key_shape assms(2) by blast
  have "\<not> prefix k (k' @ t)"
    using assms metadata_keys_prefix_free prefix_same_cases [of k "k' @ t" k'] by auto
  then have "ReplaceAll (k' @ t) k v = CHR ''$'' # ReplaceAll (r @ t) k v"
    using r metadata_key_shape [OF assms(1)]
    by (auto simp: ReplaceAll.simps [of "CHR ''$'' # r @ t"] HasPrefix_prefix)
  moreover have "ReplaceAll (r @ t) k v = r @ ReplaceAll t k v"
    using r metadata_key_shape [OF assms(1)] by (intro ReplaceAll_skip) auto
  ultimately show ?thesis using r by simp
qed

fun subst_seg :: "string \<Rightarrow> string \<Rightarrow> seg \<Rightarrow> seg" where
  "subst_seg k v (Lit s) = Lit s"
| "subst_seg k v (Var k') = (if k' = k then Lit v else Var k')"

lemma ReplaceAll_template:
  assumes "k \<in> metadata_keys" "\<forall>sg \<in> set segs. seg_ok sg"
  shows "ReplaceAll (template_text segs) k v = template_text (map (subst_seg k v) segs)"
  using assms(2)
proof (induction segs)
  case (Cons sg segs)
  note shape = metadata_key_shape [OF assms(1)]
  have IH: "ReplaceAll (concat (map seg_text segs)) k v = concat (map (seg_text \<circ> subst_seg k v) segs)"
    using Cons by (simp add: template_text_def)
  show ?case
  proof (cases sg)
    case (Lit s)
    then show ?thesis
      using Cons.prems IH shape by (auto simp: template_text_def ReplaceAll_skip)
  next
    case (Var k')
    moreover have "k \<noteq> []" using shape by auto
    ultimately show ?thesis
      using Cons.prems IH assms(1)
      by (auto simp: template_text_def ReplaceAll_first ReplaceAll_other_key)
  qed
qed (simp add: template_text_def)

lemma subst_seg_ok: "seg_ok sg \<Longrightarrow> CHR ''$'' \<notin> set v \<Longrightarrow> seg_ok (subst_seg k v sg)"
  by (cases sg) auto

lemma seg_value_subst: "k \<notin> fst ` set m \<Longrightarrow> seg_value m (subst_seg k v sg) = seg_value ((k, v) # m) sg"
  by (cases sg) (auto simp: map_of_eq_None_iff)

text \<open>
  Replacing placeholder by placeholder, in any order, gives what replacing all of them at once
  gives, as long as no value holds a dollar sign.
\<close>

lemma replaceWithMap_template:
  assumes "wf_map m" "fst ` set m \<subseteq> metadata_keys" "\<forall>(k, v) \<in> set m. CHR ''$'' \<notin> set v"
    and "\<forall>sg \<in> set segs. seg_ok sg"
  shows "replaceWithMap (template_text segs) m = concat (map (seg_value m) segs)"
  using assms
proof (induction m arbitrary: segs)
  case Nil
  have "seg_value [] sg = seg_text sg" for sg by (cases sg) auto
  then show ?case by (simp add: template_text_def)
next
  case (Cons kv m)
  obtain k v where kv: "kv = (k, v)" by fastforce
  have k: "k \<in> metadata_keys" "k \<noteq> []" "k \<notin> fst ` set m" "CHR ''$'' \<notin> set v"
    using Cons.prems kv metadata_key_shape by (auto simp: wf_map_Cons)
  have "replaceWithMap (template_text segs) (kv # m)
      = replaceWithMap (template_text (map (subst_seg k v) segs)) m"
    using k kv Cons.prems(4) by (simp add: ReplaceAll_template)
  also have "\<dots> = concat (map (seg_value m) (map (subst_seg k v) segs))"
    using Cons k kv by (intro Cons.IH) (auto simp: wf_map_Cons subst_seg_ok)
  also have "\<dots> = concat (map (seg_value (kv # m)) segs)"
    using k kv by (simp add: seg_value_subst comp_def)
  finally show ?case .
qed

end
