(* ===== verification/Platform.thy ===== *)
theory Platform
  imports MountUtils GoStrings SmbUtil
begin

text \<open>
  The platform-dependent part of the driver, one file per operating system
  (\<^verbatim>\<open>pkg/smb/smb_common_linux.go\<close>, \<^verbatim>\<open>smb_common_darwin.go\<close>, \<^verbatim>\<open>smb_common_windows.go\<close>): mounting,
  cleaning up mount points and preparing paths. A function that all three files define is split
  by \<^const>\<open>GOOS\<close> the way the build constraint splits it.
\<close>

section \<open>Passwords that confuse the command line\<close>

definition ContainsSpecialCharacter :: "string \<Rightarrow> bool" where
  "ContainsSpecialCharacter word =
     (Contains word [CHR 0x22] \<or> Contains word ''`'' \<or> Contains word '','')"

definition NeedsCredentialsOption :: "string list \<Rightarrow> bool" where
  "NeedsCredentialsOption options =
     (length options = 2 \<and> HasPrefix (options ! 1) ''password='' \<and> ContainsSpecialCharacter (options ! 1))"

section \<open>Mount\<close>

text \<open>The loop that writes the options to the credentials file, one per line.\<close>

fun write_options :: "'w os \<Rightarrow> string \<Rightarrow> string list \<Rightarrow> ('w \<Rightarrow> error option \<times> 'w) \<Rightarrow> 'w \<Rightarrow> error option \<times> 'w" where
  "write_options os name [] k = k"
| "write_options os name (option # options) k =
     if_err (sys os (FileWrite name (option @ [CHR 0x0A]))) (\<lambda>err. reply (Some err))
       (write_options os name options k)"

definition Mount_linux ::
  "'w os \<Rightarrow> string \<Rightarrow> string \<Rightarrow> string \<Rightarrow> string list \<Rightarrow> string list \<Rightarrow> 'w \<Rightarrow> error option \<times> 'w" where
  "Mount_linux os source target fsType options sensitiveMountOptions =
     (if NeedsCredentialsOption sensitiveMountOptions
      then bind_st (exec os (CreateTemp ''/tmp/'' ''*.smb.credentials'')) (\<lambda>r. case r of
          Inl err \<Rightarrow> reply (Some err)
        | Inr name \<Rightarrow>
            deferred (ignoring (sys os (FileClose name)) (sys os (Remove name)))
              (write_options os name sensitiveMountOptions
                (sys os (MountSensitive source target fsType options [''credentials='' @ name]))))
      else sys os (MountSensitive source target fsType options sensitiveMountOptions))"

definition Mount_darwin ::
  "'w os \<Rightarrow> string \<Rightarrow> string \<Rightarrow> string \<Rightarrow> string list \<Rightarrow> string list \<Rightarrow> 'w \<Rightarrow> error option \<times> 'w" where
  "Mount_darwin os source target fsType options sensitiveMountOptions =
     sys os (MountSensitive source target fsType options sensitiveMountOptions)"

definition not_proxy :: error where
  "not_proxy = Errorf ''could not cast to csi proxy class'' None"

definition Mount_windows ::
  "'w os \<Rightarrow> string \<Rightarrow> string \<Rightarrow> string \<Rightarrow> string list \<Rightarrow> string list \<Rightarrow> string \<Rightarrow> 'w \<Rightarrow> error option \<times> 'w" where
  "Mount_windows os source target fsType mountOptions sensitiveMountOptions volumeID =
     (if CSIProxy os then sys os (SMBMount source target fsType mountOptions sensitiveMountOptions volumeID)
      else reply (Some not_proxy))"

definition smb_Mount ::
  "'w os \<Rightarrow> string \<Rightarrow> string \<Rightarrow> string \<Rightarrow> string list \<Rightarrow> string list \<Rightarrow> string \<Rightarrow> 'w \<Rightarrow> error option \<times> 'w" where
  "smb_Mount os source target fsType options sensitiveMountOptions volumeID =
     (case GOOS os of
        Linux \<Rightarrow> Mount_linux os source target fsType options sensitiveMountOptions
      | Darwin \<Rightarrow> Mount_darwin os source target fsType options sensitiveMountOptions
      | Windows \<Rightarrow> Mount_windows os source target fsType options sensitiveMountOptions volumeID)"

section \<open>Cleaning up and preparing\<close>

text \<open>
  One definition per file: \<^verbatim>\<open>smb_common_linux.go\<close>, \<^verbatim>\<open>smb_common_darwin.go\<close> and
  \<^verbatim>\<open>smb_common_windows.go\<close>; the build picks one of the three, here the system does.
\<close>

definition CleanupSMBMountPoint_linux :: "'w os \<Rightarrow> string \<Rightarrow> bool \<Rightarrow> string \<Rightarrow> 'w \<Rightarrow> error option \<times> 'w" where
  "CleanupSMBMountPoint_linux os target extensiveMountCheck volumeID =
     mount_CleanupMountPoint os target extensiveMountCheck"

definition CleanupSMBMountPoint_darwin :: "'w os \<Rightarrow> string \<Rightarrow> bool \<Rightarrow> string \<Rightarrow> 'w \<Rightarrow> error option \<times> 'w" where
  "CleanupSMBMountPoint_darwin os target extensiveMountCheck volumeID =
     mount_CleanupMountPoint os target extensiveMountCheck"

definition CleanupSMBMountPoint_windows :: "'w os \<Rightarrow> string \<Rightarrow> bool \<Rightarrow> string \<Rightarrow> 'w \<Rightarrow> error option \<times> 'w" where
  "CleanupSMBMountPoint_windows os target extensiveMountCheck volumeID =
     (if CSIProxy os then sys os (SMBUnmount target volumeID) else reply (Some not_proxy))"

definition CleanupSMBMountPoint :: "'w os \<Rightarrow> string \<Rightarrow> bool \<Rightarrow> string \<Rightarrow> 'w \<Rightarrow> error option \<times> 'w" where
  "CleanupSMBMountPoint os target extensiveMountCheck volumeID =
     (case GOOS os of
        Linux \<Rightarrow> CleanupSMBMountPoint_linux os target extensiveMountCheck volumeID
      | Darwin \<Rightarrow> CleanupSMBMountPoint_darwin os target extensiveMountCheck volumeID
      | Windows \<Rightarrow> CleanupSMBMountPoint_windows os target extensiveMountCheck volumeID)"

definition CleanupMountPoint_linux :: "'w os \<Rightarrow> string \<Rightarrow> bool \<Rightarrow> 'w \<Rightarrow> error option \<times> 'w" where
  "CleanupMountPoint_linux os target extensiveMountCheck = mount_CleanupMountPoint os target extensiveMountCheck"

definition CleanupMountPoint_darwin :: "'w os \<Rightarrow> string \<Rightarrow> bool \<Rightarrow> 'w \<Rightarrow> error option \<times> 'w" where
  "CleanupMountPoint_darwin os target extensiveMountCheck = mount_CleanupMountPoint os target extensiveMountCheck"

definition CleanupMountPoint_windows :: "'w os \<Rightarrow> string \<Rightarrow> bool \<Rightarrow> 'w \<Rightarrow> error option \<times> 'w" where
  "CleanupMountPoint_windows os target extensiveMountCheck =
     (if CSIProxy os then sys os (Rmdir target) else reply (Some not_proxy))"

definition CleanupMountPoint :: "'w os \<Rightarrow> string \<Rightarrow> bool \<Rightarrow> 'w \<Rightarrow> error option \<times> 'w" where
  "CleanupMountPoint os target extensiveMountCheck =
     (case GOOS os of
        Linux \<Rightarrow> CleanupMountPoint_linux os target extensiveMountCheck
      | Darwin \<Rightarrow> CleanupMountPoint_darwin os target extensiveMountCheck
      | Windows \<Rightarrow> CleanupMountPoint_windows os target extensiveMountCheck)"

definition removeDir :: "'w os \<Rightarrow> string \<Rightarrow> 'w \<Rightarrow> error option \<times> 'w" where
  "removeDir os path =
     (if CSIProxy os
      then asks (\<lambda>w. case ExistsPath os path w of
             Inl err \<Rightarrow> reply (Some err)
           | Inr isExists \<Rightarrow>
               if isExists then if_err (sys os (Rmdir path)) (\<lambda>err. reply (Some err)) (reply None)
               else reply None)
      else reply (Some not_proxy))"

definition preparePublishPath_linux :: "'w os \<Rightarrow> string \<Rightarrow> 'w \<Rightarrow> error option \<times> 'w" where
  "preparePublishPath_linux os path = reply None"

definition preparePublishPath_darwin :: "'w os \<Rightarrow> string \<Rightarrow> 'w \<Rightarrow> error option \<times> 'w" where
  "preparePublishPath_darwin os path = reply None"

definition preparePublishPath_windows :: "'w os \<Rightarrow> string \<Rightarrow> 'w \<Rightarrow> error option \<times> 'w" where
  "preparePublishPath_windows os path = removeDir os path"

definition preparePublishPath :: "'w os \<Rightarrow> string \<Rightarrow> 'w \<Rightarrow> error option \<times> 'w" where
  "preparePublishPath os path =
     (case GOOS os of
        Linux \<Rightarrow> preparePublishPath_linux os path
      | Darwin \<Rightarrow> preparePublishPath_darwin os path
      | Windows \<Rightarrow> preparePublishPath_windows os path)"

definition prepareStagePath_linux :: "'w os \<Rightarrow> string \<Rightarrow> 'w \<Rightarrow> error option \<times> 'w" where
  "prepareStagePath_linux os path = reply None"

definition prepareStagePath_darwin :: "'w os \<Rightarrow> string \<Rightarrow> 'w \<Rightarrow> error option \<times> 'w" where
  "prepareStagePath_darwin os path = reply None"

definition prepareStagePath_windows :: "'w os \<Rightarrow> string \<Rightarrow> 'w \<Rightarrow> error option \<times> 'w" where
  "prepareStagePath_windows os path = removeDir os path"

definition prepareStagePath :: "'w os \<Rightarrow> string \<Rightarrow> 'w \<Rightarrow> error option \<times> 'w" where
  "prepareStagePath os path =
     (case GOOS os of
        Linux \<Rightarrow> prepareStagePath_linux os path
      | Darwin \<Rightarrow> prepareStagePath_darwin os path
      | Windows \<Rightarrow> prepareStagePath_windows os path)"

definition smb_Mkdir_linux :: "'w os \<Rightarrow> string \<Rightarrow> nat \<Rightarrow> 'w \<Rightarrow> error option \<times> 'w" where
  "smb_Mkdir_linux os name perm = sys os (Mkdir name perm)"

definition smb_Mkdir_darwin :: "'w os \<Rightarrow> string \<Rightarrow> nat \<Rightarrow> 'w \<Rightarrow> error option \<times> 'w" where
  "smb_Mkdir_darwin os name perm = sys os (Mkdir name perm)"

definition smb_Mkdir_windows :: "'w os \<Rightarrow> string \<Rightarrow> nat \<Rightarrow> 'w \<Rightarrow> error option \<times> 'w" where
  "smb_Mkdir_windows os name perm = (if CSIProxy os then sys os (MakeDir name) else reply (Some not_proxy))"

definition smb_Mkdir :: "'w os \<Rightarrow> string \<Rightarrow> nat \<Rightarrow> 'w \<Rightarrow> error option \<times> 'w" where
  "smb_Mkdir os name perm =
     (case GOOS os of
        Linux \<Rightarrow> smb_Mkdir_linux os name perm
      | Darwin \<Rightarrow> smb_Mkdir_darwin os name perm
      | Windows \<Rightarrow> smb_Mkdir_windows os name perm)"

text \<open>Outside Windows the two files agree.\<close>

lemma CleanupSMBMountPoint_eq:
  "CleanupSMBMountPoint os target extensiveMountCheck volumeID =
     (if GOOS os = Windows
      then (if CSIProxy os then sys os (SMBUnmount target volumeID) else reply (Some not_proxy))
      else mount_CleanupMountPoint os target extensiveMountCheck)"
  by (cases "GOOS os")
     (simp_all add: CleanupSMBMountPoint_def CleanupSMBMountPoint_linux_def
       CleanupSMBMountPoint_darwin_def CleanupSMBMountPoint_windows_def)

lemma CleanupMountPoint_eq:
  "CleanupMountPoint os target extensiveMountCheck =
     (if GOOS os = Windows
      then (if CSIProxy os then sys os (Rmdir target) else reply (Some not_proxy))
      else mount_CleanupMountPoint os target extensiveMountCheck)"
  by (cases "GOOS os")
     (simp_all add: CleanupMountPoint_def CleanupMountPoint_linux_def CleanupMountPoint_darwin_def
       CleanupMountPoint_windows_def)

lemma preparePublishPath_eq:
  "preparePublishPath os path = (if GOOS os = Windows then removeDir os path else reply None)"
  by (cases "GOOS os")
     (simp_all add: preparePublishPath_def preparePublishPath_linux_def
       preparePublishPath_darwin_def preparePublishPath_windows_def)

lemma prepareStagePath_eq:
  "prepareStagePath os path = (if GOOS os = Windows then removeDir os path else reply None)"
  by (cases "GOOS os")
     (simp_all add: prepareStagePath_def prepareStagePath_linux_def prepareStagePath_darwin_def
       prepareStagePath_windows_def)

lemma smb_Mkdir_eq:
  "smb_Mkdir os name perm =
     (if GOOS os = Windows
      then (if CSIProxy os then sys os (MakeDir name) else reply (Some not_proxy))
      else sys os (Mkdir name perm))"
  by (cases "GOOS os")
     (simp_all add: smb_Mkdir_def smb_Mkdir_linux_def smb_Mkdir_darwin_def smb_Mkdir_windows_def)

text \<open>\<^verbatim>\<open>IsCorruptedDir\<close> of \<^verbatim>\<open>smb.go\<close>.\<close>

definition IsCorruptedDir :: "'w os \<Rightarrow> string \<Rightarrow> 'w \<Rightarrow> bool" where
  "IsCorruptedDir os dir w =
     (case PathExists os dir w of (_, pathErr) \<Rightarrow> pathErr \<noteq> None \<and> IsCorruptedMnt (GOOS os) pathErr)"

section \<open>Effects\<close>

text \<open>
  The calls that mounting makes, and what the environment promises of the names of temporary
  files.
\<close>

definition temp_names :: "'w os \<Rightarrow> string \<Rightarrow> bool" where
  "temp_names os name \<longleftrightarrow> (\<exists>w. fst (exec os (CreateTemp ''/tmp/'' ''*.smb.credentials'') w) = Inr name)"

definition mount_calls :: "(string \<Rightarrow> bool) \<Rightarrow> string \<Rightarrow> string \<Rightarrow> string list \<Rightarrow> call \<Rightarrow> bool" where
  "mount_calls temp source target options c =
     (case c of
        CreateTemp dir pattern \<Rightarrow> dir = ''/tmp/''
      | FileWrite name content \<Rightarrow> temp name
      | FileClose name \<Rightarrow> temp name
      | Remove name \<Rightarrow> temp name
      | MountSensitive src tgt fsType opts sens \<Rightarrow> src = source \<and> tgt = target \<and> opts = options
      | SMBMount src tgt fsType opts sens vol \<Rightarrow> src = source \<and> tgt = target \<and> opts = options
      | _ \<Rightarrow> False)"

context effect_os
begin

lemma keeps_write_options:
  "(\<And>content. allowed (FileWrite name content)) \<Longrightarrow> keeps R k \<Longrightarrow> keeps R (write_options os name opts k)"
  by (induction opts) (auto intro!: keeps_intros keeps_control keeps_sys)

lemma keeps_smb_Mount:
  assumes "\<And>c. mount_calls (temp_names os) source target options c \<Longrightarrow> allowed c"
  shows "keeps R (smb_Mount os source target fsType options sens volumeID)"
  unfolding smb_Mount_def Mount_linux_def Mount_darwin_def Mount_windows_def
  by (cases "GOOS os")
     (auto intro!: keeps_intros keeps_control keeps_sys keeps_exec keeps_write_options assms
       simp: mount_calls_def temp_names_def)

lemma keeps_CleanupSMBMountPoint:
  "allowed (Remove p) \<Longrightarrow> allowed (Unmount p) \<Longrightarrow> allowed (SMBUnmount p volumeID) \<Longrightarrow>
   keeps R (CleanupSMBMountPoint os p ext volumeID)"
  unfolding CleanupSMBMountPoint_eq
  by (intro keeps_intros keeps_control keeps_sys keeps_CleanupMountPoint)

lemma keeps_smb_CleanupMountPoint:
  "allowed (Remove p) \<Longrightarrow> allowed (Unmount p) \<Longrightarrow> allowed (Rmdir p) \<Longrightarrow>
   keeps R (CleanupMountPoint os p ext)"
  unfolding CleanupMountPoint_eq
  by (intro keeps_intros keeps_control keeps_sys keeps_CleanupMountPoint)

lemma keeps_removeDir: "allowed (Rmdir p) \<Longrightarrow> keeps R (removeDir os p)"
  unfolding removeDir_def by (intro keeps_intros keeps_control keeps_sys)

lemma keeps_prepare:
  "allowed (Rmdir p) \<Longrightarrow> keeps R (prepareStagePath os p)"
  "allowed (Rmdir p) \<Longrightarrow> keeps R (preparePublishPath os p)"
  unfolding prepareStagePath_eq preparePublishPath_eq
  by (intro keeps_intros keeps_control keeps_removeDir; assumption)+

end

section \<open>Credentials files\<close>

text \<open>
  The two places that decide on a credentials file agree: the node server separates the options
  exactly for the passwords for which the mount function then writes a file.
\<close>

lemma ContainsSpecialCharacter_iff:
  "ContainsSpecialCharacter word \<longleftrightarrow> (\<exists>c \<in> {CHR 0x22, CHR ''`'', CHR '',''}. c \<in> set word)"
  by (auto simp: ContainsSpecialCharacter_def Contains_char)

lemma NeedsCredentialsOption_password:
  "NeedsCredentialsOption [u, ''password='' @ password] \<longleftrightarrow> ContainsSpecialCharacter password"
  by (auto simp: NeedsCredentialsOption_def ContainsSpecialCharacter_iff)




end
