(* ===== verification/GoPath.thy ===== *)
theory GoPath
  imports GoStrings
begin

text \<open>
  The functions of Go's \<^verbatim>\<open>path/filepath\<close> package that the driver calls, for the slash-separated
  paths of Linux. \<^verbatim>\<open>Clean\<close> works on the components of the path: empty components and \<^verbatim>\<open>.\<close>
  disappear, \<^verbatim>\<open>..\<close> removes the component before it, and is dropped at the root.
\<close>

abbreviation slash :: char where
  "slash \<equiv> CHR ''/''"

section \<open>Clean\<close>

text \<open>The loop of \<^verbatim>\<open>Clean\<close>; \<open>acc\<close> holds the components kept so far, the last one first.\<close>

fun clean_comps :: "bool \<Rightarrow> string list \<Rightarrow> string list \<Rightarrow> string list" where
  "clean_comps rooted acc [] = rev acc"
| "clean_comps rooted acc (c # cs) =
     (if c = [] \<or> c = ''.'' then clean_comps rooted acc cs
      else if c = ''..'' then
        (case acc of
           [] \<Rightarrow> if rooted then clean_comps rooted [] cs else clean_comps rooted [c] cs
         | a # as \<Rightarrow> if a = ''..'' then clean_comps rooted (c # acc) cs
                    else clean_comps rooted as cs)
      else clean_comps rooted (c # acc) cs)"

definition IsAbs :: "string \<Rightarrow> bool" where
  "IsAbs path = HasPrefix path ''/''"

text \<open>The components that name the object a path leads to.\<close>

definition comps :: "string \<Rightarrow> string list" where
  "comps path = clean_comps (IsAbs path) [] (Split path slash)"

definition path_of :: "bool \<Rightarrow> string list \<Rightarrow> string" where
  "path_of rooted cs =
     (if rooted then slash # Join cs ''/'' else if cs = [] then ''.'' else Join cs ''/'')"

definition Clean :: "string \<Rightarrow> string" where
  "Clean path = path_of (IsAbs path) (comps path)"

section \<open>Join, Dir, Abs\<close>

text \<open>\<^verbatim>\<open>filepath.Join\<close> of two elements: the empty string when both are empty.\<close>

definition FJoin :: "string \<Rightarrow> string \<Rightarrow> string" where
  "FJoin a b = (if a \<noteq> [] then Clean (a @ ''/'' @ b) else if b \<noteq> [] then Clean b else [])"

definition Dir :: "string \<Rightarrow> string" where
  "Dir path = Clean (rev (dropWhile (\<lambda>c. c \<noteq> slash) (rev path)))"

text \<open>\<^verbatim>\<open>filepath.Abs\<close>; \<open>wd\<close> is the working directory of the process.\<close>

definition Abs :: "string \<Rightarrow> string \<Rightarrow> string" where
  "Abs wd path = (if IsAbs path then Clean path else FJoin wd path)"

section \<open>Facts on cleaning\<close>

text \<open>A component that names a directory entry, as opposed to the empty one, \<^verbatim>\<open>.\<close> and \<^verbatim>\<open>..\<close>.\<close>

definition plain_comp :: "string \<Rightarrow> bool" where
  "plain_comp c = (c \<noteq> [] \<and> c \<noteq> ''.'' \<and> c \<noteq> ''..'' \<and> slash \<notin> set c)"

text \<open>A path that never steps upwards.\<close>

definition no_dotdot :: "string \<Rightarrow> bool" where
  "no_dotdot path = (''..'' \<notin> set (Split path slash))"

lemma clean_comps_rooted_dotdot:
  "rooted \<Longrightarrow> ''..'' \<notin> set acc \<Longrightarrow> ''..'' \<notin> set (clean_comps rooted acc cs)"
  by (induction rooted acc cs rule: clean_comps.induct) (auto split: list.splits)

lemma clean_comps_set:
  "set (clean_comps rooted acc cs) \<subseteq> set acc \<union> {c \<in> set cs. c \<noteq> [] \<and> c \<noteq> ''.''}"
proof (induction rooted acc cs rule: clean_comps.induct)
  case (2 rooted acc c cs)
  then show ?case by (cases acc) (auto split: if_splits)
qed simp

lemma clean_comps_acc:
  "''..'' \<notin> set cs \<Longrightarrow>
   clean_comps rooted acc cs = rev acc @ filter (\<lambda>c. c \<noteq> [] \<and> c \<noteq> ''.'') cs"
  by (induction cs arbitrary: acc) auto

lemma clean_comps_append:
  "clean_comps rooted acc (cs @ ds) = clean_comps rooted (rev (clean_comps rooted acc cs)) ds"
  by (induction rooted acc cs rule: clean_comps.induct) (auto split: list.splits)

lemma comps_plain:
  assumes "IsAbs path"
  shows "\<forall>c \<in> set (comps path). plain_comp c"
proof
  fix c assume c: "c \<in> set (comps path)"
  have "''..'' \<notin> set (comps path)"
    using assms by (simp add: comps_def clean_comps_rooted_dotdot)
  moreover have "c \<in> set (Split path slash)" "c \<noteq> []" "c \<noteq> ''.''"
    using c clean_comps_set [of "IsAbs path" "[]" "Split path slash"] by (auto simp: comps_def)
  ultimately show "plain_comp c"
    using c Split_parts_no_sep by (auto simp: plain_comp_def)
qed

lemma clean_comps_plain:
  "\<forall>c \<in> set cs. plain_comp c \<Longrightarrow> clean_comps rooted acc cs = rev acc @ cs"
  by (induction cs arbitrary: acc) (auto simp: plain_comp_def)

lemma IsAbs_path_of [simp]: "IsAbs (path_of True cs)"
  by (simp add: IsAbs_def path_of_def)

lemma comps_path_of:
  assumes "\<forall>c \<in> set cs. plain_comp c"
  shows "comps (path_of True cs) = cs"
proof (cases "cs = []")
  case True
  then show ?thesis by (simp add: comps_def path_of_def IsAbs_def)
next
  case False
  then have "Split (path_of True cs) slash = [] # cs"
    using assms by (simp add: path_of_def plain_comp_def Split_Join)
  then show ?thesis
    using assms by (simp add: comps_def clean_comps_plain)
qed

lemma IsAbs_Clean [simp]: "IsAbs path \<Longrightarrow> IsAbs (Clean path)"
  by (simp add: Clean_def)

lemma IsAbs_not_Nil: "IsAbs a \<Longrightarrow> a \<noteq> []"
  by (auto simp: IsAbs_def)

lemma comps_Clean: "IsAbs path \<Longrightarrow> comps (Clean path) = comps path"
  by (simp add: Clean_def comps_path_of comps_plain)

lemma Clean_idem: "IsAbs path \<Longrightarrow> Clean (Clean path) = Clean path"
  by (simp add: Clean_def [of "Clean path"] comps_Clean) (simp add: Clean_def)

lemma IsAbs_append: "IsAbs a \<Longrightarrow> IsAbs (a @ b)"
  by (auto simp: IsAbs_def HasPrefix_iff)

lemma comps_append_slash:
  assumes "IsAbs a"
  shows "comps (a @ slash # b) = clean_comps True (rev (comps a)) (Split b slash)"
  using assms Split_append [of a slash b]
  by (simp add: comps_def IsAbs_append clean_comps_append)

lemma IsAbs_FJoin: "IsAbs a \<Longrightarrow> IsAbs (FJoin a b)"
  by (simp add: FJoin_def IsAbs_append IsAbs_not_Nil)

lemma comps_FJoin:
  assumes "IsAbs a"
  shows "comps (FJoin a b) = clean_comps True (rev (comps a)) (Split b slash)"
  using assms by (simp add: FJoin_def IsAbs_not_Nil comps_Clean IsAbs_append comps_append_slash)

text \<open>Joining a path that never steps upwards stays below the base.\<close>

lemma comps_FJoin_no_dotdot:
  assumes "IsAbs a" "no_dotdot b"
  shows "comps (FJoin a b) = comps a @ filter (\<lambda>c. c \<noteq> [] \<and> c \<noteq> ''.'') (Split b slash)"
  using assms by (simp add: comps_FJoin no_dotdot_def clean_comps_acc)

lemma comps_FJoin_plain:
  assumes "IsAbs a" "plain_comp b"
  shows "comps (FJoin a b) = comps a @ [b]"
  using assms by (simp add: comps_FJoin plain_comp_def Split_no_sep)

lemma FJoin_path_of: "IsAbs a \<Longrightarrow> FJoin a b = path_of True (comps (FJoin a b))"
  by (simp add: FJoin_def IsAbs_not_Nil comps_Clean IsAbs_append) (simp add: Clean_def IsAbs_append)

lemma path_of_inj:
  "\<forall>c \<in> set cs. plain_comp c \<Longrightarrow> \<forall>c \<in> set ds. plain_comp c \<Longrightarrow>
   path_of True cs = path_of True ds \<longleftrightarrow> cs = ds"
  by (metis comps_path_of)

end
