(* ===== verification/Driver.thy ===== *)
theory Driver
  imports CSICommon VolumeLock TimedCache Platform GoPath
begin

text \<open>
  The driver object (\<^verbatim>\<open>pkg/smb/smb.go\<close>): its options, its fields, how it is built and how it
  announces its capabilities, the Kubernetes configuration and the secrets it reads, the identity
  service (\<^verbatim>\<open>identityserver.go\<close>), and the state on which the request handlers of the node and the
  controller service work.
\<close>

section \<open>The driver\<close>

datatype UsageUnit = BYTES | INODES

record VolumeUsage =
  u_Unit :: UsageUnit
  u_Available :: "64 word"
  u_Total :: "64 word"
  u_Used :: "64 word"

record NodeGetVolumeStatsResponse =
  Usage :: "VolumeUsage list"

text \<open>
  The field \<^verbatim>\<open>kubeClient\<close> is an interface: it may be nil, hold a nil pointer (which is not equal to
  nil), or hold a client.
\<close>

datatype KubeClient = KubeNil | KubeNilPointer | KubeClientset

record DriverOptions =
  o_NodeID :: string
  o_DriverName :: string
  o_EnableGetVolumeStats :: bool
  o_RemoveSMBMappingDuringUnmount :: bool
  o_WorkingMountDir :: string
  o_VolStatsCacheExpireInMinutes :: "64 word"
  o_Krb5CacheDirectory :: string
  o_Krb5Prefix :: string
  o_DefaultOnDeletePolicy :: string
  o_RemoveArchivedVolumePath :: bool
  o_EnableWindowsHostProcess :: bool
  o_Kubeconfig :: string

record Driver = CSIDriver +
  volumeLocks :: VolumeLock.volumeLocks
  workingMountDir :: string
  enableGetVolumeStats :: bool
  volStatsCache :: "NodeGetVolumeStatsResponse TimedCache"
  volDeletionCache :: "string TimedCache"
  removeSMBMappingDuringUnmount :: bool
  krb5CacheDirectory :: string
  krb5Prefix :: string
  defaultOnDeletePolicy :: string
  removeArchivedVolumePath :: bool
  enableWindowsHostProcess :: bool
  kubeconfig :: string
  kubeClient :: KubeClient

abbreviation DefaultDriverName :: string where "DefaultDriverName \<equiv> ''smb.csi.k8s.io''"
abbreviation DefaultKrb5CacheDirectory :: string where
  "DefaultKrb5CacheDirectory \<equiv> ''/var/lib/kubelet/kerberos/''"
abbreviation DefaultKrb5CCName :: string where "DefaultKrb5CCName \<equiv> ''krb5cc_''"

section \<open>The Kubernetes configuration\<close>

record RestConfig =
  rc_Host :: string
  rc_CAFile :: string
  rc_BearerToken :: string
  rc_BearerTokenFile :: string

text \<open>
  What the configuration is built from: the environment variables, the files, and the functions
  of \<^verbatim>\<open>client-go\<close>.
\<close>

record kube_env =
  Getenv :: "string \<Rightarrow> string"
  ReadFile :: "string \<Rightarrow> error + string"
  certutil_NewPool :: "string \<Rightarrow> error option"
  BuildConfigFromFlags :: "string \<Rightarrow> error + RestConfig"
  NewForConfig :: "RestConfig \<Rightarrow> error option"

definition JoinHostPort :: "string \<Rightarrow> string \<Rightarrow> string" where
  "JoinHostPort host port =
     (if CHR '':'' \<in> set host then ''['' @ host @ '']:'' @ port else host @ '':'' @ port)"

definition inClusterConfig :: "kube_env \<Rightarrow> bool \<Rightarrow> error + RestConfig" where
  "inClusterConfig env hostProcess =
     (let tokenFile = ''/var/run/secrets/kubernetes.io/serviceaccount/token'';
          rootCAFile = ''/var/run/secrets/kubernetes.io/serviceaccount/ca.crt'';
          containerSandboxMountPath = Getenv env ''CONTAINER_SANDBOX_MOUNT_POINT''
      in if hostProcess \<and> containerSandboxMountPath = ''''
         then Inl (Errorf ''unable to load in-cluster configuration, containerSandboxMountPath must be defined'' None)
         else
           let tokenFile = (if hostProcess then FJoin containerSandboxMountPath tokenFile else tokenFile);
               rootCAFile = (if hostProcess then FJoin containerSandboxMountPath rootCAFile else rootCAFile);
               host = Getenv env ''KUBERNETES_SERVICE_HOST'';
               port = Getenv env ''KUBERNETES_SERVICE_PORT''
           in if host = '''' \<or> port = '''' then Inl (Errorf ''ErrNotInCluster'' None)
              else (case ReadFile env tokenFile of
                      Inl err \<Rightarrow> Inl err
                    | Inr token \<Rightarrow>
                        Inr \<lparr>rc_Host = ''https://'' @ JoinHostPort host port,
                             rc_CAFile = (case certutil_NewPool env rootCAFile of None \<Rightarrow> rootCAFile | Some _ \<Rightarrow> ''''),
                             rc_BearerToken = token, rc_BearerTokenFile = tokenFile\<rparr>))"

definition getKubeConfig :: "kube_env \<Rightarrow> string \<Rightarrow> bool \<Rightarrow> error + RestConfig" where
  "getKubeConfig env path hostProcess =
     (if path \<noteq> '''' then BuildConfigFromFlags env path
      else inClusterConfig env hostProcess)"

section \<open>Building the driver\<close>

abbreviation driverVersion :: string where "driverVersion \<equiv> ''N/A''"

text \<open>A minute in nanoseconds; a \<^verbatim>\<open>time.Duration\<close> is a 64-bit integer, and the product wraps.\<close>

abbreviation Minute :: "64 word" where "Minute \<equiv> 60000000000"

text \<open>
  The options as \<^verbatim>\<open>NewDriver\<close> leaves them: through its pointer it writes the default of ten minutes
  back into the caller's options.
\<close>

definition with_default_expire :: "DriverOptions \<Rightarrow> DriverOptions" where
  "with_default_expire options =
     (if sint (o_VolStatsCacheExpireInMinutes options) \<le> 0
      then options\<lparr>o_VolStatsCacheExpireInMinutes := 10\<rparr> else options)"

lemma with_default_expire_minutes [simp]:
  "o_VolStatsCacheExpireInMinutes (with_default_expire options) =
     (if sint (o_VolStatsCacheExpireInMinutes options) \<le> 0 then 10 else o_VolStatsCacheExpireInMinutes options)"
  by (simp add: with_default_expire_def)

definition NewDriver :: "kube_env \<Rightarrow> DriverOptions \<Rightarrow> Driver" where
  "NewDriver env options =
     (let expire = o_VolStatsCacheExpireInMinutes (with_default_expire options)
      in \<lparr>Name = o_DriverName options,
          NodeID = o_NodeID options,
          Version = driverVersion,
          Cap = [], VC = [], NSCap = [],
          volumeLocks = newVolumeLocks,
          workingMountDir = o_WorkingMountDir options,
          enableGetVolumeStats = o_EnableGetVolumeStats options,
          volStatsCache = NewTimedCache (sint (expire * Minute)),
          volDeletionCache = NewTimedCache (sint Minute),
          removeSMBMappingDuringUnmount = o_RemoveSMBMappingDuringUnmount options,
          krb5CacheDirectory =
            (if o_Krb5CacheDirectory options = '''' then DefaultKrb5CacheDirectory
             else o_Krb5CacheDirectory options),
          krb5Prefix = (if o_Krb5Prefix options = '''' then DefaultKrb5CCName else o_Krb5Prefix options),
          defaultOnDeletePolicy = '''',
          removeArchivedVolumePath = o_RemoveArchivedVolumePath options,
          enableWindowsHostProcess = o_EnableWindowsHostProcess options,
          kubeconfig = o_Kubeconfig options,
          kubeClient =
            (case getKubeConfig env (o_Kubeconfig options) (o_EnableWindowsHostProcess options) of
               Inl _ \<Rightarrow> KubeNil
             | Inr cfg \<Rightarrow> (case NewForConfig env cfg of None \<Rightarrow> KubeClientset | Some _ \<Rightarrow> KubeNilPointer))\<rparr>)"

text \<open>
  The part of \<^verbatim>\<open>Run\<close> that changes the driver: it announces the capabilities. The rest starts the
  gRPC server and waits for it.
\<close>

definition Run :: "Driver \<Rightarrow> Driver" where
  "Run d =
     (let d = AddControllerServiceCapabilities
                [CREATE_DELETE_VOLUME, CS_SINGLE_NODE_MULTI_WRITER, CLONE_VOLUME, EXPAND_VOLUME] d;
          d = snd (AddVolumeCapabilityAccessModes
                [SINGLE_NODE_WRITER, SINGLE_NODE_READER_ONLY, SINGLE_NODE_SINGLE_WRITER,
                 SINGLE_NODE_MULTI_WRITER, MULTI_NODE_READER_ONLY, MULTI_NODE_SINGLE_WRITER,
                 MULTI_NODE_MULTI_WRITER] d);
          nodeCap = [STAGE_UNSTAGE_VOLUME, NS_SINGLE_NODE_MULTI_WRITER, VOLUME_MOUNT_GROUP] @
                    (if enableGetVolumeStats d then [GET_VOLUME_STATS] else [])
      in AddNodeServiceCapabilities nodeCap d)"

section \<open>The identity service\<close>

definition GetPluginInfo :: "Driver \<Rightarrow> error + string \<times> string" where
  "GetPluginInfo f =
     (if Name f = '''' then Inl (Status Unavailable ''Driver name not configured'' None)
      else if Version f = '''' then Inl (Status Unavailable ''Driver is missing version'' None)
      else Inr (Name f, Version f))"

definition Probe :: "Driver \<Rightarrow> error + bool" where
  "Probe f = Inr True"

datatype PluginCapability = CONTROLLER_SERVICE

definition GetPluginCapabilities :: "Driver \<Rightarrow> error + PluginCapability list" where
  "GetPluginCapabilities f = Inr [CONTROLLER_SERVICE]"

section \<open>Properties of the driver object\<close>

text \<open>
  The capabilities that are announced are the ones requests are checked against: after
  \<^verbatim>\<open>Run\<close>, exactly the announced controller and node capabilities are accepted, and
  \<^verbatim>\<open>GET_VOLUME_STATS\<close> is one of them exactly if it is enabled.
\<close>

lemma Run_capabilities:
  "(ValidateControllerServiceRequest (Run d) c = None \<longleftrightarrow>
      c \<in> {CS_UNKNOWN, CREATE_DELETE_VOLUME, CS_SINGLE_NODE_MULTI_WRITER, CLONE_VOLUME, EXPAND_VOLUME}) \<and>
   (ValidateNodeServiceRequest (Run d) n = None \<longleftrightarrow>
      n \<in> {NS_UNKNOWN, STAGE_UNSTAGE_VOLUME, NS_SINGLE_NODE_MULTI_WRITER, VOLUME_MOUNT_GROUP} \<or>
      n = GET_VOLUME_STATS \<and> enableGetVolumeStats d) \<and>
   volumeLocks (Run d) = volumeLocks d \<and> volDeletionCache (Run d) = volDeletionCache d"
  by (auto simp: Run_def Let_def ValidateControllerServiceRequest_def ValidateNodeServiceRequest_def
      AddControllerServiceCapabilities_def AddNodeServiceCapabilities_def AddVolumeCapabilityAccessModes_def
      NewControllerServiceCapability_def NewNodeServiceCapability_def list_ex_iff)

text \<open>
  The option \<^verbatim>\<open>DefaultOnDeletePolicy\<close> never reaches the driver: two sets of options that
  differ in it alone give the same driver, whose policy is the empty string.
\<close>

lemma NewDriver_drops_onDelete_policy:
  "NewDriver env (options\<lparr>o_DefaultOnDeletePolicy := p\<rparr>) = NewDriver env options \<and>
   defaultOnDeletePolicy (NewDriver env options) = ''''"
  by (simp add: NewDriver_def)

lemma sint_times_Minute:
  fixes x :: "64 word"
  assumes "0 < sint x" "sint x \<le> 153722867"
  shows "sint (x * Minute) = sint x * 60000000000"
proof -
  have "sint (x * Minute) = signed_take_bit 63 (sint x * 60000000000)"
    by (simp add: sint_word_ariths signed_take_bit_mult)
  also have "\<dots> = sint x * 60000000000"
    using assms by (intro signed_take_bit_int_eq_self) auto
  finally show ?thesis .
qed

text \<open>
  C33. The time to live of the statistics cache is the configured number of minutes whenever that
  fits a \<^verbatim>\<open>time.Duration\<close>, and ten minutes for a number that is not positive.
\<close>

theorem NewDriver_cache_ttl:
  assumes "m = o_VolStatsCacheExpireInMinutes options" "sint m \<le> 153722867"
  shows "TTL (volStatsCache (NewDriver env options)) = (if sint m \<le> 0 then 10 else sint m) * 60000000000"
  using assms sint_times_Minute [of m]
  by (simp add: NewDriver_def NewTimedCache_def)

theorem NewDriver_cache_ttl_witness:
  "TTL (volStatsCache (NewDriver \<lparr>Getenv = (\<lambda>_. []), ReadFile = (\<lambda>_. Inl (Errno ENOENT)),
      certutil_NewPool = (\<lambda>_. None), BuildConfigFromFlags = (\<lambda>_. Inl (Errno ENOENT)),
      NewForConfig = (\<lambda>_. None)\<rparr> \<lparr>o_NodeID = ''n'', o_DriverName = ''smb'', o_EnableGetVolumeStats = True,
      o_RemoveSMBMappingDuringUnmount = True, o_WorkingMountDir = ''/tmp'', o_VolStatsCacheExpireInMinutes = 3,
      o_Krb5CacheDirectory = '''', o_Krb5Prefix = '''', o_DefaultOnDeletePolicy = '''',
      o_RemoveArchivedVolumePath = True, o_EnableWindowsHostProcess = False, o_Kubeconfig = ''''\<rparr>)) = 180000000000"
  by (subst NewDriver_cache_ttl [of 3]) simp_all

section \<open>The state of the request handlers\<close>

text \<open>
  A mount that was started in the background and had not ended at the timeout: the arguments of
  its call of \<^verbatim>\<open>Mount\<close>.
\<close>

record bgmount =
  bg_source :: string
  bg_target :: string
  bg_fsType :: string
  bg_options :: "string list"
  bg_sensitive :: "string list"
  bg_volumeID :: string

record 'w st =
  drv :: Driver
  world :: 'w
  pending :: "bgmount list"

text \<open>A function on the world, and an update of the locks, as functions on the state.\<close>

definition on_world :: "('w \<Rightarrow> 'r \<times> 'w) \<Rightarrow> 'w st \<Rightarrow> 'r \<times> 'w st" where
  "on_world f s = (case f (world s) of (r, w) \<Rightarrow> (r, s\<lparr>world := w\<rparr>))"

definition upd_drv :: "(Driver \<Rightarrow> Driver) \<Rightarrow> 'w st \<Rightarrow> unit \<times> 'w st" where
  "upd_drv f s = ((), s\<lparr>drv := f (drv s)\<rparr>)"

abbreviation volumeOperationAlreadyExistsFmt :: string where
  "volumeOperationAlreadyExistsFmt \<equiv> ''An operation with the given Volume ID %s already exists''"

text \<open>
  The pattern of every handler that locks:
  \<^verbatim>\<open>if acquired := d.volumeLocks.TryAcquire(key); !acquired { return Aborted }; defer d.volumeLocks.Release(key)\<close>.
\<close>

definition release_lock :: "string \<Rightarrow> 'w st \<Rightarrow> unit \<times> 'w st" where
  "release_lock key = upd_drv (volumeLocks_update (Release key))"

definition with_lock :: "string \<Rightarrow> ('w st \<Rightarrow> (error + 'r) \<times> 'w st) \<Rightarrow> 'w st \<Rightarrow> (error + 'r) \<times> 'w st" where
  "with_lock key body s =
     (case TryAcquire key (volumeLocks (drv s)) of
        (False, _) \<Rightarrow> (Inl (Status Aborted volumeOperationAlreadyExistsFmt None), s)
      | (True, vl) \<Rightarrow>
          deferred (release_lock key) body (s\<lparr>drv := (drv s)\<lparr>volumeLocks := vl\<rparr>\<rparr>))"

section \<open>Effects on the state\<close>

text \<open>
  What no handler changes: the set of held keys and the configuration, which is every field of
  the driver but the locks and the two caches.
\<close>

definition locked :: "'w st \<Rightarrow> string set" where
  "locked s = held_keys (volumeLocks (drv s))"

definition config_of :: "Driver \<Rightarrow> Driver" where
  "config_of d = d\<lparr>volumeLocks := newVolumeLocks, volStatsCache := NewTimedCache 0,
     volDeletionCache := NewTimedCache 0\<rparr>"

definition config :: "'w st \<Rightarrow> Driver" where
  "config s = config_of (drv s)"

lemma config_of_upd [simp]:
  "config_of (d\<lparr>volumeLocks := v\<rparr>) = config_of d"
  "config_of (d\<lparr>volStatsCache := t\<rparr>) = config_of d"
  "config_of (d\<lparr>volDeletionCache := t'\<rparr>) = config_of d"
  "config_of (volumeLocks_update fv d) = config_of d"
  "config_of (volStatsCache_update ft d) = config_of d"
  "config_of (volDeletionCache_update ft' d) = config_of d"
  by (simp_all add: config_of_def)

definition driver_kept :: "'w st \<Rightarrow> 'w st \<Rightarrow> bool" where
  "driver_kept s s' \<longleftrightarrow> locked s' = locked s \<and> config s' = config s"

interpretation drv_eff: effect driver_kept
  by unfold_locales (simp_all add: driver_kept_def)

lemma driver_kept_on_world: "keeps driver_kept (on_world f)"
  by (simp add: keeps_def on_world_def driver_kept_def locked_def config_def split: prod.splits)

lemma driver_kept_with_lock:
  assumes "keeps driver_kept body"
  shows "keeps driver_kept (with_lock key body)"
proof (rule keepsI)
  fix s
  show "driver_kept s (snd (with_lock key body s))"
  proof (cases "TryAcquire key (volumeLocks (drv s))")
    case (Pair b v)
    show ?thesis
    proof (cases b)
      case False
      then show ?thesis using Pair by (simp add: with_lock_def driver_kept_def)
    next
      case True
      let ?s1 = "s\<lparr>drv := (drv s)\<lparr>volumeLocks := v\<rparr>\<rparr>"
      obtain r s2 where b: "body ?s1 = (r, s2)" by fastforce
      have k: "driver_kept ?s1 s2" using keepsD [OF assms b] .
      have "TryAcquire key (volumeLocks (drv s)) = (True, v)" using Pair True by simp
      then have "held_keys (Release key (volumeLocks (drv s2))) = locked s"
        unfolding locked_def by (rule vl.bracket) (use k in \<open>simp add: driver_kept_def locked_def\<close>)
      then show ?thesis
        using Pair True b k
        by (simp add: with_lock_def deferred_def bind_st_def reply_def release_lock_def upd_drv_def
            driver_kept_def locked_def config_def)
    qed
  qed
qed

lemma with_lock_busy:
  "key \<in> locked s \<Longrightarrow> with_lock key body s = (Inl (Status Aborted volumeOperationAlreadyExistsFmt None), s)"
  using vl.acquire_held [of key "volumeLocks (drv s)"] by (simp add: with_lock_def locked_def)

lemma with_lock_free:
  assumes "key \<notin> locked s"
  obtains s1 where "with_lock key body s = deferred (release_lock key) body s1" "world s1 = world s"
    "config s1 = config s" "pending s1 = pending s" "locked s1 = insert key (locked s)"
proof -
  obtain v where v: "TryAcquire key (volumeLocks (drv s)) = (True, v)"
      "held_keys v = insert key (held_keys (volumeLocks (drv s)))"
    using assms vl.acquire_free [of key "volumeLocks (drv s)"] by (auto simp: locked_def)
  show ?thesis
    by (rule that [of "s\<lparr>drv := (drv s)\<lparr>volumeLocks := v\<rparr>\<rparr>"])
       (simp_all add: with_lock_def locked_def config_def v)
qed

lemma ensures_deferred: "ensures (\<lambda>r _. P r) body \<Longrightarrow> ensures (\<lambda>r _. P r) (deferred c body)"
  by (auto simp: ensures_def deferred_def bind_st_def reply_def split: prod.splits) (metis fst_conv)

text \<open>What a body ensures of the world, the lock around it ensures too.\<close>

lemma ensures_with_lock:
  assumes "ensures (\<lambda>r s. r = Inr x \<longrightarrow> Q (world s)) body"
  shows "ensures (\<lambda>r s. r = Inr x \<longrightarrow> Q (world s)) (with_lock key body)"
  using assms
  by (auto simp: ensures_def with_lock_def deferred_def bind_st_def reply_def release_lock_def upd_drv_def
      split: prod.splits bool.splits) (metis fst_conv snd_conv)

lemma ensures_on_world:
  "ensures (\<lambda>r w. P r \<longrightarrow> Q w) f \<Longrightarrow> ensures (\<lambda>r s. P r \<longrightarrow> Q (world s)) (on_world f)"
  by (auto simp: ensures_def on_world_def split: prod.splits) (metis fst_conv snd_conv)

text \<open>
  A relation on worlds gives one on the states of a driver with a given configuration: the
  configuration stays, the worlds are related, and every mount left in the background satisfies a
  predicate.
\<close>

definition st_rel ::
  "Driver \<Rightarrow> ('w \<Rightarrow> 'w \<Rightarrow> bool) \<Rightarrow> (bgmount \<Rightarrow> bool) \<Rightarrow> 'w st \<Rightarrow> 'w st \<Rightarrow> bool" where
  "st_rel c R P s s' \<longleftrightarrow>
     (config s = c \<longrightarrow> config s' = c \<and> R (world s) (world s') \<and>
        (\<exists>bs. pending s' = pending s @ bs \<and> list_all P bs))"

lemma st_rel_locks [simp]:
  "st_rel c R P (s\<lparr>drv := (drv s)\<lparr>volumeLocks := v\<rparr>\<rparr>) t = st_rel c R P s t"
  by (simp add: st_rel_def config_def)

lemma config_fields:
  assumes "config s = c"
  shows "krb5CacheDirectory (drv s) = krb5CacheDirectory c" "krb5Prefix (drv s) = krb5Prefix c"
    "workingMountDir (drv s) = workingMountDir c" "kubeClient (drv s) = kubeClient c"
    "defaultOnDeletePolicy (drv s) = defaultOnDeletePolicy c"
    "removeArchivedVolumePath (drv s) = removeArchivedVolumePath c"
  using assms by (auto simp: config_def config_of_def)

lemma keeps_asks_config:
  "(\<And>x. config x = c \<Longrightarrow> keeps (st_rel c R P) (f x)) \<Longrightarrow> keeps (st_rel c R P) (asks f)"
  by (auto simp: keeps_def asks_def st_rel_def)

text \<open>The environment of the handlers: an environment of the functions on worlds, seen from the states.\<close>

locale handler_env = effect_os R os allowed for R :: "'w \<Rightarrow> 'w \<Rightarrow> bool" and os allowed

sublocale handler_env \<subseteq> st: effect "st_rel c R P" for c P
proof
  show "st_rel c R P s s" for s by (simp add: st_rel_def R_refl)
  show "st_rel c R P s t \<Longrightarrow> st_rel c R P t u \<Longrightarrow> st_rel c R P s u" for s t u
    using R_trans by (fastforce simp: st_rel_def)
qed

context handler_env
begin

lemma keeps_on_world: "keeps R f \<Longrightarrow> keeps (st_rel c R P) (on_world f)"
  by (auto simp: keeps_def on_world_def st_rel_def config_def split: prod.splits) (metis snd_conv)

lemma keeps_upd_drv:
  "(\<And>d. config_of (f d) = config_of d) \<Longrightarrow> keeps (st_rel c R P) (upd_drv f)"
  by (simp add: keeps_def upd_drv_def st_rel_def R_refl config_def)

lemma keeps_with_lock:
  assumes "keeps (st_rel c R P) body"
  shows "keeps (st_rel c R P) (with_lock key body)"
proof (rule keepsI)
  fix s
  have "keeps (st_rel c R P) (deferred (release_lock key) body)"
    unfolding release_lock_def
    by (intro st.keeps_deferred keeps_upd_drv assms) simp
  then have "st_rel c R P (s\<lparr>drv := (drv s)\<lparr>volumeLocks := v\<rparr>\<rparr>)
      (snd (deferred (release_lock key) body (s\<lparr>drv := (drv s)\<lparr>volumeLocks := v\<rparr>\<rparr>)))" for v
    unfolding keeps_def by (rule spec)
  then show "st_rel c R P s (snd (with_lock key body s))"
    by (cases "TryAcquire key (volumeLocks (drv s))") (simp add: with_lock_def st.R_refl split: bool.splits)
qed

lemmas keeps_state = keeps_on_world keeps_with_lock keeps_asks_config

end

interpretation logged_env: handler_env "logs allowed" "log_os os" allowed for allowed and os :: "'w os"
  by unfold_locales

end
