(* ===== verification/Base64.thy ===== *)
theory Base64
  imports GoStrings "HOL-Library.Word"
begin

text \<open>
  \<^verbatim>\<open>base64.StdEncoding\<close> of Go's \<^verbatim>\<open>encoding/base64\<close>: the standard alphabet, padding with \<^verbatim>\<open>=\<close>.
  The decoder follows \<^verbatim>\<open>DecodeString\<close>: carriage returns and newlines are ignored, padding is
  required and nothing may follow it, and the unused low bits of the last digit are not checked
  (the encoding is not \<^verbatim>\<open>Strict\<close>).
\<close>

section \<open>The alphabet\<close>

definition encodeStd :: string where
  "encodeStd = ''ABCDEFGHIJKLMNOPQRSTUVWXYZabcdefghijklmnopqrstuvwxyz0123456789+/''"

definition b64_char :: "nat \<Rightarrow> char" where
  "b64_char n = encodeStd ! n"

text \<open>The decoding table, filled from the alphabet.\<close>

definition b64_digit :: "char \<Rightarrow> nat option" where
  "b64_digit c = map_of (zip encodeStd [0..<64]) c"

abbreviation pad :: char where
  "pad \<equiv> CHR ''=''"

section \<open>Encoding\<close>

text \<open>Three bytes become four digits; one or two remaining bytes are padded.\<close>

fun encode :: "string \<Rightarrow> string" where
  "encode [] = []"
| "encode [a] =
     (let n = of_char a :: nat in
      [b64_char (n div 4), b64_char ((n mod 4) * 16), pad, pad])"
| "encode [a, b] =
     (let n = of_char a :: nat; m = of_char b :: nat in
      [b64_char (n div 4), b64_char ((n mod 4) * 16 + m div 16), b64_char ((m mod 16) * 4), pad])"
| "encode (a # b # c # s) =
     (let n = of_char a :: nat; m = of_char b :: nat; k = of_char c :: nat in
      [b64_char (n div 4), b64_char ((n mod 4) * 16 + m div 16),
       b64_char ((m mod 16) * 4 + k div 64), b64_char (k mod 64)] @ encode s)"

section \<open>Decoding\<close>

text \<open>The groups of four characters, once the line breaks are dropped.\<close>

fun decode_quanta :: "string \<Rightarrow> string option" where
  "decode_quanta [] = Some []"
| "decode_quanta (a # b # c # d # s) =
     (case (b64_digit a, b64_digit b) of
        (Some x, Some y) \<Rightarrow>
          (if c = pad then
             (if d = pad \<and> s = [] then Some [char_of (x * 4 + y div 16)] else None)
           else (case b64_digit c of
             None \<Rightarrow> None
           | Some z \<Rightarrow>
               (if d = pad then
                  (if s = [] then Some [char_of (x * 4 + y div 16),
                                        char_of ((y mod 16) * 16 + z div 4)] else None)
                else (case (b64_digit d, decode_quanta s) of
                  (Some w, Some r) \<Rightarrow>
                    Some (char_of (x * 4 + y div 16) # char_of ((y mod 16) * 16 + z div 4)
                          # char_of ((z mod 4) * 64 + w) # r)
                | _ \<Rightarrow> None))))
      | _ \<Rightarrow> None)"
| "decode_quanta _ = None"

definition decode :: "string \<Rightarrow> string option" where
  "decode s = decode_quanta (filter (\<lambda>c. c \<noteq> CHR 0x0A \<and> c \<noteq> CHR 0x0D) s)"

section \<open>Decoding what was encoded\<close>

lemma encodeStd_facts:
  "length encodeStd = 64" "distinct encodeStd"
  "pad \<notin> set encodeStd" "CHR 0x0A \<notin> set encodeStd" "CHR 0x0D \<notin> set encodeStd"
  by (simp_all add: encodeStd_def)

lemma b64_digit_char: "n < 64 \<Longrightarrow> b64_digit (b64_char n) = Some n"
  by (simp add: b64_digit_def b64_char_def encodeStd_facts map_of_zip_nth)

lemma b64_char_in: "n < 64 \<Longrightarrow> b64_char n \<in> set encodeStd"
  by (simp add: b64_char_def encodeStd_facts)

lemma b64_char_ne: "n < 64 \<Longrightarrow> b64_char n \<noteq> pad \<and> b64_char n \<noteq> CHR 0x0A \<and> b64_char n \<noteq> CHR 0x0D"
  using b64_char_in encodeStd_facts by metis

lemma of_char_256: "(of_char c :: nat) < 256"
  using of_char_mod_256 [of c, where ?'a = nat] by (metis mod_less_divisor zero_less_numeral)

lemma div_mod_add:
  fixes a b q :: nat
  assumes "b < q"
  shows "(a * q + b) div q = a" "(a * q + b) mod q = b"
  using assms by simp_all

lemma split_bits:
  fixes n m k :: nat
  assumes "n < 256" "m < 256" "k < 256"
  shows "n div 4 < 64" "(n mod 4) * 16 + m div 16 < 64" "(m mod 16) * 4 + k div 64 < 64"
    "(n mod 4) * 16 < 64" "(m mod 16) * 4 < 64" "k mod 64 < 64"
    "n div 4 * 4 + ((n mod 4) * 16 + m div 16) div 16 = n"
    "((n mod 4) * 16 + m div 16) mod 16 * 16 + ((m mod 16) * 4 + k div 64) div 4 = m"
    "((m mod 16) * 4 + k div 64) mod 4 * 64 + k mod 64 = k"
    "((n mod 4) * 16 + m div 16) mod 16 * 16 + m mod 16 = m"
proof -
  have b: "n div 4 < 64" "m div 16 < 16" "k div 64 < 4" "n mod 4 < 4" "m mod 16 < 16"
    using assms by (simp_all add: less_mult_imp_div_less)
  then show "n div 4 < 64" "(n mod 4) * 16 + m div 16 < 64" "(m mod 16) * 4 + k div 64 < 64"
    "(n mod 4) * 16 < 64" "(m mod 16) * 4 < 64" "k mod 64 < 64" by simp_all
  show "n div 4 * 4 + ((n mod 4) * 16 + m div 16) div 16 = n"
    "((n mod 4) * 16 + m div 16) mod 16 * 16 + ((m mod 16) * 4 + k div 64) div 4 = m"
    "((m mod 16) * 4 + k div 64) mod 4 * 64 + k mod 64 = k"
    "((n mod 4) * 16 + m div 16) mod 16 * 16 + m mod 16 = m"
    using b by (simp_all only: div_mod_add div_mult_mod_eq)
qed

lemmas byte_bits = split_bits [OF of_char_256 of_char_256 of_char_256]

lemma byte_high:
  "(of_char c :: nat) div 16 div 16 = 0" "(of_char c :: nat) div 16 mod 16 = of_char c div 16"
  "(of_char c :: nat) div 64 div 4 = 0" "(of_char c :: nat) div 64 mod 4 = of_char c div 64"
  using of_char_256 [of c] by (simp_all add: less_mult_imp_div_less div_mult2_eq [symmetric])

lemma decode_quanta_encode: "decode_quanta (encode s) = Some s"
proof (induction s rule: encode.induct)
  case (2 a)
  then show ?case
    by (simp add: Let_def b64_digit_char b64_char_ne byte_bits byte_high)
next
  case (3 a b)
  then show ?case
    by (simp add: Let_def b64_digit_char b64_char_ne byte_bits byte_high)
next
  case (4 a b c s)
  then show ?case
    by (simp add: Let_def b64_digit_char b64_char_ne byte_bits byte_high)
qed simp

lemma encode_no_newline: "filter (\<lambda>c. c \<noteq> CHR 0x0A \<and> c \<noteq> CHR 0x0D) (encode s) = encode s"
proof (induction s rule: encode.induct)
  case (2 a)
  then show ?case
    by (simp add: Let_def b64_char_ne byte_bits byte_high)
next
  case (3 a b)
  then show ?case
    by (simp add: Let_def b64_char_ne byte_bits byte_high)
next
  case (4 a b c s)
  then show ?case
    by (simp add: Let_def b64_char_ne byte_bits byte_high)
qed simp

lemma decode_encode: "decode (encode s) = Some s"
  by (simp add: decode_def encode_no_newline decode_quanta_encode)

interpretation std_encoding: codec encode decode "\<lambda>_. True"
  by unfold_locales (simp add: decode_encode)

section \<open>The characters of an encoded string\<close>

lemma set_encode: "set (encode s) \<subseteq> insert pad (set encodeStd)"
  by (induction s rule: encode.induct) (simp_all add: Let_def b64_char_in byte_bits)

end
