(* ===== verification/GoConv.thy ===== *)
theory GoConv
  imports GoStrings "HOL-Library.Word"
begin

text \<open>
  Go's \<^verbatim>\<open>strconv.ParseInt(s, 0, 0)\<close> and \<^verbatim>\<open>strconv.Atoi\<close>, and the verbs \<^verbatim>\<open>%o\<close> and \<^verbatim>\<open>%d\<close> of \<^verbatim>\<open>fmt\<close>.
  An \<^verbatim>\<open>int\<close> has 64 bits. Both parsers distinguish syntax errors and range errors; the driver
  does not, and the model returns \<open>None\<close> for either.
\<close>

unbundle bit_operations_syntax

section \<open>Digits\<close>

definition digit_of :: "char \<Rightarrow> nat option" where
  "digit_of c =
     (let n = (of_char c :: nat) in
      if 48 \<le> n \<and> n \<le> 57 then Some (n - 48)
      else if 97 \<le> n \<and> n \<le> 122 then Some (n - 97 + 10)
      else if 65 \<le> n \<and> n \<le> 90 then Some (n - 65 + 10)
      else None)"

definition digit_char :: "nat \<Rightarrow> char" where
  "digit_char d = char_of (48 + d)"

lemma digit_of_digit_char: "d < 10 \<Longrightarrow> digit_of (digit_char d) = Some d"
  by (simp add: digit_of_def digit_char_def of_char_of Let_def)

lemma digit_char_not: "d < 10 \<Longrightarrow> c \<in> set ''+-_bBoOxX#/$,='' \<Longrightarrow> digit_char d \<noteq> c"
proof -
  assume d: "d < 10" and c: "c \<in> set ''+-_bBoOxX#/$,=''"
  have "(of_char (digit_char d) :: nat) = 48 + d"
    using d by (simp add: digit_char_def of_char_of)
  moreover have "(of_char c :: nat) < 48 \<or> 57 < (of_char c :: nat)"
    using c by auto
  ultimately show ?thesis using d by auto
qed

section \<open>Parsing\<close>

text \<open>
  The loop of \<^verbatim>\<open>ParseUint\<close>. With \<open>us\<close> (the base was given as 0) underscores are skipped.
\<close>

fun parse_digits :: "bool \<Rightarrow> nat \<Rightarrow> nat \<Rightarrow> string \<Rightarrow> nat option" where
  "parse_digits us base n [] = Some n"
| "parse_digits us base n (c # s) =
     (if us \<and> c = CHR ''_'' then parse_digits us base n s
      else (case digit_of c of
              None \<Rightarrow> None
            | Some d \<Rightarrow> if base \<le> d then None else parse_digits us base (n * base + d) s))"

text \<open>\<^verbatim>\<open>underscoreOK\<close>: its variable \<^verbatim>\<open>saw\<close> is \<^verbatim>\<open>^\<close>, \<^verbatim>\<open>0\<close>, \<^verbatim>\<open>_\<close> or \<^verbatim>\<open>!\<close>.\<close>

fun underscore_loop :: "bool \<Rightarrow> char \<Rightarrow> string \<Rightarrow> bool" where
  "underscore_loop hex saw [] = (saw \<noteq> CHR ''_'')"
| "underscore_loop hex saw (c # s) =
     (if (case digit_of c of None \<Rightarrow> False | Some d \<Rightarrow> d < 10 \<or> hex \<and> d < 16)
      then underscore_loop hex (CHR ''0'') s
      else if c = CHR ''_'' then saw = CHR ''0'' \<and> underscore_loop hex (CHR ''_'') s
      else saw \<noteq> CHR ''_'' \<and> underscore_loop hex (CHR ''!'') s)"

definition underscoreOK :: "string \<Rightarrow> bool" where
  "underscoreOK s =
     (let s = (if s \<noteq> [] \<and> (hd s = CHR ''-'' \<or> hd s = CHR ''+'') then tl s else s) in
      if 2 \<le> length s \<and> hd s = CHR ''0'' \<and> lower_char (s ! 1) \<in> set ''box''
      then underscore_loop (lower_char (s ! 1) = CHR ''x'') (CHR ''0'') (drop 2 s)
      else underscore_loop False (CHR ''^'') s)"

text \<open>The base prefix that \<^verbatim>\<open>ParseUint\<close> recognises when the base is 0.\<close>

definition base_prefix :: "string \<Rightarrow> nat \<times> string" where
  "base_prefix s =
     (if s = [] \<or> hd s \<noteq> CHR ''0'' then (10, s)
      else if 3 \<le> length s \<and> lower_char (s ! 1) = CHR ''b'' then (2, drop 2 s)
      else if 3 \<le> length s \<and> lower_char (s ! 1) = CHR ''o'' then (8, drop 2 s)
      else if 3 \<le> length s \<and> lower_char (s ! 1) = CHR ''x'' then (16, drop 2 s)
      else (8, drop 1 s))"

definition ParseUint0 :: "string \<Rightarrow> nat option" where
  "ParseUint0 s =
     (if s = [] then None
      else (case base_prefix s of (base, ds) \<Rightarrow>
        (case parse_digits True base 0 ds of
           None \<Rightarrow> None
         | Some n \<Rightarrow> if 2 ^ 64 \<le> n then None
                    else if CHR ''_'' \<in> set ds \<and> \<not> underscoreOK s then None
                    else Some n)))"

definition sign :: "string \<Rightarrow> bool \<times> string" where
  "sign s = (case s of [] \<Rightarrow> (False, [])
             | c # t \<Rightarrow> if c = CHR ''+'' then (False, t) else if c = CHR ''-'' then (True, t)
                        else (False, s))"

text \<open>The range check of \<^verbatim>\<open>ParseInt\<close>, with \<^verbatim>\<open>cutoff\<close> the 63rd power of two.\<close>

definition int_range :: "bool \<Rightarrow> nat \<Rightarrow> int option" where
  "int_range neg un =
     (if \<not> neg \<and> 2 ^ 63 \<le> un then None
      else if neg \<and> 2 ^ 63 < un then None
      else Some (if neg then - int un else int un))"

definition ParseInt0 :: "string \<Rightarrow> int option" where
  "ParseInt0 s =
     (case sign s of (neg, t) \<Rightarrow>
       (case ParseUint0 t of None \<Rightarrow> None | Some un \<Rightarrow> int_range neg un))"

definition Atoi :: "string \<Rightarrow> int option" where
  "Atoi s =
     (case sign s of (neg, t) \<Rightarrow>
       if t = [] then None
       else (case parse_digits False 10 0 t of None \<Rightarrow> None | Some un \<Rightarrow> int_range neg un))"

text \<open>For evaluation the bounds are compared as integers, whose numerals are binary.\<close>

lemma int_range_code [code]:
  "int_range neg un =
     (let n = int un
      in if \<not> neg \<and> 9223372036854775808 \<le> n then None
         else if neg \<and> 9223372036854775808 < n then None
         else Some (if neg then - n else n))"
proof -
  have "(2 ^ 63 :: nat) = 9223372036854775808" by simp
  then show ?thesis by (simp add: int_range_def Let_def)
qed

lemma ParseUint0_code [code]:
  "ParseUint0 s =
     (if s = [] then None
      else (case base_prefix s of (base, ds) \<Rightarrow>
        (case parse_digits True base 0 ds of
           None \<Rightarrow> None
         | Some n \<Rightarrow> if 18446744073709551616 \<le> int n then None
                    else if CHR ''_'' \<in> set ds \<and> \<not> underscoreOK s then None
                    else Some n)))"
proof -
  have "(2 ^ 64 :: nat) = 18446744073709551616" by simp
  then show ?thesis by (auto simp: ParseUint0_def split: option.splits prod.splits)
qed

section \<open>Printing\<close>

function show_nat :: "nat \<Rightarrow> nat \<Rightarrow> string" where
  "show_nat base n =
     (if base < 2 \<or> n < base then [digit_char n]
      else show_nat base (n div base) @ [digit_char (n mod base)])"
  by pat_completeness auto
termination
  by (relation "measure snd") auto

declare show_nat.simps [simp del]

definition show_int :: "int \<Rightarrow> string" where
  "show_int i = (if i < 0 then CHR ''-'' # show_nat 10 (nat (- i)) else show_nat 10 (nat i))"

section \<open>Parsing what was printed\<close>

lemma parse_digits_append:
  "parse_digits us base n (s @ t) =
     (case parse_digits us base n s of None \<Rightarrow> None | Some m \<Rightarrow> parse_digits us base m t)"
  by (induction s arbitrary: n) (auto split: option.splits)

lemma show_nat_digits:
  assumes "2 \<le> base" "base \<le> 10"
  shows "\<forall>c \<in> set (show_nat base n). \<exists>d < base. c = digit_char d"
  using assms
proof (induction base n rule: show_nat.induct)
  case (1 base n)
  then have "\<exists>d < base. digit_char (n mod base) = digit_char d"
    by (intro exI [of _ "n mod base"]) simp
  then show ?case using 1 by (subst show_nat.simps) auto
qed

lemma show_nat_not_Nil [simp]: "show_nat base n \<noteq> []"
  by (subst show_nat.simps) auto

lemma show_nat_not:
  assumes "2 \<le> base" "base \<le> 10" "c \<in> set ''+-_bBoOxX#/$,=''"
  shows "c \<notin> set (show_nat base n)"
  using show_nat_digits [OF assms(1,2), of n] digit_char_not assms by fastforce

lemma parse_show_nat:
  assumes "2 \<le> base" "base \<le> 10"
  shows "parse_digits us base 0 (show_nat base n) = Some n"
  using assms
proof (induction base n rule: show_nat.induct)
  case (1 base n)
  have digit: "parse_digits us base m [digit_char d] = Some (m * base + d)"
    if "d < base" for m d
    using that 1 digit_of_digit_char [of d] digit_char_not [of d "CHR ''_''"] by simp
  show ?case
  proof (cases "n < base")
    case True
    then show ?thesis using digit [of n 0] by (subst show_nat.simps) simp
  next
    case False
    then have "parse_digits us base 0 (show_nat base (n div base)) = Some (n div base)"
      using 1 by simp
    then show ?thesis
      using False 1(2) digit [of "n mod base" "n div base"]
      by (subst show_nat.simps) (simp add: parse_digits_append)
  qed
qed

lemma sign_none: "s \<noteq> [] \<Longrightarrow> hd s \<notin> set ''+-'' \<Longrightarrow> sign s = (False, s)"
  by (cases s) (auto simp: sign_def)

lemma sign_show_nat: "2 \<le> base \<Longrightarrow> base \<le> 10 \<Longrightarrow> sign (show_nat base n) = (False, show_nat base n)"
proof -
  assume b: "2 \<le> base" "base \<le> 10"
  have "hd (show_nat base n) \<notin> set ''+-''"
    using show_nat_not [OF b, of "CHR ''+''" n] show_nat_not [OF b, of "CHR ''-''" n]
      hd_in_set [OF show_nat_not_Nil, of base n] by (auto simp del: hd_in_set)
  then show ?thesis by (simp add: sign_none)
qed

lemma Atoi_show_int:
  assumes "- (2 ^ 63) \<le> i" "i < 2 ^ 63"
  shows "Atoi (show_int i) = Some i"
proof (cases "i < 0")
  case True
  then have "sign (show_int i) = (True, show_nat 10 (nat (- i)))"
    by (simp add: show_int_def sign_def)
  then show ?thesis
    using True assms by (simp add: Atoi_def parse_show_nat int_range_def)
next
  case False
  then show ?thesis
    using assms by (simp add: show_int_def Atoi_def sign_show_nat parse_show_nat int_range_def)
qed

interpretation decimal: codec show_int Atoi "\<lambda>i. - (2 ^ 63) \<le> i \<and> i < 2 ^ 63"
  by unfold_locales (simp add: Atoi_show_int)

text \<open>An octal literal: a zero and then octal digits.\<close>

definition octal :: "nat \<Rightarrow> string" where
  "octal n = CHR ''0'' # show_nat 8 n"

lemma base_prefix_octal: "base_prefix (octal n) = (8, show_nat 8 n)"
proof -
  have "lower_char (octal n ! 1) \<notin> set ''box''"
  proof -
    obtain c s where cs: "show_nat 8 n = c # s" by (meson show_nat_not_Nil neq_Nil_conv)
    then obtain d where d: "d < 8" "octal n ! 1 = digit_char d"
      using show_nat_digits [of 8 n] by (auto simp: octal_def)
    then have "(of_char (octal n ! 1) :: nat) = 48 + d"
      by (simp add: digit_char_def of_char_of)
    then have "lower_char (octal n ! 1) = octal n ! 1" using d by (simp add: lower_char_def)
    moreover have "octal n ! 1 \<notin> set ''box''"
      using d digit_char_not [of d] by auto
    ultimately show ?thesis by metis
  qed
  then show ?thesis by (auto simp: base_prefix_def octal_def)
qed

lemma ParseInt0_octal:
  assumes "n < 2 ^ 63"
  shows "ParseInt0 (octal n) = Some (int n)"
proof -
  have "sign (octal n) = (False, octal n)" by (simp add: octal_def sign_def)
  moreover have "ParseUint0 (octal n) = Some n"
    using assms show_nat_not [of 8 "CHR ''_''" n]
    by (simp add: ParseUint0_def base_prefix_octal parse_show_nat) (simp add: octal_def)
  ultimately show ?thesis using assms by (simp add: ParseInt0_def int_range_def)
qed

interpretation octal_mode: codec octal "\<lambda>s. map_option nat (ParseInt0 s)" "\<lambda>n. n < 2 ^ 63"
  by unfold_locales (simp add: ParseInt0_octal)

lemma ParseInt0_range: "ParseInt0 s = Some v \<Longrightarrow> - (2 ^ 63) \<le> v \<and> v < 2 ^ 63"
  by (auto simp: ParseInt0_def int_range_def split: prod.splits option.splits if_splits)

end
