(* ===== verification/Kerberos.thy ===== *)
theory Kerberos
  imports Platform Base64 GoConv
begin

text \<open>
  The Kerberos credential caches of \<^verbatim>\<open>pkg/smb/nodeserver.go\<close>. A volume that is mounted with
  \<^verbatim>\<open>sec=krb5\<close> brings its ticket cache in its secrets. The driver stores it in a file that is named
  after the volume, so that unstaging finds it again, and makes the name that the kernel looks for,
  \<^verbatim>\<open>krb5cc_<uid>\<close>, a symbolic link to that file.
\<close>

section \<open>Mount flags and names\<close>

fun hasKerberosMountOption :: "string list \<Rightarrow> bool" where
  "hasKerberosMountOption [] = False"
| "hasKerberosMountOption (mountFlag # mountFlags) =
     (if HasPrefix mountFlag ''sec=krb5'' then True else hasKerberosMountOption mountFlags)"

text \<open>The error of \<^verbatim>\<open>strconv.Atoi\<close> is not told apart from others.\<close>

fun getCredUID :: "string list \<Rightarrow> error + int" where
  "getCredUID [] = Inl (Errorf ''Can't find credUid in mount flags'' None)"
| "getCredUID (mountFlag # mountFlags) =
     (if HasPrefix mountFlag ''cruid=''
      then (case Atoi (TrimPrefix mountFlag ''cruid='') of
              Some n \<Rightarrow> Inr n
            | None \<Rightarrow> Inl (Errorf ''strconv.Atoi'' None))
      else getCredUID mountFlags)"

definition getKrb5CcacheName :: "string \<Rightarrow> int \<Rightarrow> string" where
  "getKrb5CcacheName pre credUID = pre @ show_int credUID"

definition getKerberosFilePath :: "string \<Rightarrow> string \<Rightarrow> string" where
  "getKerberosFilePath directory fileName = directory @ fileName"

definition volumeKerberosCacheName :: "string \<Rightarrow> string" where
  "volumeKerberosCacheName volumeID =
     ReplaceAll (ReplaceAll (encode volumeID) ''/'' ''-'') ''+'' ''_''"

definition kerberosCacheDirectoryExists :: "'w os \<Rightarrow> string \<Rightarrow> 'w \<Rightarrow> bool \<times> error option" where
  "kerberosCacheDirectoryExists os directory w =
     (case Stat os directory w of
        None \<Rightarrow> (True, None)
      | Some err \<Rightarrow>
          if IsNotExist err
          then (False, Some (Status Internal
                 ''Directory for kerberos caches must exist, it will not be created: %s: %v'' (Some err)))
          else (False, Some err))"

section \<open>The cache in the secrets\<close>

text \<open>
  The loop over the secrets: of the entries whose key, in lower case, is the wanted name, the
  last one visited wins.
\<close>

fun find_ccache :: "string \<Rightarrow> gomap \<Rightarrow> string \<Rightarrow> string" where
  "find_ccache name [] acc = acc"
| "find_ccache name ((k, v) # m) acc = find_ccache name m (if ToLower k = name then v else acc)"

definition getKerberosCache :: "string \<Rightarrow> string \<Rightarrow> int \<Rightarrow> gomap \<Rightarrow> error + string \<times> string" where
  "getKerberosCache directory pre credUID secrets =
     (let krb5CcacheName = getKrb5CcacheName pre credUID;
          krb5CcacheContent = find_ccache krb5CcacheName secrets ''''
      in if krb5CcacheContent = ''''
         then Inl (Status InvalidArgument ''Empty kerberos cache in key %s'' None)
         else (case decode krb5CcacheContent of
                 None \<Rightarrow> Inl (Status InvalidArgument
                   ''Malformed kerberos cache in key %s, expected to be in base64 form: %v'' None)
               | Some content \<Rightarrow>
                   Inr (getKerberosFilePath directory (getKrb5CcacheName pre credUID), content)))"

section \<open>Writing and deleting the cache\<close>

definition replace_link :: "'w os \<Rightarrow> string \<Rightarrow> string \<Rightarrow> 'w \<Rightarrow> error option \<times> 'w" where
  "replace_link os target link = asks (\<lambda>w.
     ignoring
       (case Stat os link w of
          Some err \<Rightarrow> if IsNotExist err then reply None else sys os (Remove link)
        | None \<Rightarrow> sys os (Remove link))
       (sys os (Symlink target link)))"

definition store_cache ::
  "'w os \<Rightarrow> string \<Rightarrow> string \<Rightarrow> int \<Rightarrow> string \<Rightarrow> string \<Rightarrow> 'w \<Rightarrow> (error + bool) \<times> 'w" where
  "store_cache os directory volumeID credUID krb5CacheFileName content =
     (let path = getKerberosFilePath directory (volumeKerberosCacheName volumeID)
      in if_err (sys os (WriteFile path content 0x1C0))
           (\<lambda>err. fails (Status Internal ''Couldn't write kerberos cache to file %s: %v'' (Some err)))
         (if_err (sys os (Chown path credUID credUID))
           (\<lambda>err. fails (Status Internal ''Couldn't chown kerberos cache %s to user %d: %v'' (Some err)))
         (if_err (replace_link os path krb5CacheFileName)
           (\<lambda>err. fails (Status Internal
              ''Couldn't create symlink to a cache file %s->%s to user %d: %v'' (Some err)))
         (returns True))))"

definition ensureKerberosCache ::
  "'w os \<Rightarrow> string \<Rightarrow> string \<Rightarrow> string \<Rightarrow> string list \<Rightarrow> gomap \<Rightarrow> 'w \<Rightarrow> (error + bool) \<times> 'w" where
  "ensureKerberosCache os directory pre volumeID mountFlags secrets =
     (if hasKerberosMountOption mountFlags
      then asks (\<lambda>w. case kerberosCacheDirectoryExists os directory w of
          (_, Some err) \<Rightarrow> fails err
        | (_, None) \<Rightarrow> (case getCredUID mountFlags of
            Inl err \<Rightarrow> fails err
          | Inr credUID \<Rightarrow> (case getKerberosCache directory pre credUID secrets of
              Inl err \<Rightarrow> fails err
            | Inr (krb5CacheFileName, content) \<Rightarrow>
                store_cache os directory volumeID credUID krb5CacheFileName content)))
      else returns False)"

text \<open>The loop that removes the links to the file of the volume.\<close>

fun remove_links :: "'w os \<Rightarrow> string \<Rightarrow> string \<Rightarrow> string list \<Rightarrow> 'w \<Rightarrow> unit \<times> 'w" where
  "remove_links os directory target [] = reply ()"
| "remove_links os directory target (name # names) = asks (\<lambda>w.
     let filePath = getKerberosFilePath directory name
     in if Lstat os filePath w = None \<and> Readlink os filePath w = target
        then ignoring (sys os (Remove filePath)) (remove_links os directory target names)
        else remove_links os directory target names)"

definition deleteKerberosCache :: "'w os \<Rightarrow> string \<Rightarrow> string \<Rightarrow> 'w \<Rightarrow> error option \<times> 'w" where
  "deleteKerberosCache os directory volumeID = asks (\<lambda>w.
     case kerberosCacheDirectoryExists os directory w of
       (False, _) \<Rightarrow> reply None
     | (True, Some err) \<Rightarrow> reply (Some err)
     | (True, None) \<Rightarrow>
         (let path = getKerberosFilePath directory (volumeKerberosCacheName volumeID)
          in case Stat os path w of
               Some err \<Rightarrow> if IsNotExist err then reply None else reply (Some err)
             | None \<Rightarrow>
                 ignoring (remove_links os directory path (ReadDir os directory w))
                   (ignoring (sys os (Remove path)) (reply None))))"

section \<open>The name of a cache file\<close>

lemma volumeKerberosCacheName_map:
  "volumeKerberosCacheName volumeID =
     map (\<lambda>c. if c = CHR ''/'' then CHR ''-'' else if c = CHR ''+'' then CHR ''_'' else c) (encode volumeID)"
  unfolding volumeKerberosCacheName_def ReplaceAll_char map_map by (rule map_cong) simp_all

definition std_char :: "char \<Rightarrow> char" where
  "std_char c = (if c = CHR ''-'' then CHR ''/'' else if c = CHR ''_'' then CHR ''+'' else c)"

lemma encode_chars: "c \<in> set (encode s) \<Longrightarrow> c \<noteq> CHR ''-'' \<and> c \<noteq> CHR ''_'' \<and> c \<noteq> CHR ''.''"
  using set_encode [of s] by (auto simp: encodeStd_def)

interpretation cache_name: codec volumeKerberosCacheName "\<lambda>s. decode (map std_char s)" "\<lambda>_. True"
proof
  fix x :: string
  have "map std_char (volumeKerberosCacheName x) = encode x"
    unfolding volumeKerberosCacheName_map map_map
    by (rule map_idI) (auto simp: std_char_def dest: encode_chars)
  then show "decode (map std_char (volumeKerberosCacheName x)) = Some x"
    by (simp add: decode_encode)
qed

text \<open>
  C28. The cache files of different volumes are different files, and each lies directly in the
  cache directory: the name of a cache determines the volume, and it has no slash and no dot.
\<close>

theorem kerberos_cache_names:
  "(volumeKerberosCacheName a = volumeKerberosCacheName b \<longleftrightarrow> a = b) \<and>
   CHR ''/'' \<notin> set (volumeKerberosCacheName a) \<and> CHR ''.'' \<notin> set (volumeKerberosCacheName a)"
  by (auto simp: cache_name.enc_inj) (auto simp: volumeKerberosCacheName_map split: if_splits dest: encode_chars)

section \<open>The cache of a secret\<close>

lemma find_ccache_absent: "(\<forall>(k, v) \<in> set m. ToLower k \<noteq> name) \<Longrightarrow> find_ccache name m acc = acc"
  by (induction m arbitrary: acc) auto

lemma find_ccache_found:
  "\<exists>k v. (k, v) \<in> set m \<and> ToLower k = name \<Longrightarrow>
   \<exists>k. (k, find_ccache name m acc) \<in> set m \<and> ToLower k = name"
proof (induction m arbitrary: acc)
  case (Cons kv m)
  obtain k v where kv: "kv = (k, v)" by (cases kv)
  show ?case
  proof (cases "\<exists>k v. (k, v) \<in> set m \<and> ToLower k = name")
    case True
    then show ?thesis
      using Cons.IH [OF True, of "if ToLower k = name then v else acc"] kv by auto
  next
    case False
    then have "ToLower k = name" "\<forall>(k, v) \<in> set m. ToLower k \<noteq> name" using Cons.prems kv by auto
    then show ?thesis using kv by (auto simp: find_ccache_absent)
  qed
qed simp

text \<open>
  C29. A ticket cache survives its way through the secret: if the secret holds a cache that is not
  empty in base64 under a key that becomes the name of the user's cache in lower case (so that name,
  with the configured prefix, is itself in lower case), and under no other spelling of that name
  something else, then \<^verbatim>\<open>getKerberosCache\<close> returns the cache unchanged, with the path of the user's
  link.
\<close>

theorem getKerberosCache_roundtrip:
  assumes "(k, encode content) \<in> set secrets" "ToLower k = getKrb5CcacheName pre uid"
    and "\<forall>(k', v') \<in> set secrets. ToLower k' = getKrb5CcacheName pre uid \<longrightarrow> v' = encode content"
    and "content \<noteq> ''''"
  shows "getKerberosCache directory pre uid secrets =
    Inr (directory @ getKrb5CcacheName pre uid, content)"
proof -
  let ?n = "getKrb5CcacheName pre uid"
  obtain k' where "(k', find_ccache ?n secrets '''') \<in> set secrets" "ToLower k' = ?n"
    using find_ccache_found [of secrets ?n] assms(1,2) by blast
  then have f: "find_ccache ?n secrets '''' = encode content" using assms(3) by auto
  have "encode content \<noteq> ''''" using assms(4) std_encoding.enc_inj [of content "''''"] by simp
  then show ?thesis by (simp add: getKerberosCache_def f decode_encode getKerberosFilePath_def)
qed

theorem getKerberosCache_roundtrip_witness:
  "getKerberosCache ''/k/'' ''krb5cc_'' 1000 [(''username'', ''u''), (''KRB5CC_1000'', encode ''ticket'')] =
   Inr (''/k/'' @ getKrb5CcacheName ''krb5cc_'' 1000, ''ticket'')"
proof (rule getKerberosCache_roundtrip)
  let ?s = "[(''username'', ''u''), (''KRB5CC_1000'', encode ''ticket'')]"
  show "(''KRB5CC_1000'', encode ''ticket'') \<in> set ?s" by simp
  show "ToLower ''KRB5CC_1000'' = getKrb5CcacheName ''krb5cc_'' 1000" by code_simp
  show "\<forall>(k', v') \<in> set ?s. ToLower k' = getKrb5CcacheName ''krb5cc_'' 1000 \<longrightarrow> v' = encode ''ticket''"
    by code_simp
  show "''ticket'' \<noteq> ''''" by simp
qed

text \<open>
  A prefix with an upper-case letter disables the caches: the key of the secret is compared
  in lower case with a name that is not, so every secret is reported as having an empty cache.
\<close>

lemma upper_case_krb5Prefix_rejected:
  assumes "ToLower pre \<noteq> pre"
  shows "\<exists>msg. getKerberosCache directory pre uid secrets = Inl (Status InvalidArgument msg None)"
proof -
  have "ToLower k \<noteq> getKrb5CcacheName pre uid" for k
  proof
    assume "ToLower k = getKrb5CcacheName pre uid"
    then have "ToLower (getKrb5CcacheName pre uid) = getKrb5CcacheName pre uid"
      by (metis ToLower_idem)
    then show False using assms by (simp add: getKrb5CcacheName_def)
  qed
  then have "find_ccache (getKrb5CcacheName pre uid) secrets '''' = ''''"
    by (intro find_ccache_absent) auto
  then show ?thesis by (simp add: getKerberosCache_def)
qed

section \<open>Effects\<close>

definition volume_cache :: "string \<Rightarrow> string \<Rightarrow> string" where
  "volume_cache directory volumeID = getKerberosFilePath directory (volumeKerberosCacheName volumeID)"

text \<open>
  The calls of writing the cache of a volume, for the user that its mount flags name: the volume's
  file is written with the content of the secret, readable for its owner only, and given to that
  user, and the one link \<^verbatim>\<open>krb5cc_<uid>\<close> of that user is removed and made to point to it. Without a
  Kerberos flag, a user or a cache in the secrets there is no call.
\<close>

definition kerberos_calls :: "string \<Rightarrow> string \<Rightarrow> string \<Rightarrow> string list \<Rightarrow> gomap \<Rightarrow> call \<Rightarrow> bool" where
  "kerberos_calls directory pre volumeID mountFlags secrets c \<longleftrightarrow>
     hasKerberosMountOption mountFlags \<and>
     (case getCredUID mountFlags of
        Inl _ \<Rightarrow> False
      | Inr uid \<Rightarrow> (case getKerberosCache directory pre uid secrets of
          Inl _ \<Rightarrow> False
        | Inr (_, content) \<Rightarrow>
            c \<in> {WriteFile (volume_cache directory volumeID) content 0x1C0,
                 Chown (volume_cache directory volumeID) uid uid,
                 Remove (directory @ getKrb5CcacheName pre uid),
                 Symlink (volume_cache directory volumeID) (directory @ getKrb5CcacheName pre uid)}))"

text \<open>The calls of deleting a cache: removals of the volume's file and of the links to it.\<close>

definition uncache_calls :: "'w os \<Rightarrow> string \<Rightarrow> string \<Rightarrow> call \<Rightarrow> bool" where
  "uncache_calls os directory volumeID c \<longleftrightarrow>
     c = Remove (volume_cache directory volumeID) \<or>
     (\<exists>name w. c = Remove (directory @ name) \<and> Readlink os (directory @ name) w = volume_cache directory volumeID)"

lemma getKerberosCache_path:
  "getKerberosCache directory pre uid secrets = Inr (link, content) \<Longrightarrow>
   link = directory @ getKrb5CcacheName pre uid"
  by (auto simp: getKerberosCache_def getKerberosFilePath_def Let_def split: option.splits if_splits)

context effect_os
begin

lemma keeps_store_cache:
  assumes "\<And>c. kerberos_calls directory pre volumeID mountFlags secrets c \<Longrightarrow> allowed c"
    and "hasKerberosMountOption mountFlags" "getCredUID mountFlags = Inr uid"
    and "getKerberosCache directory pre uid secrets = Inr (link, content)"
  shows "keeps R (store_cache os directory volumeID uid link content)"
proof -
  have link: "link = directory @ getKrb5CcacheName pre uid"
    by (rule getKerberosCache_path [OF assms(4)])
  show ?thesis
    unfolding store_cache_def replace_link_def volume_cache_def [symmetric]
    by (intro keeps_intros keeps_control keeps_sys assms(1))
       (simp_all add: kerberos_calls_def assms(2-4) link)
qed

lemma keeps_ensureKerberosCache:
  assumes "\<And>c. kerberos_calls directory pre volumeID mountFlags secrets c \<Longrightarrow> allowed c"
  shows "keeps R (ensureKerberosCache os directory pre volumeID mountFlags secrets)"
  unfolding ensureKerberosCache_def
  by (intro keeps_intros keeps_control keeps_store_cache assms) simp_all

lemma keeps_remove_links:
  assumes "\<And>name w. Readlink os (directory @ name) w = target \<Longrightarrow> allowed (Remove (directory @ name))"
  shows "keeps R (remove_links os directory target names)"
  by (induction names)
     (auto intro!: keeps_intros keeps_control keeps_sys assms simp: getKerberosFilePath_def)

lemma keeps_deleteKerberosCache:
  assumes "\<And>c. uncache_calls os directory volumeID c \<Longrightarrow> allowed c"
  shows "keeps R (deleteKerberosCache os directory volumeID)"
proof -
  have "allowed (Remove (directory @ name))"
    if "Readlink os (directory @ name) w = volume_cache directory volumeID" for name w
    by (rule assms) (use that in \<open>auto simp: uncache_calls_def\<close>)
  moreover have "allowed (Remove (volume_cache directory volumeID))"
    by (rule assms) (simp add: uncache_calls_def)
  ultimately show ?thesis
    unfolding deleteKerberosCache_def volume_cache_def [symmetric]
    by (intro keeps_intros keeps_control keeps_sys keeps_remove_links) simp_all
qed

end

lemma Readlink_log_os [simp]: "Readlink (log_os os) p (w, cs) = Readlink os p w"
  by (simp add: log_os_def)

text \<open>
  C30. Deleting the cache of a volume leaves the other volumes alone: whatever the environment
  answers, \<^verbatim>\<open>deleteKerberosCache\<close> only removes the volume's own file and links that point to it. The
  cache file of another volume is never the volume's own file, so it is removed only if it was
  seen as a link to it.
\<close>

theorem delete_spares_other_caches:
  assumes "deleteKerberosCache (log_os os) directory vol (w, []) = (r, (w', cs))"
  shows "list_all (uncache_calls os directory vol) cs \<and>
    (other \<noteq> vol \<and> Remove (volume_cache directory other) \<in> set cs \<longrightarrow>
      (\<exists>w. Readlink os (volume_cache directory other) w = volume_cache directory vol))"
proof -
  have u: "uncache_calls (log_os os) directory vol = uncache_calls os directory vol"
    by (auto simp: fun_eq_iff uncache_calls_def)
  have k: "keeps (logs (uncache_calls os directory vol)) (deleteKerberosCache (log_os os) directory vol)"
    by (rule logged.keeps_deleteKerberosCache) (simp add: u)
  then have l: "list_all (uncache_calls os directory vol) cs" using keeps_logsD [OF k assms] by auto
  moreover have "\<exists>w. Readlink os (volume_cache directory other) w = volume_cache directory vol"
    if "other \<noteq> vol" "Remove (volume_cache directory other) \<in> set cs"
  proof -
    have "uncache_calls os directory vol (Remove (volume_cache directory other))"
      using l that(2) by (simp add: list_all_iff)
    moreover have "volume_cache directory other \<noteq> volume_cache directory vol"
      using that(1) by (simp add: volume_cache_def getKerberosFilePath_def cache_name.enc_inj)
    ultimately show ?thesis by (auto simp: uncache_calls_def)
  qed
  ultimately show ?thesis by blast
qed

section \<open>Deleting a cache, call by call\<close>

lemma queries_log_os [simp]:
  "Lstat (log_os os) p (w, cs) = Lstat os p w" "Stat (log_os os) p (w, cs) = Stat os p w"
  "ReadDir (log_os os) p (w, cs) = ReadDir os p w"
  by (simp_all add: log_os_def)

text \<open>The entries of the cache directory that are links to a file.\<close>

definition links_to :: "'w os \<Rightarrow> string \<Rightarrow> string \<Rightarrow> 'w \<Rightarrow> string \<Rightarrow> bool" where
  "links_to os directory target w name \<longleftrightarrow>
     Lstat os (directory @ name) w = None \<and> Readlink os (directory @ name) w = target"

fun after_removes :: "'w os \<Rightarrow> string list \<Rightarrow> 'w \<Rightarrow> 'w" where
  "after_removes os [] w = w"
| "after_removes os (p # ps) w = after_removes os ps (snd (exec os (Remove p) w))"

lemma after_removes_snoc: "after_removes os (ps @ [p]) w = snd (exec os (Remove p) (after_removes os ps w))"
  by (induction ps arbitrary: w) simp_all

text \<open>What is asked of the file system: removing some entries does not change the others.\<close>

definition entries_independent :: "'w os \<Rightarrow> string \<Rightarrow> string list \<Rightarrow> 'w \<Rightarrow> bool" where
  "entries_independent os directory names w \<longleftrightarrow>
     list_all (\<lambda>fs. list_all (\<lambda>g. g \<in> set fs \<or>
         (let w' = after_removes os (map ((@) directory) fs) w
          in Lstat os (directory @ g) w' = Lstat os (directory @ g) w \<and>
             Readlink os (directory @ g) w' = Readlink os (directory @ g) w)) names) (subseqs names)"

lemma links_to_independent:
  assumes "entries_independent os directory names w" "subseq fs names" "g \<in> set names" "g \<notin> set fs"
  shows "links_to os directory target (after_removes os (map ((@) directory) fs) w) g \<longleftrightarrow>
    links_to os directory target w g"
proof -
  have "fs \<in> set (subseqs names)" using assms(2) by (simp add: set_subseqs_eq)
  then have "Lstat os (directory @ g) (after_removes os (map ((@) directory) fs) w) = Lstat os (directory @ g) w \<and>
      Readlink os (directory @ g) (after_removes os (map ((@) directory) fs) w) = Readlink os (directory @ g) w"
    using assms(1,3,4) unfolding entries_independent_def list_all_iff Let_def by blast
  then show ?thesis by (simp add: links_to_def)
qed

lemma remove_links_step:
  "remove_links (log_os os) directory target (name # names) (w, cs) =
     (if links_to os directory target w name
      then remove_links (log_os os) directory target names
             (snd (exec os (Remove (directory @ name)) w), cs @ [Remove (directory @ name)])
      else remove_links (log_os os) directory target names (w, cs))"
  by (simp add: asks_def links_to_def getKerberosFilePath_def ignoring_def bind_st_def sys_def exec_log_os
      case_prod_beta Let_def)

lemma remove_links_log:
  assumes "distinct (ds @ names)" "subseq fs ds" "entries_independent os directory (ds @ names) w"
  shows "\<exists>w'. remove_links (log_os os) directory target names (after_removes os (map ((@) directory) fs) w, cs) =
    ((), (w', cs @ map (\<lambda>f. Remove (directory @ f)) (filter (links_to os directory target w) names)))"
  using assms
proof (induction names arbitrary: ds fs cs)
  case Nil
  then show ?case by (simp add: reply_def)
next
  case (Cons name names)
  let ?w = "after_removes os (map ((@) directory) fs) w"
  have d: "distinct ((ds @ [name]) @ names)" "entries_independent os directory ((ds @ [name]) @ names) w"
    using Cons.prems by simp_all
  have n: "name \<notin> set fs" using Cons.prems(1,2) list_emb_set [of "(=)" fs ds name] by auto
  have "subseq fs (ds @ name # names)" using Cons.prems(2) by (rule subseq_rev_drop_many)
  then have l: "links_to os directory target ?w name \<longleftrightarrow> links_to os directory target w name"
    using links_to_independent [OF Cons.prems(3) _ _ n] by simp
  show ?case
  proof (cases "links_to os directory target w name")
    case True
    have "subseq (fs @ [name]) (ds @ [name])" using Cons.prems(2) by simp
    from Cons.IH [OF d(1) this d(2), of "cs @ [Remove (directory @ name)]"] show ?thesis
      using True l by (simp add: remove_links_step after_removes_snoc del: remove_links.simps)
  next
    case False
    have "subseq fs (ds @ [name])" using Cons.prems(2) by (rule subseq_rev_drop_many)
    from Cons.IH [OF d(1) this d(2), of cs] show ?thesis
      using False l by (simp add: remove_links_step del: remove_links.simps)
  qed
qed

text \<open>
  C38. What unstaging does to the tickets of a volume, branch by branch, on a file system on which
  removing entries of the cache directory does not change its other entries, and lists each entry
  once: without the cache directory, or if the volume has no cache file, nothing is removed and no
  error is returned; if the cache file cannot be inspected that error is returned; otherwise every
  entry that is a link to the cache of the volume is removed, in the order of the directory, then
  the cache itself, and nothing else. So the link \<^verbatim>\<open>krb5cc_<uid>\<close> of a user goes exactly if it leads
  to this volume's cache, whoever else of the user's volumes needs it.
\<close>

theorem delete_cache_calls:
  assumes "distinct (ReadDir os directory w)" "entries_independent os directory (ReadDir os directory w) w"
  shows "\<exists>w'. deleteKerberosCache (log_os os) directory vol (w, []) =
    (case (Stat os directory w, Stat os (volume_cache directory vol) w) of
       (Some _, _) \<Rightarrow> (None, (w, []))
     | (None, Some err) \<Rightarrow> (if IsNotExist err then None else Some err, (w, []))
     | (None, None) \<Rightarrow>
         (None, (w', map (\<lambda>f. Remove (directory @ f))
                       (filter (links_to os directory (volume_cache directory vol) w) (ReadDir os directory w)) @
                     [Remove (volume_cache directory vol)])))"
proof -
  obtain w1 where "remove_links (log_os os) directory (volume_cache directory vol) (ReadDir os directory w) (w, []) =
      ((), (w1, map (\<lambda>f. Remove (directory @ f))
        (filter (links_to os directory (volume_cache directory vol) w) (ReadDir os directory w))))"
    using remove_links_log [of "[]" "ReadDir os directory w" "[]" os directory w "volume_cache directory vol" "[]"] assms
    by auto
  then show ?thesis
    unfolding deleteKerberosCache_def kerberosCacheDirectoryExists_def volume_cache_def [symmetric]
    by (auto simp: asks_def reply_def ignoring_def bind_st_def sys_logged Let_def split: option.splits)
qed

end
