(* ===== verification/NodeServer.thy ===== *)
theory NodeServer
  imports Driver Kerberos
begin

text \<open>
  The node service (\<^verbatim>\<open>pkg/smb/nodeserver.go\<close>): staging a share on a node and removing it, the bind
  mounts of the pods, and the statistics of a volume. Every handler is a function from the request
  and the state to the response or the error, and the new state.
\<close>

section \<open>Requests\<close>

record MountVolume =
  MountFlags :: "string list"
  VolumeMountGroup :: string

datatype VolumeCapability = CapMount MountVolume | CapBlock | CapUnset

fun GetMountFlags :: "VolumeCapability \<Rightarrow> string list" where
  "GetMountFlags (CapMount m) = MountFlags m"
| "GetMountFlags _ = []"

fun GetVolumeMountGroup :: "VolumeCapability \<Rightarrow> string" where
  "GetVolumeMountGroup (CapMount m) = VolumeMountGroup m"
| "GetVolumeMountGroup _ = ''''"

record NodeStageVolumeRequest =
  ns_VolumeId :: string
  ns_StagingTargetPath :: string
  ns_VolumeCapability :: "VolumeCapability option"
  ns_VolumeContext :: gomap
  ns_Secrets :: gomap

record NodeUnstageVolumeRequest =
  nu_VolumeId :: string
  nu_StagingTargetPath :: string

record NodePublishVolumeRequest =
  np_VolumeId :: string
  np_TargetPath :: string
  np_StagingTargetPath :: string
  np_VolumeCapability :: "VolumeCapability option"
  np_VolumeContext :: gomap
  np_Readonly :: bool

record NodeUnpublishVolumeRequest =
  nx_VolumeId :: string
  nx_TargetPath :: string

record NodeGetVolumeStatsRequest =
  ng_VolumeId :: string
  ng_VolumePath :: string

section \<open>Mount flags\<close>

fun checkGidPresentInMountFlags :: "string list \<Rightarrow> bool" where
  "checkGidPresentInMountFlags [] = False"
| "checkGidPresentInMountFlags (mountFlag # mountFlags) =
     (if HasPrefix mountFlag ''gid'' then True else checkGidPresentInMountFlags mountFlags)"

text \<open>The number 56 is the octal 070: read, write and execute for the group.\<close>

definition enableGroupRWX :: "string \<Rightarrow> string" where
  "enableGroupRWX mode =
     (case ParseInt0 mode of
        None \<Rightarrow> mode
      | Some v \<Rightarrow> if v < 0 then mode else octal (nat (v OR 56)))"

text \<open>The slice is changed in place: the result is the flag that was found and the new slice.\<close>

fun raiseGroupRWXInMountFlags :: "string list \<Rightarrow> string \<Rightarrow> bool \<times> string list" where
  "raiseGroupRWXInMountFlags [] flag = (False, [])"
| "raiseGroupRWXInMountFlags (mountFlag # mountFlags) flag =
     (let mountFlagSplit = Split mountFlag CHR ''=''
      in if length mountFlagSplit \<noteq> 2 \<or> mountFlagSplit ! 0 \<noteq> flag
         then (case raiseGroupRWXInMountFlags mountFlags flag of (b, fs) \<Rightarrow> (b, mountFlag # fs))
         else (True, (flag @ ''='' @ enableGroupRWX (mountFlagSplit ! 1)) # mountFlags))"

section \<open>Mount points\<close>

definition makeDir :: "'w os \<Rightarrow> string \<Rightarrow> 'w \<Rightarrow> error option \<times> 'w" where
  "makeDir os pathname =
     if_err (sys os (MkdirAll pathname 0x1ED))
       (\<lambda>err. if \<not> IsExist err then reply (Some err) else reply None)
       (reply None)"

text \<open>The search of the mount table, which is skipped on Windows.\<close>

definition in_mount_list :: "'w os \<Rightarrow> string \<Rightarrow> 'w \<Rightarrow> error + bool" where
  "in_mount_list os target w =
     (if GOOS os = Windows then Inr False
      else (case ListMounts os w of
              Inl err \<Rightarrow> Inl err
            | Inr mountList \<Rightarrow>
                (case (if IsAbs target then Inr '''' else Getwd os w) of
                   Inl err \<Rightarrow> Inl err
                 | Inr wd \<Rightarrow>
                     let targetAbs = Abs wd target
                     in Inr (list_ex (\<lambda>mountPoint. mp_Path mountPoint = targetAbs) mountList))))"

text \<open>Opening a directory and reading one entry; the end of an empty directory is no error.\<close>

definition read_one :: "'w os \<Rightarrow> string \<Rightarrow> 'w \<Rightarrow> error option" where
  "read_one os target w =
     (case Open os target w of
        Some err \<Rightarrow> Some err
      | None \<Rightarrow> if ReadDir1 os target w = Some io_EOF then None else ReadDir1 os target w)"

definition ensureMountPoint :: "'w os \<Rightarrow> string \<Rightarrow> 'w \<Rightarrow> (bool \<times> error option) \<times> 'w" where
  "ensureMountPoint os target = asks (\<lambda>w.
     case IsLikelyNotMountPoint os target w of (notMnt, err) \<Rightarrow>
     let bad = (case err of None \<Rightarrow> False | Some e \<Rightarrow> \<not> IsNotExist e)
     in if bad \<and> \<not> IsCorruptedDir os target w then reply (\<not> notMnt, err)
        else
          let notMnt = (if bad then False else notMnt)
          in case in_mount_list os target w of
               Inl err \<Rightarrow> reply (\<not> notMnt, Some err)
             | Inr listed \<Rightarrow>
                 let notMnt = (if listed then False else notMnt)
                 in if \<not> notMnt
                    then (case read_one os target w of
                            None \<Rightarrow> reply (\<not> notMnt, None)
                          | Some err \<Rightarrow>
                              if_err (sys os (Unmount target))
                                (\<lambda>err. reply (\<not> notMnt, Some err))
                                (reply (False, Some err)))
                    else if_err (makeDir os target)
                           (\<lambda>err. reply (\<not> notMnt, Some err))
                           (reply (False, None)))"

section \<open>Staging\<close>

text \<open>What the loop over the volume context collects.\<close>

record stage_ctx =
  sc_source :: string
  sc_subDir :: string
  sc_replace :: gomap
  sc_secretName :: string
  sc_secretNamespace :: string
  sc_ephemeralVol :: bool
  sc_ephemeralVolMountOptions :: string

definition stage_ctx0 :: stage_ctx where
  "stage_ctx0 = \<lparr>sc_source = '''', sc_subDir = '''', sc_replace = [], sc_secretName = '''',
     sc_secretNamespace = '''', sc_ephemeralVol = False, sc_ephemeralVolMountOptions = ''''\<rparr>"

definition stage_ctx_step :: "string \<Rightarrow> string \<Rightarrow> stage_ctx \<Rightarrow> stage_ctx" where
  "stage_ctx_step k v c =
     (let key = ToLower k
      in if key = sourceField then c\<lparr>sc_source := v\<rparr>
         else if key = subDirField then c\<lparr>sc_subDir := v\<rparr>
         else if key = pvcNamespaceKey then c\<lparr>sc_replace := map_put pvcNamespaceMetadata v (sc_replace c)\<rparr>
         else if key = pvcNameKey then c\<lparr>sc_replace := map_put pvcNameMetadata v (sc_replace c)\<rparr>
         else if key = pvNameKey then c\<lparr>sc_replace := map_put pvNameMetadata v (sc_replace c)\<rparr>
         else if key = secretNameField then c\<lparr>sc_secretName := v\<rparr>
         else if key = secretNamespaceField then c\<lparr>sc_secretNamespace := v\<rparr>
         else if key = ephemeralField then c\<lparr>sc_ephemeralVol := EqualFold v trueValue\<rparr>
         else if key = mountOptionsField then c\<lparr>sc_ephemeralVolMountOptions := v\<rparr>
         else c)"

fun parse_context :: "gomap \<Rightarrow> stage_ctx \<Rightarrow> stage_ctx" where
  "parse_context [] c = c"
| "parse_context ((k, v) # m) c = parse_context m (stage_ctx_step k v c)"

text \<open>The credentials: user name, password and domain.\<close>

type_synonym creds = "string \<times> string \<times> string"

fun parse_secrets :: "gomap \<Rightarrow> creds \<Rightarrow> creds" where
  "parse_secrets [] c = c"
| "parse_secrets ((k, v) # m) (username, password, domain) =
     parse_secrets m
       (if ToLower k = usernameField then (TrimSpace v, password, domain)
        else if ToLower k = passwordField then (username, TrimSpace v, domain)
        else if ToLower k = domainField then (username, password, TrimSpace v)
        else (username, password, domain))"

definition GetUserNamePasswordFromSecret ::
  "'w os \<Rightarrow> KubeClient \<Rightarrow> string \<Rightarrow> string \<Rightarrow> 'w \<Rightarrow> error + creds" where
  "GetUserNamePasswordFromSecret os client secretName secretNamespace w =
     (case client of
        KubeNil \<Rightarrow> Inl (Errorf ''could not username and password from secret(%s): KubeClient is nil'' None)
      | KubeNilPointer \<Rightarrow> Inl Panic
      | KubeClientset \<Rightarrow>
          (case GetSecret os secretNamespace secretName w of
             Inl err \<Rightarrow> Inl (Errorf ''could not get secret(%v): %v'' (Some err))
           | Inr data \<Rightarrow> Inr (TrimSpace (map_get data usernameField), TrimSpace (map_get data passwordField),
                            TrimSpace (map_get data domainField))))"

text \<open>The options of a mount on Windows: the qualified user name and the password.\<close>

definition windows_options :: "bool \<Rightarrow> creds \<Rightarrow> string list \<times> string list" where
  "windows_options requireUsernamePwdOption = (\<lambda>(username, password, domain).
     let domain = (if domain = '''' then defaultDomainName else domain);
         username = (if \<not> Contains username [CHR 0x5C] then domain @ [CHR 0x5C] @ username else username)
     in if requireUsernamePwdOption then ([username], [password]) else ([], []))"

text \<open>The sensitive options elsewhere, which carry the password.\<close>

definition unix_sensitive :: "bool \<Rightarrow> bool \<Rightarrow> creds \<Rightarrow> string list" where
  "unix_sensitive requireUsernamePwdOption useKerberosCache = (\<lambda>(username, password, domain).
     if requireUsernamePwdOption \<and> \<not> useKerberosCache
     then if ContainsSpecialCharacter password
          then [usernameField @ ''='' @ username, passwordField @ ''='' @ password]
          else [usernameField @ ''='' @ username @ '','' @ passwordField @ ''='' @ password]
     else [])"

definition add_group_mode :: "string \<Rightarrow> string \<Rightarrow> string list \<Rightarrow> string list" where
  "add_group_mode flag dflt mountOptions =
     (case raiseGroupRWXInMountFlags mountOptions flag of (raised, mountOptions) \<Rightarrow>
        if raised then mountOptions else mountOptions @ [flag @ ''='' @ dflt])"

text \<open>
  The other options. \<^verbatim>\<open>gidPresent\<close> is computed on the flags of the request, which are not the flags
  of an ephemeral volume.
\<close>

definition unix_options :: "bool \<Rightarrow> string \<Rightarrow> string \<Rightarrow> string list \<Rightarrow> string list" where
  "unix_options gidPresent volumeMountGroup domain mountFlags =
     (let mountOptions =
            (if \<not> gidPresent \<and> volumeMountGroup \<noteq> ''''
             then add_group_mode ''dir_mode'' ''0775''
                    (add_group_mode ''file_mode'' ''0774'' (mountFlags @ [''gid='' @ volumeMountGroup]))
             else mountFlags)
      in if domain \<noteq> '''' then mountOptions @ [domainField @ ''='' @ domain] else mountOptions)"

text \<open>The part of staging that finds out the mount options; it writes the Kerberos cache.\<close>

definition stage_options ::
  "'w os \<Rightarrow> NodeStageVolumeRequest \<Rightarrow> VolumeCapability \<Rightarrow> string list \<Rightarrow> bool \<Rightarrow> creds \<Rightarrow>
   'w st \<Rightarrow> (error + string list \<times> string list) \<times> 'w st" where
  "stage_options os req cap mountFlags requireUsernamePwdOption creds =
     (if GOOS os = Windows then returns (windows_options requireUsernamePwdOption creds)
      else asks (\<lambda>s.
        bind_st (on_world (ensureKerberosCache os (krb5CacheDirectory (drv s)) (krb5Prefix (drv s))
                   (ns_VolumeId req) mountFlags (ns_Secrets req))) (\<lambda>r. case r of
          Inl err \<Rightarrow> fails (Status Internal ''Error writing kerberos cache: %v'' (Some err))
        | Inr useKerberosCache \<Rightarrow>
            if_err (on_world (sys os (MkdirAll (ns_StagingTargetPath req) 0x1E8)))
              (\<lambda>err. fails (Status Internal ''MkdirAll %s failed with error: %v'' (Some err)))
              (returns
                (unix_options (checkGidPresentInMountFlags (GetMountFlags cap)) (GetVolumeMountGroup cap)
                   (snd (snd creds)) mountFlags,
                 unix_sensitive requireUsernamePwdOption useKerberosCache creds)))))"

definition leave_pending :: "bgmount \<Rightarrow> 'w st \<Rightarrow> unit \<times> 'w st" where
  "leave_pending m s = ((), s\<lparr>pending := pending s @ [m]\<rparr>)"

text \<open>
  \<^verbatim>\<open>WaitUntilTimeout\<close>: the function runs in a goroutine of its own. If it ends in time its error is
  returned; if not, it goes on in the background and the timeout error is returned.
\<close>

definition WaitUntilTimeout ::
  "('s \<Rightarrow> bool) \<Rightarrow> ('s \<Rightarrow> error option \<times> 's) \<Rightarrow> ('s \<Rightarrow> unit \<times> 's) \<Rightarrow> error \<Rightarrow> 's \<Rightarrow> error option \<times> 's" where
  "WaitUntilTimeout in_time execFunc background timeoutErr = asks (\<lambda>s.
     if in_time s then execFunc else ignoring background (reply (Some timeoutErr)))"

definition run_mount :: "'w os \<Rightarrow> bgmount \<Rightarrow> 'w \<Rightarrow> error option \<times> 'w" where
  "run_mount os m =
     smb_Mount os (bg_source m) (bg_target m) (bg_fsType m) (bg_options m) (bg_sensitive m) (bg_volumeID m)"

text \<open>The source with the sub-directory, whose placeholders are replaced.\<close>

definition stage_source :: "stage_ctx \<Rightarrow> string" where
  "stage_source ctx =
     (if sc_subDir ctx \<noteq> ''''
      then TrimRight (sc_source ctx) ''/'' @ ''/'' @ replaceWithMap (sc_subDir ctx) (sc_replace ctx)
      else sc_source ctx)"

definition mount_share ::
  "'w os \<Rightarrow> NodeStageVolumeRequest \<Rightarrow> stage_ctx \<Rightarrow> string list \<Rightarrow> string list \<Rightarrow> 'w st \<Rightarrow> (error + unit) \<times> 'w st" where
  "mount_share os req ctx mountOptions sensitiveMountOptions =
     if_err (on_world (prepareStagePath os (ns_StagingTargetPath req)))
       (\<lambda>err. fails (Errorf ''prepare stage path failed for %s with error: %v'' (Some err)))
       (let m = \<lparr>bg_source = stage_source ctx, bg_target = ns_StagingTargetPath req, bg_fsType = ''cifs'',
                 bg_options = mountOptions, bg_sensitive = sensitiveMountOptions,
                 bg_volumeID = ns_VolumeId req\<rparr>
        in if_err
             (WaitUntilTimeout (\<lambda>s. InTime os (world s)) (on_world (run_mount os m)) (leave_pending m)
                (Errorf ''mount volume %s to %s timeout after %ds'' None))
             (\<lambda>err. fails (Status Internal ''volume(%s) mount %q on %q failed with %v'' (Some err)))
             (returns ()))"

definition stage_mount ::
  "'w os \<Rightarrow> NodeStageVolumeRequest \<Rightarrow> stage_ctx \<Rightarrow> string list \<Rightarrow> string list \<Rightarrow> 'w st \<Rightarrow> (error + unit) \<times> 'w st" where
  "stage_mount os req ctx mountOptions sensitiveMountOptions =
     bind_st (on_world (ensureMountPoint os (ns_StagingTargetPath req))) (\<lambda>(isDirMounted, err). case err of
       Some err \<Rightarrow> fails (Status Internal ''Could not mount target %s: %v'' (Some err))
     | None \<Rightarrow>
         if isDirMounted then returns ()
         else mount_share os req ctx mountOptions sensitiveMountOptions)"

text \<open>A panic is not wrapped.\<close>

definition secret_error :: "error \<Rightarrow> error" where
  "secret_error err =
     (if err = Panic then Panic
      else Status Internal ''Error getting username and password from secret %s in namespace %s: %v'' (Some err))"

definition stage_locked ::
  "'w os \<Rightarrow> NodeStageVolumeRequest \<Rightarrow> VolumeCapability \<Rightarrow> stage_ctx \<Rightarrow> 'w st \<Rightarrow> (error + unit) \<times> 'w st" where
  "stage_locked os req cap ctx = asks (\<lambda>s.
     let creds = parse_secrets (ns_Secrets req) ('''', '''', '''');
         mountFlags = (if sc_ephemeralVol ctx then Split (sc_ephemeralVolMountOptions ctx) CHR '',''
                       else GetMountFlags cap);
         requireUsernamePwdOption = (\<not> hasGuestMountOptions mountFlags)
     in case (if sc_ephemeralVol ctx \<and> requireUsernamePwdOption
              then GetUserNamePasswordFromSecret os (kubeClient (drv s)) (sc_secretName ctx)
                     (sc_secretNamespace ctx) (world s)
              else Inr creds) of
          Inl err \<Rightarrow> fails (secret_error err)
        | Inr creds \<Rightarrow>
            bind_st (stage_options os req cap mountFlags requireUsernamePwdOption creds) (\<lambda>r. case r of
              Inl err \<Rightarrow> fails err
            | Inr (mountOptions, sensitiveMountOptions) \<Rightarrow>
                stage_mount os req ctx mountOptions sensitiveMountOptions))"

definition stage_key :: "string \<Rightarrow> string \<Rightarrow> string" where
  "stage_key volumeID targetPath = volumeID @ ''-'' @ targetPath"

definition NodeStageVolume :: "'w os \<Rightarrow> NodeStageVolumeRequest \<Rightarrow> 'w st \<Rightarrow> (error + unit) \<times> 'w st" where
  "NodeStageVolume os req =
     (if ns_VolumeId req = '''' then fails (Status InvalidArgument ''Volume ID missing in request'' None)
      else (case ns_VolumeCapability req of
              None \<Rightarrow> fails (Status InvalidArgument ''Volume capability not provided'' None)
            | Some cap \<Rightarrow>
                if ns_StagingTargetPath req = ''''
                then fails (Status InvalidArgument ''Staging target not provided'' None)
                else
                  let ctx = parse_context (ns_VolumeContext req) stage_ctx0
                  in if sc_source ctx = ''''
                     then fails (Status InvalidArgument ''%s field is missing, current context: %v'' None)
                     else with_lock (stage_key (ns_VolumeId req) (ns_StagingTargetPath req))
                            (stage_locked os req cap ctx)))"

definition NodeUnstageVolume :: "'w os \<Rightarrow> NodeUnstageVolumeRequest \<Rightarrow> 'w st \<Rightarrow> (error + unit) \<times> 'w st" where
  "NodeUnstageVolume os req =
     (if nu_VolumeId req = '''' then fails (Status InvalidArgument ''Volume ID missing in request'' None)
      else if nu_StagingTargetPath req = '''' then fails (Status InvalidArgument ''Staging target not provided'' None)
      else with_lock (stage_key (nu_VolumeId req) (nu_StagingTargetPath req))
        (if_err (on_world (CleanupSMBMountPoint os (nu_StagingTargetPath req) True (nu_VolumeId req)))
          (\<lambda>err. fails (Status Internal ''failed to unmount staging target %q: %v'' (Some err)))
        (asks (\<lambda>s. if_err (on_world (deleteKerberosCache os (krb5CacheDirectory (drv s)) (nu_VolumeId req)))
          (\<lambda>err. fails (Status Internal ''failed to delete kerberos cache: %v'' (Some err)))
        (returns ())))))"

section \<open>Publishing\<close>

definition publish_bind :: "'w os \<Rightarrow> NodePublishVolumeRequest \<Rightarrow> 'w st \<Rightarrow> (error + unit) \<times> 'w st" where
  "publish_bind os req =
     (let target = np_TargetPath req;
          source = np_StagingTargetPath req;
          mountOptions = [''bind''] @ (if np_Readonly req then [''ro''] else [])
      in bind_st (on_world (ensureMountPoint os target)) (\<lambda>(mnt, err). case err of
           Some err \<Rightarrow> fails (Status Internal ''Could not mount target %q: %v'' (Some err))
         | None \<Rightarrow>
             if mnt then returns ()
             else if_err (on_world (preparePublishPath os target))
               (\<lambda>err. fails (Errorf ''prepare publish failed for %s with error: %v'' (Some err)))
             (if_err (on_world (sys os (Mount source target '''' mountOptions)))
               (\<lambda>err. if_err (on_world (sys os (Remove target)))
                 (\<lambda>removeErr. fails (Status Internal ''Could not remove mount target %q: %v'' (Some removeErr)))
                 (fails (Status Internal ''Could not mount %q at %q: %v'' (Some err))))
             (returns ()))))"

definition NodePublishVolume :: "'w os \<Rightarrow> NodePublishVolumeRequest \<Rightarrow> 'w st \<Rightarrow> (error + unit) \<times> 'w st" where
  "NodePublishVolume os req =
     (case np_VolumeCapability req of
        None \<Rightarrow> fails (Status InvalidArgument ''Volume capability missing in request'' None)
      | Some volCap \<Rightarrow>
          if np_VolumeId req = '''' then fails (Status InvalidArgument ''Volume ID missing in request'' None)
          else if np_TargetPath req = '''' then fails (Status InvalidArgument ''Target path not provided'' None)
          else if EqualFold (map_get (np_VolumeContext req) ephemeralField) trueValue
          then
            let context = (case SetKeyValueInMap (Some (np_VolumeContext req)) secretNamespaceField
                                  (map_get (np_VolumeContext req) podNamespaceField) of
                             Some m \<Rightarrow> m | None \<Rightarrow> [])
            in NodeStageVolume os \<lparr>ns_VolumeId = np_VolumeId req, ns_StagingTargetPath = np_TargetPath req,
                 ns_VolumeCapability = Some volCap, ns_VolumeContext = context, ns_Secrets = []\<rparr>
          else if np_StagingTargetPath req = '''' then fails (Status InvalidArgument ''Staging target not provided'' None)
          else publish_bind os req)"

definition NodeUnpublishVolume :: "'w os \<Rightarrow> NodeUnpublishVolumeRequest \<Rightarrow> 'w st \<Rightarrow> (error + unit) \<times> 'w st" where
  "NodeUnpublishVolume os req =
     (if nx_VolumeId req = '''' then fails (Status InvalidArgument ''Volume ID missing in request'' None)
      else if nx_TargetPath req = '''' then fails (Status InvalidArgument ''Target path missing in request'' None)
      else if_err (on_world (CleanupMountPoint os (nx_TargetPath req) True))
        (\<lambda>err. fails (Status Internal ''failed to unmount target %q: %v'' (Some err)))
        (returns ()))"

section \<open>Information\<close>

definition NodeGetCapabilities :: "Driver \<Rightarrow> error + NodeServiceCapability list" where
  "NodeGetCapabilities d = Inr (NSCap d)"

definition NodeGetInfo :: "Driver \<Rightarrow> error + string" where
  "NodeGetInfo d = Inr (NodeID d)"

definition NodeExpandVolume :: "Driver \<Rightarrow> error + unit" where
  "NodeExpandVolume d = Inl (Status Unimplemented '''' None)"

text \<open>The conversion of the metrics, in the order of the code: the first that fails is reported.\<close>

definition stats_response :: "Metrics \<Rightarrow> error + NodeGetVolumeStatsResponse" where
  "stats_response m =
     (case m_Available m of
        None \<Rightarrow> Inl (Status Internal ''failed to transform volume available size(%v)'' None)
      | Some available \<Rightarrow> (case m_Capacity m of
        None \<Rightarrow> Inl (Status Internal ''failed to transform volume capacity size(%v)'' None)
      | Some capacity \<Rightarrow> (case m_Used m of
        None \<Rightarrow> Inl (Status Internal ''failed to transform volume used size(%v)'' None)
      | Some used \<Rightarrow> (case m_InodesFree m of
        None \<Rightarrow> Inl (Status Internal ''failed to transform disk inodes free(%v)'' None)
      | Some inodesFree \<Rightarrow> (case m_Inodes m of
        None \<Rightarrow> Inl (Status Internal ''failed to transform disk inodes(%v)'' None)
      | Some inodes \<Rightarrow> (case m_InodesUsed m of
        None \<Rightarrow> Inl (Status Internal ''failed to transform disk inodes used(%v)'' None)
      | Some inodesUsed \<Rightarrow>
          Inr \<lparr>Usage =
            [\<lparr>u_Unit = BYTES, u_Available = available, u_Total = capacity, u_Used = used\<rparr>,
             \<lparr>u_Unit = INODES, u_Available = inodesFree, u_Total = inodes, u_Used = inodesUsed\<rparr>]\<rparr>))))))"

definition read_stats_cache :: "'w os \<Rightarrow> string \<Rightarrow> 'w st \<Rightarrow> (error + NodeGetVolumeStatsResponse option) \<times> 'w st" where
  "read_stats_cache os key s =
     (case cache_read (Now os (world s)) key (volStatsCache (drv s)) of
        (r, t) \<Rightarrow> (r, s\<lparr>drv := (drv s)\<lparr>volStatsCache := t\<rparr>\<rparr>))"

text \<open>The measurement, when the cache has no answer.\<close>

definition stats_measure ::
  "'w os \<Rightarrow> NodeGetVolumeStatsRequest \<Rightarrow> 'w st \<Rightarrow> (error + NodeGetVolumeStatsResponse) \<times> 'w st" where
  "stats_measure os req = asks (\<lambda>s. case Lstat os (ng_VolumePath req) (world s) of
     Some err \<Rightarrow>
       if IsNotExist err then fails (Status NotFound ''path %s does not exist'' None)
       else fails (Status Internal ''failed to stat file %s: %v'' (Some err))
   | None \<Rightarrow> (case StatFS os (ng_VolumePath req) (world s) of
       Inl err \<Rightarrow> fails (Status Internal ''failed to get metrics: %v'' (Some err))
     | Inr volumeMetrics \<Rightarrow> (case stats_response volumeMetrics of
         Inl err \<Rightarrow> fails err
       | Inr resp \<Rightarrow>
           ignoring
             (upd_drv (volStatsCache_update (cache_Set (Now os (world s)) (ng_VolumeId req) resp)))
             (returns resp))))"

definition NodeGetVolumeStats ::
  "'w os \<Rightarrow> NodeGetVolumeStatsRequest \<Rightarrow> 'w st \<Rightarrow> (error + NodeGetVolumeStatsResponse) \<times> 'w st" where
  "NodeGetVolumeStats os req =
     (if ng_VolumeId req = '''' then fails (Status InvalidArgument ''NodeGetVolumeStats volume ID was empty'' None)
      else if ng_VolumePath req = ''''
      then fails (Status InvalidArgument ''NodeGetVolumeStats volume path was empty'' None)
      else bind_st (read_stats_cache os (ng_VolumeId req)) (\<lambda>r. case r of
          Inl err \<Rightarrow> fails (Status Internal ''%v'' (Some err))
        | Inr (Some resp) \<Rightarrow> returns resp
        | Inr None \<Rightarrow> stats_measure os req))"

section \<open>Effects\<close>

lemma driver_kept_leave_pending: "keeps driver_kept (leave_pending m)"
  by (simp add: keeps_def leave_pending_def driver_kept_def locked_def config_def)

lemma driver_kept_read_stats_cache: "keeps driver_kept (read_stats_cache os key)"
  by (simp add: keeps_def read_stats_cache_def driver_kept_def locked_def config_def split: prod.splits)

lemma driver_kept_set_stats: "keeps driver_kept (upd_drv (volStatsCache_update f))"
  by (simp add: keeps_def upd_drv_def driver_kept_def locked_def config_def)

lemmas driver_kept_basic =
  driver_kept_on_world driver_kept_with_lock driver_kept_leave_pending driver_kept_read_stats_cache
  driver_kept_set_stats

lemma driver_kept_stage: "keeps driver_kept (NodeStageVolume os req)"
  unfolding NodeStageVolume_def stage_locked_def stage_options_def stage_mount_def mount_share_def WaitUntilTimeout_def
  by (intro keeps_intros drv_eff.keeps_control driver_kept_basic)

lemma driver_kept_unstage: "keeps driver_kept (NodeUnstageVolume os req)"
  unfolding NodeUnstageVolume_def
  by (intro keeps_intros drv_eff.keeps_control driver_kept_basic)

lemma driver_kept_publish: "keeps driver_kept (NodePublishVolume os req)"
  unfolding NodePublishVolume_def publish_bind_def
  by (intro keeps_intros drv_eff.keeps_control driver_kept_basic driver_kept_stage)

lemma driver_kept_unpublish: "keeps driver_kept (NodeUnpublishVolume os req)"
  unfolding NodeUnpublishVolume_def
  by (intro keeps_intros drv_eff.keeps_control driver_kept_basic)

lemma driver_kept_stats: "keeps driver_kept (NodeGetVolumeStats os req)"
  unfolding NodeGetVolumeStats_def stats_measure_def
  by (intro keeps_intros drv_eff.keeps_control driver_kept_basic)

text \<open>The calls that staging, unstaging and publishing may make.\<close>

definition ensure_calls :: "string \<Rightarrow> call \<Rightarrow> bool" where
  "ensure_calls target c \<longleftrightarrow> c = Unmount target \<or> c = MkdirAll target 0x1ED"

text \<open>
  The mount flags of a request: those in the volume context of an ephemeral volume, otherwise those
  of the capability.
\<close>

definition stage_flags :: "NodeStageVolumeRequest \<Rightarrow> string list" where
  "stage_flags req =
     (let ctx = parse_context (ns_VolumeContext req) stage_ctx0
      in if sc_ephemeralVol ctx then Split (sc_ephemeralVolMountOptions ctx) CHR '',''
         else (case ns_VolumeCapability req of None \<Rightarrow> [] | Some cap \<Rightarrow> GetMountFlags cap))"

definition stage_calls :: "'w os \<Rightarrow> Driver \<Rightarrow> NodeStageVolumeRequest \<Rightarrow> call \<Rightarrow> bool" where
  "stage_calls os d req c \<longleftrightarrow>
     kerberos_calls (krb5CacheDirectory d) (krb5Prefix d) (ns_VolumeId req) (stage_flags req) (ns_Secrets req) c \<or>
     ensure_calls (ns_StagingTargetPath req) c \<or>
     c = MkdirAll (ns_StagingTargetPath req) 0x1E8 \<or>
     c = Rmdir (ns_StagingTargetPath req) \<or>
     (\<exists>opts. mount_calls (temp_names os) (stage_source (parse_context (ns_VolumeContext req) stage_ctx0))
        (ns_StagingTargetPath req) opts c)"

definition unstage_calls :: "'w os \<Rightarrow> Driver \<Rightarrow> NodeUnstageVolumeRequest \<Rightarrow> call \<Rightarrow> bool" where
  "unstage_calls os d req c \<longleftrightarrow>
     c = Remove (nu_StagingTargetPath req) \<or> c = Unmount (nu_StagingTargetPath req) \<or>
     c = SMBUnmount (nu_StagingTargetPath req) (nu_VolumeId req) \<or>
     uncache_calls os (krb5CacheDirectory d) (nu_VolumeId req) c"

text \<open>The mounts that staging may leave in the background.\<close>

definition stage_pending :: "NodeStageVolumeRequest \<Rightarrow> bgmount \<Rightarrow> bool" where
  "stage_pending req m \<longleftrightarrow>
     bg_target m = ns_StagingTargetPath req \<and> bg_volumeID m = ns_VolumeId req \<and>
     bg_source m = stage_source (parse_context (ns_VolumeContext req) stage_ctx0)"

context effect_os
begin

lemma keeps_makeDir: "allowed (MkdirAll p 0x1ED) \<Longrightarrow> keeps R (makeDir os p)"
  unfolding makeDir_def by (intro keeps_intros keeps_control keeps_sys)

lemma keeps_ensureMountPoint:
  "(\<And>c. ensure_calls p c \<Longrightarrow> allowed c) \<Longrightarrow> keeps R (ensureMountPoint os p)"
  unfolding ensureMountPoint_def
  by (intro keeps_intros keeps_control keeps_sys keeps_makeDir) (simp_all add: ensure_calls_def)

lemma keeps_run_mount:
  "(\<And>c. mount_calls (temp_names os) (bg_source m) (bg_target m) (bg_options m) c \<Longrightarrow> allowed c) \<Longrightarrow>
   keeps R (run_mount os m)"
  unfolding run_mount_def by (rule keeps_smb_Mount)

end

context handler_env
begin

lemma keeps_leave_pending: "P m \<Longrightarrow> keeps (st_rel c R P) (leave_pending m)"
  by (simp add: keeps_def leave_pending_def st_rel_def R_refl config_def)

lemma keeps_stage_options:
  assumes "\<And>k. stage_calls os c req k \<Longrightarrow> allowed k"
  shows "keeps (st_rel c R P) (stage_options os req cap (stage_flags req) req_pwd creds)"
  unfolding stage_options_def
  by (intro keeps_state keeps_if keeps_option keeps_sum keeps_prod keeps_Let st.keeps_control
      keeps_ensureKerberosCache keeps_sys assms)
     (simp_all add: stage_calls_def config_fields)

lemma keeps_stage_mount:
  assumes "\<And>k. stage_calls os c req k \<Longrightarrow> allowed k" "\<And>m. stage_pending req m \<Longrightarrow> P m"
    and "ctx = parse_context (ns_VolumeContext req) stage_ctx0"
  shows "keeps (st_rel c R P) (stage_mount os req ctx mountOptions sens)"
  unfolding stage_mount_def mount_share_def WaitUntilTimeout_def
  by (intro keeps_state keeps_if keeps_option keeps_sum keeps_prod keeps_Let st.keeps_control
      keeps_ensureMountPoint keeps_prepare keeps_run_mount keeps_leave_pending assms(1,2))
     (auto simp add: stage_calls_def stage_pending_def assms(3))

lemma keeps_NodeStageVolume:
  assumes "\<And>k. stage_calls os c req k \<Longrightarrow> allowed k" "\<And>m. stage_pending req m \<Longrightarrow> P m"
  shows "keeps (st_rel c R P) (NodeStageVolume os req)"
proof -
  let ?ctx = "parse_context (ns_VolumeContext req) stage_ctx0"
  have "keeps (st_rel c R P) (stage_locked os req cap ?ctx)" if "ns_VolumeCapability req = Some cap" for cap
  proof -
    have "(if sc_ephemeralVol ?ctx then Split (sc_ephemeralVolMountOptions ?ctx) CHR '','' else GetMountFlags cap)
        = stage_flags req"
      using that by (simp add: stage_flags_def Let_def)
    then show ?thesis
      unfolding stage_locked_def
      by (simp only: Let_def, intro keeps_state keeps_sum keeps_prod st.keeps_control keeps_stage_options
          keeps_stage_mount assms refl)
  qed
  then show ?thesis
    unfolding NodeStageVolume_def by (intro keeps_state keeps_if keeps_option keeps_Let st.keeps_control) simp
qed

lemma keeps_NodeUnstageVolume:
  assumes "\<And>k. unstage_calls os c req k \<Longrightarrow> allowed k"
  shows "keeps (st_rel c R P) (NodeUnstageVolume os req)"
  unfolding NodeUnstageVolume_def
  by (intro keeps_state keeps_if st.keeps_control keeps_CleanupSMBMountPoint keeps_deleteKerberosCache assms)
     (simp_all add: unstage_calls_def config_fields)

end

section \<open>Group access\<close>

lemma int_or_nonneg_bound:
  assumes "0 \<le> v" "v < 2 ^ 63"
  shows "0 \<le> v OR (56 :: int)" "v OR 56 < 2 ^ 63"
  using assms OR_upper [of v 63 56] by simp_all

lemma enableGroupRWX_parses:
  assumes "ParseInt0 mode = Some v" "0 \<le> v"
  shows "ParseInt0 (enableGroupRWX mode) = Some (v OR 56)"
proof -
  have b: "0 \<le> v OR 56" "v OR 56 < 2 ^ 63"
    using int_or_nonneg_bound [OF assms(2)] ParseInt0_range [OF assms(1)] by simp_all
  then show ?thesis using assms by (simp add: enableGroupRWX_def ParseInt0_octal nat_less_iff)
qed

lemma bit_56: "bit (56 :: int) n \<longleftrightarrow> n \<in> {3, 4, 5}"
proof -
  have "(56 :: int) = push_bit 3 (mask 3)" by (simp add: push_bit_eq_mult mask_eq_exp_minus_1)
  have "bit (56 :: int) n \<longleftrightarrow> 3 \<le> n \<and> n - 3 < 3"
    unfolding \<open>(56 :: int) = push_bit 3 (mask 3)\<close> by (simp add: bit_push_bit_iff bit_mask_iff)
  then show ?thesis by auto
qed

text \<open>
  C31. Raising the group bits: for a mode that parses to a number that is not negative,
  \<^verbatim>\<open>enableGroupRWX\<close> prints a mode that parses to the same number with the three group bits set and
  every other bit as it was; every other mode is kept. Applying it twice changes nothing more.
\<close>

theorem enableGroupRWX_spec:
  "(case ParseInt0 mode of
      None \<Rightarrow> enableGroupRWX mode = mode
    | Some v \<Rightarrow>
        if v < 0 then enableGroupRWX mode = mode
        else \<exists>v'. ParseInt0 (enableGroupRWX mode) = Some v' \<and> (\<forall>n. bit v' n \<longleftrightarrow> bit v n \<or> n \<in> {3, 4, 5})) \<and>
   enableGroupRWX (enableGroupRWX mode) = enableGroupRWX mode"
proof (cases "ParseInt0 mode")
  case None
  then show ?thesis by (simp add: enableGroupRWX_def)
next
  case (Some v)
  show ?thesis
  proof (cases "v < 0")
    case True
    then show ?thesis using Some by (simp add: enableGroupRWX_def)
  next
    case False
    then have p: "ParseInt0 (enableGroupRWX mode) = Some (v OR 56)"
      using enableGroupRWX_parses Some by simp
    have "enableGroupRWX (enableGroupRWX mode) = octal (nat ((v OR 56) OR 56))"
      using p False by (subst enableGroupRWX_def) (simp add: or_nonnegative_int_iff)
    moreover have "enableGroupRWX mode = octal (nat (v OR 56))"
      using Some False by (simp add: enableGroupRWX_def)
    ultimately have "enableGroupRWX (enableGroupRWX mode) = enableGroupRWX mode"
      by (simp add: or.assoc)
    then show ?thesis using Some False p by (simp add: bit_or_iff bit_56)
  qed
qed

definition mode_flag :: "string \<Rightarrow> string \<Rightarrow> bool" where
  "mode_flag flag mountFlag \<longleftrightarrow>
     length (Split mountFlag CHR ''='') = 2 \<and> Split mountFlag CHR ''='' ! 0 = flag"

text \<open>
  Raising the group bits in the mount flags changes at most one flag: if the option occurs as
  \<^verbatim>\<open>flag=mode\<close>, the first occurrence gets the raised mode and everything before and after it stays;
  if it does not, nothing changes and the caller is told.
\<close>

lemma raiseGroupRWX_first:
  "raiseGroupRWXInMountFlags mountFlags flag =
     (case dropWhile (\<lambda>m. \<not> mode_flag flag m) mountFlags of
        [] \<Rightarrow> (False, mountFlags)
      | m # rest \<Rightarrow>
          (True, takeWhile (\<lambda>m. \<not> mode_flag flag m) mountFlags @
                 (flag @ ''='' @ enableGroupRWX (Split m CHR ''='' ! 1)) # rest))"
proof (induction mountFlags)
  case (Cons m ms)
  have "raiseGroupRWXInMountFlags (m # ms) flag =
      (if mode_flag flag m then (True, (flag @ ''='' @ enableGroupRWX (Split m CHR ''='' ! 1)) # ms)
       else case raiseGroupRWXInMountFlags ms flag of (b, fs) \<Rightarrow> (b, m # fs))"
    by (simp add: mode_flag_def Let_def)
  then show ?case
    using Cons.IH by (cases "dropWhile (\<lambda>m. \<not> mode_flag flag m) ms")
      (simp_all del: raiseGroupRWXInMountFlags.simps dropWhile_eq_Nil_conv)
qed simp

section \<open>Errors of staging\<close>

definition valid_stage :: "NodeStageVolumeRequest \<Rightarrow> bool" where
  "valid_stage req \<longleftrightarrow>
     ns_VolumeId req \<noteq> '''' \<and> ns_VolumeCapability req \<noteq> None \<and> ns_StagingTargetPath req \<noteq> '''' \<and>
     sc_source (parse_context (ns_VolumeContext req) stage_ctx0) \<noteq> ''''"

abbreviation stage_lock :: "NodeStageVolumeRequest \<Rightarrow> string" where
  "stage_lock req \<equiv> stage_key (ns_VolumeId req) (ns_StagingTargetPath req)"

lemma NodeStageVolume_valid:
  "valid_stage req \<Longrightarrow> NodeStageVolume os req =
     with_lock (stage_lock req)
       (stage_locked os req (the (ns_VolumeCapability req)) (parse_context (ns_VolumeContext req) stage_ctx0))"
  by (auto simp: valid_stage_def NodeStageVolume_def)

text \<open>
  C20. The errors of staging tell the caller what to do: a request with a missing field is refused
  with \<^verbatim>\<open>InvalidArgument\<close> and a request for a volume and path that is being worked on with
  \<^verbatim>\<open>Aborted\<close>, both without any effect; every other status is \<^verbatim>\<open>Internal\<close>.
\<close>

theorem stage_errors:
  "(\<not> valid_stage req \<longrightarrow> (\<exists>msg. NodeStageVolume os req s = (Inl (Status InvalidArgument msg None), s))) \<and>
   (valid_stage req \<and> stage_lock req \<in> locked s \<longrightarrow>
      NodeStageVolume os req s = (Inl (Status Aborted volumeOperationAlreadyExistsFmt None), s)) \<and>
   (valid_stage req \<and> stage_lock req \<notin> locked s \<longrightarrow>
      (\<forall>c msg e. fst (NodeStageVolume os req s) = Inl (Status c msg e) \<longrightarrow> c = Internal))"
proof (intro conjI impI)
  show "\<exists>msg. NodeStageVolume os req s = (Inl (Status InvalidArgument msg None), s)" if "\<not> valid_stage req"
    using that by (cases "ns_VolumeCapability req") (auto simp: valid_stage_def NodeStageVolume_def reply_def)
  show "NodeStageVolume os req s = (Inl (Status Aborted volumeOperationAlreadyExistsFmt None), s)"
    if "valid_stage req \<and> stage_lock req \<in> locked s"
    using that by (simp add: NodeStageVolume_valid with_lock_busy)
  assume v: "valid_stage req \<and> stage_lock req \<notin> locked s"
  let ?P = "\<lambda>r :: error + unit. \<forall>c msg e. r = Inl (Status c msg e) \<longrightarrow> c = Internal"
  have o: "ensures (\<lambda>r _. \<forall>c msg e. r = Inl (Status c msg e) \<longrightarrow> c = Internal)
      (stage_options os req cap flags b creds)" for cap flags b creds
    unfolding stage_options_def by (intro ensures_intros) auto
  have m: "ensures (\<lambda>r _. ?P r) (stage_mount os req ctx opts sens)" for ctx opts sens
    unfolding stage_mount_def mount_share_def by (intro ensures_intros) auto
  have "ensures (\<lambda>r _. ?P r) (bind_st (stage_options os req cap flags b creds) (\<lambda>r. case r of
      Inl err \<Rightarrow> fails err | Inr (opts, sens) \<Rightarrow> stage_mount os req ctx opts sens))" for cap flags b creds ctx
    using o [of cap flags b creds] m
    by (auto simp: ensures_def bind_st_def reply_def split: sum.splits prod.splits) (metis fst_conv)+
  then have "ensures (\<lambda>r _. ?P r) (stage_locked os req cap ctx)" for cap ctx
    unfolding stage_locked_def by (intro ensures_asks ensures_Let ensures_sum ensures_reply) (auto simp: secret_error_def)
  then have d: "ensures (\<lambda>r _. ?P r) (deferred (release_lock (stage_lock req)) (stage_locked os req cap ctx))" for cap ctx
    by (rule ensures_deferred)
  have n: "stage_lock req \<notin> locked s" using v by simp
  show "?P (fst (NodeStageVolume os req s))"
    unfolding NodeStageVolume_valid [OF conjunct1 [OF v]]
    by (rule with_lock_free [OF n, of "stage_locked os req (the (ns_VolumeCapability req))
          (parse_context (ns_VolumeContext req) stage_ctx0)"])
       (use d in \<open>simp add: ensures_def\<close>)
qed

section \<open>What staging touches\<close>

text \<open>
  C17. What staging touches: whatever the environment answers, every call of
  \<^verbatim>\<open>NodeStageVolume\<close> that changes the world creates, empties or unmounts the staging path, mounts the
  source with its sub-directory there, works on a temporary credentials file, writes the volume's
  own Kerberos cache with the content of the secret and hands it to the user of the \<^verbatim>\<open>cruid\<close> flag, or
  replaces the link \<^verbatim>\<open>krb5cc_<uid>\<close> of that one user by a link to that cache (a link that the
  volumes of one user share); a mount left in the background is that same mount.
\<close>

theorem stage_touches_its_own:
  assumes "NodeStageVolume (log_os os) req s = (r, s')" "world s = (w, [])" "pending s = []"
  shows "list_all (stage_calls (log_os os) (config s) req) (snd (world s')) \<and>
    list_all (stage_pending req) (pending s')"
proof -
  have "keeps (st_rel (config s) (logs (stage_calls (log_os os) (config s) req)) (stage_pending req))
      (NodeStageVolume (log_os os) req)"
    by (rule logged_env.keeps_NodeStageVolume)
  from keepsD [OF this assms(1)] show ?thesis using assms(2,3) by (auto simp: st_rel_def logs_def)
qed

section \<open>Statistics\<close>

lemma cache_fresh_earlier: "cache_fresh now key t = Some d \<Longrightarrow> now' \<le> now \<Longrightarrow> cache_fresh now' key t = Some d"
  by (auto simp: cache_fresh_def split: option.splits if_splits)

lemma fresh_after_Set:
  "now' - now < TTL t \<Longrightarrow> cache_fresh now' key (cache_Set now key d t) = Some d"
  by (simp add: cache_fresh_Set)

lemma read_stats_fresh:
  "cache_fresh (Now os (world s)) key (volStatsCache (drv s)) = x \<Longrightarrow>
   \<exists>t. read_stats_cache os key s = (Inr x, s\<lparr>drv := (drv s)\<lparr>volStatsCache := t\<rparr>\<rparr>) \<and>
     TTL t = TTL (volStatsCache (drv s))"
proof -
  assume x: "cache_fresh (Now os (world s)) key (volStatsCache (drv s)) = x"
  obtain r t where rt: "cache_read (Now os (world s)) key (volStatsCache (drv s)) = (r, t)" by fastforce
  have "r = Inr x" using azcache.read_value [OF rt] x by simp
  moreover have "TTL t = TTL (volStatsCache (drv s))" using TTL_cache_get rt by (metis snd_conv)
  ultimately show ?thesis using rt by (auto simp: read_stats_cache_def)
qed

text \<open>
  What a request for statistics does to the cache: a value that is fresh is returned and nothing is
  measured; otherwise the new value, if there is one, is stored with the time of the request.
\<close>

lemma stats_hit:
  assumes "cache_fresh (Now os (world s)) (ng_VolumeId req) (volStatsCache (drv s)) = Some resp"
    and "ng_VolumeId req \<noteq> ''''" "ng_VolumePath req \<noteq> ''''"
  shows "\<exists>t. NodeGetVolumeStats os req s = (Inr resp, s\<lparr>drv := (drv s)\<lparr>volStatsCache := t\<rparr>\<rparr>)"
  using read_stats_fresh [OF assms(1)] assms(2,3) by (auto simp: NodeGetVolumeStats_def control_defs)

lemma stats_miss:
  assumes "cache_fresh (Now os (world s)) (ng_VolumeId req) (volStatsCache (drv s)) = None"
    and "NodeGetVolumeStats os req s = (Inr resp, s')"
  shows "ng_VolumeId req \<noteq> ''''" "world s' = world s"
    and "now - Now os (world s) < TTL (volStatsCache (drv s)) \<Longrightarrow>
      cache_fresh now (ng_VolumeId req) (volStatsCache (drv s')) = Some resp"
proof -
  obtain t where t: "read_stats_cache os (ng_VolumeId req) s = (Inr None, s\<lparr>drv := (drv s)\<lparr>volStatsCache := t\<rparr>\<rparr>)"
    "TTL t = TTL (volStatsCache (drv s))"
    using read_stats_fresh [OF assms(1)] by blast
  have "volStatsCache (drv s') = cache_Set (Now os (world s)) (ng_VolumeId req) resp t \<and>
      ng_VolumeId req \<noteq> '''' \<and> world s' = world s"
    using assms(2) t(1)
    by (auto simp: NodeGetVolumeStats_def stats_measure_def control_defs upd_drv_def split: if_splits option.splits sum.splits)
  then show "ng_VolumeId req \<noteq> ''''" "world s' = world s"
    and "now - Now os (world s) < TTL (volStatsCache (drv s)) \<Longrightarrow>
      cache_fresh now (ng_VolumeId req) (volStatsCache (drv s')) = Some resp"
    using t(2) by (simp_all add: fresh_after_Set)
qed

text \<open>A value that will still be fresh later is not touched by a request for any volume.\<close>

lemma stats_keeps_fresh:
  assumes "cache_fresh now key (volStatsCache (drv s)) = Some d" "Now os (world s) \<le> now"
  shows "cache_fresh now key (volStatsCache (drv (snd (NodeGetVolumeStats os req s)))) = Some d"
proof -
  let ?now = "Now os (world s)" and ?vol = "ng_VolumeId req"
  obtain r t where rt: "cache_read ?now ?vol (volStatsCache (drv s)) = (r, t)" by fastforce
  have r: "r = Inr (cache_fresh ?now ?vol (volStatsCache (drv s)))" by (rule azcache.read_value [OF rt])
  have t: "cache_fresh now key t = Some d"
    using azcache.read_keeps [OF assms(2), of key ?vol "volStatsCache (drv s)"] rt assms(1) by simp
  have rs: "read_stats_cache os ?vol s = (r, s\<lparr>drv := (drv s)\<lparr>volStatsCache := t\<rparr>\<rparr>)"
    using rt by (simp add: read_stats_cache_def)
  show ?thesis
  proof (cases "cache_fresh ?now ?vol (volStatsCache (drv s))")
    case None
    then have "key \<noteq> ?vol" using cache_fresh_earlier [OF assms] by auto
    then show ?thesis
      using t rs r None assms(1)
      by (auto simp: NodeGetVolumeStats_def stats_measure_def control_defs upd_drv_def cache_fresh_Set
          split: option.splits sum.splits)
  next
    case (Some resp)
    then show ?thesis using t rs r assms(1) by (simp add: NodeGetVolumeStats_def control_defs)
  qed
qed

end
