(* ===== verification/VolumeID.thy ===== *)
theory VolumeID
  imports SmbUtil GoPath "HOL-Library.Word"
begin

text \<open>
  The internal representation of a volume and its identifier (\<^verbatim>\<open>pkg/smb/controllerserver.go\<close>):
  \<^verbatim>\<open>newSMBVolume\<close> builds a volume from the parameters of a storage class, \<^verbatim>\<open>getVolumeIDFromSmbVol\<close>
  writes it as a CSI volume id, \<^verbatim>\<open>getSmbVolFromID\<close> reads it back, and the two path functions
  give the directory where the share is mounted and the directory of the volume below it.
\<close>

section \<open>Volumes\<close>

abbreviation separator :: char where
  "separator \<equiv> CHR ''#''"

record smbVolume =
  vol_id :: string
  source :: string
  subDir :: string
  vol_size :: "64 word"
  uuid :: string
  onDelete :: string

text \<open>
  A volume as a struct literal makes it: the fields that are not named are zero.
\<close>

definition empty_vol :: smbVolume where
  "empty_vol = \<lparr>vol_id = '''', source = '''', subDir = '''', vol_size = 0, uuid = '''', onDelete = ''''\<rparr>"

section \<open>Volume identifiers\<close>

text \<open>
  The elements in the order idSource, idSubDir, idUUID, idOnDelete.
\<close>

definition idElements :: "smbVolume \<Rightarrow> string list" where
  "idElements vol =
     [Trim (source vol) ''/'', Trim (subDir vol) ''/'', uuid vol,
      if EqualFold (onDelete vol) retain \<or> EqualFold (onDelete vol) archive
      then onDelete vol else '''']"

definition getVolumeIDFromSmbVol :: "smbVolume \<Rightarrow> string" where
  "getVolumeIDFromSmbVol vol = Join (idElements vol) [separator]"

definition getSmbVolFromID :: "string \<Rightarrow> error + smbVolume" where
  "getSmbVolFromID i =
     (let segments = Split i separator in
      if length segments < 2 then
        Inl (Errorf ''could not split %q into server and subDir'' None)
      else
        let source = (if \<not> HasPrefix (segments ! 0) ''//'' then ''//'' @ segments ! 0
                      else segments ! 0);
            vol = empty_vol\<lparr>vol_id := i, source := source, subDir := segments ! 1\<rparr>;
            vol = (if 3 \<le> length segments then vol\<lparr>uuid := segments ! 2\<rparr> else vol);
            vol = (if 4 \<le> length segments then vol\<lparr>onDelete := segments ! 3\<rparr> else vol)
        in Inr vol)"

section \<open>Paths\<close>

text \<open>The nil case of \<^verbatim>\<open>getInternalMountPath\<close> does not arise: its callers pass a volume.\<close>

definition getInternalMountPath :: "string \<Rightarrow> smbVolume \<Rightarrow> string" where
  "getInternalMountPath workingMountDir vol =
     FJoin workingMountDir (if uuid vol = '''' then subDir vol else uuid vol)"

definition getInternalVolumePath :: "string \<Rightarrow> smbVolume \<Rightarrow> string" where
  "getInternalVolumePath workingMountDir vol =
     FJoin (getInternalMountPath workingMountDir vol) (subDir vol)"

section \<open>From parameters to a volume\<close>

text \<open>The local variables of the loop over the parameters.\<close>

record params =
  p_source :: string
  p_subDir :: string
  p_onDelete :: string
  p_replace :: gomap

definition params0 :: params where
  "params0 = \<lparr>p_source = '''', p_subDir = '''', p_onDelete = '''', p_replace = []\<rparr>"

definition param_step :: "string \<Rightarrow> string \<Rightarrow> params \<Rightarrow> error + params" where
  "param_step k v p =
     (let l = ToLower k in
      if l = sourceField then Inr (p\<lparr>p_source := v\<rparr>)
      else if l = subDirField then Inr (p\<lparr>p_subDir := v\<rparr>)
      else if l = paramOnDelete then Inr (p\<lparr>p_onDelete := v\<rparr>)
      else if l = pvcNamespaceKey then
        Inr (p\<lparr>p_replace := map_put pvcNamespaceMetadata v (p_replace p)\<rparr>)
      else if l = pvcNameKey then
        Inr (p\<lparr>p_replace := map_put pvcNameMetadata v (p_replace p)\<rparr>)
      else if l = pvNameKey then
        Inr (p\<lparr>p_replace := map_put pvNameMetadata v (p_replace p)\<rparr>)
      else Inl (Errorf ''invalid parameter %s in storage class'' None))"

fun parse_params :: "gomap \<Rightarrow> params \<Rightarrow> error + params" where
  "parse_params [] p = Inr p"
| "parse_params ((k, v) # m) p =
     (case param_step k v p of Inl e \<Rightarrow> Inl e | Inr p' \<Rightarrow> parse_params m p')"

definition newSMBVolume :: "string \<Rightarrow> 64 word \<Rightarrow> gomap \<Rightarrow> string \<Rightarrow> error + smbVolume" where
  "newSMBVolume name sz ps defaultOnDeletePolicy =
     (case parse_params ps params0 of
        Inl e \<Rightarrow> Inl e
      | Inr p \<Rightarrow>
          if p_source p = '''' then Inl (Errorf ''%v is a required parameter'' None)
          else
            let vol = empty_vol\<lparr>source := p_source p, vol_size := sz\<rparr>;
                vol = (if p_subDir p = '''' then vol\<lparr>subDir := name\<rparr>
                       else vol\<lparr>subDir := replaceWithMap (p_subDir p) (p_replace p),
                                uuid := name\<rparr>)
            in case validateOnDeleteValue (p_onDelete p) of
                 Some e \<Rightarrow> Inl e
               | None \<Rightarrow>
                   let vol = vol\<lparr>onDelete := if p_onDelete p \<noteq> '''' then p_onDelete p
                                              else defaultOnDeletePolicy\<rparr>
                   in Inr (vol\<lparr>vol_id := getVolumeIDFromSmbVol vol\<rparr>))"

section \<open>Reading an identifier back\<close>

text \<open>
  What survives in an identifier: the source and the subdirectory without the slashes at their
  ends, the uuid, and the policy when it is \<^verbatim>\<open>retain\<close> or \<^verbatim>\<open>archive\<close>.
\<close>

definition no_sep :: "smbVolume \<Rightarrow> bool" where
  "no_sep vol = (separator \<notin> set (source vol) \<and> separator \<notin> set (subDir vol)
                 \<and> separator \<notin> set (uuid vol))"

lemma EqualFold_no_sep:
  assumes "EqualFold s t" "separator \<notin> set t"
  shows "separator \<notin> set s"
proof
  assume "separator \<in> set s"
  then have "lower_char separator \<in> set (ToLower s)" by (simp add: ToLower_def)
  then have "lower_char separator \<in> lower_char ` set t"
    using assms(1) unfolding EqualFold_def by (metis ToLower_def set_map)
  then obtain c where c: "c \<in> set t" "lower_char c = separator"
    by (auto simp: lower_char_def)
  have "c = separator"
  proof (cases "65 \<le> (of_char c :: nat) \<and> (of_char c :: nat) \<le> 90")
    case True
    then have "(of_char (lower_char c) :: nat) = of_char c + 32"
      by (simp add: lower_char_def of_char_of)
    then show ?thesis using True c(2) by auto
  next
    case False
    then show ?thesis using c(2) unfolding lower_char_def by metis
  qed
  then show False using c(1) assms(2) by simp
qed

lemma idElements_no_sep:
  assumes "no_sep vol"
  shows "\<forall>x \<in> set (idElements vol). separator \<notin> set x"
proof -
  have "separator \<notin> set (Trim (source vol) ''/'')" "separator \<notin> set (Trim (subDir vol) ''/'')"
    using assms set_Trim by (auto simp: no_sep_def)
  then show ?thesis
    using assms EqualFold_no_sep [of "onDelete vol" retain] EqualFold_no_sep [of "onDelete vol" archive]
    by (auto simp: idElements_def no_sep_def)
qed

lemma Split_getVolumeID:
  "no_sep vol \<Longrightarrow> Split (getVolumeIDFromSmbVol vol) separator = idElements vol"
  using Split_Join [of "idElements vol" separator] idElements_no_sep
  by (simp add: getVolumeIDFromSmbVol_def idElements_def)

lemma getSmbVolFromID_of_vol:
  assumes "no_sep vol"
  shows "getSmbVolFromID (getVolumeIDFromSmbVol vol) =
    Inr \<lparr>vol_id = getVolumeIDFromSmbVol vol, source = ''//'' @ Trim (source vol) ''/'',
         subDir = Trim (subDir vol) ''/'', vol_size = 0, uuid = uuid vol,
         onDelete = (if EqualFold (onDelete vol) retain \<or> EqualFold (onDelete vol) archive
                     then onDelete vol else '''')\<rparr>"
proof -
  have "\<not> HasPrefix (Trim (source vol) ''/'') ''//''"
    using Trim_ends [of "source vol" "''/''"] by (cases "Trim (source vol) ''/''") auto
  then show ?thesis
    using Split_getVolumeID [OF assms]
    by (simp add: getSmbVolFromID_def idElements_def empty_vol_def Let_def)
qed

section \<open>Paths of a volume read back\<close>

lemma clean_comps_nonempty:
  "clean_comps rooted acc cs = clean_comps rooted acc (filter (\<lambda>c. c \<noteq> []) cs)"
  by (induction rooted acc cs rule: clean_comps.induct) (auto split: list.splits)

lemma nonempty_Split_slashes_left:
  "set p \<subseteq> {slash} \<Longrightarrow> filter (\<lambda>c. c \<noteq> []) (Split (p @ s) slash) = filter (\<lambda>c. c \<noteq> []) (Split s slash)"
  by (induction p) auto

lemma nonempty_Split_slashes_right:
  "set p \<subseteq> {slash} \<Longrightarrow> filter (\<lambda>c. c \<noteq> []) (Split (s @ p) slash) = filter (\<lambda>c. c \<noteq> []) (Split s slash)"
proof (induction p arbitrary: s)
  case (Cons c p)
  then have "Split (s @ c # p) slash = Split s slash @ Split p slash"
    using Split_append [of s slash p] by simp
  moreover have "filter (\<lambda>c. c \<noteq> []) (Split p slash) = []"
    using Cons nonempty_Split_slashes_left [of p "[]"] by simp
  ultimately show ?case by simp
qed simp

lemma nonempty_Split_Trim:
  "filter (\<lambda>c. c \<noteq> []) (Split (Trim s ''/'') slash) = filter (\<lambda>c. c \<noteq> []) (Split s slash)"
proof -
  obtain q where q: "TrimLeft s ''/'' = Trim s ''/'' @ q" "set q \<subseteq> {slash}"
    using TrimRight_decomp [of "TrimLeft s ''/''" "''/''"] by (auto simp: Trim_def)
  have "s = takeWhile (\<lambda>c. c \<in> set ''/'') s @ TrimLeft s ''/''"
    by (simp add: TrimLeft_def)
  then show ?thesis
    using q nonempty_Split_slashes_left [of "takeWhile (\<lambda>c. c \<in> set ''/'') s" "TrimLeft s ''/''"]
      nonempty_Split_slashes_right [of q "Trim s ''/''"]
    by (metis (no_types, lifting) empty_set insert_subset list.simps(15) set_takeWhileD subsetI)
qed

lemma FJoin_Trim:
  assumes "IsAbs a"
  shows "FJoin a (Trim b ''/'') = FJoin a b"
proof -
  have "comps (FJoin a (Trim b ''/'')) = comps (FJoin a b)"
    unfolding comps_FJoin [OF assms]
    by (subst (1 2) clean_comps_nonempty) (simp add: nonempty_Split_Trim)
  then show ?thesis by (metis FJoin_path_of assms)
qed

lemma getInternalMountPath_abs: "IsAbs wd \<Longrightarrow> IsAbs (getInternalMountPath wd vol)"
  by (simp add: getInternalMountPath_def IsAbs_FJoin)

lemma paths_cong:
  assumes "IsAbs wd" "uuid vol' = uuid vol" "subDir vol' = Trim (subDir vol) ''/''"
  shows "getInternalMountPath wd vol' = getInternalMountPath wd vol"
    and "getInternalVolumePath wd vol' = getInternalVolumePath wd vol"
proof -
  show "getInternalMountPath wd vol' = getInternalMountPath wd vol"
    using assms by (simp add: getInternalMountPath_def FJoin_Trim)
  then show "getInternalVolumePath wd vol' = getInternalVolumePath wd vol"
    using assms by (simp add: getInternalVolumePath_def FJoin_Trim getInternalMountPath_abs)
qed

lemma newSMBVolume_id: "newSMBVolume name sz ps dflt = Inr vol \<Longrightarrow> vol_id vol = getVolumeIDFromSmbVol vol"
  by (auto simp: newSMBVolume_def getVolumeIDFromSmbVol_def idElements_def Let_def
      split: sum.splits option.splits if_splits)

text \<open>
  The converse: what \<^verbatim>\<open>getSmbVolFromID\<close> returns was cut out between separators, so a field with a
  separator is never read back.
\<close>

lemma getSmbVolFromID_no_sep:
  assumes "getSmbVolFromID i = Inr vol"
  shows "no_sep vol"
proof -
  let ?segs = "Split i separator"
  have len: "\<not> length ?segs < 2" using assms by (auto simp: getSmbVolFromID_def Let_def)
  have seg: "separator \<notin> set (?segs ! k)" if "k < length ?segs" for k
    using that Split_parts_no_sep [of _ i separator] by auto
  have "?segs ! 0 \<in> set ?segs" "?segs ! 1 \<in> set ?segs" using len by auto
  then have "separator \<notin> set (?segs ! 0)" "separator \<notin> set (?segs ! 1)"
    using seg [of 0] seg [of 1] len by auto
  moreover have "3 \<le> length ?segs \<Longrightarrow> separator \<notin> set (?segs ! 2)" using seg [of 2] by simp
  ultimately show ?thesis
    using assms len by (auto simp: getSmbVolFromID_def no_sep_def empty_vol_def Let_def split: if_splits)
qed

lemma sep_in_Trim: "separator \<in> set s \<Longrightarrow> separator \<in> set (Trim s ''/'')"
proof -
  assume sep: "separator \<in> set s"
  obtain q where q: "TrimLeft s ''/'' = Trim s ''/'' @ q" "set q \<subseteq> {slash}"
    using TrimRight_decomp [of "TrimLeft s ''/''" "''/''"] by (auto simp: Trim_def)
  have "s = takeWhile (\<lambda>c. c \<in> set ''/'') s @ Trim s ''/'' @ q"
    using q(1) by (metis TrimLeft_def takeWhile_dropWhile_id)
  then have "separator \<in> set (takeWhile (\<lambda>c. c \<in> set ''/'') s) \<union> set (Trim s ''/'') \<union> set q"
    using sep by (metis Un_iff set_append)
  then show ?thesis using q(2) by (auto dest!: set_takeWhileD)
qed

text \<open>
  C8. Reading back the identifier of a provisioned volume, for an absolute working directory:
  \<^verbatim>\<open>getSmbVolFromID\<close> turns the identifier that \<^verbatim>\<open>newSMBVolume\<close> produced into a volume with the same
  source and subdirectory (up to slashes at the ends), uuid, mount path and volume path exactly if
  there is no \<^verbatim>\<open>#\<close> in the source, the subdirectory and the uuid of the volume. So DeleteVolume
  works in the directory that CreateVolume made for the volumes without a \<^verbatim>\<open>#\<close>, and a volume with
  one, which \<^verbatim>\<open>newSMBVolume\<close> accepts, is read back as a different volume.
\<close>

theorem volume_id_roundtrip:
  assumes "newSMBVolume name sz ps dflt = Inr vol" "IsAbs wd"
  shows "no_sep vol \<longleftrightarrow>
    (\<exists>vol'. getSmbVolFromID (vol_id vol) = Inr vol' \<and> vol_id vol' = vol_id vol \<and>
      source vol' = ''//'' @ Trim (source vol) ''/'' \<and>
      subDir vol' = Trim (subDir vol) ''/'' \<and> uuid vol' = uuid vol \<and>
      getInternalMountPath wd vol' = getInternalMountPath wd vol \<and>
      getInternalVolumePath wd vol' = getInternalVolumePath wd vol)"
    (is "_ \<longleftrightarrow> ?same")
proof
  assume "no_sep vol"
  then show ?same
    using getSmbVolFromID_of_vol newSMBVolume_id [OF assms(1)] paths_cong [OF assms(2)] by auto
next
  assume ?same
  then show "no_sep vol"
    using getSmbVolFromID_no_sep [of "vol_id vol"] sep_in_Trim by (fastforce simp: no_sep_def)
qed

theorem volume_id_roundtrip_witness:
  "\<exists>vol'. getSmbVolFromID ''srv/share#data#pvc-1#'' = Inr vol' \<and> uuid vol' = ''pvc-1'' \<and>
    getInternalVolumePath ''/tmp'' vol' = ''/tmp/pvc-1/data''"
proof -
  let ?ps = "[(''source'', ''//srv/share''), (''subDir'', ''data'')]"
  let ?vol = "\<lparr>vol_id = ''srv/share#data#pvc-1#'', source = ''//srv/share'', subDir = ''data'',
    vol_size = 1, uuid = ''pvc-1'', onDelete = ''''\<rparr>"
  have new: "newSMBVolume ''pvc-1'' 1 ?ps '''' = Inr ?vol" by code_simp
  have ok: "no_sep ?vol" "IsAbs ''/tmp''" by code_simp+
  have path: "getInternalVolumePath ''/tmp'' ?vol = ''/tmp/pvc-1/data''" by code_simp
  show ?thesis using volume_id_roundtrip [OF new ok(2)] ok(1) path by auto
qed

section \<open>Distinct volumes\<close>

lemma idElements_determine:
  assumes "no_sep vol" "no_sep vol'" "getVolumeIDFromSmbVol vol = getVolumeIDFromSmbVol vol'"
  shows "idElements vol = idElements vol'"
  using assms Split_getVolumeID by metis

text \<open>
  C22. Identifiers are unique among volumes without \<^verbatim>\<open>#\<close>: two volumes with no \<^verbatim>\<open>#\<close> in source,
  subdirectory and uuid have the same identifier exactly when they agree on the source and the
  subdirectory up to slashes at the ends, on the uuid, and on the policy as far as it is
  \<^verbatim>\<open>retain\<close> or \<^verbatim>\<open>archive\<close>. (With a \<^verbatim>\<open>#\<close> they may collide: source \<^verbatim>\<open>a#b\<close> with subdirectory
  \<^verbatim>\<open>c\<close>, and source \<^verbatim>\<open>a\<close> with subdirectory \<^verbatim>\<open>b#c\<close>.)
\<close>

theorem volume_id_unique:
  assumes "no_sep vol" "no_sep vol'"
  shows "getVolumeIDFromSmbVol vol = getVolumeIDFromSmbVol vol' \<longleftrightarrow>
    Trim (source vol) ''/'' = Trim (source vol') ''/'' \<and>
    Trim (subDir vol) ''/'' = Trim (subDir vol') ''/'' \<and> uuid vol = uuid vol' \<and>
    (if EqualFold (onDelete vol) retain \<or> EqualFold (onDelete vol) archive then onDelete vol else '''') =
    (if EqualFold (onDelete vol') retain \<or> EqualFold (onDelete vol') archive then onDelete vol' else '''')"
proof -
  have "getVolumeIDFromSmbVol vol = getVolumeIDFromSmbVol vol' \<longleftrightarrow> idElements vol = idElements vol'"
    using idElements_determine [OF assms] by (auto simp: getVolumeIDFromSmbVol_def)
  then show ?thesis by (simp add: idElements_def)
qed

theorem volume_id_unique_witness:
  "getVolumeIDFromSmbVol (empty_vol\<lparr>source := ''//srv/share'', subDir := ''a''\<rparr>) \<noteq>
   getVolumeIDFromSmbVol (empty_vol\<lparr>source := ''//srv/share'', subDir := ''b''\<rparr>)"
proof -
  let ?a = "empty_vol\<lparr>source := ''//srv/share'', subDir := ''a''\<rparr>"
  let ?b = "empty_vol\<lparr>source := ''//srv/share'', subDir := ''b''\<rparr>"
  have ok: "no_sep ?a" "no_sep ?b" by code_simp+
  have "Trim (subDir ?a) ''/'' \<noteq> Trim (subDir ?b) ''/''" by code_simp
  then show ?thesis using volume_id_unique [OF ok] by simp
qed

lemma newSMBVolume_mount_dir:
  assumes "newSMBVolume name sz ps dflt = Inr vol" "name \<noteq> ''''"
  shows "getInternalMountPath wd vol = FJoin wd name"
  using assms
  by (auto simp: newSMBVolume_def getInternalMountPath_def empty_vol_def Let_def
      split: sum.splits option.splits if_splits)

lemma plain_comp_not_Nil: "plain_comp c \<Longrightarrow> c \<noteq> []"
  by (simp add: plain_comp_def)

text \<open>
  C23. A mount directory per volume: the volumes that two CreateVolume requests with different
  names provision, on the same or on different shares, are mounted in different directories of
  the working directory, and neither directory lies inside the other. The names are plain path
  components (not empty, not \<^verbatim>\<open>.\<close> or \<^verbatim>\<open>..\<close>, without a slash), as the provisioner makes them, and
  the working directory is absolute; \<^verbatim>\<open>newSMBVolume\<close> itself checks no names.
\<close>

theorem mount_paths_disjoint:
  assumes "newSMBVolume name sz ps dflt = Inr vol" "newSMBVolume name' sz' ps' dflt' = Inr vol'"
    and "plain_comp name" "plain_comp name'" "name \<noteq> name'" "IsAbs wd"
  shows "comps (getInternalMountPath wd vol) = comps wd @ [name] \<and>
    comps (getInternalMountPath wd vol) \<parallel> comps (getInternalMountPath wd vol')"
  using assms
  by (simp add: newSMBVolume_mount_dir comps_FJoin_plain plain_comp_not_Nil not_equal_is_parallel)

theorem mount_paths_disjoint_witness:
  "comps ''/tmp/pvc-1'' \<parallel> comps ''/tmp/pvc-2''"
proof -
  let ?ps = "[(''source'', ''//srv/share'')]"
  let ?vol = "\<lambda>name. \<lparr>vol_id = ''srv/share#'' @ name @ ''##'', source = ''//srv/share'',
    subDir = name, vol_size = 1, uuid = '''', onDelete = ''''\<rparr>"
  have new: "newSMBVolume ''pvc-1'' 1 ?ps '''' = Inr (?vol ''pvc-1'')"
    "newSMBVolume ''pvc-2'' 1 ?ps '''' = Inr (?vol ''pvc-2'')" by code_simp+
  have ok: "plain_comp ''pvc-1''" "plain_comp ''pvc-2''" "''pvc-1'' \<noteq> ''pvc-2''" "IsAbs ''/tmp''"
    by code_simp+
  have path: "getInternalMountPath ''/tmp'' (?vol ''pvc-1'') = ''/tmp/pvc-1''"
    "getInternalMountPath ''/tmp'' (?vol ''pvc-2'') = ''/tmp/pvc-2''" by code_simp+
  show ?thesis using mount_paths_disjoint [OF new ok] unfolding path by blast
qed

section \<open>Staying below the mount\<close>

text \<open>
  C24. Containment: for an absolute working directory, a subdirectory that never steps upwards
  with \<^verbatim>\<open>..\<close> and a uuid that is empty or a plain path component, the directory of the volume is
  the mount path or lies below it, and the mount path is the working directory or lies below it.
  (A uuid such as \<^verbatim>\<open>../../etc\<close> in an identifier is not checked and leads out.)
\<close>

theorem volume_path_contained:
  assumes "IsAbs wd" "no_dotdot (subDir vol)" "uuid vol = '''' \<or> plain_comp (uuid vol)"
  shows "prefix (comps wd) (comps (getInternalMountPath wd vol)) \<and>
    prefix (comps (getInternalMountPath wd vol)) (comps (getInternalVolumePath wd vol))"
  using assms
  by (auto simp: getInternalVolumePath_def getInternalMountPath_def comps_FJoin_no_dotdot
      comps_FJoin_plain IsAbs_FJoin)

theorem volume_path_contained_witness:
  "prefix (comps ''/tmp/pvc-1'') (comps (getInternalVolumePath ''/tmp''
     (empty_vol\<lparr>subDir := ''a/b'', uuid := ''pvc-1''\<rparr>)))"
proof -
  let ?vol = "empty_vol\<lparr>subDir := ''a/b'', uuid := ''pvc-1''\<rparr>"
  have ok: "IsAbs ''/tmp''" "no_dotdot (subDir ?vol)" "uuid ?vol = '''' \<or> plain_comp (uuid ?vol)"
    by code_simp+
  have "getInternalMountPath ''/tmp'' ?vol = ''/tmp/pvc-1''" by code_simp
  then show ?thesis using volume_path_contained [OF ok] by simp
qed

lemma newSMBVolume_with_subDir:
  assumes "parse_params ps params0 = Inr p" "p_source p \<noteq> ''''" "p_subDir p \<noteq> ''''" "p_onDelete p = ''''"
  shows "\<exists>vol. newSMBVolume name sz ps dflt = Inr vol \<and>
    subDir vol = replaceWithMap (p_subDir p) (p_replace p) \<and> uuid vol = name"
proof -
  have "validateOnDeleteValue '''' = None" by code_simp
  then show ?thesis using assms by (simp add: newSMBVolume_def Let_def)
qed

text \<open>Each leading \<^verbatim>\<open>../\<close> takes one component off the base, down to the root.\<close>

lemma Split_climb:
  "Split (concat (replicate n ''../'') @ d) slash = replicate n ''..'' @ Split d slash"
  by (induction n) (simp_all add: Split_append [of "''..''" slash, simplified])

lemma clean_comps_climb:
  "''..'' \<notin> set acc \<Longrightarrow>
   clean_comps True acc (replicate n ''..'' @ cs) = clean_comps True (drop n acc) cs"
proof (induction n arbitrary: acc)
  case (Suc n)
  then show ?case by (cases acc) auto
qed simp

lemma comps_FJoin_climb:
  assumes "IsAbs a" "no_dotdot d"
  shows "comps (FJoin a (concat (replicate n ''../'') @ d)) =
    take (length (comps a) - n) (comps a) @ filter (\<lambda>c. c \<noteq> [] \<and> c \<noteq> ''.'') (Split d slash)"
proof -
  have "''..'' \<notin> set (rev (comps a))" using comps_plain [OF assms(1)] by (auto simp: plain_comp_def)
  then show ?thesis
    using assms
    by (simp add: comps_FJoin Split_climb clean_comps_climb clean_comps_acc no_dotdot_def rev_drop)
qed

lemma prefix_snoc_in:
  assumes "prefix (xs @ [x]) (ys @ zs)" "length ys \<le> length xs"
  shows "x \<in> set zs"
proof -
  obtain us where us: "ys @ zs = xs @ x # us" using assms(1) by (auto simp: prefix_def)
  then have "zs = drop (length ys) xs @ x # us"
    using assms(2) by (metis append_eq_conv_conj drop_append drop_0 diff_is_0_eq)
  then show ?thesis by simp
qed

text \<open>
  C37. The subdirectory of a storage class is not checked for a leading climb: for every non-empty
  source, every name that is a plain path component, every absolute working directory, every
  \<open>n\<close> of at least one and every rest \<open>d\<close> without \<^verbatim>\<open>..\<close>, \<^verbatim>\<open>newSMBVolume\<close> accepts the \<^verbatim>\<open>subDir\<close> made
  of \<open>n\<close> times \<^verbatim>\<open>../\<close> and \<open>d\<close>. The share is mounted at the directory of that name, and the volume
  path, which CreateVolume creates and DeleteVolume removes, is \<open>d\<close> taken from the \<open>n\<close>-th ancestor
  of the mount path; it is outside the mount whenever the name is not a component of \<open>d\<close>.
\<close>

theorem subDir_escapes_mount:
  assumes "src \<noteq> ''''" "plain_comp name" "IsAbs wd" "1 \<le> n" "no_dotdot d"
  shows "\<exists>vol. newSMBVolume name sz [(''source'', src),
        (''subDir'', concat (replicate n ''../'') @ d)] dflt = Inr vol \<and>
    comps (getInternalMountPath wd vol) = comps wd @ [name] \<and>
    comps (getInternalVolumePath wd vol) =
      take (Suc (length (comps wd)) - n) (comps wd @ [name]) @
      filter (\<lambda>c. c \<noteq> [] \<and> c \<noteq> ''.'') (Split d slash) \<and>
    (name \<notin> set (Split d slash) \<longrightarrow>
      \<not> prefix (comps (getInternalMountPath wd vol)) (comps (getInternalVolumePath wd vol)))"
proof -
  let ?sub = "concat (replicate n ''../'') @ d"
  have keys: "ToLower ''source'' = sourceField" "ToLower ''subDir'' = subDirField"
    "sourceField \<noteq> subDirField" by code_simp+
  have "?sub \<noteq> ''''" using assms(4) by (cases n) auto
  then obtain vol where
    vol: "newSMBVolume name sz [(''source'', src), (''subDir'', ?sub)] dflt = Inr vol"
      "subDir vol = ?sub" "uuid vol = name"
    using newSMBVolume_with_subDir [of "[(''source'', src), (''subDir'', ?sub)]"
        "params0\<lparr>p_source := src, p_subDir := ?sub\<rparr>" name sz dflt] assms(1) keys
    by (auto simp: param_step_def params0_def)
  have mount: "comps (getInternalMountPath wd vol) = comps wd @ [name]"
    using vol(3) assms(2,3) by (simp add: getInternalMountPath_def plain_comp_not_Nil comps_FJoin_plain)
  then have path: "comps (getInternalVolumePath wd vol) =
      take (Suc (length (comps wd)) - n) (comps wd @ [name]) @
      filter (\<lambda>c. c \<noteq> [] \<and> c \<noteq> ''.'') (Split d slash)" (is "_ = ?t @ ?ds")
    using vol(2) assms(3,5)
    by (simp add: getInternalVolumePath_def comps_FJoin_climb getInternalMountPath_abs)
  have "length ?t \<le> length (comps wd)" using assms(4) by simp
  then have "name \<in> set ?ds" if "prefix (comps wd @ [name]) (?t @ ?ds)"
    using that by (intro prefix_snoc_in)
  then show ?thesis using vol(1) mount path by auto
qed

theorem subDir_escapes_mount_witness:
  "\<exists>vol. newSMBVolume ''pvc-1'' 1 [(''source'', ''//srv/share''), (''subDir'', ''../../etc'')] '''' = Inr vol \<and>
    comps (getInternalMountPath ''/tmp'' vol) = [''tmp'', ''pvc-1''] \<and>
    comps (getInternalVolumePath ''/tmp'' vol) = [''etc'']"
proof -
  have ok: "''//srv/share'' \<noteq> ''''" "plain_comp ''pvc-1''" "IsAbs ''/tmp''" "1 \<le> (2::nat)" "no_dotdot ''etc''"
    by code_simp+
  have e: "concat (replicate 2 ''../'') @ ''etc'' = ''../../etc''" "comps ''/tmp'' = [''tmp'']"
    "filter (\<lambda>c. c \<noteq> [] \<and> c \<noteq> ''.'') (Split ''etc'' slash) = [''etc'']" by code_simp+
  show ?thesis using subDir_escapes_mount [OF ok, of 1 "''''"] unfolding e by auto
qed

section \<open>The order of the parameters\<close>

text \<open>The parameters as one visit sees them: by lower-case key.\<close>

definition lower_map :: "gomap \<Rightarrow> string \<rightharpoonup> string" where
  "lower_map ps = map_of (map (\<lambda>(k, v). (ToLower k, v)) ps)"

definition lower_distinct :: "gomap \<Rightarrow> bool" where
  "lower_distinct ps = distinct (map (\<lambda>(k, v). ToLower k) ps)"

definition storage_class_keys :: "string set" where
  "storage_class_keys =
     {sourceField, subDirField, paramOnDelete, pvcNamespaceKey, pvcNameKey, pvNameKey}"

definition or_else :: "'a option \<Rightarrow> 'a \<Rightarrow> 'a" where
  "or_else x d = (case x of None \<Rightarrow> d | Some v \<Rightarrow> v)"

lemma or_else_simps [simp]: "or_else None d = d" "or_else (Some v) d = v"
  by (simp_all add: or_else_def)

text \<open>What the replacement map holds for each placeholder.\<close>

definition replacements :: "(string \<rightharpoonup> string) \<Rightarrow> string \<rightharpoonup> string" where
  "replacements L k =
     (if k = pvcNamespaceMetadata then L pvcNamespaceKey
      else if k = pvcNameMetadata then L pvcNameKey
      else if k = pvNameMetadata then L pvNameKey else None)"

lemma lower_map_Cons: "lower_map ((k, v) # ps) = (lower_map ps)(ToLower k \<mapsto> v)"
  by (simp add: lower_map_def)

lemma lower_map_Nil [simp]: "lower_map [] = Map.empty"
  by (simp add: lower_map_def)

lemma lower_distinct_Cons:
  "lower_distinct ((k, v) # ps) \<longleftrightarrow> lower_map ps (ToLower k) = None \<and> lower_distinct ps"
  by (force simp: lower_distinct_def lower_map_def map_of_eq_None_iff)

lemma lower_map_perm:
  assumes "lower_distinct ps" "lower_distinct ps'" "set ps = set ps'"
  shows "lower_map ps = lower_map ps'"
  unfolding lower_map_def using assms
  by (subst map_of_inject_set) (auto simp: lower_distinct_def comp_def case_prod_unfold)

definition params_spec :: "(string \<rightharpoonup> string) \<Rightarrow> params \<Rightarrow> params \<Rightarrow> bool" where
  "params_spec L p p' \<longleftrightarrow>
     p_source p' = or_else (L sourceField) (p_source p) \<and>
     p_subDir p' = or_else (L subDirField) (p_subDir p) \<and>
     p_onDelete p' = or_else (L paramOnDelete) (p_onDelete p) \<and>
     map_of (p_replace p') = map_of (p_replace p) ++ replacements L"

lemma params_spec_step:
  assumes "param_step k v p = Inr p1" "params_spec L p1 p'" "L (ToLower k) = None"
  shows "params_spec (L(ToLower k \<mapsto> v)) p p'"
proof -
  have "replacements (L(ToLower k \<mapsto> v)) =
    (if ToLower k = pvcNamespaceKey then (replacements L)(pvcNamespaceMetadata \<mapsto> v)
     else if ToLower k = pvcNameKey then (replacements L)(pvcNameMetadata \<mapsto> v)
     else if ToLower k = pvNameKey then (replacements L)(pvNameMetadata \<mapsto> v)
     else replacements L)"
    by (simp add: fun_eq_iff replacements_def)
  moreover have "m(q \<mapsto> v) ++ replacements L = m ++ (replacements L)(q \<mapsto> v)"
    if "replacements L q = None" for m q
    using that by (auto simp: map_add_def fun_eq_iff split: option.split)
  moreover have "ToLower k = pvcNamespaceKey \<Longrightarrow> replacements L pvcNamespaceMetadata = None"
    "ToLower k = pvcNameKey \<Longrightarrow> replacements L pvcNameMetadata = None"
    "ToLower k = pvNameKey \<Longrightarrow> replacements L pvNameMetadata = None"
    using assms(3) by (simp_all add: replacements_def)
  ultimately show ?thesis
    using assms
    by (auto simp: param_step_def params_spec_def Let_def split: if_splits)
qed

lemma parse_params_spec:
  "parse_params ps p = Inr p' \<Longrightarrow> lower_distinct ps \<Longrightarrow> params_spec (lower_map ps) p p'"
proof (induction ps arbitrary: p)
  case Nil
  then show ?case
    by (auto simp: params_spec_def or_else_def replacements_def map_add_def fun_eq_iff
        split: option.splits)
next
  case (Cons kv ps)
  then show ?case
    by (cases kv)
       (auto simp: lower_map_Cons lower_distinct_Cons simp del: fun_upd_apply
         split: sum.splits intro: params_spec_step)
qed

lemma param_step_error:
  "param_step k v p =
     (if ToLower k \<in> storage_class_keys then Inr (projr (param_step k v p))
      else Inl (Errorf ''invalid parameter %s in storage class'' None))"
  by (auto simp: param_step_def storage_class_keys_def Let_def)

lemma parse_params_error:
  "parse_params ps p =
     (if fst ` set ps \<subseteq> {k. ToLower k \<in> storage_class_keys} then Inr (projr (parse_params ps p))
      else Inl (Errorf ''invalid parameter %s in storage class'' None))"
proof (induction ps arbitrary: p)
  case (Cons kv ps)
  obtain k v where kv: "kv = (k, v)" by fastforce
  show ?case
    using Cons [of "projr (param_step k v p)"] param_step_error [of k v p] kv
    by (auto split: sum.splits if_splits)
qed simp

lemma param_step_replace:
  "param_step k v p = Inr p' \<Longrightarrow>
   p_replace p' = p_replace p \<or> (\<exists>q \<in> metadata_keys. p_replace p' = map_put q v (p_replace p))"
  by (auto simp: param_step_def Let_def metadata_keys_def split: if_splits)

lemma param_step_wf: "param_step k v p = Inr p' \<Longrightarrow> wf_map (p_replace p) \<Longrightarrow>
   fst ` set (p_replace p) \<subseteq> metadata_keys \<Longrightarrow>
   wf_map (p_replace p') \<and> fst ` set (p_replace p') \<subseteq> metadata_keys"
  by (drule param_step_replace) (elim disjE bexE; simp add: wf_map_put)

lemma parse_params_wf: "parse_params ps p = Inr p' \<Longrightarrow> wf_map (p_replace p) \<Longrightarrow>
   fst ` set (p_replace p) \<subseteq> metadata_keys \<Longrightarrow>
   wf_map (p_replace p') \<and> fst ` set (p_replace p') \<subseteq> metadata_keys"
proof (induction ps arbitrary: p)
  case (Cons kv ps)
  then show ?case by (cases kv) (metis (no_types, lifting) param_step_wf parse_params.simps(2)
      sum.case_eq_if sum.distinct(1) sum.collapse(2))
qed simp

text \<open>The metadata that a placeholder stands for; without it the placeholder stays as it is.\<close>

fun expand_seg :: "gomap \<Rightarrow> seg \<Rightarrow> string" where
  "expand_seg ps (Lit s) = s"
| "expand_seg ps (Var k) = or_else (replacements (lower_map ps) k) k"

text \<open>
  The substituted subdirectory, when the parameter is a template and no value holds a dollar sign.
\<close>

lemma subDir_substituted:
  assumes "parse_params ps params0 = Inr p" "lower_distinct ps"
    and "p_subDir p = template_text segs" "\<forall>sg \<in> set segs. seg_ok sg"
    and "\<forall>(k, v) \<in> set ps. ToLower k \<in> {pvcNamespaceKey, pvcNameKey, pvNameKey} \<longrightarrow> CHR ''$'' \<notin> set v"
  shows "replaceWithMap (p_subDir p) (p_replace p) = concat (map (expand_seg ps) segs)"
proof -
  have spec: "map_of (p_replace p) = replacements (lower_map ps)"
    using parse_params_spec [OF assms(1,2)] by (simp add: params_spec_def params0_def)
  have wf: "wf_map (p_replace p)" "fst ` set (p_replace p) \<subseteq> metadata_keys"
    using parse_params_wf [OF assms(1)] by (auto simp: params0_def)
  have "\<forall>(k, v) \<in> set (p_replace p). CHR ''$'' \<notin> set v"
  proof clarify
    fix k v assume "(k, v) \<in> set (p_replace p)" "CHR ''$'' \<in> set v"
    moreover from this have "replacements (lower_map ps) k = Some v"
      using wf(1) spec by (metis map_of_is_SomeI wf_map_def)
    then obtain q where "lower_map ps q = Some v" "q \<in> {pvcNamespaceKey, pvcNameKey, pvNameKey}"
      by (auto simp: replacements_def split: if_splits)
    then obtain k' where "(k', v) \<in> set ps" "ToLower k' \<in> {pvcNamespaceKey, pvcNameKey, pvNameKey}"
      by (auto simp: lower_map_def dest!: map_of_SomeD)
    ultimately show False using assms(5) by fastforce
  qed
  then have "replaceWithMap (p_subDir p) (p_replace p) = concat (map (seg_value (p_replace p)) segs)"
    using replaceWithMap_template [OF wf] assms(3,4) by simp
  also have "seg_value (p_replace p) = expand_seg ps"
  proof
    show "seg_value (p_replace p) sg = expand_seg ps sg" for sg
      using spec by (cases sg) (auto simp: or_else_def)
  qed
  finally show ?thesis .
qed

definition subDir_template :: "gomap \<Rightarrow> seg list \<Rightarrow> bool" where
  "subDir_template ps segs \<longleftrightarrow>
     or_else (lower_map ps subDirField) '''' = template_text segs \<and> (\<forall>sg \<in> set segs. seg_ok sg) \<and>
     (\<forall>(k, v) \<in> set ps. ToLower k \<in> {pvcNamespaceKey, pvcNameKey, pvNameKey} \<longrightarrow> CHR ''$'' \<notin> set v)"

lemma parse_params_subDir:
  assumes "parse_params ps params0 = Inr p" "lower_distinct ps" "subDir_template ps segs"
  shows "replaceWithMap (p_subDir p) (p_replace p) = concat (map (expand_seg ps) segs)"
proof -
  have "p_subDir p = template_text segs"
    using parse_params_spec [OF assms(1,2)] assms(3)
    by (simp add: params_spec_def subDir_template_def params0_def)
  then show ?thesis
    using subDir_substituted [OF assms(1,2), of segs] assms(3)
    by (simp add: subDir_template_def)
qed

text \<open>
  C26. The \<^verbatim>\<open>subDir\<close> parameter, when it is a non-empty template (placeholders and text without a
  dollar sign), the metadata values hold no dollar sign and no two keys are equal up to case: each
  \<^verbatim>\<open>${pvc.metadata.name}\<close>, \<^verbatim>\<open>${pvc.metadata.namespace}\<close> and \<^verbatim>\<open>${pv.metadata.name}\<close> of the template is
  replaced by the value of the corresponding parameter, the rest of the text stays, and the name of
  the request becomes the uuid of the volume.
\<close>

theorem newSMBVolume_expands_subDir:
  assumes "newSMBVolume name sz ps dflt = Inr vol" "lower_distinct ps"
    and "subDir_template ps segs" "template_text segs \<noteq> ''''"
  shows "subDir vol = concat (map (expand_seg ps) segs) \<and> uuid vol = name"
proof -
  obtain p where p: "parse_params ps params0 = Inr p"
    using assms(1) by (auto simp: newSMBVolume_def split: sum.splits)
  have "p_subDir p \<noteq> ''''"
    using parse_params_spec [OF p assms(2)] assms(3,4)
    by (simp add: params_spec_def subDir_template_def params0_def)
  then show ?thesis
    using assms(1) p parse_params_subDir [OF p assms(2,3)]
    by (auto simp: newSMBVolume_def Let_def split: option.splits if_splits)
qed

theorem newSMBVolume_expands_subDir_witness:
  "\<exists>vol. newSMBVolume ''pv1'' 1 [(''source'', ''//srv/share''),
       (''subDir'', ''${pvc.metadata.namespace}/x''), (''csi.storage.k8s.io/pvc/namespace'', ''prod'')] ''''
     = Inr vol \<and> subDir vol = ''prod/x'' \<and> uuid vol = ''pv1''"
proof -
  let ?ps = "[(''source'', ''//srv/share''), (''subDir'', ''${pvc.metadata.namespace}/x''),
    (''csi.storage.k8s.io/pvc/namespace'', ''prod'')]"
  let ?segs = "[Var pvcNamespaceMetadata, Lit ''/x'']"
  let ?vol = "\<lparr>vol_id = ''srv/share#prod/x#pv1#'', source = ''//srv/share'', subDir = ''prod/x'',
    vol_size = 1, uuid = ''pv1'', onDelete = ''''\<rparr>"
  have new: "newSMBVolume ''pv1'' 1 ?ps '''' = Inr ?vol"
    by code_simp
  have ok: "lower_distinct ?ps" "subDir_template ?ps ?segs" "template_text ?segs \<noteq> ''''"
    by code_simp+
  have "concat (map (expand_seg ?ps) ?segs) = ''prod/x''"
    by code_simp
  then show ?thesis using newSMBVolume_expands_subDir [OF new ok] new by auto
qed

text \<open>
  C27. The order in which Go visits the parameters does not matter for parameters in which no two
  keys are equal up to case, \<^verbatim>\<open>subDir\<close> is a template (placeholders and text without a dollar sign)
  and no metadata value holds a dollar sign: for two orders of them, \<^verbatim>\<open>newSMBVolume\<close> returns the
  same volume, or an error with the same format text in both. (With both \<^verbatim>\<open>source\<close> and \<^verbatim>\<open>Source\<close>
  the last one visited wins.)
\<close>

theorem newSMBVolume_order_independent:
  assumes "lower_distinct ps" "lower_distinct ps'" "set ps = set ps'" "subDir_template ps segs"
  shows "newSMBVolume name sz ps dflt = newSMBVolume name sz ps' dflt"
proof (cases "fst ` set ps \<subseteq> {k. ToLower k \<in> storage_class_keys}")
  case False
  then show ?thesis
    using parse_params_error [of ps] parse_params_error [of ps'] assms(3)
    by (simp add: newSMBVolume_def)
next
  case True
  then obtain p p' where p: "parse_params ps params0 = Inr p" "parse_params ps' params0 = Inr p'"
    using parse_params_error [of ps params0] parse_params_error [of ps' params0] assms(3) by simp
  have L: "lower_map ps = lower_map ps'" by (rule lower_map_perm [OF assms(1,2,3)])
  have fields: "p_source p = p_source p'" "p_subDir p = p_subDir p'" "p_onDelete p = p_onDelete p'"
    using parse_params_spec [OF p(1) assms(1)] parse_params_spec [OF p(2) assms(2)] L
    by (simp_all add: params_spec_def)
  have t: "subDir_template ps' segs" using assms(3,4) L by (simp add: subDir_template_def)
  have "expand_seg ps = expand_seg ps'"
  proof
    show "expand_seg ps sg = expand_seg ps' sg" for sg using L by (cases sg) auto
  qed
  then have "replaceWithMap (p_subDir p) (p_replace p) = replaceWithMap (p_subDir p') (p_replace p')"
    using parse_params_subDir [OF p(1) assms(1,4)] parse_params_subDir [OF p(2) assms(2) t] by simp
  then show ?thesis using p fields by (simp add: newSMBVolume_def Let_def cong: option.case_cong)
qed

theorem newSMBVolume_order_independent_witness:
  "newSMBVolume ''pv1'' 1 [(''source'', ''//s/x''), (''onDelete'', ''retain'')] '''' =
   newSMBVolume ''pv1'' 1 [(''onDelete'', ''retain''), (''source'', ''//s/x'')] ''''"
proof (rule newSMBVolume_order_independent [where segs = "[]"])
  let ?ps = "[(''source'', ''//s/x''), (''onDelete'', ''retain'')]"
  let ?ps' = "[(''onDelete'', ''retain''), (''source'', ''//s/x'')]"
  show "lower_distinct ?ps" "lower_distinct ?ps'" by code_simp+
  show "set ?ps = set ?ps'" by auto
  show "subDir_template ?ps []"
    by code_simp
qed

text \<open>
  C25. What a storage class must look like: for parameters in which no two keys are equal up to
  case, \<^verbatim>\<open>newSMBVolume\<close> succeeds exactly when every key is one of the six supported ones up to case,
  a source is given, and \<^verbatim>\<open>onDelete\<close> is missing, empty, \<^verbatim>\<open>delete\<close>, \<^verbatim>\<open>retain\<close> or \<^verbatim>\<open>archive\<close> up to
  case.
\<close>

theorem newSMBVolume_accepts_iff:
  assumes "lower_distinct ps"
  shows "(\<exists>vol. newSMBVolume name sz ps dflt = Inr vol) \<longleftrightarrow>
    fst ` set ps \<subseteq> {k. ToLower k \<in> storage_class_keys} \<and>
    or_else (lower_map ps sourceField) '''' \<noteq> '''' \<and>
    ToLower (or_else (lower_map ps paramOnDelete) '''') \<in> {'''', ''delete'', ''retain'', ''archive''}"
proof (cases "fst ` set ps \<subseteq> {k. ToLower k \<in> storage_class_keys}")
  case False
  then show ?thesis using parse_params_error [of ps params0] by (simp add: newSMBVolume_def)
next
  case True
  then obtain p where p: "parse_params ps params0 = Inr p"
    using parse_params_error [of ps params0] by simp
  have "p_source p = or_else (lower_map ps sourceField) ''''"
    "p_onDelete p = or_else (lower_map ps paramOnDelete) ''''"
    using parse_params_spec [OF p assms] by (simp_all add: params_spec_def params0_def)
  moreover have "(\<exists>vol. newSMBVolume name sz ps dflt = Inr vol) \<longleftrightarrow>
      p_source p \<noteq> '''' \<and> validateOnDeleteValue (p_onDelete p) = None"
    using p by (cases "validateOnDeleteValue (p_onDelete p)") (simp_all add: newSMBVolume_def Let_def)
  ultimately show ?thesis
    using True by (simp add: validateOnDeleteValue_ok)
qed

theorem newSMBVolume_accepts_iff_witness:
  "\<not> (\<exists>vol. newSMBVolume ''pv1'' 1 [(''source'', ''//s/x''), (''onDelete'', ''keep'')] '''' = Inr vol)"
proof -
  let ?ps = "[(''source'', ''//s/x''), (''onDelete'', ''keep'')]"
  have "lower_distinct ?ps" by code_simp
  moreover have "ToLower (or_else (lower_map ?ps paramOnDelete) '''') = ''keep''" by code_simp
  ultimately show ?thesis using newSMBVolume_accepts_iff [of ?ps] by simp
qed

end
