(* ===== verification/Controller.thy ===== *)
theory Controller
  imports NodeServer VolumeID
begin

text \<open>
  The controller service (\<^verbatim>\<open>pkg/smb/controllerserver.go\<close>): creating, copying, deleting and
  archiving the directory of a volume. The controller mounts the share in its working directory
  with the staging code of the node service, works on the directory, and unmounts.
\<close>

section \<open>Requests and responses\<close>

datatype VolumeContentSource = SourceSnapshot string | SourceVolume string | SourceUnset

record CreateVolumeRequest =
  cv_Name :: string
  cv_RequiredBytes :: "64 word"
  cv_VolumeCapabilities :: "VolumeCapability list"
  cv_Parameters :: gomap
  cv_Secrets :: gomap
  cv_VolumeContentSource :: "VolumeContentSource option"

record Volume =
  v_CapacityBytes :: "64 word"
  v_VolumeId :: string
  v_VolumeContext :: gomap
  v_ContentSource :: "VolumeContentSource option"

record DeleteVolumeRequest =
  dv_VolumeId :: string
  dv_Secrets :: gomap

section \<open>Capabilities\<close>

definition isValidVolumeCapabilities :: "VolumeCapability list \<Rightarrow> error option" where
  "isValidVolumeCapabilities volCaps =
     (if volCaps = [] then Some (Errorf ''volume capabilities missing in request'' None)
      else if list_ex (\<lambda>c. c = CapBlock) volCaps
      then Some (Errorf ''block volume capability not supported'' None)
      else None)"

definition ValidateVolumeCapabilities ::
  "string \<Rightarrow> VolumeCapability list \<Rightarrow> error + VolumeCapability list" where
  "ValidateVolumeCapabilities volumeID volCaps =
     (if volumeID = '''' then Inl (Status InvalidArgument ''Volume ID missing in request'' None)
      else (case isValidVolumeCapabilities volCaps of
              Some err \<Rightarrow> Inl (Status InvalidArgument ''%v'' (Some err))
            | None \<Rightarrow> Inr volCaps))"

definition ControllerGetCapabilities :: "Driver \<Rightarrow> error + ControllerServiceCapability list" where
  "ControllerGetCapabilities d = Inr (Cap d)"

text \<open>The capacity range of the request may be missing; otherwise it holds the required bytes.\<close>

definition ControllerExpandVolume :: "string \<Rightarrow> 64 word option \<Rightarrow> error + 64 word" where
  "ControllerExpandVolume volumeID capacityRange =
     (if volumeID = '''' then Inl (Status InvalidArgument ''Volume ID missing in request'' None)
      else (case capacityRange of
              None \<Rightarrow> Inl (Status InvalidArgument ''Capacity Range missing in request'' None)
            | Some requiredBytes \<Rightarrow> Inr requiredBytes))"

text \<open>The methods that are not supported, in the three groups in which the code has them.\<close>

datatype attach_method = ControllerGetVolume | ControllerPublishVolume | ControllerUnpublishVolume
datatype listing_method = GetCapacity | ListVolumes
datatype snapshot_method = CreateSnapshot | DeleteSnapshot | ListSnapshots

definition attach_unsupported :: "attach_method \<Rightarrow> error + unit" where
  "attach_unsupported m = Inl (Status Unimplemented '''' None)"

definition listing_unsupported :: "listing_method \<Rightarrow> error + unit" where
  "listing_unsupported m = Inl (Status Unimplemented '''' None)"

definition snapshot_unsupported :: "snapshot_method \<Rightarrow> error + unit" where
  "snapshot_unsupported m = Inl (Status Unimplemented '''' None)"

section \<open>Mounting the share for the controller\<close>

text \<open>The requests that the controller sends to its own node service.\<close>

definition internal_stage_req :: "string \<Rightarrow> smbVolume \<Rightarrow> VolumeCapability \<Rightarrow> gomap \<Rightarrow> NodeStageVolumeRequest" where
  "internal_stage_req wd vol volCap secrets =
     \<lparr>ns_VolumeId = vol_id vol, ns_StagingTargetPath = getInternalMountPath wd vol,
      ns_VolumeCapability = Some volCap, ns_VolumeContext = [(sourceField, source vol)],
      ns_Secrets = secrets\<rparr>"

definition internal_unstage_req :: "string \<Rightarrow> smbVolume \<Rightarrow> NodeUnstageVolumeRequest" where
  "internal_unstage_req wd vol =
     \<lparr>nu_VolumeId = vol_id vol, nu_StagingTargetPath = getInternalMountPath wd vol\<rparr>"

definition internalMount ::
  "'w os \<Rightarrow> smbVolume \<Rightarrow> VolumeCapability option \<Rightarrow> gomap \<Rightarrow> 'w st \<Rightarrow> error option \<times> 'w st" where
  "internalMount os vol volCap secrets = asks (\<lambda>s.
     let volCap = (case volCap of
                     None \<Rightarrow> CapMount \<lparr>MountFlags = [], VolumeMountGroup = ''''\<rparr>
                   | Some c \<Rightarrow> c)
     in bind_st (NodeStageVolume os (internal_stage_req (workingMountDir (drv s)) vol volCap secrets))
          (\<lambda>r. reply (err_of r)))"

definition internalUnmount :: "'w os \<Rightarrow> smbVolume \<Rightarrow> 'w st \<Rightarrow> error option \<times> 'w st" where
  "internalUnmount os vol = asks (\<lambda>s.
     bind_st (NodeUnstageVolume os (internal_unstage_req (workingMountDir (drv s)) vol))
       (\<lambda>r. reply (err_of r)))"

section \<open>Copying\<close>

definition copyFromVolume ::
  "'w os \<Rightarrow> string \<Rightarrow> VolumeCapability option \<Rightarrow> gomap \<Rightarrow> smbVolume \<Rightarrow> 'w st \<Rightarrow> error option \<times> 'w st" where
  "copyFromVolume os sourceID volCap secrets dstVol =
     (case getSmbVolFromID sourceID of
        Inl err \<Rightarrow> reply (Some (Status NotFound ''%v'' (Some err)))
      | Inr srcVol \<Rightarrow> asks (\<lambda>s.
          let srcPath = getInternalVolumePath (workingMountDir (drv s)) srcVol @ ''/.'';
              dstPath = getInternalVolumePath (workingMountDir (drv s)) dstVol
          in if_err (internalMount os srcVol volCap secrets)
               (\<lambda>err. reply (Some (Status Internal ''failed to mount src nfs server: %v'' (Some err))))
             (deferred (internalUnmount os srcVol)
               (if_err (internalMount os dstVol volCap secrets)
                 (\<lambda>err. reply (Some (Status Internal ''failed to mount dst nfs server: %v'' (Some err))))
               (deferred (internalUnmount os dstVol)
                 (if_err (on_world (sys os (CopyTree srcPath dstPath)))
                   (\<lambda>err. reply (Some (Status Internal ''failed to copy volume %v: %v'' (Some err))))
                 (reply None)))))))"

definition copyVolume ::
  "'w os \<Rightarrow> VolumeContentSource option \<Rightarrow> VolumeCapability option \<Rightarrow> gomap \<Rightarrow> smbVolume \<Rightarrow> 'w st \<Rightarrow>
   error option \<times> 'w st" where
  "copyVolume os contentSource volCap secrets vol =
     (case contentSource of
        None \<Rightarrow> reply None
      | Some (SourceSnapshot _) \<Rightarrow>
          reply (Some (Status InvalidArgument ''copy volume from volumeSnapshot is not supported'' None))
      | Some (SourceVolume sourceID) \<Rightarrow> copyFromVolume os sourceID volCap secrets vol
      | Some SourceUnset \<Rightarrow>
          reply (Some (Status InvalidArgument ''%v is not a proper volume source'' None)))"

section \<open>Creating\<close>

text \<open>The map of the default modes, in the order in which it is visited.\<close>

definition default_modes :: "bool \<Rightarrow> gomap" where
  "default_modes file_first =
     (if file_first then [(fileMode, defaultFileMode), (dirMode, defaultDirMode)]
      else [(dirMode, defaultDirMode), (fileMode, defaultFileMode)])"

fun with_default_modes :: "bool \<Rightarrow> VolumeCapability \<Rightarrow> VolumeCapability" where
  "with_default_modes ff (CapMount m) =
     CapMount (m\<lparr>MountFlags := appendMountOptions (MountFlags m) (default_modes ff)\<rparr>)"
| "with_default_modes ff c = c"

definition smbVolToCSI :: "smbVolume \<Rightarrow> VolumeContentSource option \<Rightarrow> gomap \<Rightarrow> Volume" where
  "smbVolToCSI vol contentSource parameters =
     \<lparr>v_CapacityBytes = 0, v_VolumeId = vol_id vol, v_VolumeContext = parameters,
      v_ContentSource = contentSource\<rparr>"

definition with_subDir :: "gomap \<Rightarrow> smbVolume \<Rightarrow> gomap" where
  "with_subDir parameters vol =
     (case setKeyValueInMap (Some parameters) subDirField (subDir vol) of Some m \<Rightarrow> m | None \<Rightarrow> [])"

definition create_locked ::
  "'w os \<Rightarrow> CreateVolumeRequest \<Rightarrow> smbVolume \<Rightarrow> VolumeCapability \<Rightarrow> bool \<Rightarrow> 'w st \<Rightarrow> (error + Volume) \<times> 'w st" where
  "create_locked os req smbVol volCap createSubDir =
     (if createSubDir
      then if_err (internalMount os smbVol (Some volCap) (cv_Secrets req))
          (\<lambda>err. fails (Status Internal ''failed to mount smb server: %v'' (Some err)))
        (deferred (internalUnmount os smbVol) (asks (\<lambda>s.
          if_err (on_world (sys os (MkdirAll (getInternalVolumePath (workingMountDir (drv s)) smbVol) 0x1FF)))
            (\<lambda>err. fails (Status Internal ''failed to make subdirectory: %v'' (Some err)))
          (if_err (copyVolume os (cv_VolumeContentSource req) (Some volCap) (cv_Secrets req) smbVol)
            (\<lambda>err. fails err)
            (returns (smbVolToCSI smbVol (cv_VolumeContentSource req)
                       (with_subDir (cv_Parameters req) smbVol)))))))
      else if_err (copyVolume os (cv_VolumeContentSource req) (Some volCap) (cv_Secrets req) smbVol)
        (\<lambda>err. fails err)
        (returns (smbVolToCSI smbVol (cv_VolumeContentSource req) (cv_Parameters req))))"

definition CreateVolume :: "'w os \<Rightarrow> CreateVolumeRequest \<Rightarrow> 'w st \<Rightarrow> (error + Volume) \<times> 'w st" where
  "CreateVolume os req =
     (if cv_Name req = '''' then fails (Status InvalidArgument ''CreateVolume name must be provided'' None)
      else (case isValidVolumeCapabilities (cv_VolumeCapabilities req) of
              Some err \<Rightarrow> fails (Status InvalidArgument ''%v'' (Some err))
            | None \<Rightarrow> asks (\<lambda>s.
                case newSMBVolume (cv_Name req) (cv_RequiredBytes req) (cv_Parameters req)
                       (defaultOnDeletePolicy (drv s)) of
                  Inl err \<Rightarrow> fails (Status InvalidArgument ''%v'' (Some err))
                | Inr smbVol \<Rightarrow>
                    let volCap = hd (cv_VolumeCapabilities req);
                        createSubDir = (cv_Secrets req \<noteq> [] \<or> uuid smbVol \<noteq> '''' \<or>
                                        hasGuestMountOptions (GetMountFlags volCap))
                    in with_lock (cv_Name req)
                         (create_locked os req smbVol
                            (with_default_modes (FileModeFirst os (world s)) volCap) createSubDir))))"

section \<open>Deleting\<close>

definition archive_subdir :: "'w os \<Rightarrow> string \<Rightarrow> bool \<Rightarrow> smbVolume \<Rightarrow> 'w \<Rightarrow> error option \<times> 'w" where
  "archive_subdir os wd removeArchived smbVol =
     (let internalVolumePath = getInternalVolumePath wd smbVol;
          archivedInternalVolumePath = FJoin (getInternalMountPath wd smbVol) (''archived-'' @ subDir smbVol)
      in if_err (if Contains (subDir smbVol) ''/''
                 then sys os (MkdirAll (Dir archivedInternalVolumePath) 0x1FF) else reply None)
           (\<lambda>err. reply (Some (Status Internal ''create parent directory(%s) of %s failed with %v'' (Some err))))
         (if_err (if removeArchived then sys os (RemoveAll archivedInternalVolumePath) else reply None)
           (\<lambda>err. reply (Some (Status Internal ''failed to delete archived subdirectory %s: %v'' (Some err))))
         (if_err (sys os (Rename internalVolumePath archivedInternalVolumePath))
           (\<lambda>err. reply (Some (Status Internal ''archive subdirectory(%s, %s) failed with %v'' (Some err))))
         (reply None))))"

definition remove_subdir :: "'w os \<Rightarrow> string \<Rightarrow> smbVolume \<Rightarrow> 'w \<Rightarrow> error option \<times> 'w" where
  "remove_subdir os wd smbVol =
     (let internalVolumePath = getInternalVolumePath wd smbVol
      in asks (\<lambda>w.
           ignoring (if Lstat os internalVolumePath w = None
                     then sys os (ChmodTree internalVolumePath 0x1FF) else reply None)
           (if_err (sys os (RemoveAll internalVolumePath))
             (\<lambda>err. reply (Some (Status Internal ''failed to delete subdirectory: %v'' (Some err))))
           (reply None))))"

definition read_deletion_cache :: "'w os \<Rightarrow> string \<Rightarrow> 'w st \<Rightarrow> (error + string option) \<times> 'w st" where
  "read_deletion_cache os key s =
     (case cache_read (Now os (world s)) key (volDeletionCache (drv s)) of
        (r, t) \<Rightarrow> (r, s\<lparr>drv := (drv s)\<lparr>volDeletionCache := t\<rparr>\<rparr>))"

definition set_deleted :: "'w os \<Rightarrow> string \<Rightarrow> 'w st \<Rightarrow> (error + unit) \<times> 'w st" where
  "set_deleted os volumeID = asks (\<lambda>s.
     ignoring (upd_drv (volDeletionCache_update (cache_Set (Now os (world s)) volumeID '''')))
       (returns ()))"

definition delete_locked ::
  "'w os \<Rightarrow> DeleteVolumeRequest \<Rightarrow> smbVolume \<Rightarrow> 'w st \<Rightarrow> (error + unit) \<times> 'w st" where
  "delete_locked os req smbVol = asks (\<lambda>s.
     let secrets = dv_Secrets req;
         volCap = CapMount \<lparr>MountFlags = appendMountOptions [getMountOptions secrets]
                              (default_modes (FileModeFirst os (world s))),
                            VolumeMountGroup = ''''\<rparr>;
         smbVol = (if onDelete smbVol = '''' then smbVol\<lparr>onDelete := defaultOnDeletePolicy (drv s)\<rparr> else smbVol);
         wd = workingMountDir (drv s)
     in if secrets \<noteq> [] \<and> \<not> EqualFold (onDelete smbVol) retain
        then bind_st (read_deletion_cache os (dv_VolumeId req)) (\<lambda>r. case r of
            Inl err \<Rightarrow> fails (Status Internal ''%v'' (Some err))
          | Inr (Some _) \<Rightarrow> returns ()
          | Inr None \<Rightarrow>
              if_err (internalMount os smbVol (Some volCap) secrets)
                (\<lambda>err. fails (Status Internal ''failed to mount smb server: %v'' (Some err)))
              (deferred (internalUnmount os smbVol)
                (if_err (on_world (if EqualFold (onDelete smbVol) archive
                                   then archive_subdir os wd (removeArchivedVolumePath (drv s)) smbVol
                                   else remove_subdir os wd smbVol))
                  (\<lambda>err. fails err)
                  (set_deleted os (dv_VolumeId req)))))
        else set_deleted os (dv_VolumeId req))"

definition DeleteVolume :: "'w os \<Rightarrow> DeleteVolumeRequest \<Rightarrow> 'w st \<Rightarrow> (error + unit) \<times> 'w st" where
  "DeleteVolume os req =
     (if dv_VolumeId req = '''' then fails (Status InvalidArgument ''volume id is empty'' None)
      else (case getSmbVolFromID (dv_VolumeId req) of
              Inl err \<Rightarrow> returns ()
            | Inr smbVol \<Rightarrow> with_lock (dv_VolumeId req) (delete_locked os req smbVol)))"

section \<open>Effects\<close>

lemma driver_kept_read_deletion: "keeps driver_kept (read_deletion_cache os key)"
  by (simp add: keeps_def read_deletion_cache_def driver_kept_def locked_def config_def split: prod.splits)

lemma driver_kept_set_deleted: "keeps driver_kept (set_deleted os key)"
  unfolding set_deleted_def
  by (intro keeps_intros drv_eff.keeps_control)
     (simp add: keeps_def upd_drv_def driver_kept_def locked_def config_def)

lemma driver_kept_internal:
  "keeps driver_kept (internalMount os vol cap secrets)" "keeps driver_kept (internalUnmount os vol)"
  unfolding internalMount_def internalUnmount_def
  by (intro keeps_intros drv_eff.keeps_control driver_kept_stage driver_kept_unstage)+

lemma driver_kept_copyVolume: "keeps driver_kept (copyVolume os cs cap secrets vol)"
proof -
  have "keeps driver_kept (copyFromVolume os sourceID cap secrets vol)" for sourceID
    unfolding copyFromVolume_def
    by (intro keeps_intros drv_eff.keeps_control driver_kept_internal driver_kept_on_world)
  then show ?thesis
    unfolding copyVolume_def
    by (auto intro: drv_eff.keeps_control split: option.splits VolumeContentSource.splits)
qed

lemma driver_kept_create: "keeps driver_kept (CreateVolume os req)"
  unfolding CreateVolume_def create_locked_def
  by (intro keeps_intros drv_eff.keeps_control driver_kept_internal driver_kept_copyVolume
      driver_kept_on_world driver_kept_with_lock)

lemma driver_kept_delete: "keeps driver_kept (DeleteVolume os req)"
  unfolding DeleteVolume_def delete_locked_def
  by (intro keeps_intros drv_eff.keeps_control driver_kept_internal driver_kept_read_deletion
      driver_kept_set_deleted driver_kept_on_world driver_kept_with_lock)

text \<open>The calls of mounting and unmounting the share of a volume in the working directory.\<close>

definition internal_calls :: "'w os \<Rightarrow> Driver \<Rightarrow> smbVolume \<Rightarrow> call \<Rightarrow> bool" where
  "internal_calls os d vol c \<longleftrightarrow>
     (\<exists>cap secrets. stage_calls os d (internal_stage_req (workingMountDir d) vol cap secrets) c) \<or>
     unstage_calls os d (internal_unstage_req (workingMountDir d) vol) c"

definition internal_pending :: "Driver \<Rightarrow> smbVolume \<Rightarrow> bgmount \<Rightarrow> bool" where
  "internal_pending d vol m \<longleftrightarrow>
     bg_target m = getInternalMountPath (workingMountDir d) vol \<and> bg_volumeID m = vol_id vol \<and>
     bg_source m = source vol"

text \<open>The calls of \<^verbatim>\<open>DeleteVolume\<close>: those, and the ones on the directory and its archived copy.\<close>

definition archived_path :: "string \<Rightarrow> smbVolume \<Rightarrow> string" where
  "archived_path wd vol = FJoin (getInternalMountPath wd vol) (''archived-'' @ subDir vol)"

definition delete_calls :: "'w os \<Rightarrow> Driver \<Rightarrow> smbVolume \<Rightarrow> call \<Rightarrow> bool" where
  "delete_calls os d vol c \<longleftrightarrow>
     internal_calls os d vol c \<or>
     (let volPath = getInternalVolumePath (workingMountDir d) vol;
          arch = archived_path (workingMountDir d) vol
      in c \<in> {ChmodTree volPath 0x1FF, RemoveAll volPath, MkdirAll (Dir arch) 0x1FF, RemoveAll arch,
              Rename volPath arch})"

lemma calls_onDelete [simp]:
  "internal_calls os d (vol\<lparr>onDelete := p\<rparr>) = internal_calls os d vol"
  "internal_pending d (vol\<lparr>onDelete := p\<rparr>) = internal_pending d vol"
  "delete_calls os d (vol\<lparr>onDelete := p\<rparr>) = delete_calls os d vol"
  by (simp_all add: fun_eq_iff internal_calls_def internal_pending_def delete_calls_def internal_stage_req_def
      internal_unstage_req_def archived_path_def getInternalMountPath_def getInternalVolumePath_def)

context effect_os
begin

lemma keeps_archive_subdir:
  assumes "\<And>k. delete_calls os c vol k \<Longrightarrow> allowed k"
  shows "keeps R (archive_subdir os (workingMountDir c) removeArchived vol)"
  unfolding archive_subdir_def archived_path_def [symmetric]
  by (intro keeps_intros keeps_control keeps_sys assms) (simp_all add: delete_calls_def Let_def)

lemma keeps_remove_subdir:
  assumes "\<And>k. delete_calls os c vol k \<Longrightarrow> allowed k"
  shows "keeps R (remove_subdir os (workingMountDir c) vol)"
  unfolding remove_subdir_def
  by (intro keeps_intros keeps_control keeps_sys assms) (simp_all add: delete_calls_def Let_def)

end

context handler_env
begin

lemma keeps_internalMount:
  assumes "\<And>k. internal_calls os c vol k \<Longrightarrow> allowed k" "\<And>m. internal_pending c vol m \<Longrightarrow> P m"
  shows "keeps (st_rel c R P) (internalMount os vol cap secrets)"
  unfolding internalMount_def
proof (intro keeps_state keeps_Let st.keeps_control)
  fix s :: "'a st" and cp
  assume "config s = c"
  then have wd: "workingMountDir (drv s) = workingMountDir c" by (rule config_fields)
  show "keeps (st_rel c R P) (NodeStageVolume os (internal_stage_req (workingMountDir (drv s)) vol cp secrets))"
  proof (rule keeps_NodeStageVolume)
    show "allowed k" if "stage_calls os c (internal_stage_req (workingMountDir (drv s)) vol cp secrets) k" for k
      by (rule assms(1)) (use that wd in \<open>auto simp: internal_calls_def\<close>)
    show "P m" if "stage_pending (internal_stage_req (workingMountDir (drv s)) vol cp secrets) m" for m
      by (rule assms(2))
         (use that wd in \<open>simp add: stage_pending_def internal_pending_def internal_stage_req_def
            stage_source_def stage_ctx_step_def stage_ctx0_def Let_def ToLower_def lower_char_def\<close>)
  qed
qed

lemma keeps_internalUnmount:
  assumes "\<And>k. internal_calls os c vol k \<Longrightarrow> allowed k"
  shows "keeps (st_rel c R P) (internalUnmount os vol)"
  unfolding internalUnmount_def
  by (intro keeps_state st.keeps_control keeps_NodeUnstageVolume assms)
     (simp add: internal_calls_def config_fields)

lemma keeps_DeleteVolume:
  assumes "getSmbVolFromID (dv_VolumeId req) = Inr vol"
    and "\<And>k. delete_calls os c vol k \<Longrightarrow> allowed k" "\<And>m. internal_pending c vol m \<Longrightarrow> P m"
  shows "keeps (st_rel c R P) (DeleteVolume os req)"
proof -
  have d: "keeps (st_rel c R P) (read_deletion_cache os key)" "keeps (st_rel c R P) (set_deleted os key)" for key
    by (auto simp: keeps_def read_deletion_cache_def st_rel_def config_def R_refl set_deleted_def
        control_defs upd_drv_def split: prod.splits)
  have i: "allowed k" if "internal_calls os c vol k" for k
    by (rule assms(2)) (use that in \<open>simp add: delete_calls_def\<close>)
  have "keeps (st_rel c R P) (delete_locked os req vol)"
    unfolding delete_locked_def
    by (intro keeps_state keeps_Let keeps_if keeps_sum keeps_option st.keeps_control d
        keeps_internalMount keeps_internalUnmount)
       (auto simp: config_fields i assms(3) split: if_splits
         intro!: keeps_if keeps_archive_subdir keeps_remove_subdir assms(2))
  then show ?thesis
    using assms(1) unfolding DeleteVolume_def
    by (auto intro: keeps_state keeps_if st.keeps_control)
qed

end

section \<open>Deleting stays in the volume\<close>

text \<open>The directory trees that a call removes, moves or overwrites.\<close>

fun destroys :: "call \<Rightarrow> string list" where
  "destroys (RemoveAll p) = [p]"
| "destroys (Rename a b) = [a, b]"
| "destroys (ChmodTree p m) = [p]"
| "destroys (CopyTree a b) = [b]"
| "destroys _ = []"

lemma kerberos_calls_destroy_nothing: "kerberos_calls directory pre volumeID flags secrets c \<Longrightarrow> destroys c = []"
  by (auto simp: kerberos_calls_def split: sum.splits)

lemma internal_calls_destroy_nothing: "internal_calls os d vol c \<Longrightarrow> destroys c = []"
  by (cases c) (auto simp: internal_calls_def stage_calls_def unstage_calls_def
      ensure_calls_def mount_calls_def uncache_calls_def dest!: kerberos_calls_destroy_nothing)

lemma Split_append_left:
  "slash \<notin> set a \<Longrightarrow> Split (a @ s) slash = (a @ hd (Split s slash)) # tl (Split s slash)"
  by (induction a) (auto simp: Split_not_Nil)

lemma no_dotdot_archived: "no_dotdot s \<Longrightarrow> no_dotdot (''archived-'' @ s)"
  using Split_append_left [of "''archived-''" s]
  by (cases "Split s slash") (auto simp: no_dotdot_def)

lemma below_mount_path:
  assumes "IsAbs wd" "no_dotdot (subDir vol)"
  shows "prefix (comps (getInternalMountPath wd vol)) (comps (getInternalVolumePath wd vol))"
    and "prefix (comps (getInternalMountPath wd vol)) (comps (archived_path wd vol))"
  using assms
  by (simp_all add: getInternalVolumePath_def archived_path_def comps_FJoin_no_dotdot no_dotdot_archived
      getInternalMountPath_abs del: append_Cons)

text \<open>
  C1. Deleting stays in the volume: whatever the environment answers, as long as the
  sub-directory in the identifier never steps upwards and the working directory is absolute, every
  path that \<^verbatim>\<open>DeleteVolume\<close> hands to a call that removes, moves or changes a directory tree is,
  as a path, the path at which it mounted the share of that volume or lies below it. (Symbolic links
  in the share are not resolved here.)
\<close>

theorem delete_confined:
  assumes "DeleteVolume (log_os os) req s = (r, s')" "world s = (w, [])"
    and "getSmbVolFromID (dv_VolumeId req) = Inr vol"
    and "IsAbs (workingMountDir (drv s))" "no_dotdot (subDir vol)"
  shows "\<forall>c \<in> set (snd (world s')). \<forall>p \<in> set (destroys c).
    prefix (comps (getInternalMountPath (workingMountDir (drv s)) vol)) (comps p)"
proof -
  let ?ok = "delete_calls (log_os os) (config s) vol"
  have "keeps (st_rel (config s) (logs ?ok) (\<lambda>_. True)) (DeleteVolume (log_os os) req)"
    by (rule logged_env.keeps_DeleteVolume [OF assms(3)]) simp_all
  from keepsD [OF this assms(1)] have "list_all ?ok (snd (world s'))"
    using assms(2) by (auto simp: st_rel_def logs_def)
  moreover have "\<forall>p \<in> set (destroys c). prefix (comps (getInternalMountPath (workingMountDir (drv s)) vol)) (comps p)"
    if "?ok c" for c
    using that below_mount_path [OF assms(4,5)] internal_calls_destroy_nothing [of "log_os os" "config s" vol c]
    by (auto simp: delete_calls_def Let_def config_fields(3) [OF refl, symmetric])
  ultimately show ?thesis by (auto simp: list_all_iff)
qed

section \<open>Keeping the volume\<close>

definition keeps_volume :: "Driver \<Rightarrow> DeleteVolumeRequest \<Rightarrow> bool" where
  "keeps_volume d req =
     (case getSmbVolFromID (dv_VolumeId req) of
        Inl _ \<Rightarrow> True
      | Inr vol \<Rightarrow> dv_Secrets req = [] \<or>
          EqualFold (if onDelete vol = '''' then defaultOnDeletePolicy d else onDelete vol) retain)"

lemma deferred_release_world:
  "deferred (release_lock key) body s1 = (r, s') \<Longrightarrow> \<exists>s2. body s1 = (r, s2) \<and> world s' = world s2 \<and> pending s' = pending s2"
  by (auto simp: deferred_def bind_st_def release_lock_def upd_drv_def reply_def split: prod.splits)

lemma set_deleted_eq:
  "set_deleted os i s =
     (Inr (), s\<lparr>drv := volDeletionCache_update (cache_Set (Now os (world s)) i '''') (drv s)\<rparr>)"
  by (simp add: set_deleted_def control_defs upd_drv_def)

text \<open>
  C16. A volume that is to be retained is not touched: for a request whose volume id is not empty,
  when the policy is \<^verbatim>\<open>retain\<close> in any case of letters, or the request has no secrets, or the
  identifier cannot be read, \<^verbatim>\<open>DeleteVolume\<close> changes nothing outside the driver, and it reports
  success unless the volume is being worked on.
\<close>

theorem delete_retains:
  assumes "DeleteVolume os req s = (r, s')" "dv_VolumeId req \<noteq> ''''" "keeps_volume (drv s) req"
  shows "world s' = world s \<and> pending s' = pending s \<and> (dv_VolumeId req \<notin> locked s \<longrightarrow> r = Inr ())"
proof (cases "getSmbVolFromID (dv_VolumeId req)")
  case (Inl e)
  then show ?thesis using assms by (simp add: DeleteVolume_def reply_def)
next
  case (Inr vol)
  have d: "DeleteVolume os req = with_lock (dv_VolumeId req) (delete_locked os req vol)"
    using Inr assms(2) by (simp add: DeleteVolume_def)
  show ?thesis
  proof (cases "dv_VolumeId req \<in> locked s")
    case True
    then show ?thesis using assms(1) d by (simp add: with_lock_busy)
  next
    case False
    obtain s1 where s1: "with_lock (dv_VolumeId req) (delete_locked os req vol) s =
        deferred (release_lock (dv_VolumeId req)) (delete_locked os req vol) s1"
      "world s1 = world s" "config s1 = config s" "pending s1 = pending s"
      by (rule with_lock_free [OF False])
    have "defaultOnDeletePolicy (drv s1) = defaultOnDeletePolicy (drv s)"
      using config_fields(5) [OF s1(3)] config_fields(5) [OF refl, of s] by simp
    then have e: "delete_locked os req vol s1 = set_deleted os (dv_VolumeId req) s1"
      using assms(3) Inr by (auto simp: keeps_volume_def delete_locked_def asks_def Let_def)
    have "deferred (release_lock (dv_VolumeId req)) (delete_locked os req vol) s1 = (r, s')"
      using assms(1) d s1(1) by simp
    from deferred_release_world [OF this] obtain s2
      where "set_deleted os (dv_VolumeId req) s1 = (r, s2)" "world s' = world s2" "pending s' = pending s2"
      unfolding e by blast
    then show ?thesis using s1(2,4) by (auto simp: set_deleted_eq)
  qed
qed

end
