(* ===== verification/MountContract.thy ===== *)
theory MountContract
  imports NodeServer
begin

text \<open>
  What the node service relies on and what it then promises: a volume that was staged is mounted,
  and the path of a volume that was unstaged or unpublished is gone. The locale \<open>node_env\<close> has the laws
  on every platform, in terms of mounting and cleaning up; \<open>mount_env\<close> has the documented behaviour of
  the operating system and of \<^verbatim>\<open>mount.Interface\<close> on a Unix node, which gives the laws. The theory
  \<^verbatim>\<open>WinDriver\<close> derives them for a Windows node.
\<close>

section \<open>The laws of a node\<close>

text \<open>
  \<open>mounted\<close> and \<open>absent\<close> tell whether something is mounted at a path, and whether the path does not
  exist. Mounting mounts; the two queries for mount points do not report a path at which nothing is
  mounted; a corrupted directory cannot be read; cleaning up a mount point leaves no path, and
  removing files creates none.
\<close>

locale node_env =
  fixes os :: "'w os" and mounted :: "string \<Rightarrow> 'w \<Rightarrow> bool" and absent :: "string \<Rightarrow> 'w \<Rightarrow> bool"
  assumes share_mounts: "smb_Mount os src p ty opts sens vol w = (None, w') \<Longrightarrow> p \<noteq> '''' \<Longrightarrow> mounted p w'"
    and bind_mounts: "exec os (Mount src p ty opts) w = (Inr x, w') \<Longrightarrow> mounted p w'"
    and likely: "IsLikelyNotMountPoint os p w = (False, None) \<Longrightarrow> mounted p w"
    and likely_noent: "IsLikelyNotMountPoint os p w = (b, Some e) \<Longrightarrow> IsNotExist e \<Longrightarrow> b"
    and listed: "in_mount_list os p w = Inr True \<Longrightarrow> mounted p w"
    and corrupted_unreadable: "IsCorruptedDir os p w \<Longrightarrow> read_one os p w \<noteq> None"
    and smb_cleanup: "CleanupSMBMountPoint os p True vol w = (None, w') \<Longrightarrow> absent p w'"
    and cleanup: "CleanupMountPoint os p True w = (None, w') \<Longrightarrow> absent p w'"
    and remove_creates_nothing: "absent p w \<Longrightarrow> absent p (snd (exec os (Remove f) w))"
begin

section \<open>Staging mounts\<close>

lemma ensureMountPoint_mounted:
  assumes "ensureMountPoint os p w = ((True, None), w')"
  shows "mounted p w'"
proof -
  obtain notMnt err where q: "IsLikelyNotMountPoint os p w = (notMnt, err)" by fastforce
  let ?bad = "case err of None \<Rightarrow> False | Some e \<Rightarrow> \<not> IsNotExist e"
  have nb: "\<not> (?bad \<and> \<not> IsCorruptedDir os p w)"
  proof
    assume "?bad \<and> \<not> IsCorruptedDir os p w"
    then show False using assms q by (simp add: ensureMountPoint_def asks_def reply_def split: option.splits)
  qed
  obtain l where l: "in_mount_list os p w = Inr l"
    using assms q nb by (cases "in_mount_list os p w") (auto simp: ensureMountPoint_def asks_def reply_def Let_def)
  let ?m = "\<not> (if l then False else if ?bad then False else notMnt)"
  have e: "ensureMountPoint os p w =
      (if ?m then case read_one os p w of
           None \<Rightarrow> reply (True, None)
         | Some err \<Rightarrow> if_err (sys os (Unmount p)) (\<lambda>err. reply (True, Some err)) (reply (False, Some err))
       else if_err (makeDir os p) (\<lambda>err. reply (False, Some err)) (reply (False, None))) w"
    using q nb l by (simp add: ensureMountPoint_def asks_def Let_def cong: option.case_cong if_cong)
  have m: ?m and r: "read_one os p w = None" and w: "w' = w"
    using assms unfolding e
    by (auto simp: if_err_def bind_st_def reply_def split: if_splits option.splits prod.splits)
  have "\<not> ?bad" using nb r corrupted_unreadable by blast
  then have "l \<or> \<not> notMnt" using m by (auto split: if_splits)
  moreover have "mounted p w" if "\<not> notMnt"
    using that q likely [of p w] likely_noent [of p w notMnt] \<open>\<not> ?bad\<close> by (cases err) auto
  moreover have "mounted p w" if l using that l listed by simp
  ultimately show ?thesis using w by blast
qed

lemma mount_share_mounted:
  assumes "ns_StagingTargetPath req \<noteq> ''''"
  shows "ensures (\<lambda>r s. r = Inr () \<longrightarrow> mounted (ns_StagingTargetPath req) (world s)) (mount_share os req ctx opts sens)"
proof -
  let ?m = "\<lparr>bg_source = stage_source ctx, bg_target = ns_StagingTargetPath req, bg_fsType = ''cifs'',
    bg_options = opts, bg_sensitive = sens, bg_volumeID = ns_VolumeId req\<rparr>"
  have m: "ensures (\<lambda>r w. r = None \<longrightarrow> mounted (ns_StagingTargetPath req) w) (run_mount os ?m)"
    by (rule ensuresI) (use assms in \<open>auto simp: run_mount_def dest: share_mounts\<close>)
  show ?thesis
    unfolding mount_share_def WaitUntilTimeout_def ignoring_def Let_def
    by (intro ensures_if_err [where k = "if_err f h k" for f h k] ensures_if_err_last ensures_asks ensures_if
        ensures_bind ensures_reply)
       (use ensures_on_world [OF m] in \<open>auto simp: ensures_def\<close>)
qed

lemma stage_mount_mounted:
  assumes "ns_StagingTargetPath req \<noteq> ''''"
  shows "ensures (\<lambda>r s. r = Inr () \<longrightarrow> mounted (ns_StagingTargetPath req) (world s)) (stage_mount os req ctx opts sens)"
proof (rule ensuresI)
  fix s r s'
  assume a: "stage_mount os req ctx opts sens s = (r, s')"
  obtain m err w1 where e: "ensureMountPoint os (ns_StagingTargetPath req) (world s) = ((m, err), w1)"
    by (metis prod.exhaust)
  then show "r = Inr () \<longrightarrow> mounted (ns_StagingTargetPath req) (world s')"
    using a ensureMountPoint_mounted ensuresD [OF mount_share_mounted [OF assms]]
    by (auto simp: stage_mount_def bind_st_def on_world_def reply_def split: option.splits if_splits)
qed

lemma stage_success_mounted:
  "ensures (\<lambda>r s. r = Inr () \<longrightarrow> mounted (ns_StagingTargetPath req) (world s)) (NodeStageVolume os req)"
  unfolding NodeStageVolume_def stage_locked_def
  by (intro ensures_intros ensures_with_lock stage_mount_mounted) simp_all

lemma publish_bind_mounted:
  "ensures (\<lambda>r s. r = Inr () \<longrightarrow> mounted (np_TargetPath req) (world s)) (publish_bind os req)"
proof (rule ensuresI)
  fix s r s'
  assume a: "publish_bind os req s = (r, s')"
  obtain m err w1 where e: "ensureMountPoint os (np_TargetPath req) (world s) = ((m, err), w1)"
    by (metis prod.exhaust)
  show "r = Inr () \<longrightarrow> mounted (np_TargetPath req) (world s')"
    using a e ensureMountPoint_mounted bind_mounts
    by (auto simp: publish_bind_def control_defs on_world_def preparePublishPath_eq sys_def Let_def
        split: option.splits if_splits prod.splits elim!: err_of.elims)
qed

lemma publish_success_mounted:
  "ensures (\<lambda>r s. r = Inr () \<longrightarrow> mounted (np_TargetPath req) (world s)) (NodePublishVolume os req)"
proof -
  have "ensures (\<lambda>r s. r = Inr () \<longrightarrow> mounted (np_TargetPath req) (world s))
      (NodeStageVolume os \<lparr>ns_VolumeId = v, ns_StagingTargetPath = np_TargetPath req,
         ns_VolumeCapability = cap, ns_VolumeContext = ctx, ns_Secrets = sec\<rparr>)" for v cap ctx sec
    using stage_success_mounted [of "\<lparr>ns_VolumeId = v, ns_StagingTargetPath = np_TargetPath req,
        ns_VolumeCapability = cap, ns_VolumeContext = ctx, ns_Secrets = sec\<rparr>"] by simp
  then show ?thesis
    unfolding NodePublishVolume_def
    by (intro ensures_intros publish_bind_mounted) simp_all
qed

end

section \<open>Unstaging removes\<close>

sublocale node_env \<subseteq> gone: effect_os "\<lambda>w w'. absent p w \<longrightarrow> absent p w'" os "\<lambda>c. \<exists>f. c = Remove f" for p
  by unfold_locales (auto simp: remove_creates_nothing)

context node_env
begin

lemma delete_cache_keeps_absent:
  assumes "deleteKerberosCache os directory vol w = (e, w')" "absent p w"
  shows "absent p w'"
proof -
  have "keeps (\<lambda>w w'. absent p w \<longrightarrow> absent p w') (deleteKerberosCache os directory vol)"
    by (rule gone.keeps_deleteKerberosCache) (auto simp: uncache_calls_def)
  from keepsD [OF this assms(1)] show ?thesis using assms(2) by blast
qed

lemma unstage_success_absent:
  "ensures (\<lambda>r s. r = Inr () \<longrightarrow> absent (nu_StagingTargetPath req) (world s)) (NodeUnstageVolume os req)"
proof -
  let ?p = "nu_StagingTargetPath req"
  let ?Q = "\<lambda>r s. r = Inr () \<longrightarrow> absent ?p (world s)"
  let ?c = "CleanupSMBMountPoint os ?p True (nu_VolumeId req)"
  have "ensures ?Q
      (if_err (on_world ?c) (\<lambda>err. fails (f err))
        (asks (\<lambda>s. if_err (on_world (deleteKerberosCache os (krb5CacheDirectory (drv s)) (nu_VolumeId req)))
          (\<lambda>err. fails (g err)) (returns ()))))" for f g
  proof (rule ensuresI)
    fix s r s'
    assume a: "if_err (on_world ?c) (\<lambda>err. fails (f err))
        (asks (\<lambda>s. if_err (on_world (deleteKerberosCache os (krb5CacheDirectory (drv s)) (nu_VolumeId req)))
          (\<lambda>err. fails (g err)) (returns ()))) s = (r, s')"
    obtain e w1 where c: "?c (world s) = (e, w1)" by fastforce
    obtain e2 w2 where d: "deleteKerberosCache os (krb5CacheDirectory (drv s)) (nu_VolumeId req) w1 = (e2, w2)"
      by fastforce
    show "?Q r s'"
      using a c d smb_cleanup [of ?p "nu_VolumeId req" "world s" w1] delete_cache_keeps_absent [OF d]
      by (auto simp: control_defs on_world_def split: option.splits)
  qed
  then show ?thesis
    unfolding NodeUnstageVolume_def by (auto intro!: ensures_if ensures_reply ensures_with_lock)
qed

lemma unpublish_success_absent:
  "ensures (\<lambda>r s. r = Inr () \<longrightarrow> absent (nx_TargetPath req) (world s)) (NodeUnpublishVolume os req)"
proof -
  have "ensures (\<lambda>e w. e = None \<longrightarrow> absent (nx_TargetPath req) w) (CleanupMountPoint os (nx_TargetPath req) True)"
    by (rule ensuresI) (auto dest: cleanup)
  from ensures_on_world [OF this] show ?thesis
    unfolding NodeUnpublishVolume_def by (auto intro!: ensures_if ensures_reply ensures_if_err_last)
qed

end

section \<open>Unix nodes\<close>

text \<open>
  \<open>mounted\<close> and \<open>absent\<close> tell whether something is mounted at a path, and whether the path does not
  exist. A successful mount mounts; closing and removing files does not unmount (a mount point is
  busy); the query for mount points does not report a path at which nothing is mounted, and neither
  does the mount table, which holds absolute paths; what
  cannot be examined cannot be opened. A path that was removed, or is reported as not existing by
  the calls the code uses, is absent, and removing files creates nothing.
\<close>

locale mount_env =
  fixes os :: "'w os" and mounted :: "string \<Rightarrow> 'w \<Rightarrow> bool" and absent :: "string \<Rightarrow> 'w \<Rightarrow> bool"
  assumes unix: "GOOS os \<noteq> Windows"
    and mount_mounts: "exec os (MountSensitive src p ty opts sens) w = (Inr x, w') \<Longrightarrow> mounted p w'"
    and bind_mounts: "exec os (Mount src p ty opts) w = (Inr x, w') \<Longrightarrow> mounted p w'"
    and close_keeps: "mounted p w \<Longrightarrow> mounted p (snd (exec os (FileClose f) w))"
    and remove_keeps: "mounted p w \<Longrightarrow> mounted p (snd (exec os (Remove f) w))"
    and likely: "IsLikelyNotMountPoint os p w = (False, None) \<Longrightarrow> mounted p w"
    and mount_table: "ListMounts os w = Inr mounts \<Longrightarrow> mnt \<in> set mounts \<Longrightarrow> IsAbs p \<or> Getwd os w = Inr wd \<Longrightarrow>
      mp_Path mnt = Abs wd p \<Longrightarrow> mounted p w"
    and stat_open: "Stat os p w \<noteq> None \<Longrightarrow> Open os p w \<noteq> None"
    and likely_noent: "IsLikelyNotMountPoint os p w = (b, Some e) \<Longrightarrow> IsNotExist e \<Longrightarrow> b"
    and remove_ok: "exec os (Remove p) w = (Inr x, w') \<Longrightarrow> absent p w'"
    and remove_noent: "exec os (Remove p) w = (Inl e, w') \<Longrightarrow> IsNotExist e \<Longrightarrow> absent p w'"
    and stat_noent: "Stat os p w = Some e \<Longrightarrow> IsNotExist e \<Longrightarrow> Access os p w \<noteq> None \<Longrightarrow> absent p w"
    and mountpoint_noent: "IsMountPoint os p w = (b, Some e) \<Longrightarrow> IsNotExist e \<Longrightarrow> absent p w"
    and remove_creates_nothing: "absent p w \<Longrightarrow> absent p (snd (exec os (Remove f) w))"
begin

lemma listed: "in_mount_list os p w = Inr True \<Longrightarrow> mounted p w"
  using mount_table
  by (fastforce simp: in_mount_list_def Let_def list_ex_iff split: if_splits sum.splits)

lemma corrupted_dir_unreadable: "IsCorruptedDir os p w \<Longrightarrow> read_one os p w \<noteq> None"
proof -
  assume "IsCorruptedDir os p w"
  then have "Stat os p w \<noteq> None"
    using unix by (cases "Stat os p w") (simp_all add: IsCorruptedDir_def PathExists_def PathExists_unix_def)
  then have "Open os p w \<noteq> None" by (rule stat_open)
  then show ?thesis by (auto simp: read_one_def)
qed

lemma write_options_mounted:
  assumes "write_options os f xs (sys os (MountSensitive src p ty opts sens)) w = (None, w')"
  shows "mounted p w'"
  using assms
proof (induction xs arbitrary: w)
  case Nil
  obtain r v where x: "exec os (MountSensitive src p ty opts sens) w = (r, v)" by fastforce
  then obtain y where "r = Inr y" using Nil by (cases r) (auto simp: sys_def)
  then show ?case using Nil x mount_mounts by (simp add: sys_def)
next
  case (Cons x xs)
  then show ?case
    by (auto simp: if_err_def bind_st_def reply_def split: option.splits prod.splits)
qed

lemma smb_Mount_mounted:
  assumes "smb_Mount os src p ty opts sens vol w = (None, w')"
  shows "mounted p w'"
proof -
  let ?k = "\<lambda>sens. sys os (MountSensitive src p ty opts sens)"
  have direct: "mounted p w'" if "?k sens w = (None, w')" for sens w w'
    using write_options_mounted [of _ "[]"] that by simp
  show ?thesis
  proof (cases "GOOS os = Linux \<and> NeedsCredentialsOption sens")
    case False
    then have "?k sens w = (None, w')"
      using assms unix by (auto simp: smb_Mount_def Mount_linux_def Mount_darwin_def split: goos.splits)
    then show ?thesis by (rule direct)
  next
    case True
    obtain r w1 where t: "exec os (CreateTemp ''/tmp/'' ''*.smb.credentials'') w = (r, w1)" by fastforce
    then obtain f where f: "r = Inr f"
      using assms True by (cases r) (auto simp: smb_Mount_def Mount_linux_def bind_st_def reply_def)
    obtain e w2 where b: "write_options os f sens (?k [''credentials='' @ f]) w1 = (e, w2)" by fastforce
    let ?w3 = "snd (exec os (FileClose f) w2)"
    have "e = None" "w' = snd (exec os (Remove f) ?w3)"
      using assms True t f b
      by (auto simp: smb_Mount_def Mount_linux_def control_defs sys_def split: prod.splits)
    then show ?thesis
      using write_options_mounted b close_keeps remove_keeps by blast
  qed
qed

lemma removePathIfNotMountPoint_absent:
  assumes "removePathIfNotMountPoint os p True w = ((True, None), w')"
  shows "absent p w'"
proof -
  obtain m err where q: "IsMountPoint os p w = (m, err)" by fastforce
  obtain r w1 where x: "exec os (Remove p) w = (r, w1)" by fastforce
  show ?thesis
  proof (cases err)
    case None
    then show ?thesis
      using assms q x remove_ok
      by (cases r) (auto simp: removePathIfNotMountPoint_def IsNotMountPoint_def control_defs sys_def split: if_splits)
  next
    case (Some e)
    then show ?thesis
      using assms q mountpoint_noent
      by (auto simp: removePathIfNotMountPoint_def IsNotMountPoint_def control_defs split: if_splits)
  qed
qed

lemma removePath_absent:
  assumes "removePath os p w = (None, w')"
  shows "absent p w'"
proof -
  obtain r w1 where x: "exec os (Remove p) w = (r, w1)" by fastforce
  then show ?thesis
    using assms remove_ok remove_noent
    by (cases r) (auto simp: removePath_def control_defs sys_def split: if_splits)
qed

lemma doCleanup_absent:
  assumes "doCleanupMountPoint os p True corrupted w = (None, w')"
  shows "absent p w'"
proof (cases "corrupted \<or> CanSafelySkipMountPointCheck os w")
  case True
  then show ?thesis
    using assms removePath_absent
    by (auto simp: doCleanupMountPoint_def control_defs split: option.splits prod.splits)
next
  case False
  obtain n e w1 where r: "removePathIfNotMountPoint os p True w = ((n, e), w1)" by (metis prod.exhaust)
  show ?thesis
  proof (cases "e \<noteq> None \<or> n")
    case True
    then show ?thesis
      using assms False r removePathIfNotMountPoint_absent [of p w w']
      by (auto simp: doCleanupMountPoint_def control_defs)
  next
    case F2: False
    obtain u w2 where u: "sys os (Unmount p) w1 = (u, w2)" by fastforce
    obtain n' e' w3 where r': "removePathIfNotMountPoint os p True w2 = ((n', e'), w3)" by (metis prod.exhaust)
    then show ?thesis
      using assms False F2 r u removePathIfNotMountPoint_absent [of p w2 w']
      by (auto simp: doCleanupMountPoint_def control_defs split: option.splits if_splits)
  qed
qed

lemma cleanup_absent: "ensures (\<lambda>e w. e = None \<longrightarrow> absent p w) (mount_CleanupMountPoint os p True)"
proof (rule ensuresI)
  fix w r w'
  assume a: "mount_CleanupMountPoint os p True w = (r, w')"
  obtain ex e where p: "PathExists os p w = (ex, e)" by fastforce
  have "absent p w" if "\<not> ex" "e = None"
    using p that unix stat_noent
    by (auto simp: PathExists_def PathExists_unix_def split: option.splits if_splits)
  then show "r = None \<longrightarrow> absent p w'"
    using a p doCleanup_absent
    by (auto simp: mount_CleanupMountPoint_def control_defs split: if_splits)
qed

end

sublocale mount_env \<subseteq> node: node_env os mounted absent
proof
  show "CleanupSMBMountPoint os p True vol w = (None, w') \<Longrightarrow> absent p w'" for p vol w w'
    using unix ensuresD [OF cleanup_absent] by (simp add: CleanupSMBMountPoint_eq)
  show "CleanupMountPoint os p True w = (None, w') \<Longrightarrow> absent p w'" for p w w'
    using unix ensuresD [OF cleanup_absent] by (simp add: CleanupMountPoint_eq)
qed (erule (1) likely_noent | erule smb_Mount_mounted bind_mounts likely listed corrupted_dir_unreadable remove_creates_nothing)+

context mount_env
begin

lemma unix_node: "node_env os mounted absent"
  by (rule node.node_env_axioms)

end

section \<open>Mount and unmount\<close>

text \<open>
  C4. Staging and publishing mount: if the environment keeps the laws and \<^verbatim>\<open>NodeStageVolume\<close> or
  \<^verbatim>\<open>NodePublishVolume\<close> returns without an error, something is mounted at the staging or target path,
  whatever happened before: the directory missing, a stale mount, a mount that was already there.
\<close>

theorem stage_mounts:
  assumes "mount_env os mounted absent"
  shows "(NodeStageVolume os req s = (Inr (), s') \<longrightarrow> mounted (ns_StagingTargetPath req) (world s')) \<and>
    (NodePublishVolume os preq s = (Inr (), s') \<longrightarrow> mounted (np_TargetPath preq) (world s'))"
  using ensuresD [OF node_env.stage_success_mounted [OF mount_env.unix_node [OF assms]]]
    ensuresD [OF node_env.publish_success_mounted [OF mount_env.unix_node [OF assms]]] by blast

text \<open>
  C6. Unstaging and unpublishing clean up: if the environment keeps the laws and the handler returns
  without an error, the path does not exist any more.
\<close>

theorem unstage_removes:
  assumes "mount_env os mounted absent"
  shows "(NodeUnstageVolume os ureq s = (Inr (), s') \<longrightarrow> absent (nu_StagingTargetPath ureq) (world s')) \<and>
    (NodeUnpublishVolume os xreq s = (Inr (), s') \<longrightarrow> absent (nx_TargetPath xreq) (world s'))"
  using ensuresD [OF node_env.unstage_success_absent [OF mount_env.unix_node [OF assms]]]
    ensuresD [OF node_env.unpublish_success_absent [OF mount_env.unix_node [OF assms]]] by blast

end
