(* ===== verification/LinuxNode.thy ===== *)
theory LinuxNode
  imports MountContract
begin

text \<open>
  A Linux node with the file servers it can reach, as an instance of the environment: a file
  system with directories, files and symbolic links, a mount table with shares and bind mounts,
  and the errors of the system calls. The laws of \<^verbatim>\<open>MountContract\<close> hold here, and the handlers can
  be run on it.
\<close>

section \<open>The world\<close>

datatype dev = Local | Share string

datatype node = NDir | NFile string | NLink string

type_synonym inode = "dev \<times> string list"

text \<open>The mount table, the latest mount first: mount point, what is mounted there, and its source.\<close>

record lw =
  nodes :: "(inode \<times> node) list"
  mtab :: "(string list \<times> inode \<times> string) list"
  exports :: "string list"
  clock :: int
  temps :: nat

definition resolve :: "lw \<Rightarrow> string list \<Rightarrow> inode" where
  "resolve w p =
     (case find (\<lambda>(mp, _). prefix mp p) (mtab w) of
        None \<Rightarrow> (Local, p)
      | Some (mp, (d, root), _) \<Rightarrow> (d, root @ drop (length mp) p))"

definition lookup_node :: "lw \<Rightarrow> inode \<Rightarrow> node option" where
  "lookup_node w i = (if snd i = [] then Some NDir else map_of (nodes w) i)"

definition node_at :: "lw \<Rightarrow> string \<Rightarrow> node option" where
  "node_at w path = lookup_node w (resolve w (comps path))"

text \<open>Following a symbolic link at the end of a path; a link to a link is not followed further.\<close>

definition follow :: "lw \<Rightarrow> string \<Rightarrow> node option" where
  "follow w path = (case node_at w path of Some (NLink t) \<Rightarrow> node_at w t | n \<Rightarrow> n)"

definition mount_here :: "lw \<Rightarrow> string list \<Rightarrow> bool" where
  "mount_here w p = list_ex (\<lambda>(mp, _). mp = p) (mtab w)"

definition has_child :: "lw \<Rightarrow> inode \<Rightarrow> bool" where
  "has_child w i = list_ex (\<lambda>((d, p), _). d = fst i \<and> strict_prefix (snd i) p) (nodes w)"

section \<open>System calls\<close>

definition no_ent :: "'a option \<Rightarrow> error option" where
  "no_ent x = (case x of None \<Rightarrow> Some (Errno ENOENT) | Some _ \<Rightarrow> None)"

definition put :: "inode \<Rightarrow> node \<Rightarrow> lw \<Rightarrow> lw" where
  "put i n w = w\<lparr>nodes := map_put i n (nodes w)\<rparr>"

definition delete_node :: "inode \<Rightarrow> lw \<Rightarrow> lw" where
  "delete_node i w = w\<lparr>nodes := filter (\<lambda>(k, _). k \<noteq> i) (nodes w)\<rparr>"

definition below :: "inode \<Rightarrow> inode \<Rightarrow> bool" where
  "below i k = (fst k = fst i \<and> prefix (snd i) (snd k))"

fun mkdirs :: "dev \<Rightarrow> string list list \<Rightarrow> lw \<Rightarrow> (error + string) \<times> lw" where
  "mkdirs d [] w = (Inr '''', w)"
| "mkdirs d (p # ps) w =
     (case lookup_node w (d, p) of
        None \<Rightarrow> mkdirs d ps (put (d, p) NDir w)
      | Some NDir \<Rightarrow> mkdirs d ps w
      | Some _ \<Rightarrow> (Inl (Errno ENOTDIR), w))"

definition do_remove :: "string \<Rightarrow> lw \<Rightarrow> (error + string) \<times> lw" where
  "do_remove path w =
     (let p = comps path; i = resolve w p
      in if mount_here w p then (Inl (Errno (EOTHER ''EBUSY'')), w)
         else (case lookup_node w i of
                 None \<Rightarrow> (Inl (Errno ENOENT), w)
               | Some NDir \<Rightarrow>
                   if snd i = [] then (Inl (Errno (EOTHER ''EBUSY'')), w)
                   else if has_child w i then (Inl (Errno ENOTEMPTY), w)
                   else (Inr '''', delete_node i w)
               | Some _ \<Rightarrow> (Inr '''', delete_node i w)))"

definition move :: "inode \<Rightarrow> inode \<Rightarrow> inode \<Rightarrow> inode" where
  "move a b k = (if below a k then (fst b, snd b @ drop (length (snd a)) (snd k)) else k)"

definition do_rename :: "string \<Rightarrow> string \<Rightarrow> lw \<Rightarrow> (error + string) \<times> lw" where
  "do_rename old new w =
     (let a = resolve w (comps old); b = resolve w (comps new)
      in if lookup_node w a = None then (Inl (Errno ENOENT), w)
         else if fst a \<noteq> fst b then (Inl (Errno (EOTHER ''EXDEV'')), w)
         else if a = b then (Inr '''', w)
         else if below a b \<or> snd a = [] \<or> snd b = [] then (Inl (Errno (EOTHER ''EINVAL'')), w)
         else if lookup_node w (fst b, butlast (snd b)) \<noteq> Some NDir then (Inl (Errno ENOENT), w)
         else if has_child w b then (Inl (Errno ENOTEMPTY), w)
         else (Inr '''', w\<lparr>nodes := map (\<lambda>(k, n). (move a b k, n)) (filter (\<lambda>(k, _). k \<noteq> b) (nodes w))\<rparr>))"

definition do_write :: "(string \<Rightarrow> string) \<Rightarrow> string \<Rightarrow> lw \<Rightarrow> (error + string) \<times> lw" where
  "do_write f path w =
     (let path = (case node_at w path of Some (NLink t) \<Rightarrow> t | _ \<Rightarrow> path);
          i = resolve w (comps path)
      in case lookup_node w i of
           None \<Rightarrow>
             if lookup_node w (fst i, butlast (snd i)) = Some NDir then (Inr '''', put i (NFile (f '''')) w)
             else (Inl (Errno ENOENT), w)
         | Some (NFile c) \<Rightarrow> (Inr '''', put i (NFile (f c)) w)
         | Some _ \<Rightarrow> (Inl (Errno (EOTHER ''EISDIR'')), w))"

definition do_symlink :: "string \<Rightarrow> string \<Rightarrow> lw \<Rightarrow> (error + string) \<times> lw" where
  "do_symlink target link w =
     (let i = resolve w (comps link)
      in if lookup_node w i \<noteq> None then (Inl (Errno EEXIST), w)
         else if lookup_node w (fst i, butlast (snd i)) \<noteq> Some NDir then (Inl (Errno ENOENT), w)
         else (Inr '''', put i (NLink target) w))"

text \<open>A server, a share and the directory in it, as a source such as \<^verbatim>\<open>//srv/share/dir\<close> names them.\<close>

fun share_root :: "string list \<Rightarrow> inode option" where
  "share_root (srv # sh # root) = Some (Share (srv @ ''/'' @ sh), root)"
| "share_root _ = None"

definition do_mount :: "inode option \<Rightarrow> string \<Rightarrow> string \<Rightarrow> lw \<Rightarrow> (error + string) \<times> lw" where
  "do_mount root src target w =
     (case root of
        None \<Rightarrow> (Inl (Errno (EOTHER ''EINVAL'')), w)
      | Some i \<Rightarrow>
          if node_at w target \<noteq> Some NDir then (Inl (Errno ENOENT), w)
          else if lookup_node w i \<noteq> Some NDir then (Inl (Errno ENOENT), w)
          else (Inr '''', w\<lparr>mtab := (comps target, i, src) # mtab w\<rparr>))"

fun drop_first :: "('a \<Rightarrow> bool) \<Rightarrow> 'a list \<Rightarrow> 'a list" where
  "drop_first P [] = []"
| "drop_first P (x # xs) = (if P x then xs else x # drop_first P xs)"

definition tmp_name :: "string \<Rightarrow> nat \<Rightarrow> string" where
  "tmp_name dir n = dir @ show_nat 10 n @ ''.smb.credentials''"

fun lw_exec :: "call \<Rightarrow> lw \<Rightarrow> (error + string) \<times> lw" where
  "lw_exec (MkdirAll path mode) w =
     (let i = resolve w (comps path) in mkdirs (fst i) (prefixes (snd i)) w)"
| "lw_exec (Mkdir path mode) w =
     (let i = resolve w (comps path)
      in if lookup_node w i \<noteq> None then (Inl (Errno EEXIST), w)
         else if lookup_node w (fst i, butlast (snd i)) \<noteq> Some NDir then (Inl (Errno ENOENT), w)
         else (Inr '''', put i NDir w))"
| "lw_exec (Remove path) w = do_remove path w"
| "lw_exec (RemoveAll path) w =
     (let i = resolve w (comps path) in (Inr '''', w\<lparr>nodes := filter (\<lambda>(k, _). \<not> below i k) (nodes w)\<rparr>))"
| "lw_exec (Rename old new) w = do_rename old new w"
| "lw_exec (WriteFile path content mode) w = do_write (\<lambda>_. content) path w"
| "lw_exec (Chown path uid gid) w =
     (case follow w path of None \<Rightarrow> (Inl (Errno ENOENT), w) | Some _ \<Rightarrow> (Inr '''', w))"
| "lw_exec (Symlink target link) w = do_symlink target link w"
| "lw_exec (CreateTemp dir pattern) w =
     (let name = tmp_name dir (temps w)
      in (Inr name, put (resolve w (comps name)) (NFile '''') (w\<lparr>temps := temps w + 1\<rparr>)))"
| "lw_exec (FileWrite name content) w = do_write (\<lambda>c. c @ content) name w"
| "lw_exec (FileClose name) w = (Inr '''', w)"
| "lw_exec (ChmodTree path mode) w = (Inr '''', w)"
| "lw_exec (CopyTree src dst) w =
     (let a = resolve w (comps src); b = resolve w (comps dst)
      in if lookup_node w a = None \<or> lookup_node w b \<noteq> Some NDir
         then (Inl (Errorf ''exit status 1'' None), w)
         else (Inr '''', w\<lparr>nodes :=
                fold (\<lambda>(k, n) ns. if below a k \<and> k \<noteq> a then map_put (move a b k) n ns else ns) (nodes w) (nodes w)\<rparr>))"
| "lw_exec (Mount src target ty options) w = do_mount (Some (resolve w (comps src))) src target w"
| "lw_exec (MountSensitive src target ty options sensitive) w =
     do_mount (case share_root (comps src) of
                 Some (Share sh, root) \<Rightarrow> if List.member (exports w) sh then Some (Share sh, root) else None
               | _ \<Rightarrow> None) src target w"
| "lw_exec (Unmount path) w =
     (if mount_here w (comps path)
      then (Inr '''', w\<lparr>mtab := drop_first (\<lambda>(mp, _). mp = comps path) (mtab w)\<rparr>)
      else (Inl (Errno (EOTHER ''EINVAL'')), w))"
| "lw_exec _ w = (Inl (Errno (EOTHER ''ENOSYS'')), w)"

section \<open>The environment\<close>

definition no_limits :: Metrics where
  "no_limits = \<lparr>m_Available = Some 0, m_Capacity = Some 0, m_Used = Some 0, m_InodesFree = Some 0,
     m_Inodes = Some 0, m_InodesUsed = Some 0\<rparr>"

definition linux_os :: "lw os" where
  "linux_os = \<lparr>
     GOOS = Linux,
     exec = lw_exec,
     Stat = (\<lambda>p w. no_ent (follow w p)),
     Lstat = (\<lambda>p w. no_ent (node_at w p)),
     Access = (\<lambda>p w. no_ent (follow w p)),
     Open = (\<lambda>p w. no_ent (follow w p)),
     ReadDir1 = (\<lambda>p w. if has_child w (resolve w (comps p)) then None else Some io_EOF),
     ReadDir = (\<lambda>p w. let i = resolve w (comps p)
                     in map (\<lambda>((_, q), _). last q)
                          (filter (\<lambda>((d, q), _). d = fst i \<and> q \<noteq> [] \<and> butlast q = snd i) (nodes w))),
     Readlink = (\<lambda>p w. case node_at w p of Some (NLink t) \<Rightarrow> t | _ \<Rightarrow> ''''),
     Getwd = (\<lambda>w. Inr ''/''),
     Now = clock,
     StatFS = (\<lambda>p w. Inr no_limits),
     ListMounts = (\<lambda>w. Inr (map (\<lambda>(mp, _, src). \<lparr>mp_Device = src, mp_Path = path_of True mp\<rparr>) (mtab w))),
     IsLikelyNotMountPoint = (\<lambda>p w. case follow w p of
         None \<Rightarrow> (True, Some (Errno ENOENT))
       | Some _ \<Rightarrow> (\<not> mount_here w (comps p), None)),
     IsMountPoint = (\<lambda>p w. case follow w p of
         None \<Rightarrow> (False, Some (Errno ENOENT))
       | Some _ \<Rightarrow> (mount_here w (comps p), None)),
     CanSafelySkipMountPointCheck = (\<lambda>w. False),
     CSIProxy = False,
     ExistsPath = (\<lambda>p w. Inr (node_at w p \<noteq> None)),
     GetSecret = (\<lambda>ns n w. Inl (Errno ENOENT)),
     InTime = (\<lambda>w. True),
     FileModeFirst = (\<lambda>w. True)\<rparr>"

section \<open>The laws hold\<close>

definition lw_mounted :: "string \<Rightarrow> lw \<Rightarrow> bool" where
  "lw_mounted p w =
     list_ex (\<lambda>(mp, _). mp = comps p \<or> path_of True mp = Abs (if IsAbs p then '''' else ''/'') p) (mtab w)"

definition lw_absent :: "string \<Rightarrow> lw \<Rightarrow> bool" where
  "lw_absent p w = (follow w p = None)"

lemma resolve_cong: "mtab w' = mtab w \<Longrightarrow> resolve w' p = resolve w p"
  by (simp add: resolve_def)

lemma mtab_put [simp]: "mtab (put i n w) = mtab w" "mtab (delete_node i w) = mtab w"
  by (simp_all add: put_def delete_node_def)

lemma map_of_filter_ne: "map_of (filter (\<lambda>(k, _). k \<noteq> i) ns) k = (if k = i then None else map_of ns k)"
  by (induction ns) auto

lemma lookup_delete_node:
  "lookup_node (delete_node i w) k = (if k = i \<and> snd k \<noteq> [] then None else lookup_node w k)"
  by (simp add: lookup_node_def delete_node_def map_of_filter_ne)

lemma node_at_delete_node:
  "node_at (delete_node i w) p = None \<or> node_at (delete_node i w) p = node_at w p"
  by (simp add: node_at_def resolve_cong [OF mtab_put(2)] lookup_delete_node)

lemma absent_delete_node: "lw_absent p w \<Longrightarrow> lw_absent p (delete_node i w)"
proof (cases "node_at (delete_node i w) p")
  case (Some n)
  assume a: "lw_absent p w"
  have n: "node_at w p = Some n" using Some node_at_delete_node [of i w p] by simp
  then obtain t where "n = NLink t" "node_at w t = None"
    using a by (cases n) (auto simp: lw_absent_def follow_def)
  then show ?thesis
    using Some node_at_delete_node [of i w t] by (auto simp: lw_absent_def follow_def)
qed (simp add: lw_absent_def follow_def)

lemma do_remove_cases:
  "do_remove p w = (r, w') \<Longrightarrow>
     (\<exists>e. r = Inl e \<and> w' = w \<and> (IsNotExist e \<longrightarrow> lw_absent p w)) \<or>
     (r = Inr '''' \<and> w' = delete_node (resolve w (comps p)) w \<and> snd (resolve w (comps p)) \<noteq> [])"
  by (auto simp: do_remove_def Let_def lw_absent_def follow_def node_at_def lookup_node_def
      split: if_splits option.splits node.splits)

lemma do_remove_absent: "do_remove p w = (Inr x, w') \<Longrightarrow> lw_absent p w'"
proof -
  assume "do_remove p w = (Inr x, w')"
  then have w': "w' = delete_node (resolve w (comps p)) w" "snd (resolve w (comps p)) \<noteq> []"
    using do_remove_cases by blast+
  then have "node_at w' p = None"
    by (simp add: node_at_def resolve_cong [OF mtab_put(2)] lookup_delete_node)
  then show ?thesis by (simp add: lw_absent_def follow_def)
qed

lemma mtab_do_remove: "mtab (snd (do_remove p w)) = mtab w"
  by (cases "do_remove p w") (auto dest: do_remove_cases)

lemma do_mount_mounted: "do_mount i src p w = (Inr x, w') \<Longrightarrow> lw_mounted p w'"
  by (auto simp: do_mount_def lw_mounted_def split: option.splits if_splits)

interpretation linux: mount_env linux_os lw_mounted lw_absent
proof
  show "GOOS linux_os \<noteq> Windows" by (simp add: linux_os_def)
  show "exec linux_os (MountSensitive src p ty opts sens) w = (Inr x, w') \<Longrightarrow> lw_mounted p w'"
    for src p ty opts sens w x w'
    by (auto simp: linux_os_def intro: do_mount_mounted)
  show "exec linux_os (Mount src p ty opts) w = (Inr x, w') \<Longrightarrow> lw_mounted p w'" for src p ty opts w x w'
    by (auto simp: linux_os_def intro: do_mount_mounted)
  show "lw_mounted p w \<Longrightarrow> lw_mounted p (snd (exec linux_os (FileClose f) w))" for p w f
    by (simp add: linux_os_def)
  show "lw_mounted p w \<Longrightarrow> lw_mounted p (snd (exec linux_os (Remove f) w))" for p w f
    by (simp add: linux_os_def lw_mounted_def mtab_do_remove)
  show "IsLikelyNotMountPoint linux_os p w = (False, None) \<Longrightarrow> lw_mounted p w" for p w
    by (auto simp: linux_os_def lw_mounted_def mount_here_def list_ex_iff split: option.splits)
  show "ListMounts linux_os w = Inr mounts \<Longrightarrow> mnt \<in> set mounts \<Longrightarrow> IsAbs p \<or> Getwd linux_os w = Inr wd \<Longrightarrow>
      mp_Path mnt = Abs wd p \<Longrightarrow> lw_mounted p w" for w mounts mnt p wd
  proof -
    assume a: "ListMounts linux_os w = Inr mounts" "mnt \<in> set mounts" "IsAbs p \<or> Getwd linux_os w = Inr wd"
      "mp_Path mnt = Abs wd p"
    have "Abs wd p = Abs (if IsAbs p then '''' else ''/'') p" using a(3) by (auto simp: linux_os_def Abs_def)
    moreover obtain m where "m \<in> set (mtab w)" "mp_Path mnt = path_of True (fst m)"
      using a(1,2) by (auto simp: linux_os_def)
    ultimately have "m \<in> set (mtab w) \<and> path_of True (fst m) = Abs (if IsAbs p then '''' else ''/'') p"
      using a(4) by simp
    then show "lw_mounted p w"
      unfolding lw_mounted_def list_ex_iff by (intro bexI [of _ m]) (simp_all add: case_prod_beta)
  qed
  show "Stat linux_os p w \<noteq> None \<Longrightarrow> Open linux_os p w \<noteq> None" for p w
    by (simp add: linux_os_def)
  show "IsLikelyNotMountPoint linux_os p w = (b, Some e) \<Longrightarrow> IsNotExist e \<Longrightarrow> b" for p w b e
    by (auto simp: linux_os_def split: option.splits)
  show "exec linux_os (Remove p) w = (Inr x, w') \<Longrightarrow> lw_absent p w'" for p w x w'
    by (simp add: linux_os_def do_remove_absent)
  show "exec linux_os (Remove p) w = (Inl e, w') \<Longrightarrow> IsNotExist e \<Longrightarrow> lw_absent p w'" for p w e w'
    by (auto simp: linux_os_def dest: do_remove_cases)
  show "Stat linux_os p w = Some e \<Longrightarrow> IsNotExist e \<Longrightarrow> Access linux_os p w \<noteq> None \<Longrightarrow> lw_absent p w" for p w e
    by (auto simp: linux_os_def lw_absent_def no_ent_def split: option.splits)
  show "IsMountPoint linux_os p w = (b, Some e) \<Longrightarrow> IsNotExist e \<Longrightarrow> lw_absent p w" for p w b e
    by (auto simp: linux_os_def lw_absent_def split: option.splits)
  show "lw_absent p w \<Longrightarrow> lw_absent p (snd (exec linux_os (Remove f) w))" for p w f
    by (cases "do_remove f w") (auto simp: linux_os_def dest: do_remove_cases intro: absent_delete_node)
qed

section \<open>Runs\<close>

text \<open>A node outside a cluster that reaches one share, and the driver with its default options.\<close>

definition no_kube :: kube_env where
  "no_kube = \<lparr>Getenv = (\<lambda>_. ''''), ReadFile = (\<lambda>_. Inl (Errno ENOENT)), certutil_NewPool = (\<lambda>_. None),
     BuildConfigFromFlags = (\<lambda>_. Inl (Errno ENOENT)), NewForConfig = (\<lambda>_. None)\<rparr>"

definition node_options :: DriverOptions where
  "node_options = \<lparr>o_NodeID = ''node-1'', o_DriverName = ''smb.csi.k8s.io'', o_EnableGetVolumeStats = True,
     o_RemoveSMBMappingDuringUnmount = True, o_WorkingMountDir = ''/tmp'', o_VolStatsCacheExpireInMinutes = 10,
     o_Krb5CacheDirectory = '''', o_Krb5Prefix = '''', o_DefaultOnDeletePolicy = '''',
     o_RemoveArchivedVolumePath = True, o_EnableWindowsHostProcess = False, o_Kubeconfig = ''''\<rparr>"

definition node_world :: lw where
  "node_world = \<lparr>nodes = [((Local, [''tmp'']), NDir), ((Local, [''var'']), NDir)], mtab = [],
     exports = [''srv/share''], clock = 0, temps = 0\<rparr>"

definition node_state :: "lw st" where
  "node_state = \<lparr>drv = Run (NewDriver no_kube node_options), world = node_world, pending = []\<rparr>"

definition stage_request :: NodeStageVolumeRequest where
  "stage_request = \<lparr>ns_VolumeId = ''srv/share#data##'', ns_StagingTargetPath = ''/var/globalmount'',
     ns_VolumeCapability = Some (CapMount \<lparr>MountFlags = [''vers=3.0''], VolumeMountGroup = ''''\<rparr>),
     ns_VolumeContext = [(''source'', ''//srv/share'')],
     ns_Secrets = [(''username'', ''u''), (''password'', ''p,w'')]\<rparr>"

definition unstage_request :: NodeUnstageVolumeRequest where
  "unstage_request = \<lparr>nu_VolumeId = ''srv/share#data##'', nu_StagingTargetPath = ''/var/globalmount''\<rparr>"

definition staged_state :: "lw st" where
  "staged_state = snd (NodeStageVolume linux_os stage_request node_state)"

lemma stage_request_ok: "NodeStageVolume linux_os stage_request node_state = (Inr (), staged_state)"
proof -
  have "fst (NodeStageVolume linux_os stage_request node_state) = Inr ()" by code_simp
  then show ?thesis by (simp add: staged_state_def prod_eq_iff)
qed

theorem stage_mounts_witness: "lw_mounted ''/var/globalmount'' (world staged_state)"
  using stage_mounts [OF linux.mount_env_axioms] stage_request_ok by (force simp: stage_request_def)

definition unstaged_state :: "lw st" where
  "unstaged_state = snd (NodeUnstageVolume linux_os unstage_request staged_state)"

theorem unstage_removes_witness: "lw_absent ''/var/globalmount'' (world unstaged_state)"
proof -
  have "fst (NodeUnstageVolume linux_os unstage_request staged_state) = Inr ()" by code_simp
  then have "NodeUnstageVolume linux_os unstage_request staged_state = (Inr (), unstaged_state)"
    by (simp add: unstaged_state_def prod_eq_iff)
  then show ?thesis
    using unstage_removes [OF linux.mount_env_axioms] by (force simp: unstage_request_def)
qed

theorem stage_errors_witness:
  "\<exists>msg. NodeStageVolume linux_os (stage_request\<lparr>ns_VolumeContext := [(''src'', ''//srv/share'')]\<rparr>) node_state =
     (Inl (Status InvalidArgument msg None), node_state)"
proof -
  have "\<not> valid_stage (stage_request\<lparr>ns_VolumeContext := [(''src'', ''//srv/share'')]\<rparr>)" by code_simp
  then show ?thesis using stage_errors by blast
qed

text \<open>The same state in the environment that writes down the calls.\<close>

definition logged_state :: "(lw \<times> call list) st" where
  "logged_state = \<lparr>drv = drv node_state, world = (node_world, []), pending = []\<rparr>"

theorem stage_touches_its_own_witness:
  "list_all (stage_calls (log_os linux_os) (config logged_state) stage_request)
     (snd (world (snd (NodeStageVolume (log_os linux_os) stage_request logged_state))))"
  using stage_touches_its_own [of linux_os stage_request logged_state _ _ node_world]
  by (cases "NodeStageVolume (log_os linux_os) stage_request logged_state") (simp add: logged_state_def)


section \<open>Kerberos caches on the node\<close>

text \<open>The node with the cache directory, and two volumes that are mounted for the same user.\<close>

definition krb_world :: lw where
  "krb_world = node_world\<lparr>nodes := ((Local, [''k'']), NDir) # nodes node_world\<rparr>"

definition krb_flags :: "string list" where
  "krb_flags = [''sec=krb5'', ''cruid=7'']"

definition krb_secrets :: gomap where
  "krb_secrets = [(''krb5cc_7'', ''VA=='')]"

definition krb_stage :: "string \<Rightarrow> lw \<Rightarrow> (error + bool) \<times> lw" where
  "krb_stage vol = ensureKerberosCache linux_os ''/k/'' ''krb5cc_'' vol krb_flags krb_secrets"

theorem delete_spares_other_caches_witness:
  "list_all (uncache_calls linux_os ''/k/'' ''A'')
     (snd (snd (deleteKerberosCache (log_os linux_os) ''/k/'' ''A'' (snd (krb_stage ''A'' krb_world), []))))"
  using delete_spares_other_caches [of linux_os "''/k/''" "''A''" "snd (krb_stage ''A'' krb_world)"]
  by (metis prod.exhaust_sel)

definition krb_with :: "(string \<times> node) list \<Rightarrow> lw" where
  "krb_with files = krb_world\<lparr>nodes := nodes krb_world @ map (\<lambda>(f, n). ((Local, [''k'', f]), n)) files\<rparr>"

lemma krb_stage_A:
  "krb_stage ''A'' krb_world =
     (Inr True, krb_with [(''QQ=='', NFile ''T''), (''krb5cc_7'', NLink ''/k/QQ=='')])"
  by code_simp

lemma krb_stage_B:
  "krb_stage ''B'' (krb_with [(''QQ=='', NFile ''T''), (''krb5cc_7'', NLink ''/k/QQ=='')]) =
     (Inr True, krb_with [(''QQ=='', NFile ''T''), (''Qg=='', NFile ''T''), (''krb5cc_7'', NLink ''/k/Qg=='')])"
  by code_simp

lemma krb_unstage_B:
  "deleteKerberosCache linux_os ''/k/'' ''B''
     (krb_with [(''QQ=='', NFile ''T''), (''Qg=='', NFile ''T''), (''krb5cc_7'', NLink ''/k/Qg=='')]) =
     (None, krb_with [(''QQ=='', NFile ''T'')])"
  by code_simp

theorem delete_cache_calls_witness:
  "snd (snd (deleteKerberosCache (log_os linux_os) ''/k/'' ''B''
     (krb_with [(''QQ=='', NFile ''T''), (''Qg=='', NFile ''T''), (''krb5cc_7'', NLink ''/k/Qg=='')], []))) =
   [Remove ''/k/krb5cc_7'', Remove ''/k/Qg=='']"
proof -
  let ?w = "krb_with [(''QQ=='', NFile ''T''), (''Qg=='', NFile ''T''), (''krb5cc_7'', NLink ''/k/Qg=='')]"
  have ok: "distinct (ReadDir linux_os ''/k/'' ?w)" "entries_independent linux_os ''/k/'' (ReadDir linux_os ''/k/'' ?w) ?w"
    by code_simp+
  have "Stat linux_os ''/k/'' ?w = None" "volume_cache ''/k/'' ''B'' = ''/k/Qg==''"
    "Stat linux_os ''/k/Qg=='' ?w = None"
    "filter (links_to linux_os ''/k/'' ''/k/Qg=='' ?w) (ReadDir linux_os ''/k/'' ?w) = [''krb5cc_7'']"
    by code_simp+
  then show ?thesis using delete_cache_calls [OF ok, of "''B''"] by auto
qed

text \<open>
  Two volumes of one user share the link: after volumes A and B were staged for the same user
  and B was unstaged, the file of A is still there but the name under which the kernel looks for
  the tickets of that user is gone, so A is left without its tickets.
\<close>

lemma shared_krb5cc_link_lost:
  "\<exists>w1 w2 w3.
     krb_stage ''A'' krb_world = (Inr True, w1) \<and> krb_stage ''B'' w1 = (Inr True, w2) \<and>
     Stat linux_os ''/k/krb5cc_7'' w2 = None \<and>
     deleteKerberosCache linux_os ''/k/'' ''B'' w2 = (None, w3) \<and>
     Stat linux_os (volume_cache ''/k/'' ''A'') w3 = None \<and>
     Stat linux_os ''/k/krb5cc_7'' w3 = Some (Errno ENOENT)"
proof (intro exI conjI)
  show "Stat linux_os ''/k/krb5cc_7'' (krb_with [(''QQ=='', NFile ''T''), (''Qg=='', NFile ''T''),
      (''krb5cc_7'', NLink ''/k/Qg=='')]) = None" by code_simp
  show "Stat linux_os (volume_cache ''/k/'' ''A'') (krb_with [(''QQ=='', NFile ''T'')]) = None" by code_simp
  show "Stat linux_os ''/k/krb5cc_7'' (krb_with [(''QQ=='', NFile ''T'')]) = Some (Errno ENOENT)" by code_simp
qed (rule krb_stage_A krb_stage_B krb_unstage_B)+

end
