(* ===== verification/Lifecycle.thy ===== *)
theory Lifecycle
  imports Controller LinuxNode
begin

text \<open>
  The two services together: the volume that the controller creates is the directory that the node
  mounts, and a node on which nothing goes wrong mounts it with exactly the expected calls.
\<close>

section \<open>The context of a volume\<close>










section \<open>Creating and staging\<close>

context handler_env
begin

lemma keeps_copyVolume:
  assumes "\<And>k. allowed k"
  shows "keeps (st_rel c R (\<lambda>_. True)) (copyVolume os cs cap secrets vol)"
proof -
  have "keeps (st_rel c R (\<lambda>_. True)) (copyFromVolume os sourceID cap secrets vol)" for sourceID
    unfolding copyFromVolume_def
    by (intro keeps_intros st.keeps_control keeps_internalMount keeps_internalUnmount keeps_on_world keeps_sys assms) simp_all
  then show ?thesis
    unfolding copyVolume_def
    by (auto intro: st.keeps_control split: option.splits VolumeContentSource.splits)
qed

end







section \<open>A node on which nothing goes wrong\<close>

lemma log_os_queries [simp]:
  "GOOS (log_os os) = GOOS os" "IsLikelyNotMountPoint (log_os os) p (w, cs) = IsLikelyNotMountPoint os p w"
  "ListMounts (log_os os) (w, cs) = ListMounts os w" "Getwd (log_os os) (w, cs) = Getwd os w"
  "InTime (log_os os) (w, cs) = InTime os w"
  by (simp_all add: log_os_def)

lemma in_mount_list_log [simp]: "in_mount_list (log_os os) p (w, cs) = in_mount_list os p w"
  by (simp add: in_mount_list_def cong: sum.case_cong)

lemma sys_log_os: "exec os c w = (Inr x, w') \<Longrightarrow> sys (log_os os) c (w, cs) = (None, (w', cs @ [c]))"
  by (simp add: sys_def exec_log_os)

text \<open>Mounting at a path at which nothing is mounted yet.\<close>

lemma stage_mount_fresh:
  assumes "GOOS os = Linux" "IsLikelyNotMountPoint os target w1 = (True, None)" "in_mount_list os target w1 = Inr False"
    and "exec os (MkdirAll target 0x1ED) w1 = (Inr x2, w2)" "InTime os w2" "\<not> NeedsCredentialsOption sens"
    and "exec os (MountSensitive (stage_source ctx) target ''cifs'' opts sens) w2 = (Inr x3, w3)"
    and "world s = (w1, cs)" "target = ns_StagingTargetPath req"
  shows "stage_mount (log_os os) req ctx opts sens s =
    (Inr (), s\<lparr>world := (w3, cs @ [MkdirAll target 0x1ED, MountSensitive (stage_source ctx) target ''cifs'' opts sens])\<rparr>)"
  using assms
  by (simp add: stage_mount_def mount_share_def ensureMountPoint_def makeDir_def prepareStagePath_eq WaitUntilTimeout_def
      run_mount_def smb_Mount_def Mount_linux_def control_defs on_world_def Let_def sys_log_os)

text \<open>The calls of staging with a password, on Linux.\<close>

definition fresh_calls :: "NodeStageVolumeRequest \<Rightarrow> string list \<Rightarrow> string \<Rightarrow> string \<Rightarrow> string \<Rightarrow> call list" where
  "fresh_calls req mountFlags username password domain =
     [MkdirAll (ns_StagingTargetPath req) 0x1E8,
      MkdirAll (ns_StagingTargetPath req) 0x1ED,
      MountSensitive (stage_source (parse_context (ns_VolumeContext req) stage_ctx0)) (ns_StagingTargetPath req) ''cifs''
        (mountFlags @ (if domain = '''' then [] else [''domain='' @ domain]))
        [''username='' @ username @ '',password='' @ password]]"

text \<open>Every call of a list succeeds, one after the other.\<close>

fun all_ok :: "'w os \<Rightarrow> call list \<Rightarrow> 'w \<Rightarrow> bool" where
  "all_ok os [] w = True"
| "all_ok os (c # cs) w = (case exec os c w of (Inl _, _) \<Rightarrow> False | (Inr _, w') \<Rightarrow> all_ok os cs w')"

fun after :: "'w os \<Rightarrow> call list \<Rightarrow> 'w \<Rightarrow> 'w" where
  "after os [] w = w"
| "after os (c # cs) w = after os cs (snd (exec os c w))"

text \<open>
  C5. Staging on Linux succeeds when nothing goes wrong, for the plain case of a mount with a user
  and a password: the request is valid, its volume and path are not being worked on, the volume is
  not ephemeral, the capability is a mount without a guest or Kerberos flag and without a volume
  mount group, and the password of the secret has no special character (double quote, back quote,
  comma). If then nothing is mounted at the path, the directory can be made twice and the share be
  mounted in time, \<^verbatim>\<open>NodeStageVolume\<close> succeeds, and its calls are exactly these three: the two calls
  that make the directory and the mount of the share and sub-directory of the context at the staging
  path with the flags of the capability, the domain and the credentials of the secret.
\<close>

theorem stage_fresh:
  assumes "GOOS os = Linux" "valid_stage req" "stage_lock req \<notin> locked s" "world s = (w, [])"
    and "ns_VolumeCapability req = Some (CapMount \<lparr>MountFlags = mountFlags, VolumeMountGroup = ''''\<rparr>)"
    and "\<not> hasGuestMountOptions mountFlags" "\<not> hasKerberosMountOption mountFlags"
    and "\<not> sc_ephemeralVol (parse_context (ns_VolumeContext req) stage_ctx0)"
    and "parse_secrets (ns_Secrets req) ('''', '''', '''') = (u, p, d)" "\<not> ContainsSpecialCharacter p"
  defines "cs \<equiv> fresh_calls req mountFlags u p d"
  assumes "all_ok os cs w"
    and "IsLikelyNotMountPoint os (ns_StagingTargetPath req) (after os (take 1 cs) w) = (True, None)"
    and "in_mount_list os (ns_StagingTargetPath req) (after os (take 1 cs) w) = Inr False"
    and "InTime os (after os (take 2 cs) w)"
  shows "\<exists>s'. NodeStageVolume (log_os os) req s = (Inr (), s') \<and> world s' = (after os cs w, cs) \<and>
    pending s' = pending s \<and> locked s' = locked s"
proof -
  let ?t = "ns_StagingTargetPath req" and ?ctx = "parse_context (ns_VolumeContext req) stage_ctx0"
  let ?opts = "mountFlags @ (if d = '''' then [] else [''domain='' @ d])" and ?sens = "[''username='' @ u @ '',password='' @ p]"
  let ?cap = "CapMount \<lparr>MountFlags = mountFlags, VolumeMountGroup = ''''\<rparr>"
  obtain x1 x2 x3 w1 w2 w3 where x: "exec os (MkdirAll ?t 0x1E8) w = (Inr x1, w1)" "exec os (MkdirAll ?t 0x1ED) w1 = (Inr x2, w2)"
    "exec os (MountSensitive (stage_source ?ctx) ?t ''cifs'' ?opts ?sens) w2 = (Inr x3, w3)"
    using assms(12) unfolding cs_def fresh_calls_def by (auto split: prod.splits sum.splits)
  have q: "IsLikelyNotMountPoint os ?t w1 = (True, None)" "in_mount_list os ?t w1 = Inr False" "InTime os w2"
    and w3: "after os cs w = w3"
    using assms(13-15) x by (simp_all add: cs_def fresh_calls_def)
  have sens: "\<not> NeedsCredentialsOption ?sens" by (simp add: NeedsCredentialsOption_def)
  obtain s1 where s1: "with_lock (stage_lock req) (stage_locked (log_os os) req ?cap ?ctx) s =
      deferred (release_lock (stage_lock req)) (stage_locked (log_os os) req ?cap ?ctx) s1" "world s1 = (w, [])" "pending s1 = pending s"
    using assms(3,4) with_lock_free [of "stage_lock req" s "stage_locked (log_os os) req ?cap ?ctx"] by metis
  have o: "stage_options (log_os os) req ?cap mountFlags True (u, p, d) s1 =
      (Inr (?opts, ?sens), s1\<lparr>world := (w1, [MkdirAll ?t 0x1E8])\<rparr>)"
    using assms(1,7,10) s1(2) sys_log_os [OF x(1)]
    by (simp add: stage_options_def ensureKerberosCache_def unix_options_def unix_sensitive_def control_defs on_world_def)
  have b: "stage_locked (log_os os) req ?cap ?ctx s1 = (Inr (), s1\<lparr>world := (w3, cs)\<rparr>)"
    using assms(6,8,9) o stage_mount_fresh [OF assms(1) q(1,2) x(2) q(3) sens x(3), of "s1\<lparr>world := (w1, [MkdirAll ?t 0x1E8])\<rparr>"]
    by (simp add: stage_locked_def asks_def bind_st_def Let_def cs_def fresh_calls_def)
  obtain s' where n: "NodeStageVolume (log_os os) req s = (Inr (), s')" "world s' = (w3, cs)" "pending s' = pending s"
    using b s1 assms(5) by (simp add: NodeStageVolume_valid [OF assms(2)] deferred_def bind_st_def release_lock_def upd_drv_def reply_def)
  have "driver_kept s s'" by (rule keepsD [OF driver_kept_stage n(1)])
  then show ?thesis using n w3 by (auto simp: driver_kept_def)
qed

definition fresh_request :: NodeStageVolumeRequest where
  "fresh_request = stage_request\<lparr>ns_Secrets := [(''username'', ''u''), (''password'', ''p'')]\<rparr>"

theorem stage_fresh_witness:
  "fst (NodeStageVolume (log_os linux_os) fresh_request logged_state) = Inr () \<and>
   snd (world (snd (NodeStageVolume (log_os linux_os) fresh_request logged_state))) =
     [MkdirAll ''/var/globalmount'' 0x1E8, MkdirAll ''/var/globalmount'' 0x1ED,
      MountSensitive ''//srv/share'' ''/var/globalmount'' ''cifs'' [''vers=3.0''] [''username=u,password=p'']]"
proof -
  let ?cs = "fresh_calls fresh_request [''vers=3.0''] ''u'' ''p'' ''''"
  have cs: "?cs = [MkdirAll ''/var/globalmount'' 0x1E8, MkdirAll ''/var/globalmount'' 0x1ED,
      MountSensitive ''//srv/share'' ''/var/globalmount'' ''cifs'' [''vers=3.0''] [''username=u,password=p'']]"
    by code_simp
  have v: "valid_stage fresh_request" "stage_lock fresh_request \<notin> locked logged_state"
    "ns_VolumeCapability fresh_request = Some (CapMount \<lparr>MountFlags = [''vers=3.0''], VolumeMountGroup = ''''\<rparr>)"
    "\<not> hasGuestMountOptions [''vers=3.0'']" "\<not> hasKerberosMountOption [''vers=3.0'']"
    "\<not> sc_ephemeralVol (parse_context (ns_VolumeContext fresh_request) stage_ctx0)"
    "parse_secrets (ns_Secrets fresh_request) ('''', '''', '''') = (''u'', ''p'', '''')" "\<not> ContainsSpecialCharacter ''p''"
    by code_simp+
  have ok: "all_ok linux_os ?cs node_world"
    "IsLikelyNotMountPoint linux_os (ns_StagingTargetPath fresh_request) (after linux_os (take 1 ?cs) node_world) = (True, None)"
    "in_mount_list linux_os (ns_StagingTargetPath fresh_request) (after linux_os (take 1 ?cs) node_world) = Inr False"
    "InTime linux_os (after linux_os (take 2 ?cs) node_world)"
    by code_simp+
  have g: "GOOS linux_os = Linux" "world logged_state = (node_world, [])" by (simp_all add: linux_os_def logged_state_def)
  from stage_fresh [OF g(1) v(1,2) g(2) v(3-8) ok] show ?thesis unfolding cs by auto
qed

end
