(* ===== verification/DriverRun.thy ===== *)
theory DriverRun
  imports Controller LinuxNode
begin

text \<open>
  The driver over its whole life: any sequence of requests to the node and the controller service,
  of mounts that end in the background, and of steps of the world outside. The type of the state
  says more than the records do: no lock is held between requests, the configuration is the one the
  driver was built with, an entry of a cache is never younger than the clock, and what is left to
  mount in the background has a volume and a target. Every request handler keeps it, for every
  environment whose clock does not go back.
\<close>

section \<open>Requests\<close>

datatype request =
    ReqCreate CreateVolumeRequest
  | ReqDelete DeleteVolumeRequest
  | ReqStage NodeStageVolumeRequest
  | ReqUnstage NodeUnstageVolumeRequest
  | ReqPublish NodePublishVolumeRequest
  | ReqUnpublish NodeUnpublishVolumeRequest
  | ReqStats NodeGetVolumeStatsRequest

text \<open>The state after a request, whatever its result.\<close>

fun serve_request :: "'w os \<Rightarrow> request \<Rightarrow> 'w st \<Rightarrow> 'w st" where
  "serve_request os (ReqCreate r) s = snd (CreateVolume os r s)"
| "serve_request os (ReqDelete r) s = snd (DeleteVolume os r s)"
| "serve_request os (ReqStage r) s = snd (NodeStageVolume os r s)"
| "serve_request os (ReqUnstage r) s = snd (NodeUnstageVolume os r s)"
| "serve_request os (ReqPublish r) s = snd (NodePublishVolume os r s)"
| "serve_request os (ReqUnpublish r) s = snd (NodeUnpublishVolume os r s)"
| "serve_request os (ReqStats r) s = snd (NodeGetVolumeStats os r s)"

text \<open>A mount in the background runs to its end; its error stays in a variable that nobody reads any more.\<close>

definition finish_mount :: "'w os \<Rightarrow> bgmount \<Rightarrow> 'w st \<Rightarrow> 'w st" where
  "finish_mount os m s = s\<lparr>world := snd (run_mount os m (world s)), pending := remove1 m (pending s)\<rparr>"

inductive driver_run :: "'w os \<Rightarrow> Driver \<Rightarrow> 'w st \<Rightarrow> bool" for os d where
  boot: "driver_run os d \<lparr>drv = d, world = w, pending = []\<rparr>"
| request: "driver_run os d s \<Longrightarrow> driver_run os d (serve_request os r s)"
| background: "driver_run os d s \<Longrightarrow> m \<in> set (pending s) \<Longrightarrow> driver_run os d (finish_mount os m s)"
| outside: "driver_run os d s \<Longrightarrow> Now os (world s) \<le> Now os w \<Longrightarrow> driver_run os d (s\<lparr>world := w\<rparr>)"

section \<open>The type of the state\<close>

definition stamped :: "int \<Rightarrow> 'd TimedCache \<Rightarrow> bool" where
  "stamped now t \<longleftrightarrow> (\<forall>key e. Store t key = Some e \<longrightarrow> CreatedOn e \<le> now)"

definition addressed :: "bgmount \<Rightarrow> bool" where
  "addressed m \<longleftrightarrow> bg_volumeID m \<noteq> '''' \<and> bg_target m \<noteq> ''''"

definition driver_wf :: "'w os \<Rightarrow> Driver \<Rightarrow> 'w st \<Rightarrow> bool" where
  "driver_wf os d s \<longleftrightarrow>
     locked s = {} \<and> config s = config_of d \<and>
     TTL (volStatsCache (drv s)) = TTL (volStatsCache d) \<and>
     TTL (volDeletionCache (drv s)) = TTL (volDeletionCache d) \<and>
     stamped (Now os (world s)) (volStatsCache (drv s)) \<and>
     stamped (Now os (world s)) (volDeletionCache (drv s)) \<and>
     list_all addressed (pending s)"

lemma stamped_mono: "stamped now t \<Longrightarrow> now \<le> now' \<Longrightarrow> stamped now' t"
  by (force simp: stamped_def)

lemma stamped_new [simp]: "stamped now (NewTimedCache ttl)"
  by (simp add: stamped_def NewTimedCache_def)

lemma stamped_Set: "stamped now t \<Longrightarrow> stamped now (cache_Set now key d t)"
  by (auto simp: stamped_def cache_Set_def)

lemma stamped_read: "stamped now t \<Longrightarrow> stamped now (snd (cache_read now key t))"
  by (auto simp: stamped_def cache_get_def getInternal_def nil_getter_def Let_def split: option.splits)

lemma keeps_state_after: "keeps R f \<Longrightarrow> R s (snd (f s))"
  by (simp add: keeps_def)

section \<open>A clock that does not go back\<close>

text \<open>
  What a handler does to the caches, the clock and the mounts in the background; a \<open>still\<close> one leaves
  the statistics alone.
\<close>

definition timely :: "'w os \<Rightarrow> bool \<Rightarrow> 'w st \<Rightarrow> 'w st \<Rightarrow> bool" where
  "timely os still s s' \<longleftrightarrow>
     Now os (world s) \<le> Now os (world s') \<and>
     (still \<longrightarrow> volStatsCache (drv s') = volStatsCache (drv s)) \<and>
     TTL (volStatsCache (drv s')) = TTL (volStatsCache (drv s)) \<and>
     TTL (volDeletionCache (drv s')) = TTL (volDeletionCache (drv s)) \<and>
     (stamped (Now os (world s)) (volStatsCache (drv s)) \<longrightarrow>
        stamped (Now os (world s')) (volStatsCache (drv s'))) \<and>
     (stamped (Now os (world s)) (volDeletionCache (drv s)) \<longrightarrow>
        stamped (Now os (world s')) (volDeletionCache (drv s'))) \<and>
     (\<exists>bs. pending s' = pending s @ bs \<and> list_all addressed bs)"

interpretation timely: effect "timely os still" for os :: "'w os" and still
proof
  show "timely os still s s" for s :: "'w st" by (simp add: timely_def)
  show "timely os still s t \<Longrightarrow> timely os still t u \<Longrightarrow> timely os still s u" for s t u :: "'w st"
    by (auto simp: timely_def)
qed

lemma timely_on_world: "keeps (\<lambda>w w'. Now os w \<le> Now os w') f \<Longrightarrow> keeps (timely os still) (on_world f)"
  by (auto simp: keeps_def on_world_def timely_def split: prod.splits) (metis snd_conv stamped_mono)+

lemma timely_locks: "timely os still (s\<lparr>drv := (drv s)\<lparr>volumeLocks := v\<rparr>\<rparr>) t = timely os still s t"
  by (simp add: timely_def)

lemma timely_release: "keeps (timely os still) (release_lock key)"
  by (simp add: keeps_def release_lock_def upd_drv_def timely_def)

lemma timely_with_lock:
  assumes "keeps (timely os still) body"
  shows "keeps (timely os still) (with_lock key body)"
proof (rule keepsI)
  fix s
  have "keeps (timely os still) (deferred (release_lock key) body)"
    by (intro timely.keeps_deferred timely_release assms)
  then have "timely os still (s\<lparr>drv := (drv s)\<lparr>volumeLocks := v\<rparr>\<rparr>)
      (snd (deferred (release_lock key) body (s\<lparr>drv := (drv s)\<lparr>volumeLocks := v\<rparr>\<rparr>)))" for v
    unfolding keeps_def by (rule spec)
  then show "timely os still s (snd (with_lock key body s))"
    by (cases "TryAcquire key (volumeLocks (drv s))")
       (simp add: with_lock_def timely.R_refl timely_locks split: bool.splits)
qed

lemma timely_leave_pending: "addressed m \<Longrightarrow> keeps (timely os still) (leave_pending m)"
  by (simp add: keeps_def leave_pending_def timely_def)

lemma timely_caches:
  "keeps (timely os False) (read_stats_cache os key)" "keeps (timely os still) (read_deletion_cache os key)"
  "keeps (timely os still) (set_deleted os key)"
  using stamped_read [where 'a = NodeGetVolumeStatsResponse] stamped_read [where 'a = string]
  by (auto simp: keeps_def read_stats_cache_def read_deletion_cache_def set_deleted_def control_defs upd_drv_def
      timely_def stamped_Set split: prod.splits) (metis TTL_cache_get snd_conv)+

text \<open>The interface: carrying out a call never sets the clock back.\<close>

locale clock_env =
  fixes os :: "'w os"
  assumes clock_forward: "Now os w \<le> Now os (snd (exec os c w))"

sublocale clock_env \<subseteq> tick: effect_os "\<lambda>w w'. Now os w \<le> Now os w'" os "\<lambda>_. True"
  by unfold_locales (use clock_forward in auto)

context clock_env
begin

lemma timely_sys: "keeps (timely os still) (on_world (sys os c))"
  by (intro timely_on_world tick.keeps_sys) simp

lemma timely_stage_options: "keeps (timely os still) (stage_options os req cap mountFlags req_pwd creds)"
  unfolding stage_options_def
  by (intro keeps_intros timely.keeps_control timely_on_world tick.keeps_ensureKerberosCache tick.keeps_sys) simp_all

lemma timely_stage_mount:
  assumes "ns_VolumeId req \<noteq> ''''" "ns_StagingTargetPath req \<noteq> ''''"
  shows "keeps (timely os still) (stage_mount os req ctx mountOptions sens)"
  unfolding stage_mount_def mount_share_def WaitUntilTimeout_def
  by (intro keeps_intros timely.keeps_control timely_on_world tick.keeps_ensureMountPoint tick.keeps_prepare
      tick.keeps_run_mount timely_leave_pending) (simp_all add: addressed_def assms)

lemma timely_stage: "keeps (timely os still) (NodeStageVolume os req)"
  unfolding NodeStageVolume_def stage_locked_def
  by (intro keeps_intros timely.keeps_control timely_with_lock timely_stage_options timely_stage_mount)

lemma timely_unstage: "keeps (timely os still) (NodeUnstageVolume os req)"
  unfolding NodeUnstageVolume_def
  by (intro keeps_intros timely.keeps_control timely_with_lock timely_on_world tick.keeps_CleanupSMBMountPoint
      tick.keeps_deleteKerberosCache) simp_all

lemma timely_publish: "keeps (timely os still) (NodePublishVolume os req)"
  unfolding NodePublishVolume_def publish_bind_def
  by (intro keeps_intros timely.keeps_control timely_sys timely_on_world tick.keeps_ensureMountPoint
      tick.keeps_prepare timely_stage) simp_all

lemma timely_unpublish: "keeps (timely os still) (NodeUnpublishVolume os req)"
  unfolding NodeUnpublishVolume_def
  by (intro keeps_intros timely.keeps_control timely_on_world tick.keeps_smb_CleanupMountPoint) simp_all

lemma timely_stats: "keeps (timely os False) (NodeGetVolumeStats os req)"
proof -
  have "timely os False s (s\<lparr>drv := volStatsCache_update (cache_Set (Now os (world s)) key v) (drv s)\<rparr>)" for s key v
    by (simp add: timely_def stamped_Set)
  then have m: "keeps (timely os False) (stats_measure os req)"
    by (auto simp: keeps_def stats_measure_def control_defs upd_drv_def timely.R_refl split: option.splits sum.splits)
  show ?thesis
    unfolding NodeGetVolumeStats_def
    by (intro keeps_intros timely.keeps_control timely_caches(1) m)
qed

lemma timely_internal:
  "keeps (timely os still) (internalMount os vol cap secrets)" "keeps (timely os still) (internalUnmount os vol)"
  unfolding internalMount_def internalUnmount_def
  by (intro keeps_intros timely.keeps_control timely_stage timely_unstage)+

lemma timely_copyVolume: "keeps (timely os still) (copyVolume os cs cap secrets vol)"
proof -
  have "keeps (timely os still) (copyFromVolume os sourceID cap secrets vol)" for sourceID
    unfolding copyFromVolume_def
    by (intro keeps_intros timely.keeps_control timely_internal timely_sys)
  then show ?thesis
    unfolding copyVolume_def
    by (auto intro: timely.keeps_control split: option.splits VolumeContentSource.splits)
qed

lemma timely_create: "keeps (timely os still) (CreateVolume os req)"
  unfolding CreateVolume_def create_locked_def
  by (intro keeps_intros timely.keeps_control timely_internal timely_copyVolume timely_sys timely_with_lock)

lemma timely_delete: "keeps (timely os still) (DeleteVolume os req)"
  unfolding DeleteVolume_def delete_locked_def archive_subdir_def remove_subdir_def
  by (intro keeps_intros timely.keeps_control timely_internal timely_caches timely_on_world timely_with_lock
      tick.keeps_control tick.keeps_sys) simp_all

lemma timely_request: "timely os (\<forall>q. r \<noteq> ReqStats q) s (serve_request os r s)"
  by (cases r)
     (simp_all add: timely_create timely_delete timely_stage timely_unstage timely_publish timely_unpublish
       timely_stats keeps_state_after)

lemma clock_run_mount: "Now os w \<le> Now os (snd (run_mount os m w))"
  using tick.keeps_run_mount [of m] by (simp add: keeps_def)

end

lemma driver_kept_request: "driver_kept s (serve_request os r s)"
  by (cases r)
     (simp_all add: keeps_state_after driver_kept_create driver_kept_delete driver_kept_stage driver_kept_unstage
       driver_kept_publish driver_kept_unpublish driver_kept_stats)

lemma driver_wf_kept:
  "driver_wf os d s \<Longrightarrow> driver_kept s s' \<Longrightarrow> timely os still s s' \<Longrightarrow> driver_wf os d s'"
  by (auto simp: driver_wf_def driver_kept_def timely_def)

lemma driver_wf_outside:
  assumes "driver_wf os d s" "Now os (world s) \<le> Now os w"
  shows "driver_wf os d (s\<lparr>world := w\<rparr>)"
  using assms by (auto simp: driver_wf_def locked_def config_def intro: stamped_mono)

lemma driver_wf_finished: "driver_wf os d s \<Longrightarrow> driver_wf os d (s\<lparr>pending := remove1 m (pending s)\<rparr>)"
  by (auto simp: driver_wf_def locked_def config_def list_all_iff dest: notin_set_remove1 set_remove1_subset [THEN subsetD])

lemma driver_wf_boot: "driver_wf os (Run (NewDriver env options)) \<lparr>drv = Run (NewDriver env options), world = w, pending = []\<rparr>"
proof -
  let ?d = "Run (NewDriver env options)"
  have "volumeLocks ?d = newVolumeLocks" "volStatsCache ?d = volStatsCache (NewDriver env options)"
    "volDeletionCache ?d = NewTimedCache (sint Minute)"
    by (simp_all add: Run_def Let_def NewDriver_def AddControllerServiceCapabilities_def
        AddNodeServiceCapabilities_def AddVolumeCapabilityAccessModes_def)
  moreover have "stamped now (volStatsCache (NewDriver env options))" for now
    by (simp add: NewDriver_def Let_def)
  ultimately show ?thesis
    by (simp add: driver_wf_def locked_def config_def held_keys_def newVolumeLocks_def)
qed

lemma driver_wf_reachable:
  assumes "clock_env os" "driver_run os d s" "\<And>w. driver_wf os d \<lparr>drv = d, world = w, pending = []\<rparr>"
  shows "driver_wf os d s"
  using assms(2)
proof (induction rule: driver_run.induct)
  case (request s r)
  then show ?case
    using driver_wf_kept driver_kept_request clock_env.timely_request [OF assms(1)] by blast
next
  case (background s m)
  then show ?case
    unfolding finish_mount_def
    using driver_wf_finished [OF driver_wf_outside] clock_env.clock_run_mount [OF assms(1)] by fastforce
qed (simp_all add: assms(3) driver_wf_outside)

section \<open>A node whose clock does not go back\<close>

lemma clock_put: "clock (put i n w) = clock w" "clock (delete_node i w) = clock w"
  by (simp_all add: put_def delete_node_def)

lemma clock_mkdirs: "clock (snd (mkdirs d ps w)) = clock w"
  by (induction d ps w rule: mkdirs.induct) (auto simp: clock_put split: option.splits node.splits)

lemma clock_lw_exec: "clock (snd (lw_exec c w)) = clock w"
  by (cases c)
     (auto simp: clock_put clock_mkdirs do_remove_def do_rename_def do_write_def do_symlink_def do_mount_def Let_def
       split: option.splits node.splits)

interpretation linux_clock: clock_env linux_os
  by unfold_locales (simp add: linux_os_def clock_lw_exec)

section \<open>The property\<close>

text \<open>
  C3. The state of a driver stays well-typed: in an environment whose clock does not go back, after
  any sequence of requests, of mounts that end in the background and of changes outside, starting
  from a driver that was just built, no lock is held, the configuration and the times to live are
  those of the options, no entry of a cache is stamped with a time in the future, and every mount
  left in the background has a volume and a target.
\<close>

theorem driver_run_wf:
  assumes "\<And>c w. Now os w \<le> Now os (snd (exec os c w))"
    and "driver_run os (Run (NewDriver env options)) s"
  shows "driver_wf os (Run (NewDriver env options)) s"
proof -
  have "clock_env os" by unfold_locales (rule assms(1))
  then show ?thesis using assms(2) driver_wf_boot by (rule driver_wf_reachable)
qed

text \<open>Staging, a minute later measuring, and unstaging.\<close>

definition measured_state :: "lw st" where
  "measured_state =
     (let s = serve_request linux_os (ReqStage stage_request) node_state;
          s = s\<lparr>world := (world s)\<lparr>clock := 60000000000\<rparr>\<rparr>;
          s = serve_request linux_os (ReqStats \<lparr>ng_VolumeId = ''v'', ng_VolumePath = ''/var/globalmount''\<rparr>) s
      in serve_request linux_os (ReqUnstage unstage_request) s)"

lemma measured_state_run: "driver_run linux_os (drv node_state) measured_state"
proof -
  let ?s = "serve_request linux_os (ReqStage stage_request) node_state"
  have "driver_run linux_os (drv node_state) node_state"
    using driver_run.boot [of linux_os "drv node_state" node_world] by (simp add: node_state_def)
  then have "driver_run linux_os (drv node_state) ?s" by (rule driver_run.request)
  moreover have "Now linux_os (world ?s) \<le> Now linux_os ((world ?s)\<lparr>clock := 60000000000\<rparr>)" by code_simp
  ultimately have "driver_run linux_os (drv node_state) (?s\<lparr>world := (world ?s)\<lparr>clock := 60000000000\<rparr>\<rparr>)"
    by (rule driver_run.outside)
  then show ?thesis unfolding measured_state_def Let_def by (intro driver_run.request)
qed

theorem driver_run_wf_witness:
  "driver_wf linux_os (drv node_state) measured_state \<and>
   map_option CreatedOn (Store (volStatsCache (drv measured_state)) ''v'') = Some 60000000000"
proof
  show "driver_wf linux_os (drv node_state) measured_state"
    using driver_run_wf [of linux_os no_kube node_options measured_state] measured_state_run
    by (simp add: node_state_def linux_clock.clock_forward)
  show "map_option CreatedOn (Store (volStatsCache (drv measured_state)) ''v'') = Some 60000000000"
    by code_simp
qed

section \<open>Mounts that time out\<close>

definition same_pending :: "'w st \<Rightarrow> 'w st \<Rightarrow> bool" where
  "same_pending s s' \<longleftrightarrow> pending s' = pending s"

interpretation same_pending: effect same_pending
  by unfold_locales (simp_all add: same_pending_def)

lemma same_pending_on_world: "keeps same_pending (on_world f)"
  by (simp add: keeps_def on_world_def same_pending_def split: prod.splits)

text \<open>A function that leaves at most one mount in the background, and reports it as an error if it does.\<close>

definition backgrounds :: "(bgmount \<Rightarrow> bool) \<Rightarrow> error \<Rightarrow> ('w st \<Rightarrow> (error + 'r) \<times> 'w st) \<Rightarrow> bool" where
  "backgrounds P e f \<longleftrightarrow>
     (\<forall>s. pending (snd (f s)) = pending s \<or>
          (\<exists>m. pending (snd (f s)) = pending s @ [m] \<and> P m \<and> fst (f s) = Inl e))"

named_theorems backgrounds_intros \<open>rules that follow the structure of a function\<close>

lemma backgrounds_reply [backgrounds_intros]: "backgrounds P e (reply r)"
  by (simp add: backgrounds_def reply_def)

lemma backgrounds_if [backgrounds_intros]:
  "(b \<Longrightarrow> backgrounds P e f) \<Longrightarrow> (\<not> b \<Longrightarrow> backgrounds P e g) \<Longrightarrow> backgrounds P e (if b then f else g)"
  by simp

lemma backgrounds_option [backgrounds_intros]:
  "(x = None \<Longrightarrow> backgrounds P e f) \<Longrightarrow> (\<And>y. x = Some y \<Longrightarrow> backgrounds P e (g y)) \<Longrightarrow>
   backgrounds P e (case x of None \<Rightarrow> f | Some y \<Rightarrow> g y)"
  by (cases x) simp_all

lemma backgrounds_sum [backgrounds_intros]:
  "(\<And>y. x = Inl y \<Longrightarrow> backgrounds P e (f y)) \<Longrightarrow> (\<And>y. x = Inr y \<Longrightarrow> backgrounds P e (g y)) \<Longrightarrow>
   backgrounds P e (case x of Inl y \<Rightarrow> f y | Inr y \<Rightarrow> g y)"
  by (cases x) simp_all

lemma backgrounds_prod [backgrounds_intros]:
  "(\<And>a b. x = (a, b) \<Longrightarrow> backgrounds P e (f a b)) \<Longrightarrow> backgrounds P e (case x of (a, b) \<Rightarrow> f a b)"
  by (cases x) simp

lemma backgrounds_Let [backgrounds_intros]:
  "(\<And>x. x = v \<Longrightarrow> backgrounds P e (f x)) \<Longrightarrow> backgrounds P e (let x = v in f x)"
  by (simp add: Let_def)

lemma backgrounds_asks [backgrounds_intros]: "(\<And>x. backgrounds P e (f x)) \<Longrightarrow> backgrounds P e (asks f)"
  by (simp add: backgrounds_def asks_def)

lemma backgrounds_bind [backgrounds_intros]:
  "keeps same_pending f \<Longrightarrow> (\<And>x. backgrounds P e (k x)) \<Longrightarrow> backgrounds P e (bind_st f k)"
  unfolding backgrounds_def keeps_def same_pending_def bind_st_def by (metis (mono_tags, lifting) case_prod_beta)

lemma backgrounds_if_err [backgrounds_intros]:
  "keeps same_pending f \<Longrightarrow> (\<And>x. backgrounds P e (h x)) \<Longrightarrow> backgrounds P e k \<Longrightarrow> backgrounds P e (if_err f h k)"
  unfolding if_err_def by (intro backgrounds_intros)

lemma backgrounds_with_lock [backgrounds_intros]:
  fixes body :: "'w st \<Rightarrow> (error + 'r) \<times> 'w st"
  assumes "backgrounds P e body"
  shows "backgrounds P e (with_lock key body)"
  unfolding backgrounds_def
proof
  fix s :: "'w st"
  obtain b v where t: "TryAcquire key (volumeLocks (drv s)) = (b, v)" by fastforce
  let ?s1 = "s\<lparr>drv := (drv s)\<lparr>volumeLocks := v\<rparr>\<rparr>"
  have "pending (snd (body ?s1)) = pending ?s1 \<or>
      (\<exists>m. pending (snd (body ?s1)) = pending ?s1 @ [m] \<and> P m \<and> fst (body ?s1) = Inl e)"
    using assms unfolding backgrounds_def by blast
  then show "pending (snd (with_lock key body s)) = pending s \<or>
      (\<exists>m. pending (snd (with_lock key body s)) = pending s @ [m] \<and> P m \<and> fst (with_lock key body s) = Inl e)"
    using t by (cases b) (auto simp: with_lock_def control_defs release_lock_def upd_drv_def split: prod.splits)
qed

definition timeout_error :: error where
  "timeout_error = Status Internal ''volume(%s) mount %q on %q failed with %v''
     (Some (Errorf ''mount volume %s to %s timeout after %ds'' None))"

lemma same_pending_stage_options: "keeps same_pending (stage_options os req cap mountFlags req_pwd creds)"
  unfolding stage_options_def
  by (intro keeps_intros same_pending.keeps_control same_pending_on_world)

lemma backgrounds_mount_share:
  assumes "ctx = parse_context (ns_VolumeContext req) stage_ctx0"
  shows "backgrounds (stage_pending req) timeout_error (mount_share os req ctx mountOptions sens)"
  unfolding mount_share_def
proof (rule backgrounds_if_err [OF same_pending_on_world backgrounds_reply backgrounds_Let])
  fix m
  assume m: "m = \<lparr>bg_source = stage_source ctx, bg_target = ns_StagingTargetPath req, bg_fsType = ''cifs'',
     bg_options = mountOptions, bg_sensitive = sens, bg_volumeID = ns_VolumeId req\<rparr>"
  have "stage_pending req m" using assms by (simp add: m stage_pending_def)
  then show "backgrounds (stage_pending req) timeout_error
     (if_err (WaitUntilTimeout (\<lambda>s. InTime os (world s)) (on_world (run_mount os m)) (leave_pending m)
        (Errorf ''mount volume %s to %s timeout after %ds'' None))
      (\<lambda>err. fails (Status Internal ''volume(%s) mount %q on %q failed with %v'' (Some err))) (returns ()))"
    by (auto simp: backgrounds_def WaitUntilTimeout_def control_defs leave_pending_def on_world_def timeout_error_def
        split: prod.splits option.splits)
qed

lemma backgrounds_stage: "backgrounds (stage_pending req) timeout_error (NodeStageVolume os req)"
  unfolding NodeStageVolume_def stage_locked_def stage_mount_def
  by (intro backgrounds_intros same_pending_on_world same_pending_stage_options backgrounds_mount_share)

text \<open>
  C19. Staging does not hold its lock as long as the mount goes on: if it leaves a mount in the
  background, that is one mount of its own volume and path, it reports the timeout as an internal
  error, and the key of the volume is free although the mount has not ended.
\<close>

theorem stage_timeout_unlocks:
  assumes "NodeStageVolume os req s = (r, s')" "pending s' \<noteq> pending s"
  shows "(\<exists>m. pending s' = pending s @ [m] \<and> stage_pending req m) \<and> r = Inl timeout_error \<and>
    locked s' = locked s \<and> stage_lock req \<notin> locked s'"
proof -
  have b: "(\<exists>m. pending s' = pending s @ [m] \<and> stage_pending req m) \<and> r = Inl timeout_error"
    using backgrounds_stage [of req os] assms unfolding backgrounds_def by (metis fst_conv snd_conv)
  have l: "locked s' = locked s"
    using keepsD [OF driver_kept_stage assms(1)] by (simp add: driver_kept_def)
  have "stage_lock req \<notin> locked s"
  proof
    assume "stage_lock req \<in> locked s"
    then have "s' = s"
      using assms(1)
      by (auto simp: NodeStageVolume_def with_lock_busy reply_def Let_def split: if_splits option.splits)
    then show False using assms(2) by simp
  qed
  then show ?thesis using b l by simp
qed

text \<open>A node on which no mount ends in time, and two attempts to stage a volume.\<close>

definition slow_os :: "lw os" where
  "slow_os = linux_os\<lparr>InTime := (\<lambda>_. False)\<rparr>"

definition slow_state :: "lw st" where
  "slow_state = snd (NodeStageVolume slow_os stage_request node_state)"

definition twice_state :: "lw st" where
  "twice_state = (let s = snd (NodeStageVolume slow_os stage_request slow_state); m = hd (pending s)
     in finish_mount slow_os m (finish_mount slow_os m s))"

theorem stage_timeout_unlocks_witness:
  "map bg_target (pending slow_state) = [''/var/globalmount''] \<and> stage_lock stage_request \<notin> locked slow_state"
proof -
  have p: "map bg_target (pending slow_state) = [''/var/globalmount'']" by code_simp
  then have "pending slow_state \<noteq> pending node_state" by (auto simp: node_state_def)
  then show ?thesis
    using p stage_timeout_unlocks [of slow_os stage_request node_state _ slow_state]
    by (metis prod.collapse slow_state_def)
qed

text \<open>
  The second attempt is not refused: when both mounts have ended, the share is mounted twice at the
  staging path, and unstaging it once fails and leaves it mounted.
\<close>

lemma timeout_mounts_twice:
  "map fst (mtab (world twice_state)) = [[''var'', ''globalmount''], [''var'', ''globalmount'']]"
  "case fst (NodeUnstageVolume slow_os unstage_request twice_state) of Inl _ \<Rightarrow> True | Inr _ \<Rightarrow> False"
  "map fst (mtab (world (snd (NodeUnstageVolume slow_os unstage_request twice_state)))) = [[''var'', ''globalmount'']]"
  by code_simp+

section \<open>Statistics over a history\<close>

text \<open>The steps of a running driver, from any state.\<close>

inductive driver_step :: "'w os \<Rightarrow> 'w st \<Rightarrow> 'w st \<Rightarrow> bool" for os where
  request: "driver_step os s (serve_request os r s)"
| background: "m \<in> set (pending s) \<Longrightarrow> driver_step os s (finish_mount os m s)"
| outside: "Now os (world s) \<le> Now os w \<Longrightarrow> driver_step os s (s\<lparr>world := w\<rparr>)"

context clock_env
begin

lemma request_keeps_fresh:
  assumes "cache_fresh now key (volStatsCache (drv s)) = Some d" "Now os (world (serve_request os r s)) \<le> now"
  shows "cache_fresh now key (volStatsCache (drv (serve_request os r s))) = Some d"
proof (cases "\<exists>q. r = ReqStats q")
  case True
  have "Now os (world s) \<le> Now os (world (serve_request os r s))"
    using timely_request [of r s] by (simp add: timely_def)
  then show ?thesis using True assms stats_keeps_fresh [OF assms(1)] by fastforce
next
  case False
  then show ?thesis using timely_request [of r s] assms(1) by (simp add: timely_def)
qed

lemma step_keeps_fresh:
  assumes "driver_step os s s'"
  shows "Now os (world s) \<le> Now os (world s') \<and>
    (\<forall>now key d. Now os (world s') \<le> now \<longrightarrow> cache_fresh now key (volStatsCache (drv s)) = Some d \<longrightarrow>
       cache_fresh now key (volStatsCache (drv s')) = Some d)"
  using assms
proof cases
  case (request r)
  then show ?thesis using request_keeps_fresh timely_request [of r s] by (simp add: timely_def)
next
  case (background m)
  then show ?thesis using clock_run_mount by (simp add: finish_mount_def)
qed simp

lemma steps_keep_fresh:
  assumes "(driver_step os)\<^sup>*\<^sup>* s s'"
  shows "Now os (world s) \<le> Now os (world s') \<and>
    (\<forall>now key d. Now os (world s') \<le> now \<longrightarrow> cache_fresh now key (volStatsCache (drv s)) = Some d \<longrightarrow>
       cache_fresh now key (volStatsCache (drv s')) = Some d)"
  using assms
proof (induction rule: rtranclp_induct)
  case (step s' s'')
  then show ?case using step_keeps_fresh [OF step(2)] by (meson order_trans)
qed simp

end

text \<open>
  C32. Statistics are measured once per period, in an environment whose clock does not go back:
  when the cache had nothing for a volume and a request for its statistics succeeded, then after
  any sequence of steps of the driver (requests of every kind, also for the statistics of this and
  of other volumes, mounts that end in the background, changes outside), every request for that
  volume with a path that comes before the time to live is over gets the same response, and changes
  nothing outside.
\<close>

theorem stats_cached:
  assumes "\<And>c w. Now os w \<le> Now os (snd (exec os c w))"
    and "cache_fresh (Now os (world s)) (ng_VolumeId req) (volStatsCache (drv s)) = None"
    and "NodeGetVolumeStats os req s = (Inr resp, s1)"
    and "(driver_step os)\<^sup>*\<^sup>* s1 s2"
    and "Now os (world s2) - Now os (world s) < TTL (volStatsCache (drv s))"
    and "ng_VolumeId req2 = ng_VolumeId req" "ng_VolumePath req2 \<noteq> ''''"
  shows "fst (NodeGetVolumeStats os req2 s2) = Inr resp \<and> world (snd (NodeGetVolumeStats os req2 s2)) = world s2"
proof -
  have c: "clock_env os" by unfold_locales (rule assms(1))
  note miss = stats_miss [OF assms(2,3)]
  have "cache_fresh (Now os (world s2)) (ng_VolumeId req2) (volStatsCache (drv s2)) = Some resp"
    using clock_env.steps_keep_fresh [OF c assms(4)] miss(3) [OF assms(5)] assms(6) by auto
  then show ?thesis using stats_hit [of os s2 req2 resp] miss(1) assms(6,7) by auto
qed

text \<open>Between the two requests another volume is staged and measured, and some minutes pass.\<close>

definition busy_state :: "lw st \<Rightarrow> lw st" where
  "busy_state s =
     (let s = serve_request linux_os (ReqStage stage_request) s;
          s = serve_request linux_os (ReqStats \<lparr>ng_VolumeId = ''w'', ng_VolumePath = ''/var''\<rparr>) s
      in s\<lparr>world := (world s)\<lparr>clock := 300000000000\<rparr>\<rparr>)"

theorem stats_cached_witness:
  "fst (NodeGetVolumeStats linux_os \<lparr>ng_VolumeId = ''v'', ng_VolumePath = ''/var''\<rparr>
     (busy_state (snd (NodeGetVolumeStats linux_os \<lparr>ng_VolumeId = ''v'', ng_VolumePath = ''/var''\<rparr> node_state)))) =
   fst (NodeGetVolumeStats linux_os \<lparr>ng_VolumeId = ''v'', ng_VolumePath = ''/var''\<rparr> node_state)"
proof -
  let ?req = "\<lparr>ng_VolumeId = ''v'', ng_VolumePath = ''/var''\<rparr>"
  let ?s1 = "snd (NodeGetVolumeStats linux_os ?req node_state)"
  let ?s2 = "serve_request linux_os (ReqStats \<lparr>ng_VolumeId = ''w'', ng_VolumePath = ''/var''\<rparr>)
    (serve_request linux_os (ReqStage stage_request) ?s1)"
  have "case fst (NodeGetVolumeStats linux_os ?req node_state) of Inr _ \<Rightarrow> True | Inl _ \<Rightarrow> False" by code_simp
  then obtain resp where r: "fst (NodeGetVolumeStats linux_os ?req node_state) = Inr resp"
    by (auto split: sum.splits)
  then have e: "NodeGetVolumeStats linux_os ?req node_state = (Inr resp, ?s1)" by (simp add: prod_eq_iff)
  have none: "cache_fresh (Now linux_os (world node_state)) (ng_VolumeId ?req) (volStatsCache (drv node_state)) = None"
    by code_simp
  have "Now linux_os (world ?s2) \<le> Now linux_os ((world ?s2)\<lparr>clock := 300000000000\<rparr>)" by code_simp
  from driver_step.outside [OF this] have "driver_step linux_os ?s2 (busy_state ?s1)"
    unfolding busy_state_def Let_def .
  then have steps: "(driver_step linux_os)\<^sup>*\<^sup>* ?s1 (busy_state ?s1)"
    by (rule rtranclp.rtrancl_into_rtrancl
        [OF rtranclp.rtrancl_into_rtrancl [OF r_into_rtranclp [of "driver_step linux_os", OF driver_step.request] driver_step.request]])
  have "Now linux_os (world (busy_state ?s1)) - Now linux_os (world node_state) < TTL (volStatsCache (drv node_state))"
    by code_simp
  then show ?thesis
    using stats_cached [OF linux_clock.clock_forward none e steps, of ?req] r by simp
qed

end
