(* ===== verification/WinPath.thy ===== *)
theory WinPath
  imports GoPath
begin

text \<open>
  Windows paths: the functions of Go's \<^verbatim>\<open>path/filepath\<close> package as they behave on Windows, as far
  as \<^verbatim>\<open>pkg/mounter\<close> and \<^verbatim>\<open>pkg/os\<close> call them, and the checks and conversions of paths those packages
  define themselves (\<^verbatim>\<open>normalizeWindowsPath\<close>, \<^verbatim>\<open>ValidatePathWindows\<close> and its parts).

  A Windows path starts with an optional volume name (a drive such as \<^verbatim>\<open>c:\<close>, a share such as
  \<^verbatim>\<open>\\srv\share\<close>, or a device), and both slashes separate its components.
\<close>

abbreviation bslash :: char where
  "bslash \<equiv> CHR 0x5C"

section \<open>The volume name\<close>

definition IsPathSeparator :: "char \<Rightarrow> bool" where
  "IsPathSeparator c = (c = bslash \<or> c = slash)"

definition FromSlash :: "string \<Rightarrow> string" where
  "FromSlash s = map (\<lambda>c. if c = slash then bslash else c) s"

text \<open>The prefix up to case and kind of separator, followed by a separator or the end.\<close>

fun pathHasPrefixFold :: "string \<Rightarrow> string \<Rightarrow> bool" where
  "pathHasPrefixFold [] [] = True"
| "pathHasPrefixFold (c # s) [] = IsPathSeparator c"
| "pathHasPrefixFold [] (p # ps) = False"
| "pathHasPrefixFold (c # s) (p # ps) =
     ((if IsPathSeparator p then IsPathSeparator c else lower_char p = lower_char c) \<and> pathHasPrefixFold s ps)"

text \<open>The index of the second separator from index \<open>i\<close> on, or the length.\<close>

fun unc_scan :: "nat \<Rightarrow> bool \<Rightarrow> string \<Rightarrow> nat" where
  "unc_scan i seen [] = i"
| "unc_scan i seen (c # s) =
     (if IsPathSeparator c then if seen then i else unc_scan (i + 1) True s else unc_scan (i + 1) seen s)"

definition uncLen :: "string \<Rightarrow> nat \<Rightarrow> nat" where
  "uncLen path prefixLen = min (length path) (unc_scan prefixLen False (drop prefixLen path))"

definition volumeNameLen :: "string \<Rightarrow> nat" where
  "volumeNameLen path =
     (if 2 \<le> length path \<and> path ! 1 = CHR '':'' then 2
      else if path = [] \<or> \<not> IsPathSeparator (hd path) then 0
      else if pathHasPrefixFold path [bslash, bslash, CHR ''.'', bslash, CHR ''U'', CHR ''N'', CHR ''C'']
      then uncLen path 8
      else if pathHasPrefixFold path [bslash, bslash, CHR ''.''] \<or>
              pathHasPrefixFold path [bslash, bslash, CHR ''?''] \<or>
              pathHasPrefixFold path [bslash, CHR ''?'', CHR ''?'']
      then if length path = 3 then 3
           else 4 + length (takeWhile (\<lambda>c. \<not> IsPathSeparator c) (drop 4 path))
      else if 2 \<le> length path \<and> IsPathSeparator (path ! 1) then uncLen path 2
      else 0)"

section \<open>Clean, Dir, Join\<close>

definition win_comps :: "string \<Rightarrow> string list" where
  "win_comps path = clean_comps (path \<noteq> [] \<and> IsPathSeparator (hd path)) [] (Split (FromSlash path) bslash)"

text \<open>The path without its volume name, cleaned, before \<^verbatim>\<open>postClean\<close>.\<close>

definition clean_rest :: "string \<Rightarrow> string" where
  "clean_rest path =
     (let rooted = (path \<noteq> [] \<and> IsPathSeparator (hd path)); cs = win_comps path
      in if rooted then bslash # Join cs [bslash] else if cs = [] then ''.'' else Join cs [bslash])"

text \<open>
  \<^verbatim>\<open>postClean\<close> keeps a relative path from turning into an absolute one. It does nothing if there is
  a volume name, or if cleaning only cut off the end of the path.
\<close>

definition postClean :: "nat \<Rightarrow> string \<Rightarrow> string \<Rightarrow> string" where
  "postClean volLen path out =
     (if volLen \<noteq> 0 \<or> HasPrefix path out then out
      else if CHR '':'' \<in> set (takeWhile (\<lambda>c. \<not> IsPathSeparator c) out) then CHR ''.'' # bslash # out
      else if HasPrefix out [bslash, CHR ''?'', CHR ''?''] then bslash # CHR ''.'' # out
      else out)"

definition WClean :: "string \<Rightarrow> string" where
  "WClean path =
     (let n = volumeNameLen path; rest = drop n path
      in if rest = []
         then if 1 < n \<and> IsPathSeparator (path ! 0) \<and> IsPathSeparator (path ! 1) then FromSlash path
              else path @ ''.''
         else FromSlash (take n path @ postClean n rest (clean_rest rest)))"

definition WDir :: "string \<Rightarrow> string" where
  "WDir path =
     (let n = volumeNameLen path; vol = FromSlash (take n path);
          dir = WClean (rev (dropWhile (\<lambda>c. \<not> IsPathSeparator c) (rev (drop n path))))
      in if dir = ''.'' \<and> 2 < length vol then vol else vol @ dir)"

text \<open>The loop of \<^verbatim>\<open>filepath.Join\<close>; \<open>b\<close> is what the builder holds.\<close>

fun join_loop :: "string \<Rightarrow> string list \<Rightarrow> string" where
  "join_loop b [] = b"
| "join_loop b (e # es) =
     (if b = [] then join_loop e es
      else if IsPathSeparator (last b)
      then let e = dropWhile IsPathSeparator e;
               dot = (if length b = 1 \<and> HasPrefix e ''??'' \<and> (length e = 2 \<or> IsPathSeparator (e ! 2))
                      then [CHR ''.'', bslash] else [])
           in join_loop (b @ dot @ e) es
      else if last b = CHR '':'' then join_loop (b @ e) es
      else join_loop (b @ bslash # e) es)"

definition WJoin :: "string list \<Rightarrow> string" where
  "WJoin elems = (let b = join_loop [] elems in if b = [] then [] else WClean b)"

section \<open>Paths on a drive\<close>

text \<open>A component that names a directory entry.\<close>

definition win_plain :: "string \<Rightarrow> bool" where
  "win_plain c = (c \<noteq> [] \<and> c \<noteq> ''.'' \<and> c \<noteq> ''..'' \<and> bslash \<notin> set c \<and> slash \<notin> set c)"

definition drive_path :: "string list \<Rightarrow> string" where
  "drive_path cs = ''c:'' @ bslash # Join cs [bslash]"

lemma FromSlash_id: "slash \<notin> set s \<Longrightarrow> FromSlash s = s"
  unfolding FromSlash_def by (induction s) auto

lemma FromSlash_idem [simp]: "FromSlash (FromSlash s) = FromSlash s"
  by (simp add: FromSlash_def)

lemma FromSlash_no_slash: "slash \<notin> set (FromSlash s)"
  by (auto simp: FromSlash_def)

lemma set_Join: "set (Join cs sep) \<subseteq> \<Union> (set ` set cs) \<union> set sep"
  by (induction cs sep rule: Join.induct) auto

lemma Join_plain_no_slash: "list_all win_plain cs \<Longrightarrow> slash \<notin> set (Join cs [bslash])"
  using set_Join [of cs "[bslash]"] by (auto simp: list_all_iff win_plain_def)

lemma Split_Join_plain:
  "list_all win_plain cs \<Longrightarrow> Split (Join cs [bslash]) bslash = (if cs = [] then [[]] else cs)"
  by (auto simp: list_all_iff win_plain_def Split_Join)

lemma clean_win_plain: "list_all win_plain cs \<Longrightarrow> clean_comps True acc cs = rev acc @ cs"
  by (induction cs arbitrary: acc) (auto simp: win_plain_def)

lemma win_comps_plain:
  assumes "list_all win_plain cs"
  shows "win_comps (bslash # Join cs [bslash]) = cs"
proof -
  have "FromSlash (bslash # Join cs [bslash]) = bslash # Join cs [bslash]"
    using Join_plain_no_slash [OF assms] by (intro FromSlash_id) auto
  then show ?thesis
    using assms by (simp add: win_comps_def Split_Join_plain clean_win_plain IsPathSeparator_def)
qed

lemma drive_path_simps:
  "volumeNameLen (drive_path cs) = 2" "drop 2 (drive_path cs) = bslash # Join cs [bslash]"
  "take 2 (drive_path cs) = ''c:''" "drive_path cs \<noteq> []"
  by (simp_all add: drive_path_def volumeNameLen_def)

lemma WClean_drive_path: "list_all win_plain cs \<Longrightarrow> WClean (drive_path cs) = drive_path cs"
  using Join_plain_no_slash [of cs]
  by (simp add: WClean_def drive_path_simps clean_rest_def win_comps_plain IsPathSeparator_def postClean_def
      FromSlash_id Let_def) (simp add: drive_path_def FromSlash_id)

lemma last_Join: "cs \<noteq> [] \<Longrightarrow> list_all win_plain cs \<Longrightarrow>
   Join cs [bslash] \<noteq> [] \<and> last (Join cs [bslash]) = last (last cs)"
proof (induction cs "[bslash]" rule: Join.induct)
  case (3 x v va)
  then show ?case by (auto simp: win_plain_def)
qed (auto simp: win_plain_def)

lemma Join_append: "cs \<noteq> [] \<Longrightarrow> ds \<noteq> [] \<Longrightarrow> Join (cs @ ds) sep = Join cs sep @ sep @ Join ds sep"
  by (induction cs sep rule: Join.induct) (auto simp: Join_Cons)

text \<open>Joining a path on a drive with components that are plain appends them.\<close>

lemma WJoin_drive_path:
  assumes "list_all win_plain cs" "cs \<noteq> []" "list_all win_plain ds" "ds \<noteq> []" "last (last cs) \<noteq> CHR '':''"
  shows "WJoin [drive_path cs, Join ds [bslash]] = drive_path (cs @ ds)"
proof -
  have l: "last (drive_path cs) = last (last cs)" using last_Join [OF assms(2,1)] by (simp add: drive_path_def)
  have "win_plain (last cs)" using assms(1,2) by (simp add: list_all_iff)
  then have "last (last cs) \<in> set (last cs)" "bslash \<notin> set (last cs)" "slash \<notin> set (last cs)"
    by (simp_all add: win_plain_def)
  then have "\<not> IsPathSeparator (last (last cs))" unfolding IsPathSeparator_def by metis
  then have "join_loop [] [drive_path cs, Join ds [bslash]] = drive_path cs @ bslash # Join ds [bslash]"
    using l assms(5) by (simp add: drive_path_simps(4))
  also have "\<dots> = drive_path (cs @ ds)" using assms(2,4) by (simp add: drive_path_def Join_append)
  finally show ?thesis
    using assms(1,3) by (simp add: WJoin_def WClean_drive_path drive_path_simps(4))
qed

lemma Join_inj:
  assumes "list_all win_plain cs" "list_all win_plain ds" "Join cs [bslash] = Join ds [bslash]"
  shows "cs = ds"
  using assms by (metis win_comps_plain)

lemma drive_path_inj: "list_all win_plain cs \<Longrightarrow> list_all win_plain ds \<Longrightarrow> drive_path cs = drive_path ds \<longleftrightarrow> cs = ds"
  using Join_inj [of cs ds] by (auto simp: drive_path_def)

end
