(* ===== verification/WinSystem.thy ===== *)
theory WinSystem
  imports WinPath System
begin

text \<open>
  What \<^verbatim>\<open>pkg/mounter\<close> and \<^verbatim>\<open>pkg/os\<close> use of a Windows node, as a parameter of the model: the Go \<^verbatim>\<open>os\<close>
  package, the name resolver, PowerShell, and the clients of the CSI proxy. On top of it, the
  packages \<^verbatim>\<open>pkg/os/filesystem\<close> and \<^verbatim>\<open>pkg/os/smb\<close>.
\<close>

section \<open>The environment\<close>

text \<open>
  The context of a path in the requests of the beta version of the CSI proxy; version 1 has no
  context.
\<close>

datatype path_context = PathContext_POD | PathContext_PLUGIN | NoContext

text \<open>
  The calls that change the node: those of the \<^verbatim>\<open>os\<close> package, the command of a PowerShell with the
  environment variables it is given, and the requests to the CSI proxy.
\<close>

datatype wcall =
    OsMkdirAll string int
  | OsCreate string
  | OsWriteString string string
  | OsClose string
  | OsRemove string
  | OsRemoveAll string
  | OsSymlink string string
  | Powershell string "string list"
  | FsMkdir string path_context
  | FsRmdir string path_context bool
  | FsCreateSymlink string string
  | FsLinkPath string string
  | SmbNewGlobalMapping string string string string
  | SmbRemoveGlobalMapping string

text \<open>
  \<open>wexec\<close> carries out a call and returns its error or its output (that of the command for
  \<open>Powershell\<close>, the empty string for every other call). \<open>WLstat\<close> tells whether the file is a
  symbolic link; \<open>WReadDir\<close> gives the entries of a directory and whether each is a directory;
  \<open>FsPathExists\<close>, \<open>FsIsSymlink\<close> and \<open>FsIsMountPoint\<close> are the queries of the CSI proxy, and
  \<open>FsConnect\<close>, \<open>SmbConnect\<close> and the beta versions tell whether its clients can be made.
\<close>

record 'w win =
  wexec :: "wcall \<Rightarrow> 'w \<Rightarrow> (error + string) \<times> 'w"
  WLstat :: "string \<Rightarrow> 'w \<Rightarrow> error + bool"
  WReadlink :: "string \<Rightarrow> 'w \<Rightarrow> error + string"
  WReadDir :: "string \<Rightarrow> 'w \<Rightarrow> error + (string \<times> bool) list"
  FsPathExists :: "string \<Rightarrow> 'w \<Rightarrow> error + bool"
  FsIsSymlink :: "string \<Rightarrow> 'w \<Rightarrow> error + bool"
  FsIsMountPoint :: "string \<Rightarrow> 'w \<Rightarrow> error + bool"
  ResolveIPAddr :: "string \<Rightarrow> 'w \<Rightarrow> error + string"
  FsConnect :: "error option"
  SmbConnect :: "error option"
  FsConnectBeta :: "error option"
  SmbConnectBeta :: "error option"

definition wsys :: "'w win \<Rightarrow> wcall \<Rightarrow> 'w \<Rightarrow> error option \<times> 'w" where
  "wsys win c w = (case wexec win c w of (r, w') \<Rightarrow> (err_of r, w'))"

lemma wsys_simps [simp]:
  "fst (wsys win c w) = err_of (fst (wexec win c w))" "snd (wsys win c w) = snd (wexec win c w)"
  by (simp_all add: wsys_def split: prod.splits)

section \<open>PowerShell\<close>

text \<open>
  \<^verbatim>\<open>RunPowershellCmd\<close> holds one of the three places of the semaphore \<^verbatim>\<open>powershellCmdSem\<close> while the
  command runs; the goroutines that wait for a place are the subject of the theory \<^verbatim>\<open>WinSync\<close>.
\<close>

definition RunPowershellCmd :: "'w win \<Rightarrow> string \<Rightarrow> string list \<Rightarrow> 'w \<Rightarrow> (error + string) \<times> 'w" where
  "RunPowershellCmd win command envs = wexec win (Powershell command envs)"

section \<open>Paths that are accepted\<close>

definition MaxPathLengthWindows :: nat where
  "MaxPathLengthWindows = 260"

text \<open>The character class of \<^verbatim>\<open>invalidPathCharsRegexWindows\<close>, and \<^verbatim>\<open>absPathRegexWindows\<close>.\<close>

definition invalidPathChars :: string where
  "invalidPathChars = [CHR 0x22, CHR ''/'', CHR '':'', CHR ''?'', CHR ''*'', CHR ''|'']"

definition is_letter :: "char \<Rightarrow> bool" where
  "is_letter c = (97 \<le> (of_char (lower_char c) :: nat) \<and> (of_char (lower_char c) :: nat) \<le> 122)"

definition isAbsWindows :: "string \<Rightarrow> bool" where
  "isAbsWindows path = (case path of a # b # c # _ \<Rightarrow> is_letter a \<and> b = CHR '':'' \<and> c = bslash | _ \<Rightarrow> False)"

definition containsInvalidCharactersWindows :: "string \<Rightarrow> bool" where
  "containsInvalidCharactersWindows path =
     (let path = (if isAbsWindows path then drop 3 path else path)
      in if list_ex (\<lambda>c. c \<in> set invalidPathChars) path then True
         else if Contains path ''..'' then True else False)"

definition isUNCPathWindows :: "string \<Rightarrow> bool" where
  "isUNCPathWindows path =
     (if length path < 2 then False else path ! 0 = bslash \<and> path ! 1 = bslash)"

definition ValidatePathWindows :: "string \<Rightarrow> error option" where
  "ValidatePathWindows path =
     (if MaxPathLengthWindows < length path
      then Some (Errorf ''path length %d exceeds maximum characters: %d'' None)
      else if 0 < length path \<and> path ! 0 = bslash
      then Some (Errorf (''invalid character '' @ [bslash] @ '' at beginning of path: %s'') None)
      else if isUNCPathWindows path then Some (Errorf ''unsupported UNC path prefix: %s'' None)
      else if containsInvalidCharactersWindows path
      then Some (Errorf ''path contains invalid characters: %s'' None)
      else if \<not> isAbsWindows path then Some (Errorf ''not an absolute Windows path: %s'' None)
      else None)"

text \<open>\<^verbatim>\<open>normalizeWindowsPath\<close> of \<^verbatim>\<open>safe_mounter_windows.go\<close>.\<close>

definition normalizeWindowsPath :: "string \<Rightarrow> string" where
  "normalizeWindowsPath path =
     (let normalizedPath = ReplaceAll path ''/'' [bslash]
      in if HasPrefix normalizedPath [bslash] then ''c:'' @ normalizedPath else normalizedPath)"

section \<open>Package filesystem\<close>

definition pathExists :: "'w win \<Rightarrow> string \<Rightarrow> 'w \<Rightarrow> error + bool" where
  "pathExists win path w =
     (case WLstat win path w of
        Inr _ \<Rightarrow> Inr True
      | Inl err \<Rightarrow> if IsNotExist err then Inr False else Inl err)"

definition fs_PathExists :: "'w win \<Rightarrow> string \<Rightarrow> 'w \<Rightarrow> error + bool" where
  "fs_PathExists win path w =
     (case ValidatePathWindows path of Some err \<Rightarrow> Inl err | None \<Rightarrow> pathExists win path w)"

definition PathValid :: "'w win \<Rightarrow> string \<Rightarrow> 'w \<Rightarrow> (error + bool) \<times> 'w" where
  "PathValid win path =
     bind_st (RunPowershellCmd win ''Test-Path $Env:remotepath'' [''remotepath='' @ path]) (\<lambda>r. case r of
         Inl err \<Rightarrow> fails (Errorf ''returned output: %s, error: %v'' (Some err))
       | Inr output \<Rightarrow> returns (HasPrefix (ToLower output) ''true''))"

definition fs_Rmdir :: "'w win \<Rightarrow> string \<Rightarrow> bool \<Rightarrow> 'w \<Rightarrow> error option \<times> 'w" where
  "fs_Rmdir win path force =
     (case ValidatePathWindows path of
        Some err \<Rightarrow> reply (Some err)
      | None \<Rightarrow> if force then wsys win (OsRemoveAll path) else wsys win (OsRemove path))"

definition IsSymlink :: "'w win \<Rightarrow> string \<Rightarrow> 'w \<Rightarrow> error + bool" where
  "IsSymlink win tgt w =
     (case WLstat win tgt w of
        Inl err \<Rightarrow> Inl err
      | Inr link \<Rightarrow>
          if link
          then (case WReadlink win tgt w of
                  Inl err \<Rightarrow> Inl (Errorf ''readlink error: %v'' (Some err))
                | Inr target \<Rightarrow> (case pathExists win target w of Inl err \<Rightarrow> Inl err | Inr exists \<Rightarrow> Inr exists))
          else Inr False)"

definition fs_IsMountPoint :: "'w win \<Rightarrow> string \<Rightarrow> 'w \<Rightarrow> error + bool" where
  "fs_IsMountPoint win path = IsSymlink win path"

section \<open>Package smb\<close>

definition IsSmbMapped :: "'w win \<Rightarrow> string \<Rightarrow> 'w \<Rightarrow> (error + bool) \<times> 'w" where
  "IsSmbMapped win remotePath =
     bind_st (RunPowershellCmd win
        ''$(Get-SmbGlobalMapping -RemotePath $Env:smbremotepath -ErrorAction Stop).Status''
        [''smbremotepath='' @ remotePath]) (\<lambda>r. case r of
         Inl err \<Rightarrow> fails (Errorf ''error checking smb mapping. cmd %s, output: %s, err: %v'' (Some err))
       | Inr out \<Rightarrow>
           if length out = 0 \<or> \<not> EqualFold (TrimSpace out) ''OK'' then returns False else returns True)"

definition new_mapping_cmd :: string where
  "new_mapping_cmd =
     ''$PWord = ConvertTo-SecureString -String $Env:smbpassword -AsPlainText -Force'' @
     '';$Credential = New-Object -TypeName System.Management.Automation.PSCredential -ArgumentList $Env:smbuser, $PWord'' @
     '';New-SmbGlobalMapping -RemotePath $Env:smbremotepath -Credential $Credential -RequirePrivacy $true''"

definition NewSmbGlobalMapping :: "'w win \<Rightarrow> string \<Rightarrow> string \<Rightarrow> string \<Rightarrow> 'w \<Rightarrow> error option \<times> 'w" where
  "NewSmbGlobalMapping win remotePath username password =
     bind_st (RunPowershellCmd win new_mapping_cmd
        [''smbuser='' @ username, ''smbpassword='' @ password, ''smbremotepath='' @ remotePath]) (\<lambda>r. case r of
         Inl err \<Rightarrow> reply (Some (Errorf ''NewSmbGlobalMapping failed. output: %q, err: %v'' (Some err)))
       | Inr _ \<Rightarrow> reply None)"

definition remove_mapping_cmd :: string where
  "remove_mapping_cmd = ''Remove-SmbGlobalMapping -RemotePath $Env:smbremotepath -Force''"

definition RemoveSmbGlobalMapping :: "'w win \<Rightarrow> string \<Rightarrow> 'w \<Rightarrow> error option \<times> 'w" where
  "RemoveSmbGlobalMapping win remotePath =
     bind_st (RunPowershellCmd win remove_mapping_cmd
        [''smbremotepath='' @ TrimSuffix remotePath [bslash]]) (\<lambda>r. case r of
         Inl err \<Rightarrow> reply (Some (Errorf ''UnmountSmbShare failed. output: %q, err: %v'' (Some err)))
       | Inr _ \<Rightarrow> reply None)"

definition GetRemoteServerFromTarget :: "'w win \<Rightarrow> string \<Rightarrow> 'w \<Rightarrow> error + string" where
  "GetRemoteServerFromTarget win mount w =
     (case WReadlink win mount w of
        Inl err \<Rightarrow> Inl (Errorf ''error reading link for mount %s. target %s err: %v'' (Some err))
      | Inr target \<Rightarrow>
          if length target = 0 then Inl (Errorf ''error reading link for mount %s. target %s err: %v'' None)
          else Inr (TrimSpace target))"

text \<open>The loop over the entries of the directory; the error it ends with is that of \<^verbatim>\<open>ReadDir\<close>, nil.\<close>

fun dup_loop :: "'w win \<Rightarrow> string \<Rightarrow> string \<Rightarrow> string \<Rightarrow> (string \<times> bool) list \<Rightarrow> 'w \<Rightarrow> bool" where
  "dup_loop win dir mount remoteServer [] w = False"
| "dup_loop win dir mount remoteServer ((name, isDir) # files) w =
     (let globalMountPath = WJoin [dir, name, ''globalmount'']
      in if isDir \<and> \<not> EqualFold (WClean globalMountPath) (WClean mount) \<and>
            WLstat win globalMountPath w = Inr True \<and>
            GetRemoteServerFromTarget win globalMountPath w = Inr remoteServer
         then True
         else dup_loop win dir mount remoteServer files w)"

definition CheckForDuplicateSMBMounts :: "'w win \<Rightarrow> string \<Rightarrow> string \<Rightarrow> string \<Rightarrow> 'w \<Rightarrow> error + bool" where
  "CheckForDuplicateSMBMounts win dir mount remoteServer w =
     (case WReadDir win dir w of
        Inl err \<Rightarrow> Inl err
      | Inr files \<Rightarrow> Inr (dup_loop win dir mount remoteServer files w))"

section \<open>Accepted and normalized paths\<close>

lemma normalizeWindowsPath_eq:
  "normalizeWindowsPath path =
     (if HasPrefix (FromSlash path) [bslash] then ''c:'' @ FromSlash path else FromSlash path)"
  by (simp add: normalizeWindowsPath_def ReplaceAll_char FromSlash_def)

lemma FromSlash_append: "FromSlash (s @ t) = FromSlash s @ FromSlash t"
  by (simp add: FromSlash_def)

lemma normalize_idem: "normalizeWindowsPath (normalizeWindowsPath path) = normalizeWindowsPath path"
proof -
  have "FromSlash (''c:'' @ s) = ''c:'' @ FromSlash s" "\<not> HasPrefix (''c:'' @ s) [bslash]" for s
    by (simp_all add: FromSlash_def)
  then show ?thesis by (simp add: normalizeWindowsPath_eq del: append.simps)
qed

lemma isAbsWindows_iff: "isAbsWindows path \<longleftrightarrow> (\<exists>d rest. is_letter d \<and> path = d # CHR '':'' # bslash # rest)"
  by (auto simp: isAbsWindows_def split: list.splits)

lemma letter_not_bslash: "\<not> is_letter bslash"
  by (simp add: is_letter_def lower_char_def)

lemma validate_abs:
  assumes "is_letter d"
  shows "ValidatePathWindows (d # CHR '':'' # bslash # rest) = None \<longleftrightarrow>
    length rest \<le> 257 \<and> set rest \<inter> {CHR 0x22, CHR ''/'', CHR '':'', CHR ''?'', CHR ''*'', CHR ''|''} = {} \<and>
    \<not> Contains rest ''..''"
proof -
  have "d \<noteq> bslash" using assms letter_not_bslash by metis
  moreover have "isAbsWindows (d # CHR '':'' # bslash # rest)" using assms by (simp add: isAbsWindows_def)
  ultimately have "ValidatePathWindows (d # CHR '':'' # bslash # rest) = None \<longleftrightarrow>
      length rest \<le> 257 \<and> \<not> list_ex (\<lambda>c. c \<in> set invalidPathChars) rest \<and> \<not> Contains rest ''..''"
    by (simp add: ValidatePathWindows_def MaxPathLengthWindows_def isUNCPathWindows_def
        containsInvalidCharactersWindows_def)
  then show ?thesis by (auto simp: list_ex_iff invalidPathChars_def)
qed

text \<open>
  C21. \<^verbatim>\<open>ValidatePathWindows\<close> accepts exactly the paths of at most 260 characters that start with a
  drive letter, a colon and a backslash and hold, after that, no character that is invalid in a
  name and no two dots in a row: no accepted path leads out of a directory it names.
\<close>

theorem ValidatePathWindows_accepts_iff:
  "ValidatePathWindows path = None \<longleftrightarrow>
     length path \<le> 260 \<and>
     (\<exists>d rest. is_letter d \<and> path = d # CHR '':'' # bslash # rest \<and>
        set rest \<inter> {CHR 0x22, CHR ''/'', CHR '':'', CHR ''?'', CHR ''*'', CHR ''|''} = {} \<and>
        \<not> (\<exists>a b. rest = a @ ''..'' @ b))"
proof (cases "isAbsWindows path")
  case False
  then have "ValidatePathWindows path \<noteq> None" unfolding ValidatePathWindows_def by (simp only: simp_thms if_True split: if_split) simp
  moreover have "is_letter d \<Longrightarrow> path \<noteq> d # CHR '':'' # bslash # rest" for d rest
    using False by (auto simp: isAbsWindows_def)
  ultimately show ?thesis by metis
next
  case True
  then obtain d rest where p: "is_letter d" "path = d # CHR '':'' # bslash # rest"
    using isAbsWindows_iff by blast
  then show ?thesis unfolding p(2) validate_abs [OF p(1)] Contains_iff by auto
qed

lemma Contains_dots_FromSlash: "Contains (FromSlash q) ''..'' \<longleftrightarrow> Contains q ''..''"
proof (induction q)
  case (Cons c q)
  have "HasPrefix (FromSlash s) [CHR ''.''] \<longleftrightarrow> HasPrefix s [CHR ''.'']" for s
    by (cases s) (auto simp: FromSlash_def)
  then show ?case using Cons by (auto simp: FromSlash_def)
qed (simp add: FromSlash_def)

text \<open>The paths the kubelet sends, with slashes and without a drive, are accepted once normalized.\<close>

lemma kubelet_path_accepted:
  assumes "length path \<le> 258" "HasPrefix path ''/''"
    "set path \<inter> {CHR 0x22, CHR '':'', CHR ''?'', CHR ''*'', CHR ''|''} = {}" "\<not> Contains path ''..''"
  shows "ValidatePathWindows (normalizeWindowsPath path) = None"
proof -
  obtain q where p: "path = slash # q" using assms(2) by (auto simp: HasPrefix_iff)
  have n: "normalizeWindowsPath path = CHR ''c'' # CHR '':'' # bslash # FromSlash q"
    by (simp add: p normalizeWindowsPath_eq FromSlash_def)
  have "\<not> Contains q ''..''"
  proof
    assume "Contains q ''..''"
    then obtain a b where "q = a @ ''..'' @ b" by (auto simp: Contains_iff)
    then have "path = (slash # a) @ ''..'' @ b" by (simp add: p)
    then show False using assms(4) by (metis Contains_iff)
  qed
  then have "\<not> Contains (FromSlash q) ''..''" by (simp add: Contains_dots_FromSlash)
  moreover have "is_letter (CHR ''c'')" by code_simp
  moreover have "set (FromSlash q) \<inter> {CHR 0x22, CHR ''/'', CHR '':'', CHR ''?'', CHR ''*'', CHR ''|''} = {}"
    using assms(3) by (auto simp: p FromSlash_def split: if_splits)
  moreover have "length (FromSlash q) \<le> 257" using assms(1) by (simp add: p FromSlash_def)
  ultimately show ?thesis unfolding n by (simp add: validate_abs)
qed

end
