(* ===== verification/Md5.thy ===== *)
theory Md5
  imports GoStrings "HOL-Library.Word"
begin

text \<open>
  \<^verbatim>\<open>crypto/md5\<close>, on which the reference counter of the Windows mounter builds the names of its files
  (\<^verbatim>\<open>getMd5\<close> in \<^verbatim>\<open>pkg/mounter/refcounter_windows.go\<close>): the message is padded to blocks of 64 bytes,
  and 64 operations on 32-bit words per block give the digest of 16 bytes.
\<close>

unbundle bit_operations_syntax

section \<open>Padding\<close>

definition le_bytes :: "nat \<Rightarrow> int \<Rightarrow> int list" where
  "le_bytes n x = map (\<lambda>i. x div 256 ^ i mod 256) [0..<n]"

definition pad :: "string \<Rightarrow> int list" where
  "pad msg =
     (let n = length msg; zeros = (119 - n mod 64) mod 64
      in map of_char msg @ 0x80 # replicate zeros 0 @ le_bytes 8 (8 * int n))"

fun le_words :: "int list \<Rightarrow> 32 word list" where
  "le_words (a # b # c # d # bs) = word_of_int (a + 256 * (b + 256 * (c + 256 * d))) # le_words bs"
| "le_words _ = []"

section \<open>The compression function\<close>

definition md5_K :: "32 word list" where
  "md5_K =
    [0xD76AA478, 0xE8C7B756, 0x242070DB, 0xC1BDCEEE, 0xF57C0FAF, 0x4787C62A, 0xA8304613, 0xFD469501,
     0x698098D8, 0x8B44F7AF, 0xFFFF5BB1, 0x895CD7BE, 0x6B901122, 0xFD987193, 0xA679438E, 0x49B40821,
     0xF61E2562, 0xC040B340, 0x265E5A51, 0xE9B6C7AA, 0xD62F105D, 0x02441453, 0xD8A1E681, 0xE7D3FBC8,
     0x21E1CDE6, 0xC33707D6, 0xF4D50D87, 0x455A14ED, 0xA9E3E905, 0xFCEFA3F8, 0x676F02D9, 0x8D2A4C8A,
     0xFFFA3942, 0x8771F681, 0x6D9D6122, 0xFDE5380C, 0xA4BEEA44, 0x4BDECFA9, 0xF6BB4B60, 0xBEBFBC70,
     0x289B7EC6, 0xEAA127FA, 0xD4EF3085, 0x04881D05, 0xD9D4D039, 0xE6DB99E5, 0x1FA27CF8, 0xC4AC5665,
     0xF4292244, 0x432AFF97, 0xAB9423A7, 0xFC93A039, 0x655B59C3, 0x8F0CCC92, 0xFFEFF47D, 0x85845DD1,
     0x6FA87E4F, 0xFE2CE6E0, 0xA3014314, 0x4E0811A1, 0xF7537E82, 0xBD3AF235, 0x2AD7D2BB, 0xEB86D391]"

definition md5_shift :: "nat \<Rightarrow> nat" where
  "md5_shift i =
     [[7, 12, 17, 22], [5, 9, 14, 20], [4, 11, 16, 23], [6, 10, 15, 21]] ! (i div 16) ! (i mod 4)"

definition rotl :: "nat \<Rightarrow> 32 word \<Rightarrow> 32 word" where
  "rotl n x = push_bit n x OR drop_bit (32 - n) x"

type_synonym md5_state = "32 word \<times> 32 word \<times> 32 word \<times> 32 word"

definition md5_step :: "32 word list \<Rightarrow> nat \<Rightarrow> md5_state \<Rightarrow> md5_state" where
  "md5_step m i s =
     (case s of (a, b, c, d) \<Rightarrow>
        let (f, g) =
              (if i < 16 then ((b AND c) OR (NOT b AND d), i)
               else if i < 32 then ((d AND b) OR (NOT d AND c), (5 * i + 1) mod 16)
               else if i < 48 then (b XOR c XOR d, (3 * i + 5) mod 16)
               else (c XOR (b OR NOT d), (7 * i) mod 16))
        in (d, b + rotl (md5_shift i) (a + f + md5_K ! i + m ! g), b, c))"

definition md5_block :: "32 word list \<Rightarrow> md5_state \<Rightarrow> md5_state" where
  "md5_block m s =
     (case s of (a, b, c, d) \<Rightarrow> case fold (md5_step m) [0..<64] s of (a', b', c', d') \<Rightarrow>
        (a + a', b + b', c + c', d + d'))"

function md5_blocks :: "32 word list \<Rightarrow> md5_state \<Rightarrow> md5_state" where
  "md5_blocks ws s = (if ws = [] then s else md5_blocks (drop 16 ws) (md5_block (take 16 ws) s))"
  by pat_completeness auto
termination
  by (relation "measure (\<lambda>(ws, s). length ws)") auto

declare md5_blocks.simps [simp del]

definition md5_Sum :: "string \<Rightarrow> int list" where
  "md5_Sum msg =
     (case md5_blocks (le_words (pad msg)) (0x67452301, 0xEFCDAB89, 0x98BADCFE, 0x10325476) of
        (a, b, c, d) \<Rightarrow> concat (map (\<lambda>x. le_bytes 4 (uint x)) [a, b, c, d]))"

section \<open>The name of a file\<close>

definition hex_digit :: "int \<Rightarrow> char" where
  "hex_digit n = ''0123456789abcdef'' ! nat n"

definition hex_bytes :: "int list \<Rightarrow> string" where
  "hex_bytes bs = concat (map (\<lambda>b. [hex_digit (b div 16), hex_digit (b mod 16)]) bs)"

definition getMd5 :: "string \<Rightarrow> string" where
  "getMd5 path = hex_bytes (md5_Sum (ToLower path))"

lemma set_le_bytes: "b \<in> set (le_bytes n x) \<Longrightarrow> 0 \<le> b \<and> b < 256"
  by (auto simp: le_bytes_def)

lemma length_le_bytes [simp]: "length (le_bytes n x) = n"
  by (simp add: le_bytes_def)

lemma md5_Sum_bytes: "length (md5_Sum msg) = 16" "b \<in> set (md5_Sum msg) \<Longrightarrow> 0 \<le> b \<and> b < 256"
  by (auto simp: md5_Sum_def dest: set_le_bytes split: prod.splits)

lemma hex_digit_in: "0 \<le> n \<Longrightarrow> n < 16 \<Longrightarrow> hex_digit n \<in> set ''0123456789abcdef''"
  unfolding hex_digit_def by (rule nth_mem) (simp add: nat_less_iff)

lemma hex_bytes_shape:
  "(\<And>b. b \<in> set bs \<Longrightarrow> 0 \<le> b \<and> b < 256) \<Longrightarrow>
   length (hex_bytes bs) = 2 * length bs \<and> set (hex_bytes bs) \<subseteq> set ''0123456789abcdef''"
proof (induction bs)
  case (Cons b bs)
  have "0 \<le> b \<and> b < 256" using Cons(2) by simp
  then have "hex_digit (b div 16) \<in> set ''0123456789abcdef''" "hex_digit (b mod 16) \<in> set ''0123456789abcdef''"
    by (intro hex_digit_in; simp add: pos_imp_zdiv_nonneg_iff div_pos_pos_trivial; linarith)+
  then show ?case using Cons by (simp add: hex_bytes_def)
qed (simp add: hex_bytes_def)

lemma getMd5_shape: "length (getMd5 s) = 32" "set (getMd5 s) \<subseteq> set ''0123456789abcdef''"
proof -
  have "length (getMd5 s) = 32 \<and> set (getMd5 s) \<subseteq> set ''0123456789abcdef''"
    using hex_bytes_shape [of "md5_Sum (ToLower s)"] md5_Sum_bytes
    by (simp add: getMd5_def)
  then show "length (getMd5 s) = 32" "set (getMd5 s) \<subseteq> set ''0123456789abcdef''" by blast+
qed

lemma getMd5_fold: "EqualFold s t \<Longrightarrow> getMd5 s = getMd5 t"
  by (simp add: getMd5_def EqualFold_def)

end
