(* ===== verification/RefCounter.thy ===== *)
theory RefCounter
  imports WinSystem Md5
begin

text \<open>
  The reference counter of the Windows mounter (\<^verbatim>\<open>pkg/mounter/refcounter_windows.go\<close>): which volumes
  use the mapping of a share is recorded by one file per volume in the directory of the share under
  \<^verbatim>\<open>c:\csi\smbmounts\<close>, and the number of references is the number of files. The mutex that
  serialises the operations on one share is in the theory \<^verbatim>\<open>WinSync\<close>.
\<close>

section \<open>The operations\<close>

definition basePath :: string where
  "basePath = drive_path [''csi'', ''smbmounts'']"

definition ModeDir :: int where
  "ModeDir = 2 ^ 31"

text \<open>The loop that collects the first two components that are not empty.\<close>

fun root_loop :: "string list \<Rightarrow> string list \<Rightarrow> string list" where
  "root_loop parts [] = parts"
| "root_loop parts (s # items) =
     (if 0 < length s
      then let parts = parts @ [s] in if length parts = 2 then parts else root_loop parts items
      else root_loop parts items)"

definition getRootMappingPath :: "string \<Rightarrow> error + string" where
  "getRootMappingPath path =
     (let parts = root_loop [] (Split path bslash)
      in if length parts \<noteq> 2 then Inl (Errorf ''remote path (%s) is invalid'' None)
         else Inr (ToLower ([bslash, bslash] @ parts ! 0 @ [bslash] @ parts ! 1)))"

definition ref_path :: "string \<Rightarrow> string" where
  "ref_path mappingPath = WJoin [basePath, TrimPrefix mappingPath [bslash, bslash]]"

definition incementVolumeIDReferencesCount ::
  "'w win \<Rightarrow> string \<Rightarrow> string \<Rightarrow> string \<Rightarrow> 'w \<Rightarrow> error option \<times> 'w" where
  "incementVolumeIDReferencesCount win mappingPath remotePath volumeID =
     (let remotePath = TrimSuffix remotePath [bslash];
          path = ref_path mappingPath
      in if_err (wsys win (OsMkdirAll path ModeDir)) (\<lambda>err. reply (Some err))
         (let filePath = WJoin [path, getMd5 volumeID]
          in if_err (wsys win (OsCreate filePath)) (\<lambda>err. reply (Some err))
             (deferred (wsys win (OsClose filePath)) (wsys win (OsWriteString filePath remotePath)))))"

definition decrementVolumeIDReferencesCount ::
  "'w win \<Rightarrow> string \<Rightarrow> string \<Rightarrow> 'w \<Rightarrow> error option \<times> 'w" where
  "decrementVolumeIDReferencesCount win mappingPath volumeID =
     (let path = ref_path mappingPath
      in if_err (wsys win (OsMkdirAll path ModeDir)) (\<lambda>err. reply (Some err))
         (wsys win (OsRemove (WJoin [path, getMd5 volumeID]))))"

definition getVolumeIDReferencesCount :: "'w win \<Rightarrow> string \<Rightarrow> 'w \<Rightarrow> int \<times> 'w" where
  "getVolumeIDReferencesCount win mappingPath =
     (let path = ref_path mappingPath
      in if_err (wsys win (OsMkdirAll path ModeDir)) (\<lambda>err. reply (- 1))
         (asks (\<lambda>w. case WReadDir win path w of
              Inl err \<Rightarrow> reply (- 1)
            | Inr files \<Rightarrow> reply (int (length files)))))"

section \<open>Mapping paths\<close>

lemma root_loop_take: "length parts < 2 \<Longrightarrow> root_loop parts items = take 2 (parts @ filter (\<lambda>s. s \<noteq> []) items)"
proof (induction parts items rule: root_loop.induct)
  case (2 parts s items)
  then show ?case by (cases parts) (auto simp: Let_def numeral_2_eq_2)
qed simp

text \<open>A name that is a directory of its own on Windows.\<close>

definition share_name :: "string \<Rightarrow> bool" where
  "share_name c = (win_plain c \<and> ToLower c = c \<and> last c \<notin> set ''. :'')"

definition mapping_of :: "string \<Rightarrow> string \<Rightarrow> string" where
  "mapping_of h s = [bslash, bslash] @ h @ [bslash] @ s"

definition good_mapping :: "string \<Rightarrow> bool" where
  "good_mapping m \<longleftrightarrow> (\<exists>h s. share_name h \<and> share_name s \<and> m = mapping_of h s)"

definition ref_dir :: "string \<Rightarrow> bool" where
  "ref_dir d \<longleftrightarrow> (\<exists>h s. share_name h \<and> share_name s \<and> d = drive_path [''csi'', ''smbmounts'', h, s])"

definition hex_name :: "string \<Rightarrow> bool" where
  "hex_name n \<longleftrightarrow> n \<noteq> [] \<and> set n \<subseteq> set ''0123456789abcdef''"

lemma hex_name_getMd5: "hex_name (getMd5 v)"
  using getMd5_shape [of v] by (auto simp: hex_name_def)

lemma hex_name_plain: "hex_name n \<Longrightarrow> win_plain n"
  by (auto simp: hex_name_def win_plain_def)

lemma share_name_plain: "share_name c \<Longrightarrow> win_plain c"
  by (simp add: share_name_def)

lemma plain_consts: "win_plain ''csi''" "win_plain ''smbmounts''"
  by (simp_all add: win_plain_def)

lemma ref_path_mapping:
  assumes "share_name h" "share_name s"
  shows "ref_path (mapping_of h s) = drive_path [''csi'', ''smbmounts'', h, s]"
proof -
  have "TrimPrefix (mapping_of h s) [bslash, bslash] = Join [h, s] [bslash]"
    using TrimPrefix_append [of "[bslash, bslash]"] by (simp add: mapping_of_def)
  then show ?thesis
    using WJoin_drive_path [of "[''csi'', ''smbmounts'']" "[h, s]"] assms
    by (simp add: ref_path_def basePath_def share_name_def plain_consts)
qed

lemma ref_dir_ref_path: "good_mapping m \<Longrightarrow> ref_dir (ref_path m)"
  unfolding good_mapping_def ref_dir_def using ref_path_mapping by blast

lemma ref_path_inj:
  assumes "good_mapping m" "good_mapping m'" "ref_path m = ref_path m'"
  shows "m = m'"
proof -
  obtain h s h' s' where m: "share_name h" "share_name s" "m = mapping_of h s"
    "share_name h'" "share_name s'" "m' = mapping_of h' s'"
    using assms(1,2) by (auto simp: good_mapping_def)
  then have "[''csi'', ''smbmounts'', h, s] = [''csi'', ''smbmounts'', h', s']"
    using assms(3) by (subst drive_path_inj [symmetric]) (simp_all add: ref_path_mapping share_name_plain plain_consts)
  then show ?thesis using m by simp
qed

lemma ref_file: "ref_dir d \<Longrightarrow> hex_name n \<Longrightarrow> WJoin [d, n] = d @ bslash # n"
proof -
  assume a: "ref_dir d" "hex_name n"
  then obtain h s where d: "share_name h" "share_name s" "d = drive_path [''csi'', ''smbmounts'', h, s]"
    by (auto simp: ref_dir_def)
  show ?thesis
    using WJoin_drive_path [of "[''csi'', ''smbmounts'', h, s]" "[n]"] d hex_name_plain [OF a(2)] plain_consts
    by (simp add: share_name_def) (simp add: drive_path_def)
qed

section \<open>The laws of the file system\<close>

text \<open>
  \<open>names d w\<close> are the entries of a directory, none if it does not exist. Making a directory of
  references changes the entries of none; a file that was created is an entry, one that was
  removed was an entry before and is none afterwards, and a call that fails changes nothing;
  \<^verbatim>\<open>ReadDir\<close> lists the entries without repetition.
\<close>

locale ref_store =
  fixes win :: "'w win" and names :: "string \<Rightarrow> 'w \<Rightarrow> string set"
  assumes mkdir_names: "ref_dir d \<Longrightarrow> ref_dir p \<Longrightarrow> names d (snd (wexec win (OsMkdirAll p m) w)) = names d w"
    and create_ok: "ref_dir d \<Longrightarrow> ref_dir d' \<Longrightarrow> hex_name n \<Longrightarrow>
      wexec win (OsCreate (d @ bslash # n)) w = (Inr x, w') \<Longrightarrow>
      names d' w' = (if d' = d then insert n (names d' w) else names d' w)"
    and create_err: "ref_dir d \<Longrightarrow> ref_dir d' \<Longrightarrow> hex_name n \<Longrightarrow>
      wexec win (OsCreate (d @ bslash # n)) w = (Inl e, w') \<Longrightarrow> names d' w' = names d' w"
    and write_names: "ref_dir d \<Longrightarrow> ref_dir d' \<Longrightarrow> hex_name n \<Longrightarrow>
      names d' (snd (wexec win (OsWriteString (d @ bslash # n) c) w)) = names d' w"
    and close_names: "names d (snd (wexec win (OsClose f) w)) = names d w"
    and remove_ok: "ref_dir d \<Longrightarrow> ref_dir d' \<Longrightarrow> hex_name n \<Longrightarrow>
      wexec win (OsRemove (d @ bslash # n)) w = (Inr x, w') \<Longrightarrow>
      n \<in> names d w \<and> names d' w' = (if d' = d then names d' w - {n} else names d' w)"
    and remove_err: "ref_dir d \<Longrightarrow> ref_dir d' \<Longrightarrow> hex_name n \<Longrightarrow>
      wexec win (OsRemove (d @ bslash # n)) w = (Inl e, w') \<Longrightarrow> names d' w' = names d' w"
    and readdir_names: "ref_dir d \<Longrightarrow> WReadDir win d w = Inr files \<Longrightarrow>
      set (map fst files) = names d w \<and> distinct (map fst files)"
begin

text \<open>The references of a mapping.\<close>

definition refs :: "string \<Rightarrow> 'w \<Rightarrow> string set" where
  "refs m w = names (ref_path m) w"

lemma increment_ok:
  assumes "good_mapping m" "good_mapping m'" "incementVolumeIDReferencesCount win m rp v w = (None, w')"
  shows "refs m' w' = (if m' = m then insert (getMd5 v) (refs m' w) else refs m' w)"
proof -
  note d = ref_dir_ref_path [OF assms(1)] ref_dir_ref_path [OF assms(2)] and n = hex_name_getMd5 [of v]
  let ?w1 = "snd (wexec win (OsMkdirAll (ref_path m) ModeDir) w)"
  obtain r w2 where c: "wexec win (OsCreate (ref_path m @ bslash # getMd5 v)) ?w1 = (r, w2)" by fastforce
  obtain x where r: "r = Inr x"
    using assms(3) c d n
    by (cases r) (auto simp: incementVolumeIDReferencesCount_def control_defs wsys_def ref_file Let_def
        split: prod.splits option.splits)
  have "refs m' w' = names (ref_path m') w2"
    using assms(3) c r d n write_names close_names
    by (auto simp: incementVolumeIDReferencesCount_def control_defs wsys_def ref_file Let_def refs_def
        split: prod.splits option.splits) (metis snd_conv)+
  then show ?thesis
    using create_ok [OF d n] c r mkdir_names d ref_path_inj [OF assms(2,1)] by (auto simp: refs_def)
qed

text \<open>Whatever fails on the way, incrementing never loses a reference.\<close>

lemma increment_keeps:
  assumes "good_mapping m" "good_mapping m'"
  shows "keeps (\<lambda>w w'. refs m' w \<subseteq> refs m' w') (incementVolumeIDReferencesCount win m rp v)"
proof (rule keepsI)
  fix w
  note d = ref_dir_ref_path [OF assms(1)] ref_dir_ref_path [OF assms(2)] and n = hex_name_getMd5 [of v]
  let ?w1 = "snd (wexec win (OsMkdirAll (ref_path m) ModeDir) w)"
  obtain r w2 where c: "wexec win (OsCreate (ref_path m @ bslash # getMd5 v)) ?w1 = (r, w2)" by fastforce
  have s: "names (ref_path m') w \<subseteq> names (ref_path m') w2"
    using create_ok [OF d n] create_err [OF d n] c mkdir_names [OF d(2,1)] by (cases r) auto
  show "refs m' w \<subseteq> refs m' (snd (incementVolumeIDReferencesCount win m rp v w))"
    using c d n s mkdir_names [OF d(2,1)] write_names [OF d n] close_names
    by (cases r) (auto simp: incementVolumeIDReferencesCount_def control_defs wsys_def ref_file Let_def refs_def
        split: prod.splits option.splits; metis snd_conv subsetD)+
qed

lemma decrement_ok:
  assumes "good_mapping m" "good_mapping m'" "decrementVolumeIDReferencesCount win m v w = (None, w')"
  shows "getMd5 v \<in> refs m w \<and> refs m' w' = (if m' = m then refs m' w - {getMd5 v} else refs m' w)"
proof -
  note d = ref_dir_ref_path [OF assms(1)] ref_dir_ref_path [OF assms(2)] and n = hex_name_getMd5 [of v]
  let ?w1 = "snd (wexec win (OsMkdirAll (ref_path m) ModeDir) w)"
  obtain r w2 where c: "wexec win (OsRemove (ref_path m @ bslash # getMd5 v)) ?w1 = (r, w2)" by fastforce
  obtain x where r: "r = Inr x" "w' = w2"
    using assms(3) c d n
    by (cases r) (auto simp: decrementVolumeIDReferencesCount_def control_defs wsys_def ref_file Let_def
        split: prod.splits option.splits)
  have "getMd5 v \<in> names (ref_path m) ?w1 \<and> names (ref_path m') w2 =
      (if ref_path m' = ref_path m then names (ref_path m') ?w1 - {getMd5 v} else names (ref_path m') ?w1)"
    by (rule remove_ok [OF d n]) (use c r in simp)
  then show ?thesis
    using r mkdir_names [OF d(2,1)] mkdir_names [OF d(1,1)] ref_path_inj [OF assms(2,1)] by (auto simp: refs_def)
qed

lemma decrement_err:
  assumes "good_mapping m" "good_mapping m'" "decrementVolumeIDReferencesCount win m v w = (Some e, w')"
  shows "refs m' w' = refs m' w"
proof -
  note d = ref_dir_ref_path [OF assms(1)] ref_dir_ref_path [OF assms(2)] and n = hex_name_getMd5 [of v]
  let ?w1 = "snd (wexec win (OsMkdirAll (ref_path m) ModeDir) w)"
  obtain r w2 where c: "wexec win (OsRemove (ref_path m @ bslash # getMd5 v)) ?w1 = (r, w2)" by fastforce
  then show ?thesis
    using assms(3) c d n remove_err [OF d n] mkdir_names [OF d(2,1), of ModeDir w]
    by (cases r) (auto simp: decrementVolumeIDReferencesCount_def control_defs wsys_def ref_file Let_def refs_def
        split: prod.splits option.splits)
qed

lemma count_refs:
  assumes "good_mapping m" "good_mapping m'" "getVolumeIDReferencesCount win m w = (k, w')"
  shows "refs m' w' = refs m' w \<and> (k = - 1 \<or> finite (refs m w') \<and> k = int (card (refs m w')))"
proof -
  note d = ref_dir_ref_path [OF assms(1)] ref_dir_ref_path [OF assms(2)]
  obtain r w1 where c: "wexec win (OsMkdirAll (ref_path m) ModeDir) w = (r, w1)" by fastforce
  have "w' = w1" "k = - 1 \<or> (\<exists>fs. WReadDir win (ref_path m) w1 = Inr fs \<and> k = int (length fs))"
    using assms(3) c
    by (auto simp: getVolumeIDReferencesCount_def control_defs wsys_def Let_def split: option.splits sum.splits)
  moreover have "finite (names (ref_path m) w1) \<and> card (names (ref_path m) w1) = length fs"
    if "WReadDir win (ref_path m) w1 = Inr fs" for fs
    using readdir_names [OF d(1) that] by (metis List.finite_set distinct_card length_map)
  ultimately show ?thesis using c mkdir_names [OF d(2,1), of ModeDir w] by (auto simp: refs_def)
qed

end

end
