(* ===== verification/WinMounter.thy ===== *)
theory WinMounter
  imports RefCounter
begin

text \<open>
  The mounters of a Windows node (\<^verbatim>\<open>pkg/mounter\<close>): the one that talks to version 1 of the CSI proxy
  (\<^verbatim>\<open>safe_mounter_windows.go\<close>), the one for its beta version (\<^verbatim>\<open>safe_mounter_v1beta_windows.go\<close>), and
  the one of a host process container, which calls PowerShell and the \<^verbatim>\<open>os\<close> package itself
  (\<^verbatim>\<open>safe_mounter_host_process_windows.go\<close>). The driver uses them through the interface
  \<^verbatim>\<open>CSIProxyMounter\<close>, here a record of operations.
\<close>

section \<open>The interface\<close>

record 'w CSIProxyMounter =
  cm_SMBMount :: "string \<Rightarrow> string \<Rightarrow> string \<Rightarrow> string list \<Rightarrow> string list \<Rightarrow> string \<Rightarrow> 'w \<Rightarrow> error option \<times> 'w"
  cm_SMBUnmount :: "string \<Rightarrow> string \<Rightarrow> 'w \<Rightarrow> error option \<times> 'w"
  cm_Mount :: "string \<Rightarrow> string \<Rightarrow> string \<Rightarrow> string list \<Rightarrow> 'w \<Rightarrow> error option \<times> 'w"
  cm_Unmount :: "string \<Rightarrow> 'w \<Rightarrow> error option \<times> 'w"
  cm_MakeDir :: "string \<Rightarrow> 'w \<Rightarrow> error option \<times> 'w"
  cm_Rmdir :: "string \<Rightarrow> 'w \<Rightarrow> error option \<times> 'w"
  cm_ExistsPath :: "string \<Rightarrow> 'w \<Rightarrow> error + bool"
  cm_IsLikelyNotMountPoint :: "string \<Rightarrow> 'w \<Rightarrow> bool \<times> error option"
  cm_IsMountPoint :: "string \<Rightarrow> 'w \<Rightarrow> bool \<times> error option"
  cm_IsMountPointMatch :: "MountPoint \<Rightarrow> string \<Rightarrow> bool"
  cm_CanSafelySkipMountPointCheck :: bool
  cm_List :: "error + MountPoint list"
  cm_MountSensitive :: "'w \<Rightarrow> error option \<times> 'w"
  cm_GetAPIVersions :: string

definition ErrNotExist :: error where
  "ErrNotExist = Errno ENOENT"

text \<open>The methods of \<^verbatim>\<open>mount.Interface\<close> that no mounter implements.\<close>

definition not_implemented :: "string \<Rightarrow> string \<Rightarrow> error" where
  "not_implemented method mounter = Errorf (method @ '' not implemented for '' @ mounter) None"

text \<open>The versions of the client libraries a mounter uses, as it logs them.\<close>

definition api_versions :: "string \<Rightarrow> string \<Rightarrow> string" where
  "api_versions fs smb = ''API Versions filesystem: '' @ fs @ '', SMB: '' @ smb"

text \<open>The query every mounter builds on its \<^verbatim>\<open>ExistsPath\<close> and its test for links.\<close>

definition likely_not :: "error + bool \<Rightarrow> error + bool \<Rightarrow> bool \<times> error option" where
  "likely_not existsPath isMount =
     (case existsPath of
        Inl err \<Rightarrow> (False, Some err)
      | Inr isExists \<Rightarrow>
          if \<not> isExists then (True, Some ErrNotExist)
          else (case isMount of Inl err \<Rightarrow> (False, Some err) | Inr response \<Rightarrow> (\<not> response, None)))"

definition is_mount_point :: "bool \<times> error option \<Rightarrow> bool \<times> error option" where
  "is_mount_point r = (case r of (isNotMnt, Some err) \<Rightarrow> (False, Some err) | (isNotMnt, None) \<Rightarrow> (\<not> isNotMnt, None))"

section \<open>The name of the file server\<close>

text \<open>\<^verbatim>\<open>strings.FieldsFunc\<close>: the maximal runs of characters that do not satisfy the predicate.\<close>

fun FieldsFunc :: "(char \<Rightarrow> bool) \<Rightarrow> string \<Rightarrow> string \<Rightarrow> string list" where
  "FieldsFunc f cur [] = (if cur = [] then [] else [rev cur])"
| "FieldsFunc f cur (c # s) =
     (if f c then (if cur = [] then FieldsFunc f [] s else rev cur # FieldsFunc f [] s)
      else FieldsFunc f (c # cur) s)"

definition mounter_Split :: "char \<Rightarrow> bool" where
  "mounter_Split r = (r = CHR '' '' \<or> r = CHR ''/'')"

text \<open>\<^verbatim>\<open>strings.Replace\<close> with a count of one.\<close>

fun ReplaceFirst :: "string \<Rightarrow> string \<Rightarrow> string \<Rightarrow> string" where
  "ReplaceFirst [] old new = (if old = [] then new else [])"
| "ReplaceFirst (c # s) old new =
     (if HasPrefix (c # s) old then new @ drop (length old) (c # s) else c # ReplaceFirst s old new)"

definition resolve_source :: "'w win \<Rightarrow> string \<Rightarrow> 'w \<Rightarrow> string" where
  "resolve_source win source w =
     (case FieldsFunc mounter_Split [] source of
        [] \<Rightarrow> source
      | domainName # _ \<Rightarrow>
          if HasSuffix domainName ''svc.cluster.local''
          then (case ResolveIPAddr win domainName w of
                  Inl err \<Rightarrow> source
                | Inr ip \<Rightarrow> ReplaceFirst source domainName ip)
          else source)"

definition empty_options :: error where
  "empty_options = Errorf ''empty mountOptions(len: %d) or sensitiveMountOptions(len: %d) is not allowed'' None"

text \<open>The start of every \<^verbatim>\<open>SMBMount\<close>: the options must be there, and the parent directory is made.\<close>

definition with_parent ::
  "(string \<Rightarrow> 'w \<Rightarrow> error + bool) \<Rightarrow> (string \<Rightarrow> 'w \<Rightarrow> error option \<times> 'w) \<Rightarrow> string \<Rightarrow> string list \<Rightarrow> string list \<Rightarrow>
   ('w \<Rightarrow> error option \<times> 'w) \<Rightarrow> 'w \<Rightarrow> error option \<times> 'w" where
  "with_parent existsPath makeDir target mountOptions sensitiveMountOptions k =
     (if mountOptions = [] \<or> sensitiveMountOptions = [] then reply (Some empty_options)
      else let parentDir = WDir target
           in asks (\<lambda>w. case existsPath parentDir w of
                Inl err \<Rightarrow> reply (Some (Errorf ''parent dir: %s exist check failed with err: %v'' (Some err)))
              | Inr parentExists \<Rightarrow>
                  if_err (if parentExists then reply None else makeDir parentDir)
                    (\<lambda>err. reply (Some (Errorf ''create of parent dir: %s dailed with error: %v'' (Some err))))
                  k))"

section \<open>CSI proxy, version 1\<close>

definition v1_ExistsPath :: "'w win \<Rightarrow> string \<Rightarrow> 'w \<Rightarrow> error + bool" where
  "v1_ExistsPath win path w = FsPathExists win (normalizeWindowsPath path) w"

definition v1_MakeDir :: "'w win \<Rightarrow> string \<Rightarrow> 'w \<Rightarrow> error option \<times> 'w" where
  "v1_MakeDir win path = wsys win (FsMkdir (normalizeWindowsPath path) NoContext)"

definition v1_Rmdir :: "'w win \<Rightarrow> string \<Rightarrow> 'w \<Rightarrow> error option \<times> 'w" where
  "v1_Rmdir win path = wsys win (FsRmdir (normalizeWindowsPath path) NoContext True)"

text \<open>The remote path that is mapped: the source with its host resolved and backslashes.\<close>

definition v1_remote :: "'w win \<Rightarrow> string \<Rightarrow> 'w \<Rightarrow> string" where
  "v1_remote win source w = TrimSuffix (ReplaceAll (resolve_source win source w) ''/'' [bslash]) [bslash]"

text \<open>
  From \<^verbatim>\<open>lock(mappingPath)\<close> to the end, a mount holds the mutex of its mapping path; an invalid path
  gives the empty mapping path.
\<close>

definition v1_map_share ::
  "'w win \<Rightarrow> bool \<Rightarrow> string \<Rightarrow> string \<Rightarrow> string \<Rightarrow> string \<Rightarrow> string \<Rightarrow> 'w \<Rightarrow> error option \<times> 'w" where
  "v1_map_share win removeSMBMapping source target username password volumeID =
     (case getRootMappingPath source of
        Inl err \<Rightarrow>
          if removeSMBMapping
          then reply (Some (Errorf ''getRootMappingPath(%s) failed with error: %v'' (Some err)))
          else if_err (wsys win (SmbNewGlobalMapping (normalizeWindowsPath target) source username password))
                 (\<lambda>err. reply (Some (Errorf ''NewSmbGlobalMapping(%s, %s) failed with error: %v'' (Some err))))
               (reply None)
      | Inr mappingPath \<Rightarrow>
          if_err (wsys win (SmbNewGlobalMapping (normalizeWindowsPath target) source username password))
            (\<lambda>err. reply (Some (Errorf ''NewSmbGlobalMapping(%s, %s) failed with error: %v'' (Some err))))
          (if removeSMBMapping
           then if_err (incementVolumeIDReferencesCount win mappingPath source volumeID)
                  (\<lambda>err. reply (Some (Errorf ''incementRemotePathReferencesCount(%s, %s, %s) failed with error: %v'' (Some err))))
                (reply None)
           else reply None))"

definition v1_SMBMount ::
  "'w win \<Rightarrow> bool \<Rightarrow> string \<Rightarrow> string \<Rightarrow> string \<Rightarrow> string list \<Rightarrow> string list \<Rightarrow> string \<Rightarrow> 'w \<Rightarrow> error option \<times> 'w" where
  "v1_SMBMount win removeSMBMapping source target fsType mountOptions sensitiveMountOptions volumeID =
     with_parent (v1_ExistsPath win) (v1_MakeDir win) target mountOptions sensitiveMountOptions (asks (\<lambda>w.
       v1_map_share win removeSMBMapping (v1_remote win source w) target
         (hd mountOptions) (hd sensitiveMountOptions) volumeID))"

text \<open>
  The part of \<^verbatim>\<open>SMBUnmount\<close> between \<^verbatim>\<open>lock(mappingPath)\<close> and the removal of the target; the mutex is
  released when \<^verbatim>\<open>SMBUnmount\<close> returns.
\<close>

definition v1_unref :: "'w win \<Rightarrow> string \<Rightarrow> string \<Rightarrow> string \<Rightarrow> 'w \<Rightarrow> error option \<times> 'w" where
  "v1_unref win mappingPath remotePath volumeID =
     if_err (decrementVolumeIDReferencesCount win mappingPath volumeID)
       (\<lambda>err. reply (Some (Errorf ''decrementRemotePathReferencesCount(%s, %s) failed with error: %v'' (Some err))))
     (bind_st (getVolumeIDReferencesCount win mappingPath) (\<lambda>count.
        if count = 0
        then if_err (wsys win (SmbRemoveGlobalMapping remotePath))
               (\<lambda>err. reply (Some (Errorf ''RemoveSmbGlobalMapping failed with error: %v'' (Some err))))
             (reply None)
        else reply None))"

definition v1_SMBUnmount :: "'w win \<Rightarrow> bool \<Rightarrow> string \<Rightarrow> string \<Rightarrow> 'w \<Rightarrow> error option \<times> 'w" where
  "v1_SMBUnmount win removeSMBMapping target volumeID = asks (\<lambda>w.
     case WReadlink win target w of
       Inl err \<Rightarrow> v1_Rmdir win target
     | Inr link \<Rightarrow>
         let remotePath = TrimSuffix link [bslash]
         in if removeSMBMapping
            then (case getRootMappingPath remotePath of
                    Inl err \<Rightarrow> reply (Some (Errorf ''getRootMappingPath(%s) failed with error: %v'' (Some err)))
                  | Inr mappingPath \<Rightarrow>
                      if_err (v1_unref win mappingPath remotePath volumeID) (\<lambda>err. reply (Some err))
                        (v1_Rmdir win target))
            else v1_Rmdir win target)"

definition v1_Mount :: "'w win \<Rightarrow> string \<Rightarrow> string \<Rightarrow> string \<Rightarrow> string list \<Rightarrow> 'w \<Rightarrow> error option \<times> 'w" where
  "v1_Mount win source target fstype options =
     wsys win (FsCreateSymlink (normalizeWindowsPath source) (normalizeWindowsPath target))"

definition v1_Unmount :: "'w win \<Rightarrow> string \<Rightarrow> 'w \<Rightarrow> error option \<times> 'w" where
  "v1_Unmount win target = v1_Rmdir win target"

definition v1_IsLikelyNotMountPoint :: "'w win \<Rightarrow> string \<Rightarrow> 'w \<Rightarrow> bool \<times> error option" where
  "v1_IsLikelyNotMountPoint win path w =
     likely_not (v1_ExistsPath win path w) (FsIsSymlink win (normalizeWindowsPath path) w)"

definition v1_IsMountPoint :: "'w win \<Rightarrow> string \<Rightarrow> 'w \<Rightarrow> bool \<times> error option" where
  "v1_IsMountPoint win file w = is_mount_point (v1_IsLikelyNotMountPoint win file w)"

definition IsMountPointMatch :: "MountPoint \<Rightarrow> string \<Rightarrow> bool" where
  "IsMountPointMatch mp dir = (mp_Path mp = dir)"

definition v1_List :: "error + MountPoint list" where
  "v1_List = Inl (not_implemented ''List'' ''CSIProxyMounter'')"

definition v1_CanSafelySkipMountPointCheck :: bool where
  "v1_CanSafelySkipMountPointCheck = False"

definition v1_GetAPIVersions :: string where
  "v1_GetAPIVersions = api_versions ''v1'' ''v1''"

definition csiProxyMounter :: "'w win \<Rightarrow> bool \<Rightarrow> 'w CSIProxyMounter" where
  "csiProxyMounter win removeSMBMapping = \<lparr>
     cm_SMBMount = v1_SMBMount win removeSMBMapping,
     cm_SMBUnmount = v1_SMBUnmount win removeSMBMapping,
     cm_Mount = v1_Mount win,
     cm_Unmount = v1_Unmount win,
     cm_MakeDir = v1_MakeDir win,
     cm_Rmdir = v1_Rmdir win,
     cm_ExistsPath = v1_ExistsPath win,
     cm_IsLikelyNotMountPoint = v1_IsLikelyNotMountPoint win,
     cm_IsMountPoint = v1_IsMountPoint win,
     cm_IsMountPointMatch = IsMountPointMatch,
     cm_CanSafelySkipMountPointCheck = v1_CanSafelySkipMountPointCheck,
     cm_List = v1_List,
     cm_MountSensitive = reply (Some (not_implemented ''MountSensitive'' ''CSIProxyMounter'')),
     cm_GetAPIVersions = v1_GetAPIVersions\<rparr>"

section \<open>CSI proxy, beta version\<close>

definition beta_ExistsPath :: "'w win \<Rightarrow> string \<Rightarrow> 'w \<Rightarrow> error + bool" where
  "beta_ExistsPath win path w = FsPathExists win (normalizeWindowsPath path) w"

definition beta_MakeDir :: "'w win \<Rightarrow> string \<Rightarrow> 'w \<Rightarrow> error option \<times> 'w" where
  "beta_MakeDir win path = wsys win (FsMkdir (normalizeWindowsPath path) PathContext_PLUGIN)"

definition beta_Rmdir :: "'w win \<Rightarrow> string \<Rightarrow> 'w \<Rightarrow> error option \<times> 'w" where
  "beta_Rmdir win path = wsys win (FsRmdir (normalizeWindowsPath path) PathContext_POD True)"

definition beta_SMBMount ::
  "'w win \<Rightarrow> string \<Rightarrow> string \<Rightarrow> string \<Rightarrow> string list \<Rightarrow> string list \<Rightarrow> string \<Rightarrow> 'w \<Rightarrow> error option \<times> 'w" where
  "beta_SMBMount win source target fsType mountOptions sensitiveMountOptions volumeID =
     with_parent (beta_ExistsPath win) (beta_MakeDir win) target mountOptions sensitiveMountOptions (asks (\<lambda>w.
       if_err (wsys win (SmbNewGlobalMapping (normalizeWindowsPath target)
                  (ReplaceAll (resolve_source win source w) ''/'' [bslash])
                  (hd mountOptions) (hd sensitiveMountOptions)))
         (\<lambda>err. reply (Some (Errorf ''smb mapping failed with error: %v'' (Some err))))
       (reply None)))"

definition beta_SMBUnmount :: "'w win \<Rightarrow> string \<Rightarrow> string \<Rightarrow> 'w \<Rightarrow> error option \<times> 'w" where
  "beta_SMBUnmount win target volumeID = beta_Rmdir win target"

definition beta_Mount :: "'w win \<Rightarrow> string \<Rightarrow> string \<Rightarrow> string \<Rightarrow> string list \<Rightarrow> 'w \<Rightarrow> error option \<times> 'w" where
  "beta_Mount win source target fstype options =
     wsys win (FsLinkPath (normalizeWindowsPath source) (normalizeWindowsPath target))"

definition beta_Unmount :: "'w win \<Rightarrow> string \<Rightarrow> 'w \<Rightarrow> error option \<times> 'w" where
  "beta_Unmount win target = beta_Rmdir win target"

definition beta_IsLikelyNotMountPoint :: "'w win \<Rightarrow> string \<Rightarrow> 'w \<Rightarrow> bool \<times> error option" where
  "beta_IsLikelyNotMountPoint win path w =
     likely_not (beta_ExistsPath win path w) (FsIsMountPoint win (normalizeWindowsPath path) w)"

definition beta_IsMountPoint :: "'w win \<Rightarrow> string \<Rightarrow> 'w \<Rightarrow> bool \<times> error option" where
  "beta_IsMountPoint win file w = is_mount_point (beta_IsLikelyNotMountPoint win file w)"

definition beta_IsMountPointMatch :: "MountPoint \<Rightarrow> string \<Rightarrow> bool" where
  "beta_IsMountPointMatch mp dir = (mp_Path mp = dir)"

definition beta_List :: "error + MountPoint list" where
  "beta_List = Inl (not_implemented ''List'' ''CSIProxyMounterV1Beta'')"

definition beta_CanSafelySkipMountPointCheck :: bool where
  "beta_CanSafelySkipMountPointCheck = False"

definition beta_GetAPIVersions :: string where
  "beta_GetAPIVersions = api_versions ''v1beta1'' ''v1beta1''"

definition csiProxyMounterV1Beta :: "'w win \<Rightarrow> 'w CSIProxyMounter" where
  "csiProxyMounterV1Beta win = \<lparr>
     cm_SMBMount = beta_SMBMount win,
     cm_SMBUnmount = beta_SMBUnmount win,
     cm_Mount = beta_Mount win,
     cm_Unmount = beta_Unmount win,
     cm_MakeDir = beta_MakeDir win,
     cm_Rmdir = beta_Rmdir win,
     cm_ExistsPath = beta_ExistsPath win,
     cm_IsLikelyNotMountPoint = beta_IsLikelyNotMountPoint win,
     cm_IsMountPoint = beta_IsMountPoint win,
     cm_IsMountPointMatch = beta_IsMountPointMatch,
     cm_CanSafelySkipMountPointCheck = beta_CanSafelySkipMountPointCheck,
     cm_List = beta_List,
     cm_MountSensitive = reply (Some (not_implemented ''MountSensitive'' ''CSIProxyMounterV1Beta'')),
     cm_GetAPIVersions = beta_GetAPIVersions\<rparr>"

section \<open>Host process containers\<close>

definition driverGlobalMountPath :: string where
  "driverGlobalMountPath =
     ''C:'' @ bslash # Join [''var'', ''lib'', ''kubelet'', ''plugins'', ''kubernetes.io'', ''csi'', ''file.csi.azure.com''] [bslash]"

definition hp_ExistsPath :: "'w win \<Rightarrow> string \<Rightarrow> 'w \<Rightarrow> error + bool" where
  "hp_ExistsPath win path w = fs_PathExists win (normalizeWindowsPath path) w"

definition hp_MakeDir :: "'w win \<Rightarrow> string \<Rightarrow> 'w \<Rightarrow> error option \<times> 'w" where
  "hp_MakeDir win path = wsys win (OsMkdirAll (normalizeWindowsPath path) 0x1ED)"

definition hp_Rmdir :: "'w win \<Rightarrow> string \<Rightarrow> 'w \<Rightarrow> error option \<times> 'w" where
  "hp_Rmdir win path = fs_Rmdir win (normalizeWindowsPath path) True"

text \<open>The mapping that is there already, unless the remote path is not valid any more.\<close>

definition hp_check_mapping ::
  "'w win \<Rightarrow> string \<Rightarrow> (bool \<Rightarrow> 'w \<Rightarrow> error option \<times> 'w) \<Rightarrow> 'w \<Rightarrow> error option \<times> 'w" where
  "hp_check_mapping win remotePath k =
     bind_st (IsSmbMapped win remotePath) (\<lambda>isMapped.
       if isMapped = Inr True
       then bind_st (PathValid win remotePath) (\<lambda>valid.
              if valid = Inr True then k True
              else if_err (RemoveSmbGlobalMapping win remotePath) (\<lambda>err. reply (Some err)) (k False))
       else k False)"

definition hp_SMBMount ::
  "'w win \<Rightarrow> string \<Rightarrow> string \<Rightarrow> string \<Rightarrow> string list \<Rightarrow> string list \<Rightarrow> string \<Rightarrow> 'w \<Rightarrow> error option \<times> 'w" where
  "hp_SMBMount win source target fsType mountOptions sensitiveMountOptions volumeID =
     with_parent (hp_ExistsPath win) (hp_MakeDir win) target mountOptions sensitiveMountOptions
       (let remotePath = ReplaceAll source ''/'' [bslash];
            localPath = normalizeWindowsPath target
        in if remotePath = '''' then reply (Some (Errorf ''remote path is empty'' None))
           else hp_check_mapping win remotePath (\<lambda>isMapped.
             if_err (if isMapped then reply None
                     else NewSmbGlobalMapping win remotePath (hd mountOptions) (hd sensitiveMountOptions))
               (\<lambda>err. reply (Some err))
             (if localPath \<noteq> ''''
              then (case ValidatePathWindows localPath of
                      Some err \<Rightarrow> reply (Some err)
                    | None \<Rightarrow>
                        if_err (wsys win (OsSymlink remotePath localPath))
                          (\<lambda>err. reply (Some (Errorf ''os.Symlink(%s, %s) failed with %v'' (Some err))))
                        (reply None))
              else reply None)))"

definition hp_SMBUnmount :: "'w win \<Rightarrow> string \<Rightarrow> string \<Rightarrow> 'w \<Rightarrow> error option \<times> 'w" where
  "hp_SMBUnmount win target volumeID =
     (let target = normalizeWindowsPath target
      in asks (\<lambda>w. ignoring
           (case GetRemoteServerFromTarget win target w of
              Inl err \<Rightarrow> reply None
            | Inr remoteServer \<Rightarrow>
                (case CheckForDuplicateSMBMounts win driverGlobalMountPath target remoteServer w of
                   Inl err \<Rightarrow> reply None
                 | Inr hasDupSMBMount \<Rightarrow>
                     if \<not> hasDupSMBMount then RemoveSmbGlobalMapping win remoteServer else reply None))
           (hp_Rmdir win target)))"

definition hp_Mount :: "'w win \<Rightarrow> string \<Rightarrow> string \<Rightarrow> string \<Rightarrow> string list \<Rightarrow> 'w \<Rightarrow> error option \<times> 'w" where
  "hp_Mount win source target fstype options =
     wsys win (OsSymlink (normalizeWindowsPath source) (normalizeWindowsPath target))"

definition hp_Unmount :: "'w win \<Rightarrow> string \<Rightarrow> 'w \<Rightarrow> error option \<times> 'w" where
  "hp_Unmount win target = hp_Rmdir win target"

definition hp_IsLikelyNotMountPoint :: "'w win \<Rightarrow> string \<Rightarrow> 'w \<Rightarrow> bool \<times> error option" where
  "hp_IsLikelyNotMountPoint win path w =
     likely_not (hp_ExistsPath win path w) (fs_IsMountPoint win (normalizeWindowsPath path) w)"

definition hp_IsMountPoint :: "'w win \<Rightarrow> string \<Rightarrow> 'w \<Rightarrow> bool \<times> error option" where
  "hp_IsMountPoint win file w = is_mount_point (hp_IsLikelyNotMountPoint win file w)"

definition hp_IsMountPointMatch :: "MountPoint \<Rightarrow> string \<Rightarrow> bool" where
  "hp_IsMountPointMatch mp dir = (mp_Path mp = dir)"

definition hp_List :: "error + MountPoint list" where
  "hp_List = Inl (not_implemented ''List'' ''CSIProxyMounter'')"

definition hp_CanSafelySkipMountPointCheck :: bool where
  "hp_CanSafelySkipMountPointCheck = False"

definition hp_GetAPIVersions :: string where
  "hp_GetAPIVersions = ''''"

definition winMounter :: "'w win \<Rightarrow> 'w CSIProxyMounter" where
  "winMounter win = \<lparr>
     cm_SMBMount = hp_SMBMount win,
     cm_SMBUnmount = hp_SMBUnmount win,
     cm_Mount = hp_Mount win,
     cm_Unmount = hp_Unmount win,
     cm_MakeDir = hp_MakeDir win,
     cm_Rmdir = hp_Rmdir win,
     cm_ExistsPath = hp_ExistsPath win,
     cm_IsLikelyNotMountPoint = hp_IsLikelyNotMountPoint win,
     cm_IsMountPoint = hp_IsMountPoint win,
     cm_IsMountPointMatch = hp_IsMountPointMatch,
     cm_CanSafelySkipMountPointCheck = hp_CanSafelySkipMountPointCheck,
     cm_List = hp_List,
     cm_MountSensitive = reply (Some (not_implemented ''MountSensitive'' ''winMounter'')),
     cm_GetAPIVersions = hp_GetAPIVersions\<rparr>"

lemmas fixed_answers [simp] = v1_List_def beta_List_def hp_List_def v1_CanSafelySkipMountPointCheck_def
  beta_CanSafelySkipMountPointCheck_def hp_CanSafelySkipMountPointCheck_def

section \<open>The methods that are refused\<close>

text \<open>
  The methods of the interface that only return an error. The first five are methods of the two
  mounters for the CSI proxy alone; the last one hands over to \<^verbatim>\<open>MountSensitive\<close>.
\<close>

datatype device_method = PathIsDevice | DeviceOpened | GetDeviceNameFromMount | MakeRShared | MakeFile

datatype refused_method =
    EvalHostSymlinks | GetMountRefs | GetFSGroup | GetSELinuxSupport | GetMode | RefusedMountSensitive
  | MountSensitiveWithoutSystemd | MountSensitiveWithoutSystemdWithMountFlags

fun device_name :: "device_method \<Rightarrow> string" where
  "device_name PathIsDevice = ''PathIsDevice''"
| "device_name DeviceOpened = ''DeviceOpened''"
| "device_name GetDeviceNameFromMount = ''GetDeviceNameFromMount''"
| "device_name MakeRShared = ''MakeRShared''"
| "device_name MakeFile = ''MakeFile''"

fun refused_name :: "refused_method \<Rightarrow> string" where
  "refused_name EvalHostSymlinks = ''EvalHostSymlinks''"
| "refused_name GetMountRefs = ''GetMountRefs''"
| "refused_name GetFSGroup = ''GetFSGroup''"
| "refused_name GetSELinuxSupport = ''GetSELinuxSupport''"
| "refused_name GetMode = ''GetMode''"
| "refused_name RefusedMountSensitive = ''MountSensitive''"
| "refused_name MountSensitiveWithoutSystemd = ''MountSensitiveWithoutSystemd''"
| "refused_name MountSensitiveWithoutSystemdWithMountFlags = ''MountSensitive''"

definition v1_device_refused :: "device_method \<Rightarrow> error" where
  "v1_device_refused m = not_implemented (device_name m) ''CSIProxyMounter''"

definition v1_refused :: "refused_method \<Rightarrow> error" where
  "v1_refused m = not_implemented (refused_name m) ''CSIProxyMounter''"

definition beta_device_refused :: "device_method \<Rightarrow> error" where
  "beta_device_refused m = not_implemented (device_name m) ''CSIProxyMounterV1Beta''"

definition beta_refused :: "refused_method \<Rightarrow> error" where
  "beta_refused m = not_implemented (refused_name m) ''CSIProxyMounterV1Beta''"

definition hp_refused :: "refused_method \<Rightarrow> error" where
  "hp_refused m = not_implemented (refused_name m) ''winMounter''"

section \<open>Choosing a mounter\<close>

definition NewCSIProxyMounter :: "'w win \<Rightarrow> bool \<Rightarrow> error + 'w CSIProxyMounter" where
  "NewCSIProxyMounter win removeSMBMapping =
     (case FsConnect win of
        Some err \<Rightarrow> Inl err
      | None \<Rightarrow> (case SmbConnect win of Some err \<Rightarrow> Inl err | None \<Rightarrow> Inr (csiProxyMounter win removeSMBMapping)))"

definition NewCSIProxyMounterV1Beta :: "'w win \<Rightarrow> error + 'w CSIProxyMounter" where
  "NewCSIProxyMounterV1Beta win =
     (case FsConnectBeta win of
        Some err \<Rightarrow> Inl err
      | None \<Rightarrow> (case SmbConnectBeta win of Some err \<Rightarrow> Inl err | None \<Rightarrow> Inr (csiProxyMounterV1Beta win)))"

definition NewSafeMounter :: "'w win \<Rightarrow> bool \<Rightarrow> bool \<Rightarrow> error + 'w CSIProxyMounter" where
  "NewSafeMounter win enableWindowsHostProcess removeSMBMappingDuringUnmount =
     (if enableWindowsHostProcess then Inr (winMounter win)
      else (case NewCSIProxyMounter win removeSMBMappingDuringUnmount of
              Inr m \<Rightarrow> Inr m
            | Inl _ \<Rightarrow> (case NewCSIProxyMounterV1Beta win of Inr m \<Rightarrow> Inr m | Inl err \<Rightarrow> Inl err)))"

end
