(* ===== verification/WinContract.thy ===== *)
theory WinContract
  imports WinMounter
begin

text \<open>
  What the three mounters have in common, as the laws of an interface that each of them satisfies,
  what the driver may conclude from it, and the environment of the driver that a mounter provides.
  The second half is about reference counting: a mapping that another volume uses is not removed.
\<close>

section \<open>Effects on a Windows node\<close>

text \<open>A node whose calls respect a relation as long as they are allowed.\<close>

locale effect_win = effect R for R :: "'w \<Rightarrow> 'w \<Rightarrow> bool" +
  fixes win :: "'w win" and allowed :: "wcall \<Rightarrow> bool"
  assumes wexec_R: "allowed c \<Longrightarrow> R w (snd (wexec win c w))"
begin

lemma keeps_wexec: "allowed c \<Longrightarrow> keeps R (wexec win c)"
  by (simp add: keeps_def wexec_R)

lemma keeps_wsys: "allowed c \<Longrightarrow> keeps R (wsys win c)"
  by (simp add: keeps_def wexec_R)

lemma keeps_powershell: "(\<And>envs. allowed (Powershell cmd envs)) \<Longrightarrow> keeps R (RunPowershellCmd win cmd envs)"
  unfolding RunPowershellCmd_def by (rule keeps_wexec)

end

definition log_win :: "'w win \<Rightarrow> ('w \<times> wcall list) win" where
  "log_win win = \<lparr>
     wexec = (\<lambda>c (w, cs). case wexec win c w of (r, w') \<Rightarrow> (r, (w', cs @ [c]))),
     WLstat = (\<lambda>p (w, _). WLstat win p w),
     WReadlink = (\<lambda>p (w, _). WReadlink win p w),
     WReadDir = (\<lambda>p (w, _). WReadDir win p w),
     FsPathExists = (\<lambda>p (w, _). FsPathExists win p w),
     FsIsSymlink = (\<lambda>p (w, _). FsIsSymlink win p w),
     FsIsMountPoint = (\<lambda>p (w, _). FsIsMountPoint win p w),
     ResolveIPAddr = (\<lambda>h (w, _). ResolveIPAddr win h w),
     FsConnect = FsConnect win,
     SmbConnect = SmbConnect win,
     FsConnectBeta = FsConnectBeta win,
     SmbConnectBeta = SmbConnectBeta win\<rparr>"

definition wlogs :: "(wcall \<Rightarrow> bool) \<Rightarrow> 'w \<times> wcall list \<Rightarrow> 'w \<times> wcall list \<Rightarrow> bool" where
  "wlogs allowed w w' \<longleftrightarrow> (\<exists>cs. snd w' = snd w @ cs \<and> list_all allowed cs)"

interpretation wlogged: effect_win "wlogs allowed" "log_win win" allowed for allowed and win :: "'w win"
proof
  show "wlogs allowed s s" for s :: "'w \<times> wcall list" by (simp add: wlogs_def)
  show "wlogs allowed s t \<Longrightarrow> wlogs allowed t u \<Longrightarrow> wlogs allowed s u" for s t u :: "'w \<times> wcall list"
    by (auto simp: wlogs_def)
  show "allowed c \<Longrightarrow> wlogs allowed w (snd (wexec (log_win win) c w))" for c and w :: "'w \<times> wcall list"
    by (auto simp: wlogs_def log_win_def split: prod.splits)
qed

section \<open>The calls of a mounter\<close>

text \<open>Removing a target: the directory itself, whichever way.\<close>

definition rmdir_calls :: "string \<Rightarrow> wcall \<Rightarrow> bool" where
  "rmdir_calls target c =
     (case c of
        OsRemoveAll p \<Rightarrow> p = normalizeWindowsPath target
      | FsRmdir p context force \<Rightarrow> p = normalizeWindowsPath target
      | _ \<Rightarrow> False)"

text \<open>
  Unmounting: removing the target, the mapping of a share, and the file of this volume in a
  directory of references.
\<close>

definition unmount_calls :: "string \<Rightarrow> string \<Rightarrow> wcall \<Rightarrow> bool" where
  "unmount_calls target volumeID c =
     (rmdir_calls target c \<or>
      (case c of
         OsMkdirAll p mode \<Rightarrow> (\<exists>m. p = ref_path m)
       | OsRemove p \<Rightarrow> (\<exists>m. p = WJoin [ref_path m, getMd5 volumeID])
       | SmbRemoveGlobalMapping remote \<Rightarrow> True
       | Powershell cmd envs \<Rightarrow> cmd = remove_mapping_cmd
       | _ \<Rightarrow> False))"

section \<open>The interface of a mounter\<close>

text \<open>
  The laws: a path that does not exist is no mount point, and says so with the error the driver
  tests for; the two queries for mount points agree; unmounting is removing; a mount without
  options is refused before anything is done; removing and unmounting make no calls but their own.
\<close>

locale proxy_mounter =
  fixes win :: "'w win" and m :: "'w CSIProxyMounter"
  assumes missing: "cm_ExistsPath m p w = Inr False \<Longrightarrow> cm_IsLikelyNotMountPoint m p w = (True, Some ErrNotExist)"
    and exists_err: "cm_ExistsPath m p w = Inl e \<Longrightarrow> cm_IsLikelyNotMountPoint m p w = (False, Some e)"
    and mount_point: "cm_IsMountPoint m p w = is_mount_point (cm_IsLikelyNotMountPoint m p w)"
    and unmount_rmdir: "cm_Unmount m p = cm_Rmdir m p"
    and no_options: "opts = [] \<or> sens = [] \<Longrightarrow> cm_SMBMount m src tgt ty opts sens v w = (Some empty_options, w)"
    and rmdir_keeps: "effect_win R win allowed \<Longrightarrow> (\<And>c. rmdir_calls p c \<Longrightarrow> allowed c) \<Longrightarrow> keeps R (cm_Rmdir m p)"
    and unmount_keeps: "effect_win R win allowed \<Longrightarrow> (\<And>c. unmount_calls p v c \<Longrightarrow> allowed c) \<Longrightarrow>
      keeps R (cm_SMBUnmount m p v)"
begin

text \<open>A mount point exists.\<close>

lemma mount_point_exists: "cm_IsMountPoint m p w = (True, e) \<Longrightarrow> e = None \<and> cm_ExistsPath m p w = Inr True"
proof -
  assume a: "cm_IsMountPoint m p w = (True, e)"
  show ?thesis
  proof (cases "cm_ExistsPath m p w")
    case (Inl err)
    then show ?thesis using a exists_err mount_point by (auto simp: is_mount_point_def)
  next
    case (Inr ex)
    then show ?thesis
      using a missing mount_point by (cases ex) (auto simp: is_mount_point_def split: prod.splits option.splits)
  qed
qed

end

context effect_win
begin

lemma keeps_fs_Rmdir: "allowed (OsRemoveAll p) \<Longrightarrow> keeps R (fs_Rmdir win p True)"
  unfolding fs_Rmdir_def by (auto intro!: keeps_intros keeps_control keeps_wsys)

lemma keeps_RemoveSmbGlobalMapping:
  "(\<And>envs. allowed (Powershell remove_mapping_cmd envs)) \<Longrightarrow> keeps R (RemoveSmbGlobalMapping win r)"
  unfolding RemoveSmbGlobalMapping_def by (auto intro!: keeps_intros keeps_control keeps_powershell)

lemma keeps_decrement:
  "(\<And>mode. allowed (OsMkdirAll (ref_path mp) mode)) \<Longrightarrow> allowed (OsRemove (WJoin [ref_path mp, getMd5 v])) \<Longrightarrow>
   keeps R (decrementVolumeIDReferencesCount win mp v)"
  unfolding decrementVolumeIDReferencesCount_def Let_def by (intro keeps_control keeps_wsys)

lemma keeps_count:
  "(\<And>mode. allowed (OsMkdirAll (ref_path mp) mode)) \<Longrightarrow> keeps R (getVolumeIDReferencesCount win mp)"
  unfolding getVolumeIDReferencesCount_def Let_def by (intro keeps_intros keeps_control keeps_wsys)

lemma keeps_v1_unref:
  "(\<And>mode. allowed (OsMkdirAll (ref_path mp) mode)) \<Longrightarrow> allowed (OsRemove (WJoin [ref_path mp, getMd5 v])) \<Longrightarrow>
   allowed (SmbRemoveGlobalMapping rp) \<Longrightarrow> keeps R (v1_unref win mp rp v)"
  unfolding v1_unref_def
  by (intro keeps_intros keeps_control keeps_wsys keeps_decrement keeps_count; assumption)

end

lemma likely_not_missing: "likely_not (Inr False) y = (True, Some ErrNotExist)" "likely_not (Inl e) y = (False, Some e)"
  by (simp_all add: likely_not_def)

lemma with_parent_no_options:
  "opts = [] \<or> sens = [] \<Longrightarrow> with_parent ex mk tgt opts sens k w = (Some empty_options, w)"
  by (auto simp: with_parent_def reply_def)

lemmas mounter_defs =
  csiProxyMounter_def csiProxyMounterV1Beta_def winMounter_def v1_IsLikelyNotMountPoint_def
  beta_IsLikelyNotMountPoint_def hp_IsLikelyNotMountPoint_def v1_IsMountPoint_def beta_IsMountPoint_def
  hp_IsMountPoint_def v1_Unmount_def beta_Unmount_def hp_Unmount_def v1_SMBMount_def beta_SMBMount_def hp_SMBMount_def

interpretation v1: proxy_mounter win "csiProxyMounter win removeSMBMapping" for win :: "'w win" and removeSMBMapping
proof
  fix R and allowed and p v :: string
  assume e: "effect_win R win allowed" and a: "\<And>c. unmount_calls p v c \<Longrightarrow> allowed c"
  have "keeps R (v1_SMBUnmount win removeSMBMapping p v)"
    unfolding v1_SMBUnmount_def v1_Rmdir_def Let_def
    by (intro keeps_intros effect.keeps_control [OF effect_win.axioms(1) [OF e]] effect_win.keeps_v1_unref [OF e]
        effect_win.keeps_wsys [OF e] a) (auto simp: unmount_calls_def rmdir_calls_def)
  then show "keeps R (cm_SMBUnmount (csiProxyMounter win removeSMBMapping) p v)" by (simp add: csiProxyMounter_def)
next
  fix R and allowed and p :: string
  assume e: "effect_win R win allowed" and a: "\<And>c. rmdir_calls p c \<Longrightarrow> allowed c"
  show "keeps R (cm_Rmdir (csiProxyMounter win removeSMBMapping) p)"
    by (auto simp: csiProxyMounter_def v1_Rmdir_def rmdir_calls_def intro!: effect_win.keeps_wsys [OF e] a)
qed (simp_all add: mounter_defs likely_not_missing with_parent_no_options)

interpretation beta: proxy_mounter win "csiProxyMounterV1Beta win" for win :: "'w win"
proof
  fix R and allowed and p v :: string
  assume e: "effect_win R win allowed" and a: "\<And>c. unmount_calls p v c \<Longrightarrow> allowed c"
  show "keeps R (cm_SMBUnmount (csiProxyMounterV1Beta win) p v)"
    by (auto simp: csiProxyMounterV1Beta_def beta_SMBUnmount_def beta_Rmdir_def unmount_calls_def rmdir_calls_def
        intro!: effect_win.keeps_wsys [OF e] a)
next
  fix R and allowed and p :: string
  assume e: "effect_win R win allowed" and a: "\<And>c. rmdir_calls p c \<Longrightarrow> allowed c"
  show "keeps R (cm_Rmdir (csiProxyMounterV1Beta win) p)"
    by (auto simp: csiProxyMounterV1Beta_def beta_Rmdir_def rmdir_calls_def intro!: effect_win.keeps_wsys [OF e] a)
qed (simp_all add: mounter_defs likely_not_missing with_parent_no_options)

interpretation hp: proxy_mounter win "winMounter win" for win :: "'w win"
proof
  fix R and allowed and p v :: string
  assume e: "effect_win R win allowed" and a: "\<And>c. unmount_calls p v c \<Longrightarrow> allowed c"
  have "keeps R (hp_SMBUnmount win p v)"
    unfolding hp_SMBUnmount_def hp_Rmdir_def Let_def
    by (intro keeps_intros effect.keeps_control [OF effect_win.axioms(1) [OF e]] effect_win.keeps_fs_Rmdir [OF e]
        effect_win.keeps_RemoveSmbGlobalMapping [OF e] a) (auto simp: unmount_calls_def rmdir_calls_def normalize_idem)
  then show "keeps R (cm_SMBUnmount (winMounter win) p v)" by (simp add: winMounter_def)
next
  fix R and allowed and p :: string
  assume e: "effect_win R win allowed" and a: "\<And>c. rmdir_calls p c \<Longrightarrow> allowed c"
  show "keeps R (cm_Rmdir (winMounter win) p)"
    by (auto simp: winMounter_def hp_Rmdir_def rmdir_calls_def intro!: effect_win.keeps_fs_Rmdir [OF e] a)
qed (simp_all add: mounter_defs likely_not_missing with_parent_no_options)

section \<open>Mappings in use\<close>

text \<open>The directories of the kubelet, which hold the targets of the mounts.\<close>

definition kubelet_path :: "string \<Rightarrow> bool" where
  "kubelet_path p = (HasPrefix (ToLower p) (''c:'' @ [bslash] @ ''var'' @ [bslash]) \<and> \<not> Contains p ''..'')"

text \<open>
  The requests to the CSI proxy lose no reference: mapping a share and making a directory remove
  nothing, removing a mapping does not touch the file system, and removing a directory of the
  kubelet removes nothing outside.
\<close>

locale share_refs = ref_store win names for win :: "'w win" and names +
  assumes map_names: "ref_dir d \<Longrightarrow> names d w \<subseteq> names d (snd (wexec win (SmbNewGlobalMapping l r u p) w))"
    and unmap_names: "ref_dir d \<Longrightarrow> names d (snd (wexec win (SmbRemoveGlobalMapping r) w)) = names d w"
    and fsmkdir_names: "ref_dir d \<Longrightarrow> names d w \<subseteq> names d (snd (wexec win (FsMkdir p ctx) w))"
    and fsrmdir_names: "ref_dir d \<Longrightarrow> kubelet_path p \<Longrightarrow> names d (snd (wexec win (FsRmdir p ctx f) w)) = names d w"
begin

lemma with_parent_keeps:
  assumes "ref_dir d" "keeps (\<lambda>w w'. names d w \<subseteq> names d w') k"
  shows "keeps (\<lambda>w w'. names d w \<subseteq> names d w') (with_parent (v1_ExistsPath win) (v1_MakeDir win) tgt opts sens k)"
proof -
  have e: "effect (\<lambda>w w'. names d w \<subseteq> names d w')" by unfold_locales auto
  have "keeps (\<lambda>w w'. names d w \<subseteq> names d w') (v1_MakeDir win (WDir tgt))"
    using fsmkdir_names [OF assms(1)] by (simp add: keeps_def v1_MakeDir_def)
  then show ?thesis
    unfolding with_parent_def Let_def
    by (intro keeps_intros effect.keeps_control [OF e] assms(2))
qed

end

text \<open>The state in which \<^verbatim>\<open>SMBMount\<close> starts to map the share, and the mapping path it finds there.\<close>

definition parent_made :: "'w win \<Rightarrow> string \<Rightarrow> string list \<Rightarrow> string list \<Rightarrow> 'w \<Rightarrow> 'w" where
  "parent_made win tgt opts sens w =
     snd (with_parent (v1_ExistsPath win) (v1_MakeDir win) tgt opts sens (reply None) w)"

definition mount_mapping :: "'w win \<Rightarrow> string \<Rightarrow> string \<Rightarrow> string list \<Rightarrow> string list \<Rightarrow> 'w \<Rightarrow> error + string" where
  "mount_mapping win src tgt opts sens w = getRootMappingPath (v1_remote win src (parent_made win tgt opts sens w))"

text \<open>
  A history of mounts and unmounts with reference counting, whatever their outcome; the volumes are
  taken from \<open>vols\<close>. The set \<open>M\<close> holds the pairs of a mapping path and a volume that was mounted
  there and has not been unmounted: a mount that succeeds adds to it, an unmount that succeeds takes
  away from it, and one that fails leaves it, for the link of the volume is then still there. The
  set \<open>L\<close> holds the pairs for which an unmount failed since the last mount that succeeded: such a
  volume may have lost its reference. An unmount of a target that is no link, or whose link leads
  to no share, concerns no mapping.
\<close>

inductive mounter_run ::
  "'w win \<Rightarrow> string set \<Rightarrow> (string \<times> string) set \<Rightarrow> (string \<times> string) set \<Rightarrow> 'w \<Rightarrow> bool" for win vols where
  start: "mounter_run win vols {} {} w"
| mount: "mounter_run win vols M L w \<Longrightarrow> v \<in> vols \<Longrightarrow> mount_mapping win src tgt opts sens w = Inr mp \<Longrightarrow>
    good_mapping mp \<Longrightarrow> v1_SMBMount win True src tgt ty opts sens v w = (r, w') \<Longrightarrow>
    mounter_run win vols (if r = None then insert (mp, v) M else M) (if r = None then L - {(mp, v)} else L) w'"
| unmount: "mounter_run win vols M L w \<Longrightarrow> v \<in> vols \<Longrightarrow> kubelet_path (normalizeWindowsPath tgt) \<Longrightarrow>
    WReadlink win tgt w = Inr link \<Longrightarrow> getRootMappingPath (TrimSuffix link [bslash]) = Inr mp \<Longrightarrow>
    good_mapping mp \<Longrightarrow> v1_SMBUnmount win True tgt v w = (r, w') \<Longrightarrow>
    mounter_run win vols (if r = None then M - {(mp, v)} else M)
      (if r = None then L - {(mp, v)} else insert (mp, v) L) w'"
| unlinked: "mounter_run win vols M L w \<Longrightarrow> kubelet_path (normalizeWindowsPath tgt) \<Longrightarrow>
    WReadlink win tgt w = Inl e \<Longrightarrow> v1_SMBUnmount win True tgt v w = (r, w') \<Longrightarrow>
    mounter_run win vols M L w'"
| unmapped: "mounter_run win vols M L w \<Longrightarrow> WReadlink win tgt w = Inr link \<Longrightarrow>
    getRootMappingPath (TrimSuffix link [bslash]) = Inl e \<Longrightarrow> v1_SMBUnmount win True tgt v w = (r, w') \<Longrightarrow>
    mounter_run win vols M L w'"

context share_refs
begin

text \<open>Every volume in use has its file.\<close>

definition counted :: "(string \<times> string) set \<Rightarrow> 'w \<Rightarrow> bool" where
  "counted A w \<longleftrightarrow> (\<forall>mp v. (mp, v) \<in> A \<longrightarrow> good_mapping mp \<longrightarrow> getMd5 v \<in> refs mp w)"

lemma refs_sub: "good_mapping mp \<Longrightarrow> keeps (\<lambda>w w'. names (ref_path mp) w \<subseteq> names (ref_path mp) w') f \<Longrightarrow>
   f w = (r, w') \<Longrightarrow> refs mp w \<subseteq> refs mp w'"
  unfolding refs_def by (drule (1) keepsD)

lemma map_share_keeps:
  assumes "good_mapping mp" "getRootMappingPath src = Inr mp'" "good_mapping mp'"
  shows "keeps (\<lambda>w w'. names (ref_path mp) w \<subseteq> names (ref_path mp) w') (v1_map_share win True src tgt user pass v)"
proof -
  have e: "effect (\<lambda>w w'. names (ref_path mp) w \<subseteq> names (ref_path mp) w')" by unfold_locales auto
  have "keeps (\<lambda>w w'. names (ref_path mp) w \<subseteq> names (ref_path mp) w') (wsys win (SmbNewGlobalMapping l r user pass))"
    for l r using map_names ref_dir_ref_path [OF assms(1)] by (simp add: keeps_def)
  then show ?thesis
    using increment_keeps [OF assms(3,1)] assms(2)
    unfolding v1_map_share_def refs_def by (auto intro!: keeps_intros effect.keeps_control [OF e])
qed

lemma with_parent_split:
  "with_parent ex mk tgt opts sens k w =
     (case with_parent ex mk tgt opts sens (reply None) w of (None, w1) \<Rightarrow> k w1 | (Some e, w1) \<Rightarrow> (Some e, w1))"
  by (auto simp: with_parent_def control_defs Let_def split: sum.splits option.splits prod.splits)

lemma SMBMount_refs:
  assumes "mount_mapping win src tgt opts sens w = Inr mp" "good_mapping mp" "good_mapping mp'"
    "v1_SMBMount win True src tgt ty opts sens v w = (r, w')"
  shows "refs mp' w \<subseteq> refs mp' w'" "r = None \<Longrightarrow> getMd5 v \<in> refs mp w'"
proof -
  let ?wp = "with_parent (v1_ExistsPath win) (v1_MakeDir win) tgt opts sens (reply None)"
  obtain e w1 where p: "?wp w = (e, w1)" by fastforce
  have w1: "w1 = parent_made win tgt opts sens w" using p by (simp add: parent_made_def)
  have k: "keeps (\<lambda>w w'. names (ref_path m) w \<subseteq> names (ref_path m) w') ?wp" if "good_mapping m" for m
    using with_parent_keeps ref_dir_ref_path [OF that] by (simp add: keeps_def reply_def)
  have s1: "refs m w \<subseteq> refs m w1" if "good_mapping m" for m by (rule refs_sub [OF that k [OF that] p])
  have m: "getRootMappingPath (v1_remote win src w1) = Inr mp" using assms(1) by (simp add: mount_mapping_def w1)
  let ?ms = "v1_map_share win True (v1_remote win src w1) tgt (hd opts) (hd sens) v"
  have c: "(r, w') = (case e of None \<Rightarrow> ?ms w1 | Some e \<Rightarrow> (Some e, w1))"
    using assms(4) unfolding v1_SMBMount_def by (subst (asm) with_parent_split) (cases e, auto simp: p asks_def)
  show "refs mp' w \<subseteq> refs mp' w'"
  proof (cases e)
    case None
    then have "?ms w1 = (r, w')" using c by simp
    then have "refs mp' w1 \<subseteq> refs mp' w'" by (rule refs_sub [OF assms(3) map_share_keeps [OF assms(3) m assms(2)]])
    then show ?thesis using s1 [OF assms(3)] by blast
  qed (use c s1 [OF assms(3)] in simp)
  show "getMd5 v \<in> refs mp w'" if "r = None"
  proof -
    have ms: "?ms w1 = (None, w')" using c that by (cases e) auto
    let ?w2 = "snd (wexec win (SmbNewGlobalMapping (normalizeWindowsPath tgt) (v1_remote win src w1) (hd opts) (hd sens)) w1)"
    have "incementVolumeIDReferencesCount win mp (v1_remote win src w1) v ?w2 = (None, w')"
      using ms m by (auto simp: v1_map_share_def control_defs wsys_def split: option.splits prod.splits)
    then show ?thesis using increment_ok [OF assms(2,2)] by auto
  qed
qed

end

context share_refs
begin

lemma unref_refs:
  assumes "good_mapping mp" "good_mapping mp'" "v1_unref win mp rp v w = (r, w')"
  shows "refs mp' w - (if mp' = mp then {getMd5 v} else {}) \<subseteq> refs mp' w'"
proof -
  obtain e w1 where d: "decrementVolumeIDReferencesCount win mp v w = (e, w1)" by fastforce
  obtain k w2 where c: "getVolumeIDReferencesCount win mp w1 = (k, w2)" by fastforce
  have s1: "refs mp' w - (if mp' = mp then {getMd5 v} else {}) \<subseteq> refs mp' w1"
    using decrement_ok [OF assms(1,2)] decrement_err [OF assms(1,2)] d by (cases e) auto
  have s2: "refs mp' w2 = refs mp' w1" using count_refs [OF assms(1,2) c] by simp
  have "refs mp' w' \<in> {refs mp' w1, refs mp' w2}"
    using assms(3) d c unmap_names [OF ref_dir_ref_path [OF assms(2)], of rp w2]
    by (auto simp: v1_unref_def control_defs wsys_def refs_def split: option.splits if_splits prod.splits)
  then show ?thesis using s1 s2 by auto
qed

lemma rmdir_refs:
  "good_mapping mp \<Longrightarrow> kubelet_path (normalizeWindowsPath tgt) \<Longrightarrow> v1_Rmdir win tgt w = (r, w') \<Longrightarrow> refs mp w' = refs mp w"
  using fsrmdir_names [OF ref_dir_ref_path] unfolding v1_Rmdir_def refs_def by (metis snd_conv wsys_simps(2))

lemma SMBUnmount_refs:
  assumes "good_mapping mp" "good_mapping mp'" "kubelet_path (normalizeWindowsPath tgt)" "WReadlink win tgt w = Inr link"
    "getRootMappingPath (TrimSuffix link [bslash]) = Inr mp" "v1_SMBUnmount win True tgt v w = (r, w')"
  shows "refs mp' w - (if mp' = mp then {getMd5 v} else {}) \<subseteq> refs mp' w'"
proof -
  obtain e w1 where u: "v1_unref win mp (TrimSuffix link [bslash]) v w = (e, w1)" by fastforce
  have "(case e of None \<Rightarrow> v1_Rmdir win tgt w1 | Some e \<Rightarrow> (Some e, w1)) = (r, w')"
    using assms(4-6) u by (auto simp: v1_SMBUnmount_def control_defs split: option.splits)
  then have "refs mp' w' = refs mp' w1" by (cases e) (auto dest: rmdir_refs [OF assms(2,3)])
  then show ?thesis using unref_refs [OF assms(1,2) u] by simp
qed

lemma run_counted:
  assumes "mounter_run win vols M L w" "inj_on getMd5 vols"
  shows "counted (M - L) w \<and> snd ` M \<subseteq> vols"
  using assms(1)
proof induction
  case (mount M L w v src tgt opts sens mp ty r w')
  let ?A = "(if r = None then insert (mp, v) M else M) - (if r = None then L - {(mp, v)} else L)"
  have "getMd5 v2 \<in> refs m2 w'" if a: "(m2, v2) \<in> ?A" "good_mapping m2" for m2 v2
  proof (cases "(m2, v2) \<in> M - L")
    case True
    then have "getMd5 v2 \<in> refs m2 w" using a(2) mount.IH by (simp add: counted_def)
    then show ?thesis using SMBMount_refs(1) [OF mount.hyps(3,4) a(2) mount.hyps(5)] by blast
  next
    case False
    then have "r = None" "m2 = mp" "v2 = v" using a(1) by (auto split: if_splits)
    then show ?thesis using SMBMount_refs(2) [OF mount.hyps(3,4,4,5)] by simp
  qed
  then show ?case using mount.IH mount.hyps(2) by (auto simp: counted_def split: if_splits)
next
  case (unmount M L w v tgt link mp r w')
  let ?A = "(if r = None then M - {(mp, v)} else M) - (if r = None then L - {(mp, v)} else insert (mp, v) L)"
  have "getMd5 v2 \<in> refs m2 w'" if a: "(m2, v2) \<in> ?A" "good_mapping m2" for m2 v2
  proof -
    have a': "(m2, v2) \<in> M - L - {(mp, v)}" using a(1) by (auto split: if_splits)
    then have "getMd5 v2 \<in> refs m2 w" using a(2) unmount.IH by (auto simp: counted_def)
    moreover have "getMd5 v2 \<noteq> getMd5 v" if "m2 = mp"
      using a' that unmount.IH unmount.hyps(2) assms(2) by (auto simp: inj_on_def image_subset_iff)
    ultimately show ?thesis
      using SMBUnmount_refs [OF unmount.hyps(6) a(2) unmount.hyps(3,4,5,7)] by (auto split: if_splits)
  qed
  then show ?case using unmount.IH by (auto simp: counted_def split: if_splits)
next
  case (unlinked M L w tgt e v r w')
  have "v1_Rmdir win tgt w = (r, w')" using unlinked.hyps(3,4) by (simp add: v1_SMBUnmount_def asks_def)
  then show ?case using rmdir_refs unlinked.hyps(2) unlinked.IH by (simp add: counted_def)
next
  case (unmapped M L w tgt link e v r w')
  then have "w' = w" by (simp add: v1_SMBUnmount_def control_defs)
  then show ?case using unmapped.IH by simp
qed (simp add: counted_def)

text \<open>As long as another volume has its file, the count is not zero.\<close>

lemma unref_in_use:
  assumes "good_mapping mp" "n \<in> refs mp w" "n \<noteq> getMd5 v"
  shows "v1_unref win mp rp v w =
    (case decrementVolumeIDReferencesCount win mp v w of
       (Some err, w1) \<Rightarrow>
         (Some (Errorf ''decrementRemotePathReferencesCount(%s, %s) failed with error: %v'' (Some err)), w1)
     | (None, w1) \<Rightarrow> (None, snd (getVolumeIDReferencesCount win mp w1)))"
proof -
  obtain e w1 where d: "decrementVolumeIDReferencesCount win mp v w = (e, w1)" by fastforce
  obtain k w2 where c: "getVolumeIDReferencesCount win mp w1 = (k, w2)" by fastforce
  have "k \<noteq> 0" if "e = None"
  proof -
    have "n \<in> refs mp w2"
      using decrement_ok [OF assms(1,1)] d that count_refs [OF assms(1,1) c] assms(2,3) by auto
    then show ?thesis using count_refs [OF assms(1,1) c] by (auto simp: card_gt_0_iff)
  qed
  then show ?thesis using d c by (cases e) (auto simp: v1_unref_def control_defs)
qed

end

text \<open>The laws hold of a node that logs its calls if they hold of the node.\<close>

lemma wexec_log: "wexec (log_win win) c w = (fst (wexec win c (fst w)), (snd (wexec win c (fst w)), snd w @ [c]))"
  by (simp add: log_win_def case_prod_beta)

lemma queries_log:
  "WReadDir (log_win win) d w = WReadDir win d (fst w)" "WReadlink (log_win win) d w = WReadlink win d (fst w)"
  by (simp_all add: log_win_def case_prod_beta)

context share_refs
begin

lemma logged_laws: "share_refs (log_win win) (\<lambda>d w. names d (fst w))"
proof unfold_locales
  fix d d' n x and w w' :: "'w \<times> wcall list" and e
  assume a: "ref_dir d" "ref_dir d'" "hex_name n"
  show "wexec (log_win win) (OsCreate (d @ bslash # n)) w = (Inr x, w') \<Longrightarrow>
      names d' (fst w') = (if d' = d then insert n (names d' (fst w)) else names d' (fst w))"
    unfolding wexec_log by (rule create_ok [OF a]) (auto simp: prod_eq_iff)
  show "wexec (log_win win) (OsCreate (d @ bslash # n)) w = (Inl e, w') \<Longrightarrow> names d' (fst w') = names d' (fst w)"
    unfolding wexec_log by (rule create_err [OF a]) (auto simp: prod_eq_iff)
  show "wexec (log_win win) (OsRemove (d @ bslash # n)) w = (Inr x, w') \<Longrightarrow>
      n \<in> names d (fst w) \<and> names d' (fst w') = (if d' = d then names d' (fst w) - {n} else names d' (fst w))"
    unfolding wexec_log by (rule remove_ok [OF a]) (auto simp: prod_eq_iff)
  show "wexec (log_win win) (OsRemove (d @ bslash # n)) w = (Inl e, w') \<Longrightarrow> names d' (fst w') = names d' (fst w)"
    unfolding wexec_log by (rule remove_err [OF a]) (auto simp: prod_eq_iff)
next
  show "ref_dir d \<Longrightarrow> WReadDir (log_win win) d w = Inr files \<Longrightarrow>
      set (map fst files) = names d (fst w) \<and> distinct (map fst files)" for d files and w :: "'w \<times> wcall list"
    unfolding queries_log by (rule readdir_names)
qed (simp_all add: wexec_log queries_log mkdir_names write_names close_names map_names unmap_names
       fsmkdir_names fsrmdir_names)

end

definition removes_mapping :: "wcall \<Rightarrow> bool" where
  "removes_mapping c = (case c of SmbRemoveGlobalMapping r \<Rightarrow> True | Powershell cmd envs \<Rightarrow> cmd = remove_mapping_cmd | _ \<Rightarrow> False)"

context share_refs
begin

lemma in_use_spared:
  assumes "good_mapping mp" "n \<in> refs mp w" "n \<noteq> getMd5 v" "WReadlink win tgt w = Inr link"
    "getRootMappingPath (TrimSuffix link [bslash]) = Inr mp"
    "v1_SMBUnmount (log_win win) True tgt v (w, []) = (r, (w', cs))"
  shows "list_all (\<lambda>c. \<not> removes_mapping c) cs"
proof -
  let ?ok = "\<lambda>c. \<not> removes_mapping c"
  let ?R = "wlogs ?ok :: 'w \<times> wcall list \<Rightarrow> _ \<Rightarrow> bool"
  let ?rp = "TrimSuffix link [bslash]"
  have u: "v1_unref (log_win win) mp ?rp v (w, []) =
      (case decrementVolumeIDReferencesCount (log_win win) mp v (w, []) of
         (Some err, w1) \<Rightarrow>
           (Some (Errorf ''decrementRemotePathReferencesCount(%s, %s) failed with error: %v'' (Some err)), w1)
       | (None, w1) \<Rightarrow> (None, snd (getVolumeIDReferencesCount (log_win win) mp w1)))"
    by (rule share_refs.unref_in_use [OF logged_laws assms(1) _ assms(3)])
       (use assms(2) in \<open>simp add: refs_def ref_store.refs_def [OF share_refs.axioms(1) [OF logged_laws]]\<close>)
  have k: "keeps ?R (decrementVolumeIDReferencesCount (log_win win) mp v)"
      "keeps ?R (getVolumeIDReferencesCount (log_win win) mp)" "keeps ?R (v1_Rmdir (log_win win) tgt)"
    unfolding v1_Rmdir_def
    by (intro wlogged.keeps_decrement wlogged.keeps_count wlogged.keeps_wsys; simp add: removes_mapping_def)+
  obtain e w1 where d: "decrementVolumeIDReferencesCount (log_win win) mp v (w, []) = (e, w1)"
    by (meson surj_pair)
  let ?w2 = "snd (getVolumeIDReferencesCount (log_win win) mp w1)"
  have e: "(w', cs) = (case e of None \<Rightarrow> snd (v1_Rmdir (log_win win) tgt ?w2) | Some _ \<Rightarrow> w1)"
    using assms(4-6) u d
    by (cases e) (auto simp: v1_SMBUnmount_def control_defs queries_log split: option.splits)
  have "?R (w, []) w1" by (rule keepsD [OF k(1) d])
  moreover have "?R w1 ?w2" "?R ?w2 (snd (v1_Rmdir (log_win win) tgt ?w2))"
    using k(2,3) unfolding keeps_def by blast+
  ultimately have "?R (w, []) (w', cs)"
    unfolding e using wlogged.R_trans by (cases e) (simp_all, blast)
  then show ?thesis by (simp add: wlogs_def)
qed

end

text \<open>
  C10. A mapping in use is not removed: with reference counting in the CSI proxy mounter, after any
  history of mounts and unmounts, successful or not, of volumes whose ids have distinct MD5 sums,
  unmounting a volume sends no request to remove the mapping of its share while another volume is
  mounted from that share, was not unmounted since, and no attempt to unmount that other volume
  failed since it was mounted. The environment keeps the laws of the reference directories, host
  and share are plain names, and the targets lie in the directory of the kubelet. (After a failed
  attempt the other volume may have lost its reference while it is still linked: see the next
  section.)
\<close>

theorem mapping_in_use_kept:
  assumes "share_refs win names" "inj_on getMd5 vols" "mounter_run win vols M L w"
    and "v \<in> vols" "WReadlink win tgt w = Inr link" "getRootMappingPath (TrimSuffix link [bslash]) = Inr mp" "good_mapping mp"
    and "(mp, v') \<in> M" "(mp, v') \<notin> L" "v' \<noteq> v"
    and "v1_SMBUnmount (log_win win) True tgt v (w, []) = (r, (w', cs))"
  shows "list_all (\<lambda>c. \<not> removes_mapping c) cs"
proof -
  have c: "share_refs.counted names (M - L) w" "v' \<in> vols"
    using share_refs.run_counted [OF assms(1,3,2)] assms(8) by auto
  then have "getMd5 v' \<in> ref_store.refs names mp w"
    using assms(7-9) by (simp add: share_refs.counted_def [OF assms(1)])
  moreover have "getMd5 v' \<noteq> getMd5 v" using assms(2,4,10) c(2) by (auto simp: inj_on_def)
  ultimately show ?thesis using share_refs.in_use_spared [OF assms(1,7) _ _ assms(5,6,11)] by blast
qed

section \<open>Unmounting touches its own\<close>

lemma mounter_cases:
  assumes "NewSafeMounter win host rm = Inr m"
  shows "proxy_mounter win m"
  using assms v1.proxy_mounter_axioms [of win rm] beta.proxy_mounter_axioms [of win] hp.proxy_mounter_axioms [of win]
  by (auto simp: NewSafeMounter_def NewCSIProxyMounter_def NewCSIProxyMounterV1Beta_def split: if_splits sum.splits option.splits)

text \<open>
  C11. Whichever mounter \<^verbatim>\<open>NewSafeMounter\<close> chooses, unmounting a volume removes the target path and
  nothing else that is mounted or stored on the node: its calls remove that path, the mapping of a
  share, and the file of this volume among the references.
\<close>

theorem unmount_confined:
  assumes "NewSafeMounter (log_win win) host rm = Inr m"
    and "cm_SMBUnmount m target volumeID (w, []) = (r, (w', cs))"
  shows "list_all (unmount_calls target volumeID) cs"
proof -
  have "effect_win (wlogs (unmount_calls target volumeID)) (log_win win) (unmount_calls target volumeID)"
    by (rule wlogged.effect_win_axioms)
  then have "keeps (wlogs (unmount_calls target volumeID)) (cm_SMBUnmount m target volumeID)"
    by (rule proxy_mounter.unmount_keeps [OF mounter_cases [OF assms(1)]])
  from keepsD [OF this assms(2)] show ?thesis by (simp add: wlogs_def)
qed

section \<open>Unmounting again\<close>

context share_refs
begin

text \<open>Without its file, a volume cannot be unmounted: removing the file fails first.\<close>

lemma unmount_uncounted:
  assumes "good_mapping mp" "getMd5 v \<notin> refs mp w" "WReadlink win tgt w = Inr link"
    "getRootMappingPath (TrimSuffix link [bslash]) = Inr mp" "v1_SMBUnmount win True tgt v w = (r, w')"
  shows "r \<noteq> None \<and> refs mp w' = refs mp w"
proof -
  obtain e w1 where d: "decrementVolumeIDReferencesCount win mp v w = (e, w1)" by fastforce
  then obtain err where e: "e = Some err" using decrement_ok [OF assms(1,1)] assms(2) by (cases e) auto
  then have "r \<noteq> None" "w' = w1"
    using assms(3-5) d by (auto simp: v1_SMBUnmount_def v1_unref_def control_defs)
  then show ?thesis using decrement_err [OF assms(1,1)] d e by simp
qed

text \<open>An unmount never adds a file, and once it has removed the file of the volume, that is gone.\<close>

lemma unref_refs_sub:
  assumes "good_mapping mp" "good_mapping mp'" "v1_unref win mp rp v w = (r, w')"
    and "decrementVolumeIDReferencesCount win mp v w = (d, w1)"
  shows "refs mp' w' = refs mp' w1" "refs mp' w1 \<subseteq> refs mp' w" "d = None \<Longrightarrow> getMd5 v \<notin> refs mp w1"
proof -
  obtain k w2 where c: "getVolumeIDReferencesCount win mp w1 = (k, w2)" by fastforce
  have "refs mp' w2 = refs mp' w1" using count_refs [OF assms(1,2) c] by simp
  then show "refs mp' w' = refs mp' w1"
    using assms(3,4) c unmap_names [OF ref_dir_ref_path [OF assms(2)], of rp w2]
    by (auto simp: v1_unref_def control_defs wsys_def refs_def split: option.splits if_splits prod.splits)
  show "refs mp' w1 \<subseteq> refs mp' w"
    using decrement_ok [OF assms(1,2)] decrement_err [OF assms(1,2)] assms(4) by (cases d) auto
  show "getMd5 v \<notin> refs mp w1" if "d = None" using decrement_ok [OF assms(1,1)] assms(4) that by simp
qed

lemma SMBUnmount_split:
  assumes "WReadlink win tgt w = Inr link" "getRootMappingPath (TrimSuffix link [bslash]) = Inr mp"
    "v1_SMBUnmount win True tgt v w = (r, w')"
  obtains e w1 where "v1_unref win mp (TrimSuffix link [bslash]) v w = (e, w1)"
    "(case e of None \<Rightarrow> v1_Rmdir win tgt w1 | Some e \<Rightarrow> (Some e, w1)) = (r, w')"
proof -
  obtain e w1 where u: "v1_unref win mp (TrimSuffix link [bslash]) v w = (e, w1)" by fastforce
  moreover have "(case e of None \<Rightarrow> v1_Rmdir win tgt w1 | Some e \<Rightarrow> (Some e, w1)) = (r, w')"
    using assms u by (auto simp: v1_SMBUnmount_def control_defs split: option.splits)
  ultimately show ?thesis by (rule that)
qed

lemma SMBUnmount_refs_sub:
  assumes "good_mapping mp" "good_mapping mp'" "kubelet_path (normalizeWindowsPath tgt)" "WReadlink win tgt w = Inr link"
    "getRootMappingPath (TrimSuffix link [bslash]) = Inr mp" "v1_SMBUnmount win True tgt v w = (r, w')"
  shows "refs mp' w' \<subseteq> refs mp' w"
    and "decrementVolumeIDReferencesCount win mp v w = (None, w0) \<Longrightarrow> getMd5 v \<notin> refs mp w'"
proof -
  obtain e w1 where u: "v1_unref win mp (TrimSuffix link [bslash]) v w = (e, w1)"
    and e: "(case e of None \<Rightarrow> v1_Rmdir win tgt w1 | Some e \<Rightarrow> (Some e, w1)) = (r, w')"
    by (rule SMBUnmount_split [OF assms(4-6)])
  obtain d w2 where d: "decrementVolumeIDReferencesCount win mp v w = (d, w2)" by fastforce
  have k: "refs m w' = refs m w1" if "good_mapping m" for m
    using e by (cases e) (auto dest: rmdir_refs [OF that assms(3)])
  show "refs mp' w' \<subseteq> refs mp' w"
    using k [OF assms(2)] unref_refs_sub(1,2) [OF assms(1,2) u d] by simp
  show "getMd5 v \<notin> refs mp w'" if "decrementVolumeIDReferencesCount win mp v w = (None, w0)"
    using that k [OF assms(1)] unref_refs_sub(1,3) [OF assms(1,1) u d] d by simp
qed

end

text \<open>
  A step of a node on which volumes are only unmounted: of any volume, at any target in the
  directory of the kubelet, with whatever result.
\<close>

inductive unmount_step :: "'w win \<Rightarrow> 'w \<Rightarrow> 'w \<Rightarrow> bool" for win where
  linked: "kubelet_path (normalizeWindowsPath tgt) \<Longrightarrow> WReadlink win tgt w = Inr link \<Longrightarrow>
    getRootMappingPath (TrimSuffix link [bslash]) = Inr mp \<Longrightarrow> good_mapping mp \<Longrightarrow>
    v1_SMBUnmount win True tgt u w = (r, w') \<Longrightarrow> unmount_step win w w'"
| unlinked: "kubelet_path (normalizeWindowsPath tgt) \<Longrightarrow> WReadlink win tgt w = Inl e \<Longrightarrow>
    v1_SMBUnmount win True tgt u w = (r, w') \<Longrightarrow> unmount_step win w w'"
| unmapped: "WReadlink win tgt w = Inr link \<Longrightarrow> getRootMappingPath (TrimSuffix link [bslash]) = Inl e \<Longrightarrow>
    v1_SMBUnmount win True tgt u w = (r, w') \<Longrightarrow> unmount_step win w w'"

context share_refs
begin

lemma unmount_step_refs:
  assumes "unmount_step win w w'" "good_mapping mp"
  shows "refs mp w' \<subseteq> refs mp w"
  using assms(1)
proof cases
  case (linked tgt link mp' u r)
  then show ?thesis using SMBUnmount_refs_sub(1) [OF linked(4) assms(2) linked(1-3,5)] by blast
next
  case (unlinked tgt e u r)
  then have "v1_Rmdir win tgt w = (r, w')" by (simp add: v1_SMBUnmount_def asks_def)
  then show ?thesis using rmdir_refs [OF assms(2) unlinked(1)] by simp
next
  case (unmapped tgt link e u r)
  then show ?thesis by (simp add: v1_SMBUnmount_def control_defs)
qed

lemma unmount_steps_refs:
  "(unmount_step win)\<^sup>*\<^sup>* w w' \<Longrightarrow> good_mapping mp \<Longrightarrow> refs mp w' \<subseteq> refs mp w"
  by (induction rule: rtranclp_induct) (use unmount_step_refs in blast)+

end

text \<open>
  C39. A failed unmount cannot be repeated: when an unmount of a volume by the CSI proxy mounter
  with reference counting has removed the reference of the volume and then fails, because the
  mapping of the share or the target could not be removed, then, as long as volumes are only
  unmounted after that (this one or others, at whatever targets of the kubelet, with whatever
  result), every attempt to unmount the volume at a target that still leads to that share fails,
  and leaves the reference missing. The environment keeps the laws of the reference directories;
  host and share are plain names.
\<close>

theorem unmount_not_retryable:
  assumes "share_refs win names" "good_mapping mp" "kubelet_path (normalizeWindowsPath tgt)"
    and "WReadlink win tgt w = Inr link" "getRootMappingPath (TrimSuffix link [bslash]) = Inr mp"
    and "decrementVolumeIDReferencesCount win mp v w = (None, w0)"
    and "v1_SMBUnmount win True tgt v w = (Some err, w1)"
    and "(unmount_step win)\<^sup>*\<^sup>* w1 w2"
    and "WReadlink win tgt2 w2 = Inr link2" "getRootMappingPath (TrimSuffix link2 [bslash]) = Inr mp"
  shows "fst (v1_SMBUnmount win True tgt2 v w2) \<noteq> None \<and>
    getMd5 v \<notin> names (ref_path mp) (snd (v1_SMBUnmount win True tgt2 v w2))"
proof -
  note refs = ref_store.refs_def [OF share_refs.axioms(1) [OF assms(1)]]
  have "getMd5 v \<notin> ref_store.refs names mp w1"
    by (rule share_refs.SMBUnmount_refs_sub(2) [OF assms(1,2,2-5,7,6)])
  then have n: "getMd5 v \<notin> ref_store.refs names mp w2"
    using share_refs.unmount_steps_refs [OF assms(1,8,2)] by blast
  obtain r w3 where u: "v1_SMBUnmount win True tgt2 v w2 = (r, w3)" by fastforce
  from share_refs.unmount_uncounted [OF assms(1,2) n assms(9,10) u] show ?thesis
    using n u by (simp add: refs)
qed

section \<open>Mappings and the host process mounter\<close>

text \<open>
  The host process mounter keeps no references. Before it removes the mapping of a share it looks
  for another directory that is linked to the same server, among the entries of
  \<^const>\<open>driverGlobalMountPath\<close>.
\<close>

definition other_mount :: "'w win \<Rightarrow> string \<Rightarrow> string \<Rightarrow> 'w \<Rightarrow> string \<times> bool \<Rightarrow> bool" where
  "other_mount win target server w file \<longleftrightarrow>
     (let path = WJoin [driverGlobalMountPath, fst file, ''globalmount'']
      in snd file \<and> \<not> EqualFold (WClean path) (WClean target) \<and> WLstat win path w = Inr True \<and>
         GetRemoteServerFromTarget win path w = Inr server)"

text \<open>The server whose mapping an unmount removes, if it removes one.\<close>

definition hp_unmapped :: "'w win \<Rightarrow> string \<Rightarrow> 'w \<Rightarrow> string option" where
  "hp_unmapped win target w =
     (case (GetRemoteServerFromTarget win target w, WReadDir win driverGlobalMountPath w) of
        (Inr server, Inr files) \<Rightarrow> if list_ex (other_mount win target server w) files then None else Some server
      | _ \<Rightarrow> None)"

lemma dup_loop_iff: "dup_loop win driverGlobalMountPath target server files w \<longleftrightarrow> list_ex (other_mount win target server w) files"
  by (induction win "driverGlobalMountPath" target server files w rule: dup_loop.induct)
     (auto simp: other_mount_def Let_def)

lemma WLstat_log: "WLstat (log_win win) p w = WLstat win p (fst w)"
  by (simp add: log_win_def case_prod_beta)

lemma hp_queries_log:
  "GetRemoteServerFromTarget (log_win win) p w = GetRemoteServerFromTarget win p (fst w)"
  "other_mount (log_win win) target server w = other_mount win target server (fst w)"
  by (simp_all add: GetRemoteServerFromTarget_def queries_log other_mount_def fun_eq_iff WLstat_log)

lemma unmap_log:
  "\<exists>r w'. RemoveSmbGlobalMapping (log_win win) server (w, cs) =
     (r, (w', cs @ [Powershell remove_mapping_cmd [''smbremotepath='' @ TrimSuffix server [bslash]]]))"
  by (auto simp: RemoveSmbGlobalMapping_def RunPowershellCmd_def bind_st_def wexec_log reply_def split: sum.split)

text \<open>
  C40. When the host process mounter removes a mapping: for every Windows environment, the first
  call of \<^verbatim>\<open>SMBUnmount\<close> removes the mapping of the server that the target's link names, exactly if
  that link can be read, the directory \<^const>\<open>driverGlobalMountPath\<close> can be listed, and none of its
  sub-directories other than the target's has a \<^verbatim>\<open>globalmount\<close> link to the same server; all its
  other calls remove the target. That directory belongs to another driver
  (\<^verbatim>\<open>file.csi.azure.com\<close>), so the volumes of this driver are not looked at: a mapping that they
  use is removed all the same.
\<close>

theorem host_process_unmap:
  "\<exists>cs. snd (snd (hp_SMBUnmount (log_win win) target volumeID (w, []))) =
      (case hp_unmapped win (normalizeWindowsPath target) w of
         None \<Rightarrow> []
       | Some server \<Rightarrow> [Powershell remove_mapping_cmd [''smbremotepath='' @ TrimSuffix server [bslash]]]) @ cs \<and>
    list_all (rmdir_calls target) cs"
proof -
  let ?t = "normalizeWindowsPath target"
  let ?k = "hp_Rmdir (log_win win) ?t"
  have k: "keeps (wlogs (rmdir_calls target)) ?k"
    unfolding hp_Rmdir_def by (rule wlogged.keeps_fs_Rmdir) (simp add: rmdir_calls_def normalize_idem)
  have step: "\<exists>cs'. snd (snd (?k (w', cs))) = cs @ cs' \<and> list_all (rmdir_calls target) cs'" for w' cs
    using k by (simp add: keeps_def wlogs_def)
  have "\<exists>w'. hp_SMBUnmount (log_win win) target volumeID (w, []) =
      ?k (w', case hp_unmapped win ?t w of None \<Rightarrow> []
        | Some server \<Rightarrow> [Powershell remove_mapping_cmd [''smbremotepath='' @ TrimSuffix server [bslash]]])"
  proof (cases "hp_unmapped win ?t w")
    case None
    then have "hp_SMBUnmount (log_win win) target volumeID (w, []) = ?k (w, [])"
      by (auto simp: hp_SMBUnmount_def Let_def hp_unmapped_def CheckForDuplicateSMBMounts_def dup_loop_iff hp_queries_log
          queries_log asks_def ignoring_def bind_st_def reply_def split: sum.splits if_splits)
    then show ?thesis using None by auto
  next
    case (Some server)
    then have "hp_SMBUnmount (log_win win) target volumeID (w, []) =
        ignoring (RemoveSmbGlobalMapping (log_win win) server) ?k (w, [])"
      by (auto simp: hp_SMBUnmount_def Let_def hp_unmapped_def CheckForDuplicateSMBMounts_def dup_loop_iff hp_queries_log
          queries_log asks_def split: sum.splits if_splits)
    then show ?thesis
      using Some unmap_log [of win server w "[]"] by (auto simp: ignoring_def bind_st_def)
  qed
  then obtain w' where "hp_SMBUnmount (log_win win) target volumeID (w, []) =
      ?k (w', case hp_unmapped win ?t w of None \<Rightarrow> []
        | Some server \<Rightarrow> [Powershell remove_mapping_cmd [''smbremotepath='' @ TrimSuffix server [bslash]]])" ..
  then show ?thesis by (simp only: step)
qed

end
