(* ===== verification/WinSync.thy ===== *)
theory WinSync
  imports Prelude
begin

text \<open>
  The two ways in which goroutines wait for each other on a Windows node: the mutex per mapping
  path (\<^verbatim>\<open>lock\<close> in \<^verbatim>\<open>pkg/mounter/refcounter_windows.go\<close>) and the semaphore that bounds the number of
  PowerShell processes (\<^verbatim>\<open>powershellCmdSem\<close> in \<^verbatim>\<open>pkg/util/util.go\<close>). Both hand out a bounded number of
  places per key, block the caller when there is none, and give the place back by a deferred call:
  one step relation and one interface serve both.
\<close>

section \<open>The two primitives\<close>

text \<open>
  \<^verbatim>\<open>mutexes\<close>: the mutexes made so far, and whether each is locked. The outcome \<^term>\<open>None\<close> says that
  the caller blocks; the mutex that \<^verbatim>\<open>LoadOrStore\<close> may have stored is unlocked, as a missing one is.
\<close>

type_synonym mutexes = "(string \<times> bool) list"

definition LoadOrStore :: "string \<Rightarrow> mutexes \<Rightarrow> bool \<times> mutexes" where
  "LoadOrStore key m =
     (case map_of m key of Some locked \<Rightarrow> (locked, m) | None \<Rightarrow> (False, map_put key False m))"

definition lock :: "string \<Rightarrow> mutexes \<Rightarrow> mutexes option" where
  "lock key m =
     (case LoadOrStore key m of (locked, m') \<Rightarrow> if locked then None else Some (map_put key True m'))"

definition unlock :: "string \<Rightarrow> mutexes \<Rightarrow> mutexes" where
  "unlock key m = map_put key False m"

text \<open>\<^verbatim>\<open>powershellCmdSem\<close>, a channel with a buffer of three: sending blocks when the buffer is full.\<close>

definition powershellCmdSem :: nat where
  "powershellCmdSem = 3"

definition sem_acquire :: "unit \<Rightarrow> nat \<Rightarrow> nat option" where
  "sem_acquire _ buffered = (if buffered < powershellCmdSem then Some (buffered + 1) else None)"

definition sem_release :: "unit \<Rightarrow> nat \<Rightarrow> nat" where
  "sem_release _ buffered = buffered - 1"

section \<open>Goroutines\<close>

datatype gpc = Outside | Blocked | Inside

record 's gsys =
  shared :: 's
  gpcs :: "nat \<Rightarrow> gpc"

text \<open>
  A goroutine asks for a place, gets one when there is one, and gives it back when it is done. It
  may come again.
\<close>

inductive slot_step ::
  "('k \<Rightarrow> 's \<Rightarrow> 's option) \<Rightarrow> ('k \<Rightarrow> 's \<Rightarrow> 's) \<Rightarrow> (nat \<Rightarrow> 'k) \<Rightarrow> 's gsys \<Rightarrow> 's gsys \<Rightarrow> bool"
  for acquire release gkey where
  ask: "gpcs g i = Outside \<Longrightarrow> slot_step acquire release gkey g (g\<lparr>gpcs := (gpcs g)(i := Blocked)\<rparr>)"
| enter: "gpcs g i = Blocked \<Longrightarrow> acquire (gkey i) (shared g) = Some s \<Longrightarrow>
    slot_step acquire release gkey g (g\<lparr>shared := s, gpcs := (gpcs g)(i := Inside)\<rparr>)"
| leave: "gpcs g i = Inside \<Longrightarrow>
    slot_step acquire release gkey g
      (g\<lparr>shared := release (gkey i) (shared g), gpcs := (gpcs g)(i := Outside)\<rparr>)"

inductive slot_reachable ::
  "('k \<Rightarrow> 's \<Rightarrow> 's option) \<Rightarrow> ('k \<Rightarrow> 's \<Rightarrow> 's) \<Rightarrow> 's \<Rightarrow> (nat \<Rightarrow> 'k) \<Rightarrow> 's gsys \<Rightarrow> bool"
  for acquire release init gkey where
  start: "slot_reachable acquire release init gkey \<lparr>shared = init, gpcs = (\<lambda>_. Outside)\<rparr>"
| step: "slot_reachable acquire release init gkey g \<Longrightarrow> slot_step acquire release gkey g h \<Longrightarrow>
    slot_reachable acquire release init gkey h"

definition inside :: "(nat \<Rightarrow> 'k) \<Rightarrow> 's gsys \<Rightarrow> 'k \<Rightarrow> nat set" where
  "inside gkey g k = {i. gpcs g i = Inside \<and> gkey i = k}"

section \<open>The interface\<close>

text \<open>
  \<open>used s k\<close> is the number of places taken under a key. A place is given out exactly when fewer
  than \<open>cap\<close> are taken, and the other keys do not matter.
\<close>

locale slots =
  fixes acquire :: "'k \<Rightarrow> 's \<Rightarrow> 's option" and release :: "'k \<Rightarrow> 's \<Rightarrow> 's" and init :: 's
    and used :: "'s \<Rightarrow> 'k \<Rightarrow> nat" and cap :: nat
  assumes used_init: "used init k = 0"
    and acquire_ok: "acquire k s = Some t \<Longrightarrow> used s k < cap \<and> used t = (used s)(k := used s k + 1)"
    and acquire_full: "acquire k s = None \<Longrightarrow> cap \<le> used s k"
    and release_ok: "used s k \<noteq> 0 \<Longrightarrow> used (release k s) = (used s)(k := used s k - 1)"
begin

definition slot_inv :: "(nat \<Rightarrow> 'k) \<Rightarrow> 's gsys \<Rightarrow> bool" where
  "slot_inv gkey g \<longleftrightarrow>
     (\<forall>k. finite (inside gkey g k) \<and> card (inside gkey g k) = used (shared g) k \<and> used (shared g) k \<le> cap)"

lemma slot_step_inv:
  assumes "slot_step acquire release gkey g h" "slot_inv gkey g"
  shows "slot_inv gkey h"
  using assms(1)
proof (cases rule: slot_step.cases)
  case (ask i)
  then have "inside gkey h k = inside gkey g k" for k by (auto simp: inside_def)
  then show ?thesis using assms(2) ask(1) by (simp add: slot_inv_def)
next
  case (enter i s)
  have "inside gkey h k = (if k = gkey i then insert i (inside gkey g k) else inside gkey g k)" for k
    using enter(1) by (auto simp: inside_def)
  moreover have "i \<notin> inside gkey g (gkey i)" using enter(2) by (simp add: inside_def)
  ultimately show ?thesis
    using assms(2) enter(1) acquire_ok [OF enter(3)] by (auto simp: slot_inv_def)
next
  case (leave i)
  have i: "i \<in> inside gkey g (gkey i)" using leave(2) by (simp add: inside_def)
  have h: "inside gkey h k = (if k = gkey i then inside gkey g k - {i} else inside gkey g k)" for k
    using leave(1) by (auto simp: inside_def)
  have u: "used (shared g) (gkey i) \<noteq> 0"
    using assms(2) i unfolding slot_inv_def by (metis card_0_eq empty_iff)
  show ?thesis
    unfolding slot_inv_def
  proof (intro allI)
    fix k
    have "finite (inside gkey g k)" "card (inside gkey g k) = used (shared g) k" "used (shared g) k \<le> cap"
      using assms(2) by (simp_all add: slot_inv_def)
    then show "finite (inside gkey h k) \<and> card (inside gkey h k) = used (shared h) k \<and> used (shared h) k \<le> cap"
      using leave(1) h i release_ok [OF u] by auto
  qed
qed

lemma reachable_inv: "slot_reachable acquire release init gkey g \<Longrightarrow> slot_inv gkey g"
proof (induction rule: slot_reachable.induct)
  case start
  then show ?case by (simp add: slot_inv_def inside_def used_init)
qed (rule slot_step_inv)

lemma bounded: "slot_reachable acquire release init gkey g \<Longrightarrow> finite (inside gkey g k) \<and> card (inside gkey g k) \<le> cap"
  using reachable_inv unfolding slot_inv_def by metis

text \<open>A goroutine blocks only while all the places of its key are taken.\<close>

lemma enters_iff:
  assumes "slot_reachable acquire release init gkey g"
  shows "(\<exists>s. acquire k (shared g) = Some s) \<longleftrightarrow> card (inside gkey g k) < cap"
  using reachable_inv [OF assms] acquire_ok [of k "shared g"] acquire_full [of k "shared g"]
  by (cases "acquire k (shared g)") (auto simp: slot_inv_def not_less)

end

definition mutex_used :: "mutexes \<Rightarrow> string \<Rightarrow> nat" where
  "mutex_used m k = (if map_of m k = Some True then 1 else 0)"

interpretation mutex: slots lock unlock "[]" mutex_used 1
  by unfold_locales
     (auto simp: mutex_used_def lock_def unlock_def LoadOrStore_def fun_eq_iff split: option.splits if_splits)

interpretation sem: slots sem_acquire sem_release 0 "\<lambda>n (_ :: unit). n" powershellCmdSem
  by unfold_locales (auto simp: sem_acquire_def sem_release_def split: if_splits)

section \<open>Properties\<close>

text \<open>
  C13. The mutexes of the reference counter: in every interleaving, the goroutines inside \<^verbatim>\<open>SMBMount\<close> or
  \<^verbatim>\<open>SMBUnmount\<close> with the same mapping path are never two, and a goroutine that waits for a mapping
  path is blocked only while another one is inside with that path: no place is lost, and mounts of
  different shares do not wait for each other.
\<close>

theorem mapping_mutex:
  assumes "slot_reachable lock unlock [] mapping g"
  shows "(gpcs g i = Inside \<and> gpcs g j = Inside \<and> mapping i = mapping j \<longrightarrow> i = j) \<and>
    (lock (mapping i) (shared g) = None \<longleftrightarrow> (\<exists>j. gpcs g j = Inside \<and> mapping j = mapping i))"
proof -
  have b: "finite (inside mapping g k)" "card (inside mapping g k) \<le> 1" for k
    using mutex.bounded [OF assms] by auto
  then have "gpcs g i = Inside \<and> gpcs g j = Inside \<and> mapping i = mapping j \<longrightarrow> i = j"
    by (metis (mono_tags, lifting) card_le_Suc0_iff_eq One_nat_def inside_def mem_Collect_eq)
  moreover have "lock (mapping i) (shared g) = None \<longleftrightarrow> inside mapping g (mapping i) \<noteq> {}"
    using mutex.enters_iff [OF assms, of "mapping i"] b(1) [of "mapping i"]
    by (auto simp: card_gt_0_iff not_less Suc_le_eq)
  ultimately show ?thesis by (auto simp: inside_def)
qed

text \<open>One goroutine that has entered.\<close>

definition entered :: "'s \<Rightarrow> 's gsys" where
  "entered s = \<lparr>shared = s, gpcs = (\<lambda>_. Outside)(0 := Inside)\<rparr>"

lemma entered_reachable:
  assumes "acquire (gkey 0) init = Some s"
  shows "slot_reachable acquire release init gkey (entered s)"
proof -
  let ?g = "\<lparr>shared = init, gpcs = (\<lambda>_. Outside)(0 := Blocked)\<rparr>"
  have "slot_reachable acquire release init gkey ?g"
    by (rule slot_reachable.step [OF slot_reachable.start])
       (use slot_step.ask [of "\<lparr>shared = init, gpcs = (\<lambda>_. Outside)\<rparr>" 0] in simp)
  then show ?thesis
    by (rule slot_reachable.step) (use slot_step.enter [of ?g 0] assms in \<open>simp add: entered_def\<close>)
qed

theorem mapping_mutex_witness:
  "lock ''srv'' (shared (entered [(''srv'', True)])) = None \<and> lock ''other'' (shared (entered [(''srv'', True)])) \<noteq> None"
proof -
  let ?k = "\<lambda>i. if i = (0 :: nat) then ''srv'' else ''other''"
  have "slot_reachable lock unlock [] ?k (entered [(''srv'', True)])"
    by (rule entered_reachable) code_simp
  note m = mapping_mutex [OF this, THEN conjunct2]
  have "gpcs (entered [(''srv'', True)]) j = Inside \<longleftrightarrow> j = 0" for j by (simp add: entered_def)
  then show ?thesis using m [of 0] m [of 1] by simp
qed

text \<open>
  C34. At most three PowerShell commands run at the same time, whatever the interleaving, and a
  goroutine waits for its turn only while three are running.
\<close>

theorem powershell_bounded:
  assumes "slot_reachable sem_acquire sem_release 0 (\<lambda>_. ()) g"
  shows "card {i. gpcs g i = Inside} \<le> 3 \<and> finite {i. gpcs g i = Inside} \<and>
    (sem_acquire () (shared g) = None \<longleftrightarrow> card {i. gpcs g i = Inside} = 3)"
proof -
  have i: "inside (\<lambda>_. ()) g () = {i. gpcs g i = Inside}" by (simp add: inside_def)
  show ?thesis
    using sem.bounded [OF assms, of "()"] sem.enters_iff [OF assms, of "()"]
    unfolding i powershellCmdSem_def by (metis le_neq_implies_less less_irrefl not_None_eq)
qed

theorem powershell_bounded_witness:
  "card {i. gpcs (entered (1 :: nat)) i = Inside} \<le> 3 \<and> sem_acquire () (shared (entered 1)) \<noteq> None"
proof -
  have "slot_reachable sem_acquire sem_release 0 (\<lambda>_. ()) (entered 1)"
    by (rule entered_reachable) code_simp
  moreover have "{i. gpcs (entered (1 :: nat)) i = Inside} = {0}" by (auto simp: entered_def)
  ultimately show ?thesis using powershell_bounded by force
qed

end
