(* ===== verification/WindowsNode.thy ===== *)
theory WindowsNode
  imports WinContract WinSync
begin

text \<open>
  A Windows node with a CSI proxy, as an instance of the environment: a file system whose names
  ignore case, with directories, files and symbolic links, the global mappings of SMB shares, and
  the errors of the calls. The laws of \<^verbatim>\<open>WinContract\<close> hold here, and the mounters can be run on it.
\<close>

section \<open>The world\<close>

datatype wnode = WDirectory | WFile string | WLink string

type_synonym wkey = "string list"

text \<open>The mapped shares, the shares that can be reached, and whether mappings can be removed.\<close>

record ww =
  wnodes :: "(wkey \<times> wnode) list"
  mappings :: "string list"
  reachable_shares :: "string list"
  unmap_fails :: bool

text \<open>Where a path leads: its components without the drive, in lower case.\<close>

definition wkey :: "string \<Rightarrow> wkey" where
  "wkey p = map ToLower (win_comps (drop (volumeNameLen p) p))"

definition wlookup :: "ww \<Rightarrow> wkey \<Rightarrow> wnode option" where
  "wlookup w k = (if k = [] then Some WDirectory else map_of (wnodes w) k)"

definition wput :: "wkey \<Rightarrow> wnode \<Rightarrow> ww \<Rightarrow> ww" where
  "wput k n w = w\<lparr>wnodes := map_put k n (wnodes w)\<rparr>"

definition wdelete :: "(wkey \<Rightarrow> bool) \<Rightarrow> ww \<Rightarrow> ww" where
  "wdelete P w = w\<lparr>wnodes := filter (\<lambda>(k, _). \<not> P k) (wnodes w)\<rparr>"

section \<open>Calls\<close>

fun wmkdirs :: "wkey list \<Rightarrow> ww \<Rightarrow> (error + string) \<times> ww" where
  "wmkdirs [] w = (Inr '''', w)"
| "wmkdirs (k # ks) w =
     (case wlookup w k of
        None \<Rightarrow> wmkdirs ks (wput k WDirectory w)
      | Some (WFile _) \<Rightarrow> (Inl (Errno ENOTDIR), w)
      | Some _ \<Rightarrow> wmkdirs ks w)"

definition do_wremove :: "wkey \<Rightarrow> ww \<Rightarrow> (error + string) \<times> ww" where
  "do_wremove k w =
     (if k = [] \<or> wlookup w k = None then (Inl (Errno ENOENT), w)
      else if list_ex (\<lambda>(k', _). strict_prefix k k') (wnodes w) then (Inl (Errno ENOTEMPTY), w)
      else (Inr '''', wdelete (\<lambda>k'. k' = k) w))"

definition do_wlink :: "string \<Rightarrow> wkey \<Rightarrow> ww \<Rightarrow> (error + string) \<times> ww" where
  "do_wlink target k w =
     (if wlookup w k \<noteq> None then (Inl (Errno EEXIST), w)
      else if wlookup w (butlast k) = None then (Inl (Errno ENOENT), w)
      else (Inr '''', wput k (WLink target) w))"

definition do_map :: "string \<Rightarrow> ww \<Rightarrow> (error + string) \<times> ww" where
  "do_map remote w =
     (case getRootMappingPath remote of
        Inl e \<Rightarrow> (Inl e, w)
      | Inr m \<Rightarrow>
          if List.member (reachable_shares w) m then (Inr '''', w\<lparr>mappings := List.insert m (mappings w)\<rparr>)
          else (Inl (Errorf ''The network path was not found'' None), w))"

definition do_unmap :: "string \<Rightarrow> ww \<Rightarrow> (error + string) \<times> ww" where
  "do_unmap remote w =
     (case getRootMappingPath remote of
        Inl e \<Rightarrow> (Inl e, w)
      | Inr m \<Rightarrow>
          if unmap_fails w then (Inl (Errorf ''access denied'' None), w)
          else (Inr '''', w\<lparr>mappings := removeAll m (mappings w)\<rparr>))"

text \<open>The value of an environment variable of a command.\<close>

fun env_value :: "string \<Rightarrow> string list \<Rightarrow> string" where
  "env_value name [] = ''''"
| "env_value name (e # es) = (if HasPrefix e (name @ ''='') then TrimPrefix e (name @ ''='') else env_value name es)"

definition do_powershell :: "string \<Rightarrow> string list \<Rightarrow> ww \<Rightarrow> (error + string) \<times> ww" where
  "do_powershell cmd envs w =
     (let remote = env_value ''smbremotepath'' envs
      in if cmd = new_mapping_cmd then do_map remote w
         else if cmd = remove_mapping_cmd then do_unmap remote w
         else if HasPrefix cmd ''Test-Path'' then (Inr ''True'', w)
         else (case getRootMappingPath remote of
                 Inl e \<Rightarrow> (Inl e, w)
               | Inr m \<Rightarrow> if List.member (mappings w) m then (Inr ''OK'', w)
                          else (Inl (Errorf ''no such mapping'' None), w)))"

fun ww_exec :: "wcall \<Rightarrow> ww \<Rightarrow> (error + string) \<times> ww" where
  "ww_exec (OsMkdirAll p mode) w = wmkdirs (prefixes (wkey p)) w"
| "ww_exec (OsCreate p) w =
     (let k = wkey p
      in if wlookup w (butlast k) = None then (Inl (Errno ENOENT), w)
         else (case wlookup w k of
                 Some WDirectory \<Rightarrow> (Inl (Errno EACCES), w)
               | Some (WLink _) \<Rightarrow> (Inl (Errno EACCES), w)
               | _ \<Rightarrow> (Inr '''', wput k (WFile '''') w)))"
| "ww_exec (OsWriteString p c) w =
     (case wlookup w (wkey p) of
        Some (WFile old) \<Rightarrow> (Inr '''', wput (wkey p) (WFile (old @ c)) w)
      | _ \<Rightarrow> (Inl (Errno ENOENT), w))"
| "ww_exec (OsClose p) w = (Inr '''', w)"
| "ww_exec (OsRemove p) w = do_wremove (wkey p) w"
| "ww_exec (OsRemoveAll p) w = (Inr '''', wdelete (prefix (wkey p)) w)"
| "ww_exec (OsSymlink target p) w = do_wlink target (wkey p) w"
| "ww_exec (Powershell cmd envs) w = do_powershell cmd envs w"
| "ww_exec (FsMkdir p ctx) w = wmkdirs (prefixes (wkey p)) w"
| "ww_exec (FsRmdir p ctx force) w =
     (if force then (Inr '''', wdelete (prefix (wkey p)) w) else do_wremove (wkey p) w)"
| "ww_exec (FsCreateSymlink source target) w = do_wlink source (wkey target) w"
| "ww_exec (FsLinkPath source target) w = do_wlink source (wkey target) w"
| "ww_exec (SmbNewGlobalMapping local remote user pass) w =
     (case do_map remote w of
        (Inl e, w') \<Rightarrow> (Inl e, w')
      | (Inr x, w') \<Rightarrow> do_wlink remote (wkey local) w')"
| "ww_exec (SmbRemoveGlobalMapping remote) w = do_unmap remote w"

section \<open>The environment\<close>

definition wentries :: "wkey \<Rightarrow> ww \<Rightarrow> string list" where
  "wentries k w = remdups (map (\<lambda>(k', _). last k') (filter (\<lambda>(k', _). k' \<noteq> [] \<and> butlast k' = k) (wnodes w)))"

definition win_node :: "ww win" where
  "win_node = \<lparr>
     wexec = ww_exec,
     WLstat = (\<lambda>p w. case wlookup w (wkey p) of
                  None \<Rightarrow> Inl ErrNotExist | Some (WLink _) \<Rightarrow> Inr True | Some _ \<Rightarrow> Inr False),
     WReadlink = (\<lambda>p w. case wlookup w (wkey p) of Some (WLink t) \<Rightarrow> Inr t | _ \<Rightarrow> Inl ErrNotExist),
     WReadDir = (\<lambda>p w. if wlookup w (wkey p) = Some WDirectory
                     then Inr (map (\<lambda>n. (n, wlookup w (wkey p @ [n]) = Some WDirectory)) (wentries (wkey p) w))
                     else Inl ErrNotExist),
     FsPathExists = (\<lambda>p w. Inr (wlookup w (wkey p) \<noteq> None)),
     FsIsSymlink = (\<lambda>p w. Inr (case wlookup w (wkey p) of Some (WLink _) \<Rightarrow> True | _ \<Rightarrow> False)),
     FsIsMountPoint = (\<lambda>p w. Inr (case wlookup w (wkey p) of Some (WLink _) \<Rightarrow> True | _ \<Rightarrow> False)),
     ResolveIPAddr = (\<lambda>h w. Inl (Errorf ''no such host'' None)),
     FsConnect = None,
     SmbConnect = None,
     FsConnectBeta = None,
     SmbConnectBeta = None\<rparr>"

definition ww_names :: "string \<Rightarrow> ww \<Rightarrow> string set" where
  "ww_names d w = {n. wkey d @ [n] \<in> fst ` set (wnodes w)}"

section \<open>Keys\<close>

lemma wkey_drive_path: "list_all win_plain cs \<Longrightarrow> wkey (drive_path cs) = map ToLower cs"
  by (simp add: wkey_def drive_path_simps win_comps_plain)

lemma lower_consts: "ToLower ''csi'' = ''csi''" "ToLower ''smbmounts'' = ''smbmounts''"
  by code_simp+

lemma wkey_ref:
  assumes "share_name h" "share_name s"
  shows "wkey (drive_path [''csi'', ''smbmounts'', h, s]) = [''csi'', ''smbmounts'', h, s]"
proof -
  have l: "ToLower h = h" "ToLower s = s" "win_plain h" "win_plain s" using assms by (simp_all add: share_name_def)
  then have "list_all win_plain [''csi'', ''smbmounts'', h, s]" using plain_consts by simp
  from wkey_drive_path [OF this] show ?thesis by (simp only: list.map lower_consts l)
qed

lemma wkey_ref_dir:
  assumes "ref_dir d"
  obtains h s where "share_name h" "share_name s" "d = drive_path [''csi'', ''smbmounts'', h, s]"
    "wkey d = [''csi'', ''smbmounts'', h, s]"
proof -
  obtain h s where d: "share_name h" "share_name s" "d = drive_path [''csi'', ''smbmounts'', h, s]"
    using assms unfolding ref_dir_def by (elim exE conjE)
  show ?thesis by (rule that [OF d wkey_ref [OF d(1,2), folded d(3)]])
qed

lemma wkey_ref_dir_inj: "ref_dir d \<Longrightarrow> ref_dir d' \<Longrightarrow> wkey d = wkey d' \<longleftrightarrow> d = d'"
  by (elim wkey_ref_dir) (metis list.inject)

lemma ToLower_hex: "hex_name n \<Longrightarrow> ToLower n = n"
proof -
  assume "hex_name n"
  then have "c \<in> set ''0123456789abcdef''" if "c \<in> set n" for c using that unfolding hex_name_def by blast
  moreover have "list_all (\<lambda>c. lower_char c = c) ''0123456789abcdef''" by code_simp
  ultimately have "lower_char c = c" if "c \<in> set n" for c using that unfolding list_all_iff by blast
  then show ?thesis unfolding ToLower_def by (simp add: map_idI)
qed

lemma wkey_ref_file:
  assumes "ref_dir d" "hex_name n"
  shows "wkey (d @ bslash # n) = wkey d @ [n]"
proof -
  obtain h s where d: "share_name h" "share_name s" "d = drive_path [''csi'', ''smbmounts'', h, s]"
    "wkey d = [''csi'', ''smbmounts'', h, s]" using assms(1) by (rule wkey_ref_dir)
  have l: "ToLower h = h" "ToLower s = s" "win_plain h" "win_plain s" using d by (simp_all add: share_name_def)
  then have "list_all win_plain [''csi'', ''smbmounts'', h, s, n]"
    using plain_consts hex_name_plain [OF assms(2)] by simp
  from wkey_drive_path [OF this]
  have "wkey (drive_path [''csi'', ''smbmounts'', h, s, n]) = [''csi'', ''smbmounts'', h, s, n]"
    by (simp only: list.map lower_consts l ToLower_hex [OF assms(2)])
  moreover have "d @ bslash # n = drive_path [''csi'', ''smbmounts'', h, s, n]" by (simp add: d(3) drive_path_def)
  ultimately show ?thesis by (simp add: d(4))
qed

text \<open>A directory of the kubelet is not above the references.\<close>

lemma clean_comps_first: "''..'' \<notin> set cs \<Longrightarrow> \<exists>ds. clean_comps True (acc @ [a]) cs = a # ds"
  by (induction cs arbitrary: acc) (auto, metis append_Cons)

lemma Contains_Join: "x \<in> set xs \<Longrightarrow> Contains (Join xs sep) x"
proof (induction xs sep rule: Join.induct)
  case (3 y z zs sep)
  show ?case
  proof (cases "x = y")
    case True
    then show ?thesis unfolding Contains_iff by (intro exI [of _ "[]"] exI [of _ "sep @ Join (z # zs) sep"]) simp
  next
    case False
    then obtain a b where "Join (z # zs) sep = a @ x @ b" using 3 unfolding Contains_iff by fastforce
    then show ?thesis unfolding Contains_iff by (intro exI [of _ "y @ sep @ a"] exI [of _ b]) simp
  qed
qed (auto simp: Contains_iff intro: exI [of _ "[]"])

lemma Split_Contains: "x \<in> set (Split s sep) \<Longrightarrow> Contains s x"
  using Contains_Join [of x "Split s sep" "[sep]"] by (simp add: Join_Split)

lemma lower_char_fixed: "lower_char c = d \<Longrightarrow> \<not> is_letter d \<Longrightarrow> c = d"
  by (auto simp: lower_char_def is_letter_def of_char_of split: if_splits)

lemma wkey_kubelet:
  assumes "kubelet_path p"
  shows "\<exists>ds. wkey p = ''var'' # ds"
proof -
  have "\<not> is_letter (CHR '':'')" "\<not> is_letter bslash" by code_simp+
  moreover have lower_fixed: "lower_char (CHR '':'') = CHR '':''" "lower_char bslash = bslash" by code_simp+
  ultimately have f: "lower_char c = CHR '':'' \<longleftrightarrow> c = CHR '':''" "lower_char c = bslash \<longleftrightarrow> c = bslash" for c
    using lower_char_fixed by metis+
  have "HasPrefix (ToLower p) (''c:'' @ [bslash] @ ''var'' @ [bslash])" using assms by (simp add: kubelet_path_def)
  then obtain d a b c rest where p: "p = d # CHR '':'' # bslash # [a, b, c] @ bslash # rest" "ToLower [a, b, c] = ''var''"
    by (auto simp: HasPrefix_iff ToLower_def map_eq_append_conv f)
  let ?v = "[a, b, c]"
  have v: "bslash \<notin> set ?v" "slash \<notin> set ?v" "?v \<noteq> ''..''" using p(2) by (auto simp: ToLower_def lower_char_def)
  have n: "volumeNameLen p = 2" by (simp add: p volumeNameLen_def)
  have s: "Split (FromSlash (bslash # ?v @ bslash # rest)) bslash = [] # ?v # Split (FromSlash rest) bslash"
    using v by (auto simp: FromSlash_def)
  have "\<not> Contains rest ''..''"
  proof
    assume "Contains rest ''..''"
    then obtain x y where "rest = x @ ''..'' @ y" by (auto simp: Contains_iff)
    then have "p = (d # CHR '':'' # bslash # ?v @ bslash # x) @ ''..'' @ y" by (simp add: p(1))
    then show False using assms unfolding kubelet_path_def Contains_iff by blast
  qed
  then have "''..'' \<notin> set (Split (FromSlash rest) bslash)"
    using Split_Contains Contains_dots_FromSlash by blast
  then obtain ds where "clean_comps True [?v] (Split (FromSlash rest) bslash) = ?v # ds"
    using clean_comps_first [of _ "[]"] by auto
  moreover have "drop 2 p = bslash # ?v @ bslash # rest" by (simp add: p)
  ultimately have "win_comps (drop 2 p) = ?v # ds"
    using s v unfolding win_comps_def by (simp add: IsPathSeparator_def)
  then show ?thesis using p(2) by (simp add: wkey_def n)
qed

section \<open>The laws\<close>

lemma names_wput: "ww_names d (wput k n w) = (if k \<noteq> [] \<and> butlast k = wkey d then insert (last k) (ww_names d w) else ww_names d w)"
  by (auto simp: ww_names_def wput_def) (metis append_butlast_last_id)+

lemma names_wdelete: "ww_names d (wdelete P w) = {n \<in> ww_names d w. \<not> P (wkey d @ [n])}"
  by (force simp: ww_names_def wdelete_def)

lemma names_mappings [simp]: "ww_names d (w\<lparr>mappings := ms\<rparr>) = ww_names d w"
  by (simp add: ww_names_def)

lemma names_do_map: "ww_names d (snd (do_map r w)) = ww_names d w"
  by (simp add: do_map_def split: sum.splits)

lemma names_do_unmap: "ww_names d (snd (do_unmap r w)) = ww_names d w"
  by (simp add: do_unmap_def split: sum.splits)

lemma names_wmkdirs: "ww_names d w \<subseteq> ww_names d (snd (wmkdirs ks w))"
  by (induction ks arbitrary: w) (auto simp: names_wput subset_iff split: option.splits wnode.splits)

lemma names_wmkdirs_short:
  assumes "\<forall>k \<in> set ks. length k \<le> length (wkey d)"
  shows "ww_names d (snd (wmkdirs ks w)) = ww_names d w"
  using assms
proof (induction ks arbitrary: w)
  case (Cons k ks)
  have "k \<noteq> [] \<Longrightarrow> butlast k \<noteq> wkey d"
    using Cons.prems by (metis One_nat_def Suc_n_not_le_n diff_Suc_1 length_Cons length_append_singleton
        append_butlast_last_id list.set_intros(1))
  then show ?case using Cons by (auto simp: names_wput split: option.splits wnode.splits)
qed simp

lemma wlookup_names: "wlookup w (wkey d @ [n]) = None \<longleftrightarrow> n \<notin> ww_names d w"
  by (simp add: wlookup_def ww_names_def map_of_eq_None_iff)

lemma names_do_wlink:
  "ww_names d w \<subseteq> ww_names d (snd (do_wlink t k w))"
  "butlast k \<noteq> wkey d \<Longrightarrow> ww_names d (snd (do_wlink t k w)) = ww_names d w"
  by (auto simp: do_wlink_def names_wput)

lemma set_wentries: "set (wentries (wkey d) w) = ww_names d w"
proof -
  have k: "k \<noteq> [] \<and> butlast k = wkey d \<and> last k = n \<longleftrightarrow> k = wkey d @ [n]" for k n
    by (metis append_butlast_last_id butlast_snoc last_snoc snoc_eq_iff_butlast)
  have "n \<in> set (wentries (wkey d) w) \<longleftrightarrow> (\<exists>k. k \<in> fst ` set (wnodes w) \<and> k \<noteq> [] \<and> butlast k = wkey d \<and> last k = n)" for n
    by (force simp: wentries_def)
  then have "n \<in> set (wentries (wkey d) w) \<longleftrightarrow> wkey d @ [n] \<in> fst ` set (wnodes w)" for n
    unfolding k by metis
  then show ?thesis unfolding ww_names_def by blast
qed

interpretation windows: ref_store win_node ww_names
proof unfold_locales
  fix d p m and w :: ww
  assume "ref_dir d" "ref_dir p"
  then have "length (wkey p) = length (wkey d)" by (elim wkey_ref_dir) simp
  then have "\<forall>k \<in> set (prefixes (wkey p)). length k \<le> length (wkey d)" by (metis in_set_prefixes prefix_length_le)
  then show "ww_names d (snd (wexec win_node (OsMkdirAll p m) w)) = ww_names d w"
    by (simp add: win_node_def names_wmkdirs_short)
next
  fix d d' n x e c and w w' :: ww
  assume a: "ref_dir d" "ref_dir d'" "hex_name n"
  note k = wkey_ref_file [OF a(1,3)] and i = wkey_ref_dir_inj [OF a(1,2)]
  show "wexec win_node (OsCreate (d @ bslash # n)) w = (Inr x, w') \<Longrightarrow>
      ww_names d' w' = (if d' = d then insert n (ww_names d' w) else ww_names d' w)"
    using i by (auto simp: win_node_def k names_wput Let_def split: if_splits option.splits wnode.splits)
  show "wexec win_node (OsCreate (d @ bslash # n)) w = (Inl e, w') \<Longrightarrow> ww_names d' w' = ww_names d' w"
    by (auto simp: win_node_def k Let_def split: if_splits option.splits wnode.splits)
  show "ww_names d' (snd (wexec win_node (OsWriteString (d @ bslash # n) c) w)) = ww_names d' w"
    using wlookup_names [of w d n] i
    by (auto simp: win_node_def k names_wput split: option.splits wnode.splits)
  show "wexec win_node (OsRemove (d @ bslash # n)) w = (Inr x, w') \<Longrightarrow>
      n \<in> ww_names d w \<and> ww_names d' w' = (if d' = d then ww_names d' w - {n} else ww_names d' w)"
    using wlookup_names [of w d n] i
    by (auto simp: win_node_def k do_wremove_def names_wdelete split: if_splits)
  show "wexec win_node (OsRemove (d @ bslash # n)) w = (Inl e, w') \<Longrightarrow> ww_names d' w' = ww_names d' w"
    by (auto simp: win_node_def k do_wremove_def split: if_splits)
next
  fix d w files
  assume "ref_dir d" "WReadDir win_node d w = Inr files"
  then have "files = map (\<lambda>n. (n, wlookup w (wkey d @ [n]) = Some WDirectory)) (wentries (wkey d) w)"
    by (auto simp: win_node_def split: if_splits)
  then have f: "map fst files = wentries (wkey d) w" by (simp add: comp_def)
  have "set (wentries (wkey d) w) = ww_names d w" by (rule set_wentries)
  then show "set (map fst files) = ww_names d w \<and> distinct (map fst files)"
    by (simp add: f) (simp add: wentries_def)
qed (simp add: win_node_def)

interpretation windows_refs: share_refs win_node ww_names
proof unfold_locales
  fix d l r u p and w :: ww
  have "ww_names d w \<subseteq> ww_names d (snd (case do_map r w of (Inl e, w') \<Rightarrow> (Inl e, w') | (Inr x, w') \<Rightarrow> do_wlink r (wkey l) w'))"
    using names_do_map [of d r w] names_do_wlink(1) [THEN subsetD, of _ d _ r "wkey l"]
    by (auto split: prod.splits sum.splits)
  then show "ww_names d w \<subseteq> ww_names d (snd (wexec win_node (SmbNewGlobalMapping l r u p) w))"
    by (simp add: win_node_def)
next
  fix d p c f and w :: ww
  assume a: "ref_dir d" "kubelet_path p"
  obtain ds where p: "wkey p = ''var'' # ds" using wkey_kubelet [OF a(2)] by blast
  obtain h s where d: "wkey d = [''csi'', ''smbmounts'', h, s]" using wkey_ref_dir [OF a(1)] by metis
  have "\<not> prefix (wkey p) (wkey d @ [n])" "wkey d @ [n] \<noteq> wkey p" for n by (simp_all add: p d)
  then show "ww_names d (snd (wexec win_node (FsRmdir p c f) w)) = ww_names d w"
    by (auto simp: win_node_def names_wdelete do_wremove_def)
qed (simp_all add: win_node_def names_do_unmap names_wmkdirs)

section \<open>Two volumes of one share\<close>

definition share :: string where
  "share = mapping_of ''srv'' ''share''"

definition win_world :: ww where
  "win_world = \<lparr>wnodes = [], mappings = [], reachable_shares = [share], unmap_fails = False\<rparr>"

definition stage_target :: "string \<Rightarrow> string" where
  "stage_target v = ''/var/lib/'' @ v @ ''/globalmount''"

definition mount_volume :: "string \<Rightarrow> ww \<Rightarrow> error option \<times> ww" where
  "mount_volume v = v1_SMBMount win_node True ''//srv/share'' (stage_target v) ''cifs'' [''u''] [''p''] v"

text \<open>The node after the volume \<^verbatim>\<open>a\<close> was mounted, and after \<^verbatim>\<open>a\<close> and \<^verbatim>\<open>b\<close> were.\<close>

definition one_mounted :: ww where
  "one_mounted = win_world\<lparr>mappings := [share], wnodes :=
     [([''var''], WDirectory), ([''var'', ''lib''], WDirectory), ([''var'', ''lib'', ''a''], WDirectory),
      ([''var'', ''lib'', ''a'', ''globalmount''], WLink share),
      ([''csi''], WDirectory), ([''csi'', ''smbmounts''], WDirectory), ([''csi'', ''smbmounts'', ''srv''], WDirectory),
      ([''csi'', ''smbmounts'', ''srv'', ''share''], WDirectory),
      ([''csi'', ''smbmounts'', ''srv'', ''share'', ''0cc175b9c0f1b6a831c399e269772661''], WFile share)]\<rparr>"

definition two_mounted :: ww where
  "two_mounted = one_mounted\<lparr>wnodes := wnodes one_mounted @
     [([''var'', ''lib'', ''b''], WDirectory), ([''var'', ''lib'', ''b'', ''globalmount''], WLink share),
      ([''csi'', ''smbmounts'', ''srv'', ''share'', ''92eb5ffee6ae2fec3ad71c777531578f''], WFile share)]\<rparr>"

lemma mount_a: "mount_volume ''a'' win_world = (None, one_mounted)"
  by code_simp

lemma mount_b: "mount_volume ''b'' one_mounted = (None, two_mounted)"
  by code_simp

lemma md5_a: "getMd5 ''a'' = ''0cc175b9c0f1b6a831c399e269772661''"
  by code_simp

lemma md5_b: "getMd5 ''b'' = ''92eb5ffee6ae2fec3ad71c777531578f''"
  by code_simp

lemma good_share: "good_mapping share"
proof -
  have "share_name ''srv''" "share_name ''share''" by code_simp+
  then show ?thesis unfolding good_mapping_def share_def by blast
qed

lemma two_mounted_run: "mounter_run win_node {''a'', ''b''} {(share, ''a''), (share, ''b'')} {} two_mounted"
proof -
  have "mount_mapping win_node ''//srv/share'' (stage_target ''a'') [''u''] [''p''] win_world = Inr share"
    "mount_mapping win_node ''//srv/share'' (stage_target ''b'') [''u''] [''p''] one_mounted = Inr share"
    by code_simp+
  note m = this
  have "mounter_run win_node {''a'', ''b''} (if None = (None :: error option) then insert (share, ''a'') {} else {})
      (if None = (None :: error option) then {} - {(share, ''a'')} else {}) one_mounted"
    by (rule mounter_run.mount [OF mounter_run.start _ m(1) good_share mount_a [unfolded mount_volume_def]]) simp
  from mounter_run.mount [OF this _ m(2) good_share mount_b [unfolded mount_volume_def]]
  show ?thesis by (simp add: insert_commute)
qed

theorem mapping_in_use_kept_witness:
  "list_all (\<lambda>c. \<not> removes_mapping c)
     (snd (snd (v1_SMBUnmount (log_win win_node) True (stage_target ''a'') ''a'' (two_mounted, []))))"
proof -
  have i: "inj_on getMd5 {''a'', ''b''}" by (simp add: md5_a md5_b)
  have l: "WReadlink win_node (stage_target ''a'') two_mounted = Inr share" by code_simp
  have g: "getRootMappingPath (TrimSuffix share [bslash]) = Inr share" by code_simp
  show ?thesis
    by (rule mapping_in_use_kept [OF windows_refs.share_refs_axioms i two_mounted_run _ l g good_share, of _ "''b''"])
       (simp_all add: prod_eq_iff)
qed

theorem unmount_confined_witness:
  "list_all (unmount_calls (stage_target ''a'') ''a'')
     (snd (snd (v1_SMBUnmount (log_win win_node) True (stage_target ''a'') ''a'' (two_mounted, []))))"
proof -
  have "NewSafeMounter (log_win win_node) False True = Inr (csiProxyMounter (log_win win_node) True)"
    by (simp add: NewSafeMounter_def NewCSIProxyMounter_def log_win_def win_node_def)
  from unmount_confined [OF this, of "stage_target ''a''" "''a''"] show ?thesis
    by (simp add: csiProxyMounter_def) (metis prod.collapse)
qed

text \<open>The mapping cannot be removed; the unmount is tried three times.\<close>

definition stuck :: ww where
  "stuck = one_mounted\<lparr>unmap_fails := True\<rparr>"

definition stuck_unref :: ww where
  "stuck_unref = stuck\<lparr>wnodes := butlast (wnodes stuck)\<rparr>"

definition try_unmount :: "ww \<Rightarrow> error option \<times> ww" where
  "try_unmount = v1_SMBUnmount win_node True (stage_target ''a'') ''a''"

lemma stuck_first:
  "try_unmount stuck =
     (Some (Errorf ''RemoveSmbGlobalMapping failed with error: %v'' (Some (Errorf ''access denied'' None))), stuck_unref)"
  by code_simp

lemma stuck_again: "snd (try_unmount stuck_unref) = stuck_unref"
  by code_simp

theorem unmount_not_retryable_witness:
  "fst (try_unmount (snd (try_unmount (snd (try_unmount stuck))))) \<noteq> None"
proof -
  have g: "getRootMappingPath (TrimSuffix share [bslash]) = Inr share"
    and k: "kubelet_path (normalizeWindowsPath (stage_target ''a''))" by code_simp+
  have l: "WReadlink win_node (stage_target ''a'') stuck = Inr share"
    "WReadlink win_node (stage_target ''a'') stuck_unref = Inr share" by code_simp+
  have "fst (decrementVolumeIDReferencesCount win_node share ''a'' stuck) = None" by code_simp
  then have d: "decrementVolumeIDReferencesCount win_node share ''a'' stuck =
      (None, snd (decrementVolumeIDReferencesCount win_node share ''a'' stuck))" by (simp add: prod_eq_iff)
  have "unmount_step win_node stuck_unref stuck_unref"
    by (rule unmount_step.linked [OF k l(2) g good_share]) (use stuck_again in \<open>simp add: try_unmount_def prod_eq_iff\<close>)
  then have steps: "(unmount_step win_node)\<^sup>*\<^sup>* stuck_unref stuck_unref" by simp
  show ?thesis
    using unmount_not_retryable [OF windows_refs.share_refs_axioms good_share k l(1) g d
        stuck_first [unfolded try_unmount_def] steps l(2) g]
    by (simp add: stuck_first stuck_again) (simp add: try_unmount_def)
qed

section \<open>A mapping in use on a host process node\<close>

definition plugins :: "string list" where
  "plugins = [''var'', ''lib'', ''kubelet'', ''plugins'', ''kubernetes.io'', ''csi'']"

text \<open>A node on which the directory that the check for duplicates reads exists, and is empty.\<close>

definition hp_world :: ww where
  "hp_world = win_world\<lparr>wnodes := map (\<lambda>k. (k, WDirectory)) (tl (prefixes (plugins @ [''file.csi.azure.com''])))\<rparr>"

definition hp_target :: "string \<Rightarrow> string" where
  "hp_target v = ''/var/lib/kubelet/plugins/kubernetes.io/csi/smb.csi.k8s.io/'' @ v @ ''/globalmount''"

definition hp_mount :: "string \<Rightarrow> ww \<Rightarrow> error option \<times> ww" where
  "hp_mount v = hp_SMBMount win_node ''//srv/share'' (hp_target v) ''cifs'' [''u''] [''p''] v"

definition hp_one :: ww where
  "hp_one = hp_world\<lparr>mappings := [share], wnodes := wnodes hp_world @
     [(plugins @ [''smb.csi.k8s.io''], WDirectory), (plugins @ [''smb.csi.k8s.io'', ''a''], WDirectory),
      (plugins @ [''smb.csi.k8s.io'', ''a'', ''globalmount''], WLink share)]\<rparr>"

definition hp_two :: ww where
  "hp_two = hp_one\<lparr>wnodes := wnodes hp_one @
     [(plugins @ [''smb.csi.k8s.io'', ''b''], WDirectory),
      (plugins @ [''smb.csi.k8s.io'', ''b'', ''globalmount''], WLink share)]\<rparr>"

lemma hp_mount_a: "hp_mount ''a'' hp_world = (None, hp_one)"
  by code_simp

lemma hp_mount_b: "hp_mount ''b'' hp_one = (None, hp_two)"
  by code_simp

lemma hp_unmount_a:
  "case hp_SMBUnmount win_node (hp_target ''a'') ''a'' hp_two of
     (r, w) \<Rightarrow> r = None \<and> mappings w = [] \<and> WReadlink win_node (hp_target ''b'') w = Inr share"
  by code_simp

text \<open>
  The host process mounter looks for other mounts of the share in the directory of another
  driver: with two volumes of this driver mounted from one share, unmounting the first removes the
  mapping of the share while the second is still linked to it.
\<close>

lemma host_process_removes_mapping_in_use:
  "hp_mount ''a'' hp_world = (None, hp_one) \<and> hp_mount ''b'' hp_one = (None, hp_two) \<and> mappings hp_two = [share] \<and>
   (case hp_SMBUnmount win_node (hp_target ''a'') ''a'' hp_two of
      (r, w) \<Rightarrow> r = None \<and> mappings w = [] \<and> WReadlink win_node (hp_target ''b'') w = Inr share)"
  using hp_mount_a hp_mount_b hp_unmount_a by (simp add: hp_two_def hp_one_def)

end
