(* ===== verification/WinDriver.thy ===== *)
theory WinDriver
  imports MountContract WinContract
begin

text \<open>
  The driver on a Windows node: the environment of the node service whose mounter is one of the
  mounters of \<^verbatim>\<open>pkg/mounter\<close>, the documented behaviour of the CSI proxy and of links as laws, and the
  proof that each mounter then gives the node service what it relies on.
\<close>

section \<open>The mounter behind the node service\<close>

text \<open>
  \<^verbatim>\<open>d.mounter\<close> is a \<^verbatim>\<open>mount.SafeFormatAndMount\<close> around a \<^verbatim>\<open>CSIProxyMounter\<close>: the methods of the mounter go
  to it, everything else to the \<^verbatim>\<open>os\<close> package.
\<close>

definition as_result :: "error option \<times> 'w \<Rightarrow> (error + string) \<times> 'w" where
  "as_result r = (case fst r of None \<Rightarrow> Inr '''' | Some e \<Rightarrow> Inl e, snd r)"

definition win_exec :: "'w os \<Rightarrow> 'w CSIProxyMounter \<Rightarrow> call \<Rightarrow> 'w \<Rightarrow> (error + string) \<times> 'w" where
  "win_exec os m c w =
     (case c of
        Mount src tgt ty opts \<Rightarrow> as_result (cm_Mount m src tgt ty opts w)
      | MountSensitive src tgt ty opts sens \<Rightarrow> as_result (cm_MountSensitive m w)
      | Unmount tgt \<Rightarrow> as_result (cm_Unmount m tgt w)
      | SMBMount src tgt ty opts sens v \<Rightarrow> as_result (cm_SMBMount m src tgt ty opts sens v w)
      | SMBUnmount tgt v \<Rightarrow> as_result (cm_SMBUnmount m tgt v w)
      | Rmdir p \<Rightarrow> as_result (cm_Rmdir m p w)
      | MakeDir p \<Rightarrow> as_result (cm_MakeDir m p w)
      | _ \<Rightarrow> exec os c w)"

definition win_os :: "'w os \<Rightarrow> 'w CSIProxyMounter \<Rightarrow> 'w os" where
  "win_os os m = os\<lparr>
     GOOS := Windows, exec := win_exec os m,
     ListMounts := (\<lambda>_. cm_List m),
     IsLikelyNotMountPoint := cm_IsLikelyNotMountPoint m,
     IsMountPoint := cm_IsMountPoint m,
     CanSafelySkipMountPointCheck := (\<lambda>_. cm_CanSafelySkipMountPointCheck m),
     CSIProxy := True,
     ExistsPath := cm_ExistsPath m\<rparr>"

lemma sys_win_os [simp]:
  "sys (win_os os m) (SMBMount src tgt ty opts sens v) w = cm_SMBMount m src tgt ty opts sens v w"
  "sys (win_os os m) (SMBUnmount tgt v) w = cm_SMBUnmount m tgt v w"
  "sys (win_os os m) (Rmdir p) w = cm_Rmdir m p w"
  by (simp_all add: sys_def win_os_def win_exec_def as_result_def prod_eq_iff split: option.splits)

lemma exec_win_os_Mount:
  "exec (win_os os m) (Mount src tgt ty opts) w = (Inr x, w') \<Longrightarrow> cm_Mount m src tgt ty opts w = (None, w')"
  by (auto simp: win_os_def win_exec_def as_result_def prod_eq_iff split: option.splits)

lemma win_os_queries [simp]:
  "GOOS (win_os os m) = Windows" "CSIProxy (win_os os m)" "Open (win_os os m) = Open os" "Stat (win_os os m) = Stat os"
  "IsLikelyNotMountPoint (win_os os m) = cm_IsLikelyNotMountPoint m"
  "exec (win_os os m) (Remove f) = exec os (Remove f)"
  by (simp_all add: win_os_def win_exec_def fun_eq_iff)

section \<open>What the node service needs of a mounter\<close>

text \<open>
  The part of the \<^verbatim>\<open>os\<close> package: what cannot be examined cannot be opened, and removing a file creates
  no path.
\<close>

locale os_files =
  fixes os :: "'w os" and absent :: "string \<Rightarrow> 'w \<Rightarrow> bool"
  assumes stat_open: "Stat os p w \<noteq> None \<Longrightarrow> Open os p w \<noteq> None"
    and remove_creates_nothing: "absent p w \<Longrightarrow> absent p (snd (exec os (Remove f) w))"

text \<open>
  The mounter: mounting makes a link at the target, removing and unmounting leave nothing there, and
  the query for mount points reports a path as one only if it is a link.
\<close>

locale link_mounter = os_files os absent for os :: "'w os" and absent +
  fixes m :: "'w CSIProxyMounter" and linked :: "string \<Rightarrow> 'w \<Rightarrow> bool"
  assumes smb_mount_links: "cm_SMBMount m src tgt ty opts sens v w = (None, w') \<Longrightarrow> tgt \<noteq> '''' \<Longrightarrow> linked (normalizeWindowsPath tgt) w'"
    and mount_links: "cm_Mount m src tgt ty opts w = (None, w') \<Longrightarrow> linked (normalizeWindowsPath tgt) w'"
    and rmdir_absent: "cm_Rmdir m p w = (None, w') \<Longrightarrow> absent (normalizeWindowsPath p) w'"
    and unmount_absent: "cm_SMBUnmount m p v w = (None, w') \<Longrightarrow> absent (normalizeWindowsPath p) w'"
    and query_linked: "cm_IsLikelyNotMountPoint m p w = (False, None) \<Longrightarrow> linked (normalizeWindowsPath p) w"
    and query_missing: "cm_IsLikelyNotMountPoint m p w = (b, Some e) \<Longrightarrow> IsNotExist e \<Longrightarrow> b"
begin

lemma corrupted_dir_unreadable: "IsCorruptedDir (win_os os m) p w \<Longrightarrow> read_one (win_os os m) p w \<noteq> None"
proof -
  assume "IsCorruptedDir (win_os os m) p w"
  then have "Stat os p w \<noteq> None"
    by (cases "Stat os p w") (simp_all add: IsCorruptedDir_def PathExists_def PathExists_windows_def)
  then have "Open os p w \<noteq> None" by (rule stat_open)
  then show ?thesis by (auto simp: read_one_def)
qed

end

sublocale link_mounter \<subseteq> node: node_env "win_os os m"
  "\<lambda>p. linked (normalizeWindowsPath p)" "\<lambda>p. absent (normalizeWindowsPath p)"
proof
  show "smb_Mount (win_os os m) src p ty opts sens vol w = (None, w') \<Longrightarrow> p \<noteq> '''' \<Longrightarrow> linked (normalizeWindowsPath p) w'"
    for src p ty opts sens vol w w'
    by (auto simp: smb_Mount_def Mount_windows_def intro: smb_mount_links)
  show "exec (win_os os m) (Mount src p ty opts) w = (Inr x, w') \<Longrightarrow> linked (normalizeWindowsPath p) w'"
    for src p ty opts w x w'
    by (rule mount_links [OF exec_win_os_Mount])
  show "CleanupSMBMountPoint (win_os os m) p True vol w = (None, w') \<Longrightarrow> absent (normalizeWindowsPath p) w'"
    for p vol w w' by (auto simp: CleanupSMBMountPoint_eq intro: unmount_absent)
  show "CleanupMountPoint (win_os os m) p True w = (None, w') \<Longrightarrow> absent (normalizeWindowsPath p) w'"
    for p w w' by (auto simp: CleanupMountPoint_eq intro: rmdir_absent)
qed (auto simp: in_mount_list_def query_linked corrupted_dir_unreadable remove_creates_nothing dest: query_missing)

context link_mounter
begin

lemma windows_node:
  "node_env (win_os os m) (\<lambda>p. linked (normalizeWindowsPath p)) (\<lambda>p. absent (normalizeWindowsPath p))"
  by (rule node.node_env_axioms)

end

section \<open>The laws of a Windows node\<close>

text \<open>
  A mapping of a share onto a local path and the calls that make links make a link there; keeping
  the references of a share removes no link; what the node and the CSI proxy report as a link is one,
  and the errors of the CSI proxy are not the errors of a missing file; a directory that was removed
  is gone.
\<close>

locale windows_env = os_files os absent for os :: "'w os" and absent +
  fixes win :: "'w win" and linked :: "string \<Rightarrow> 'w \<Rightarrow> bool"
  assumes mapping_links: "wexec win (SmbNewGlobalMapping p remote user password) w = (Inr x, w') \<Longrightarrow> linked p w'"
    and symlink_links: "c \<in> {FsCreateSymlink src p, FsLinkPath src p, OsSymlink src p} \<Longrightarrow>
      wexec win c w = (Inr x, w') \<Longrightarrow> linked p w'"
    and references_keep: "c \<in> {OsMkdirAll f mode, OsCreate f, OsWriteString f text, OsClose f} \<Longrightarrow>
      linked p w \<Longrightarrow> linked p (snd (wexec win c w))"
    and reported: "FsIsSymlink win p w = Inr True \<or> FsIsMountPoint win p w = Inr True \<or> WLstat win p w = Inr True \<Longrightarrow> linked p w"
    and proxy_errors: "FsPathExists win p w = Inl e \<or> FsIsSymlink win p w = Inl e \<or> FsIsMountPoint win p w = Inl e \<Longrightarrow>
      \<not> IsNotExist e"
    and removed: "c \<in> {FsRmdir p context True, OsRemoveAll p} \<Longrightarrow> wexec win c w = (Inr x, w') \<Longrightarrow> absent p w'"

sublocale windows_env \<subseteq> keeping: effect_win "\<lambda>w w'. linked p w \<longrightarrow> linked p w'" win
  "\<lambda>c. \<exists>f mode text. c \<in> {OsMkdirAll f mode, OsCreate f, OsWriteString f text, OsClose f}" for p
  by unfold_locales (auto simp: references_keep)

lemma normalize_nonempty: "normalizeWindowsPath p = '''' \<longleftrightarrow> p = ''''"
  by (auto simp: normalizeWindowsPath_def Let_def ReplaceAll_char)

lemma wsys_ok: "wsys win c w = (None, w') \<Longrightarrow> \<exists>x. wexec win c w = (Inr x, w')"
  by (cases "wexec win c w"; cases "fst (wexec win c w)") (auto simp: wsys_def)

lemma ensures_wsys: "(\<And>w x w'. wexec win c w = (Inr x, w') \<Longrightarrow> P w') \<Longrightarrow> ensures (\<lambda>e w. e = None \<longrightarrow> P w) (wsys win c)"
  by (rule ensuresI) (auto dest: wsys_ok)

text \<open>What holds after a step that succeeded still holds at the end if the rest keeps it.\<close>

lemma ensures_if_err_keeps:
  assumes "\<And>e. ensures (\<lambda>r s. r = None \<longrightarrow> P s) (h e)" "ensures (\<lambda>e s. e = None \<longrightarrow> P s) f"
    and "keeps (\<lambda>s s'. P s \<longrightarrow> P s') k"
  shows "ensures (\<lambda>r s. r = None \<longrightarrow> P s) (if_err f h k)"
  using assms by (auto simp: ensures_def keeps_def if_err_def bind_st_def split: option.splits prod.splits) (metis fst_conv snd_conv)+

lemma ensures_with_parent:
  assumes "ensures (\<lambda>e w. e = None \<longrightarrow> P w) k"
  shows "ensures (\<lambda>e w. e = None \<longrightarrow> P w) (with_parent existsPath mk tgt opts sens k)"
  unfolding with_parent_def Let_def by (intro ensures_intros assms) simp_all

context windows_env
begin

lemma symlinks:
  "wexec win (FsCreateSymlink src p) w = (Inr x, w') \<Longrightarrow> linked p w'"
  "wexec win (FsLinkPath src p) w = (Inr x, w') \<Longrightarrow> linked p w'"
  "wexec win (OsSymlink src p) w = (Inr x, w') \<Longrightarrow> linked p w'"
  using symlink_links by blast+

lemma keeps_increment: "keeps (\<lambda>w w'. linked p w \<longrightarrow> linked p w') (incementVolumeIDReferencesCount win mp remote v)"
  unfolding incementVolumeIDReferencesCount_def Let_def
  by (intro keeps_intros keeping.keeps_control keeping.keeps_wsys) blast+

lemma v1_SMBMount_links:
  "ensures (\<lambda>e w. e = None \<longrightarrow> linked (normalizeWindowsPath tgt) w) (v1_SMBMount win rm src tgt ty opts sens v)"
  unfolding v1_SMBMount_def v1_map_share_def
  by (intro ensures_with_parent ensures_asks ensures_sum ensures_if ensures_if_err_keeps ensures_wsys ensures_reply
      keeps_if keeping.keeps_if_err keeping.keeps_reply keeps_increment) (auto dest: mapping_links)

lemma beta_SMBMount_links:
  "ensures (\<lambda>e w. e = None \<longrightarrow> linked (normalizeWindowsPath tgt) w) (beta_SMBMount win src tgt ty opts sens v)"
  unfolding beta_SMBMount_def
  by (intro ensures_with_parent ensures_asks ensures_if_err_keeps ensures_wsys ensures_reply keeping.keeps_reply)
     (auto dest: mapping_links)

lemma hp_SMBMount_links:
  assumes "tgt \<noteq> ''''"
  shows "ensures (\<lambda>e w. e = None \<longrightarrow> linked (normalizeWindowsPath tgt) w) (hp_SMBMount win src tgt ty opts sens v)"
proof -
  have n: "(normalizeWindowsPath tgt \<noteq> '''') = True" using assms by (simp add: normalize_nonempty)
  have link: "ensures (\<lambda>e w. e = None \<longrightarrow> linked (normalizeWindowsPath tgt) w)
      (if_err (wsys win (OsSymlink src (normalizeWindowsPath tgt))) (\<lambda>err. reply (Some (f err))) (reply None))" for src f
    by (intro ensures_if_err_last ensures_wsys ensures_reply) (auto dest: symlinks)
  show ?thesis
    unfolding hp_SMBMount_def hp_check_mapping_def Let_def n if_True
    by (intro link ensures_with_parent ensures_if ensures_bind ensures_option ensures_reply ensures_if_err) simp_all
qed

text \<open>The query that the mounters share.\<close>

lemma likely_not_cases:
  "likely_not ex q = (False, None) \<Longrightarrow> q = Inr True"
  "likely_not ex q = (b, Some e) \<Longrightarrow> IsNotExist e \<Longrightarrow> (\<And>e. ex = Inl e \<Longrightarrow> \<not> IsNotExist e) \<Longrightarrow>
     (\<And>e. ex = Inr True \<Longrightarrow> q = Inl e \<Longrightarrow> \<not> IsNotExist e) \<Longrightarrow> b"
  by (auto simp: likely_not_def split: sum.splits if_splits)

end

section \<open>The three mounters\<close>

context windows_env
begin

lemma rmdir_wsys: "wsys win (FsRmdir p ctx True) w = (None, w') \<Longrightarrow> absent p w'" "wsys win (OsRemoveAll p) w = (None, w') \<Longrightarrow> absent p w'"
  using removed by (blast dest: wsys_ok)+

lemma symlink_wsys:
  "wsys win (FsCreateSymlink src p) w = (None, w') \<Longrightarrow> linked p w'"
  "wsys win (FsLinkPath src p) w = (None, w') \<Longrightarrow> linked p w'"
  "wsys win (OsSymlink src p) w = (None, w') \<Longrightarrow> linked p w'"
  using symlinks by (blast dest: wsys_ok)+

lemma fs_Rmdir_absent: "fs_Rmdir win p True w = (None, w') \<Longrightarrow> absent p w'"
  by (auto simp: fs_Rmdir_def reply_def dest: rmdir_wsys split: option.splits)

lemma if_err_last: "if_err f (\<lambda>e. reply (Some (h e))) k w = (None, w') \<Longrightarrow> \<exists>w1. k w1 = (None, w')"
  by (auto simp: if_err_def bind_st_def reply_def split: option.splits prod.splits)

lemma v1_SMBUnmount_absent: "v1_SMBUnmount win rm p v w = (None, w') \<Longrightarrow> absent (normalizeWindowsPath p) w'"
  by (auto simp: v1_SMBUnmount_def v1_Rmdir_def asks_def reply_def Let_def
      split: sum.splits if_splits dest: rmdir_wsys if_err_last)

lemma hp_SMBUnmount_absent: "hp_SMBUnmount win p v w = (None, w') \<Longrightarrow> absent (normalizeWindowsPath p) w'"
  by (auto simp: hp_SMBUnmount_def hp_Rmdir_def asks_def ignoring_def bind_st_def Let_def normalize_idem
      split: prod.splits dest: fs_Rmdir_absent)

lemma pathExists_errors: "pathExists win p w = Inl e \<Longrightarrow> \<not> IsNotExist e"
  by (auto simp: pathExists_def split: sum.splits if_splits)

lemma ValidatePath_errors: "ValidatePathWindows p = Some e \<Longrightarrow> \<not> IsNotExist e"
  by (auto simp: ValidatePathWindows_def split: if_splits)

lemma hp_exists_errors: "hp_ExistsPath win p w = Inl e \<Longrightarrow> \<not> IsNotExist e"
  by (auto simp: hp_ExistsPath_def fs_PathExists_def split: option.splits dest: ValidatePath_errors pathExists_errors)

text \<open>A path that exists can be examined, so the test for a link does not report it as missing.\<close>

lemma hp_link_errors: "hp_ExistsPath win p w = Inr True \<Longrightarrow> fs_IsMountPoint win (normalizeWindowsPath p) w = Inl e \<Longrightarrow> \<not> IsNotExist e"
  by (auto simp: hp_ExistsPath_def fs_PathExists_def fs_IsMountPoint_def IsSymlink_def pathExists_def
      split: option.splits sum.splits if_splits)

lemma hp_link: "fs_IsMountPoint win p w = Inr True \<Longrightarrow> linked p w"
  by (auto simp: fs_IsMountPoint_def IsSymlink_def intro: reported split: sum.splits if_splits)

end

sublocale windows_env \<subseteq> v1: link_mounter os absent "csiProxyMounter win rm" linked for rm
proof
  show "cm_SMBUnmount (csiProxyMounter win rm) p v w = (None, w') \<Longrightarrow> absent (normalizeWindowsPath p) w'" for p v w w'
    using v1_SMBUnmount_absent by (simp add: csiProxyMounter_def)
  show "cm_IsLikelyNotMountPoint (csiProxyMounter win rm) p w = (b, Some e) \<Longrightarrow> IsNotExist e \<Longrightarrow> b" for p w b e
    using proxy_errors by (auto simp: csiProxyMounter_def v1_IsLikelyNotMountPoint_def v1_ExistsPath_def dest: likely_not_cases)
qed (auto simp: csiProxyMounter_def v1_Mount_def v1_Rmdir_def v1_IsLikelyNotMountPoint_def reported
     dest: ensuresD [OF v1_SMBMount_links] rmdir_wsys symlink_wsys likely_not_cases)

sublocale windows_env \<subseteq> beta: link_mounter os absent "csiProxyMounterV1Beta win" linked
proof
  show "cm_IsLikelyNotMountPoint (csiProxyMounterV1Beta win) p w = (b, Some e) \<Longrightarrow> IsNotExist e \<Longrightarrow> b" for p w b e
    using proxy_errors
    by (auto simp: csiProxyMounterV1Beta_def beta_IsLikelyNotMountPoint_def beta_ExistsPath_def dest: likely_not_cases)
qed (auto simp: csiProxyMounterV1Beta_def beta_Mount_def beta_Rmdir_def beta_SMBUnmount_def beta_IsLikelyNotMountPoint_def reported
     dest: ensuresD [OF beta_SMBMount_links] rmdir_wsys symlink_wsys likely_not_cases)

sublocale windows_env \<subseteq> hp: link_mounter os absent "winMounter win" linked
proof
  show "cm_SMBUnmount (winMounter win) p v w = (None, w') \<Longrightarrow> absent (normalizeWindowsPath p) w'" for p v w w'
    using hp_SMBUnmount_absent by (simp add: winMounter_def)
  show "cm_IsLikelyNotMountPoint (winMounter win) p w = (b, Some e) \<Longrightarrow> IsNotExist e \<Longrightarrow> b" for p w b e
    using hp_exists_errors hp_link_errors by (auto simp: winMounter_def hp_IsLikelyNotMountPoint_def dest: likely_not_cases)
qed (auto simp: winMounter_def hp_Mount_def hp_Rmdir_def hp_IsLikelyNotMountPoint_def
     dest: ensuresD [OF hp_SMBMount_links] fs_Rmdir_absent symlink_wsys likely_not_cases hp_link)

text \<open>Whichever mounter the driver is started with, the node service has what it relies on.\<close>

context windows_env
begin

lemma mounter_node:
  assumes "NewSafeMounter win host rm = Inr m"
  shows "node_env (win_os os m) (\<lambda>p. linked (normalizeWindowsPath p)) (\<lambda>p. absent (normalizeWindowsPath p))"
  using assms v1.windows_node [of rm] beta.windows_node hp.windows_node
  by (auto simp: NewSafeMounter_def NewCSIProxyMounter_def NewCSIProxyMounterV1Beta_def split: if_splits sum.splits option.splits)

end

section \<open>Mount and unmount\<close>

text \<open>
  C7. The node service on Windows: if the node keeps the laws, then with whichever mounter the driver
  was started, staging and publishing without an error leave a link at the staging or target path,
  and after unstaging and unpublishing without an error the path is gone.
\<close>

theorem windows_stage_unstage:
  assumes "windows_env os absent win linked" "NewSafeMounter win host rm = Inr m"
  shows "(NodeStageVolume (win_os os m) req s = (Inr (), s') \<longrightarrow> linked (normalizeWindowsPath (ns_StagingTargetPath req)) (world s')) \<and>
    (NodePublishVolume (win_os os m) preq s = (Inr (), s') \<longrightarrow> linked (normalizeWindowsPath (np_TargetPath preq)) (world s')) \<and>
    (NodeUnstageVolume (win_os os m) ureq s = (Inr (), s') \<longrightarrow> absent (normalizeWindowsPath (nu_StagingTargetPath ureq)) (world s')) \<and>
    (NodeUnpublishVolume (win_os os m) xreq s = (Inr (), s') \<longrightarrow> absent (normalizeWindowsPath (nx_TargetPath xreq)) (world s'))"
proof -
  note n = windows_env.mounter_node [OF assms]
  show ?thesis
    using ensuresD [OF node_env.stage_success_mounted [OF n]] ensuresD [OF node_env.publish_success_mounted [OF n]]
      ensuresD [OF node_env.unstage_success_absent [OF n]] ensuresD [OF node_env.unpublish_success_absent [OF n]]
    by blast
qed

end
