(* ===== verification/WindowsRun.thy ===== *)
theory WindowsRun
  imports WindowsNode WinDriver LinuxNode
begin

text \<open>
  The driver run on the Windows node: the \<^verbatim>\<open>os\<close> package over its file system, the laws of \<^verbatim>\<open>WinDriver\<close>,
  and a volume that is staged and unstaged.
\<close>

section \<open>The os package\<close>

definition wstat :: "string \<Rightarrow> ww \<Rightarrow> error option" where
  "wstat p w = no_ent (wlookup w (wkey p))"

fun wbase_exec :: "call \<Rightarrow> ww \<Rightarrow> (error + string) \<times> ww" where
  "wbase_exec (MkdirAll p mode) w = wmkdirs (prefixes (wkey p)) w"
| "wbase_exec (Remove p) w = do_wremove (wkey p) w"
| "wbase_exec (RemoveAll p) w = (Inr '''', wdelete (prefix (wkey p)) w)"
| "wbase_exec (Symlink target p) w = do_wlink target (wkey p) w"
| "wbase_exec _ w = (Inl (Errorf ''not supported by windows'' None), w)"

definition win_base :: "ww os" where
  "win_base = \<lparr>
     GOOS = Windows,
     exec = wbase_exec,
     Stat = wstat,
     Lstat = wstat,
     Access = wstat,
     Open = wstat,
     ReadDir1 = (\<lambda>p w. if wentries (wkey p) w = [] then Some io_EOF else None),
     ReadDir = (\<lambda>p w. wentries (wkey p) w),
     Readlink = (\<lambda>p w. case wlookup w (wkey p) of Some (WLink t) \<Rightarrow> t | _ \<Rightarrow> ''''),
     Getwd = (\<lambda>w. Inr ''C:''),
     Now = (\<lambda>w. 0),
     StatFS = (\<lambda>p w. Inr no_limits),
     ListMounts = (\<lambda>w. Inr []),
     IsLikelyNotMountPoint = (\<lambda>p w. (True, None)),
     IsMountPoint = (\<lambda>p w. (False, None)),
     CanSafelySkipMountPointCheck = (\<lambda>w. False),
     CSIProxy = False,
     ExistsPath = (\<lambda>p w. Inr (wlookup w (wkey p) \<noteq> None)),
     GetSecret = (\<lambda>ns n w. Inl (Errno ENOENT)),
     InTime = (\<lambda>w. True),
     FileModeFirst = (\<lambda>w. True)\<rparr>"

section \<open>The laws\<close>

definition ww_linked :: "string \<Rightarrow> ww \<Rightarrow> bool" where
  "ww_linked p w = (case wlookup w (wkey p) of Some (WLink _) \<Rightarrow> True | _ \<Rightarrow> False)"

text \<open>The root of the drive is not a node of its own.\<close>

definition ww_absent :: "string \<Rightarrow> ww \<Rightarrow> bool" where
  "ww_absent p w = (map_of (wnodes w) (wkey p) = None)"

lemma linked_wput: "ww_linked p (wput k n w) = (if k = wkey p \<and> k \<noteq> [] then (\<exists>t. n = WLink t) else ww_linked p w)"
  by (auto simp: ww_linked_def wlookup_def wput_def split: wnode.splits)

lemma wmkdirs_linked: "ww_linked p w \<Longrightarrow> ww_linked p (snd (wmkdirs ks w))"
proof (induction ks arbitrary: w)
  case (Cons k ks)
  have "wlookup w k = None \<Longrightarrow> k \<noteq> wkey p" using Cons.prems by (auto simp: ww_linked_def)
  then show ?case using Cons by (auto simp: linked_wput split: option.splits wnode.splits)
qed simp

lemma do_wlink_linked: "do_wlink t (wkey p) w = (Inr x, w') \<Longrightarrow> ww_linked p w'"
  by (auto simp: do_wlink_def linked_wput wlookup_def split: if_splits)

lemma links_not_files: "ww_linked p w \<Longrightarrow> wlookup w (wkey p) \<noteq> Some (WFile c)" "ww_linked p w \<Longrightarrow> wlookup w (wkey p) \<noteq> None"
  unfolding ww_linked_def by (auto split: option.splits)

lemma map_of_wdelete: "map_of (wnodes (wdelete P w)) k = (if P k then None else map_of (wnodes w) k)"
proof -
  have "map_of (filter (\<lambda>(k, _). \<not> P k) xs) k = (if P k then None else map_of xs k)" for xs :: "(wkey \<times> wnode) list"
    by (induction xs) auto
  then show ?thesis by (simp add: wdelete_def)
qed

interpretation windows_driver: windows_env win_base ww_absent win_node ww_linked
proof
  show "Stat win_base p w \<noteq> None \<Longrightarrow> Open win_base p w \<noteq> None" for p w by (simp add: win_base_def)
  show "ww_absent p w \<Longrightarrow> ww_absent p (snd (exec win_base (Remove f) w))" for p w f
    by (simp add: win_base_def do_wremove_def ww_absent_def map_of_wdelete)
  show "wexec win_node (SmbNewGlobalMapping p remote user password) w = (Inr x, w') \<Longrightarrow> ww_linked p w'"
    for p remote user password w x w'
    by (auto simp: win_node_def split: prod.splits sum.splits intro: do_wlink_linked)
  show "c \<in> {FsCreateSymlink src p, FsLinkPath src p, OsSymlink src p} \<Longrightarrow> wexec win_node c w = (Inr x, w') \<Longrightarrow> ww_linked p w'"
    for c src p w x w' by (auto simp: win_node_def intro: do_wlink_linked)
  show "c \<in> {OsMkdirAll f mode, OsCreate f, OsWriteString f t, OsClose f} \<Longrightarrow> ww_linked p w \<Longrightarrow>
      ww_linked p (snd (wexec win_node c w))" for c f mode t p w
    using links_not_files [of p w]
    by (auto simp: win_node_def wmkdirs_linked linked_wput Let_def split: option.splits wnode.splits)
  show "FsIsSymlink win_node p w = Inr True \<or> FsIsMountPoint win_node p w = Inr True \<or> WLstat win_node p w = Inr True \<Longrightarrow> ww_linked p w"
    for p w by (auto simp: win_node_def ww_linked_def split: option.splits wnode.splits)
  show "FsPathExists win_node p w = Inl e \<or> FsIsSymlink win_node p w = Inl e \<or> FsIsMountPoint win_node p w = Inl e \<Longrightarrow> \<not> IsNotExist e"
    for p w e by (simp add: win_node_def)
  show "c \<in> {FsRmdir p ctx True, OsRemoveAll p} \<Longrightarrow> wexec win_node c w = (Inr x, w') \<Longrightarrow> ww_absent p w'"
    for c p ctx w x w' by (auto simp: win_node_def ww_absent_def map_of_wdelete)
qed

section \<open>A run\<close>

definition win_driver :: "ww os" where
  "win_driver = win_os win_base (csiProxyMounter win_node False)"

definition win_state :: "ww st" where
  "win_state = \<lparr>drv = Run (NewDriver no_kube node_options), world = win_world, pending = []\<rparr>"

definition win_stage_request :: NodeStageVolumeRequest where
  "win_stage_request = stage_request\<lparr>ns_VolumeId := ''a'', ns_StagingTargetPath := stage_target ''a''\<rparr>"

lemma win_stage_ok: "fst (NodeStageVolume win_driver win_stage_request win_state) = Inr ()"
  by code_simp

text \<open>A node on which the volume is linked, and the request to unstage it.\<close>

definition win_linked :: "ww st" where
  "win_linked = win_state\<lparr>world := win_world\<lparr>mappings := [share], wnodes :=
     [([''var''], WDirectory), ([''var'', ''lib''], WDirectory), ([''var'', ''lib'', ''a''], WDirectory),
      ([''var'', ''lib'', ''a'', ''globalmount''], WLink share)]\<rparr>\<rparr>"

definition win_unstage_request :: NodeUnstageVolumeRequest where
  "win_unstage_request = \<lparr>nu_VolumeId = ''a'', nu_StagingTargetPath = stage_target ''a''\<rparr>"

lemma win_unstage_ok: "fst (NodeUnstageVolume win_driver win_unstage_request win_linked) = Inr ()"
  by code_simp

theorem windows_stage_unstage_witness:
  "ww_linked (normalizeWindowsPath (stage_target ''a'')) (world (snd (NodeStageVolume win_driver win_stage_request win_state))) \<and>
   ww_absent (normalizeWindowsPath (stage_target ''a'')) (world (snd (NodeUnstageVolume win_driver win_unstage_request win_linked)))"
proof -
  have m: "NewSafeMounter win_node False False = Inr (csiProxyMounter win_node False)"
    by (simp add: NewSafeMounter_def NewCSIProxyMounter_def win_node_def)
  note t = windows_stage_unstage [OF windows_driver.windows_env_axioms m, folded win_driver_def]
  have "ns_StagingTargetPath win_stage_request = stage_target ''a''" "nu_StagingTargetPath win_unstage_request = stage_target ''a''"
    by (simp_all add: win_stage_request_def win_unstage_request_def)
  then show ?thesis
    using t win_stage_ok win_unstage_ok by (metis prod.collapse)
qed

end
