(* ===== verification/GrpcServer.thy ===== *)
theory GrpcServer
  imports CSICommon
begin

text \<open>
  The life of the gRPC server (\<^verbatim>\<open>pkg/csi-common/server.go\<close>): the goroutine that calls \<^verbatim>\<open>Start\<close> and
  \<^verbatim>\<open>Wait\<close>, the goroutine \<^verbatim>\<open>serve\<close>, and, in test mode, the goroutine that stops the server. They are
  steps of one relation on their program counters and the state they share, so that every
  interleaving is covered. How \<^verbatim>\<open>serve\<close> finds the address it listens on is \<open>grpc_serve\<close> in the theory
  of the program; here only its outcome matters. The interceptor that logs every call
  (\<^verbatim>\<open>logGRPC\<close> in \<^verbatim>\<open>utils.go\<close>) comes first.
\<close>

section \<open>The interceptor\<close>

datatype log_line = LogInfo nat string string | LogError error

text \<open>\<open>strip\<close> stands for \<^verbatim>\<open>protosanitizer.StripSecrets\<close>. The lines that are logged come with the result.\<close>

definition logGRPC ::
  "('q + 'p \<Rightarrow> string) \<Rightarrow> string \<Rightarrow> ('q \<Rightarrow> 's \<Rightarrow> (error + 'p) \<times> 's) \<Rightarrow> 'q \<Rightarrow> 's \<Rightarrow> ((error + 'p) \<times> log_line list) \<times> 's" where
  "logGRPC strip method handler req s =
     (let level = getLogLevel method;
          before = [LogInfo level ''GRPC call: %s'' method, LogInfo level ''GRPC request: %s'' (strip (Inl req))]
      in case handler req s of
           (Inl err, s') \<Rightarrow> ((Inl err, before @ [LogError err]), s')
         | (Inr resp, s') \<Rightarrow> ((Inr resp, before @ [LogInfo level ''GRPC response: %s'' (strip (Inr resp))]), s'))"

text \<open>
  The caller gets what the handler returns, and what is logged of a request and a response at the
  information level is what \<open>strip\<close> leaves of them.
\<close>

lemma logGRPC_transparent:
  "fst (fst (logGRPC strip method handler req s)) = fst (handler req s)"
  "snd (logGRPC strip method handler req s) = snd (handler req s)"
  "LogInfo n fmt t \<in> set (snd (fst (logGRPC strip method handler req s))) \<Longrightarrow>
     n = getLogLevel method \<and> (t = method \<or> t \<in> range strip)"
  by (auto simp: logGRPC_def Let_def split: prod.splits sum.splits)

section \<open>The server\<close>

text \<open>
  Of a \<^verbatim>\<open>grpc.Server\<close>: the services that are registered and whether it was told to stop. A stopped
  server takes no new calls, and \<^verbatim>\<open>Serve\<close> returns once the calls that are running have ended.
\<close>

datatype csi_service = IdentityService | ControllerService | NodeService

record grpc_Server =
  services :: "csi_service list"
  stopped :: bool

definition grpc_NewServer :: grpc_Server where
  "grpc_NewServer = \<lparr>services = [], stopped = False\<rparr>"

definition RegisterService :: "csi_service \<Rightarrow> grpc_Server \<Rightarrow> grpc_Server" where
  "RegisterService sv g = g\<lparr>services := services g @ [sv]\<rparr>"

text \<open>The counter of the wait group, and the server once \<^verbatim>\<open>serve\<close> has made it.\<close>

record nonBlockingGRPCServer =
  wg :: nat
  server :: "grpc_Server option"

definition NewNonBlockingGRPCServer :: nonBlockingGRPCServer where
  "NewNonBlockingGRPCServer = \<lparr>wg = 0, server = None\<rparr>"

text \<open>\<^verbatim>\<open>Start\<close> without the goroutine that it starts, which is a component of the system below.\<close>

definition Start :: "nonBlockingGRPCServer \<Rightarrow> nonBlockingGRPCServer" where
  "Start s = s\<lparr>wg := wg s + 1\<rparr>"

text \<open>\<^verbatim>\<open>Wait\<close> returns exactly when the counter is zero.\<close>

definition Wait_returns :: "nonBlockingGRPCServer \<Rightarrow> bool" where
  "Wait_returns s \<longleftrightarrow> wg s = 0"

text \<open>\<^verbatim>\<open>wg.Done\<close>: a counter that would become negative panics.\<close>

definition wg_Done :: "nonBlockingGRPCServer \<Rightarrow> error + nonBlockingGRPCServer" where
  "wg_Done s = (if wg s = 0 then Inl Panic else Inr (s\<lparr>wg := wg s - 1\<rparr>))"

text \<open>
  \<^verbatim>\<open>Stop\<close> and \<^verbatim>\<open>ForceStop\<close> follow the pointer to the server, which is nil until \<^verbatim>\<open>serve\<close> has made it.
  They differ in what becomes of the calls that are running.
\<close>

definition Stop :: "nonBlockingGRPCServer \<Rightarrow> error + nonBlockingGRPCServer" where
  "Stop s =
     (case server s of None \<Rightarrow> Inl Panic | Some g \<Rightarrow> Inr (s\<lparr>server := Some (g\<lparr>stopped := True\<rparr>)\<rparr>))"

definition ForceStop :: "nonBlockingGRPCServer \<Rightarrow> nat \<Rightarrow> error + nonBlockingGRPCServer \<times> nat" where
  "ForceStop s calls = (case Stop s of Inl err \<Rightarrow> Inl err | Inr s' \<Rightarrow> Inr (s', 0))"

text \<open>The server that \<^verbatim>\<open>serve\<close> makes once it listens; the flags tell which services are not nil.\<close>

definition serve_setup :: "bool \<Rightarrow> bool \<Rightarrow> bool \<Rightarrow> nonBlockingGRPCServer \<Rightarrow> nonBlockingGRPCServer" where
  "serve_setup ids cs ns s =
     (let g = grpc_NewServer;
          g = (if ids then RegisterService IdentityService g else g);
          g = (if cs then RegisterService ControllerService g else g);
          g = (if ns then RegisterService NodeService g else g)
      in s\<lparr>server := Some g\<rparr>)"

section \<open>The goroutines\<close>

datatype main_pc = MStart | MWait | MDone
datatype serve_pc = SNone | SInit | SReady | SSpawn | SListen | SServing | SReturned
datatype stopper_pc = PNone | PWait | PSleep | PStopping | PDone

text \<open>\<open>calls\<close> counts the calls that are running; \<open>exited\<close> is the error with which the process ended.\<close>

record process =
  srv :: nonBlockingGRPCServer
  main :: main_pc
  serve :: serve_pc
  stopper :: stopper_pc
  calls :: nat
  exited :: "error option"

definition process_init :: process where
  "process_init = \<lparr>srv = NewNonBlockingGRPCServer, main = MStart, serve = SNone, stopper = PNone,
     calls = 0, exited = None\<rparr>"

definition server_stopped :: "process \<Rightarrow> bool" where
  "server_stopped p \<longleftrightarrow> (case server (srv p) of None \<Rightarrow> False | Some g \<Rightarrow> stopped g)"

text \<open>
  A step of the program. \<open>boot\<close> is the error with which \<^verbatim>\<open>serve\<close> fails before it has a listener, if
  it does. The server of the driver has all three services.
\<close>

inductive server_step :: "bool \<Rightarrow> error option \<Rightarrow> process \<Rightarrow> process \<Rightarrow> bool" for testMode boot where
  start: "exited p = None \<Longrightarrow> main p = MStart \<Longrightarrow>
    server_step testMode boot p (p\<lparr>srv := Start (srv p), main := MWait, serve := SInit\<rparr>)"
| wait_over: "exited p = None \<Longrightarrow> main p = MWait \<Longrightarrow> Wait_returns (srv p) \<Longrightarrow>
    server_step testMode boot p (p\<lparr>main := MDone\<rparr>)"
| boot_fails: "exited p = None \<Longrightarrow> serve p = SInit \<Longrightarrow> boot = Some err \<Longrightarrow>
    server_step testMode boot p (p\<lparr>exited := Some err\<rparr>)"
| boots: "exited p = None \<Longrightarrow> serve p = SInit \<Longrightarrow> boot = None \<Longrightarrow>
    server_step testMode boot p (p\<lparr>srv := serve_setup True True True (srv p), serve := SReady\<rparr>)"
| plain: "exited p = None \<Longrightarrow> serve p = SReady \<Longrightarrow> \<not> testMode \<Longrightarrow>
    server_step testMode boot p (p\<lparr>serve := SListen\<rparr>)"
| test_done: "exited p = None \<Longrightarrow> serve p = SReady \<Longrightarrow> testMode \<Longrightarrow> wg_Done (srv p) = Inr s \<Longrightarrow>
    server_step testMode boot p (p\<lparr>srv := s, serve := SSpawn\<rparr>)"
| test_panics: "exited p = None \<Longrightarrow> serve p = SReady \<Longrightarrow> testMode \<Longrightarrow> wg_Done (srv p) = Inl err \<Longrightarrow>
    server_step testMode boot p (p\<lparr>exited := Some err\<rparr>)"
| spawn: "exited p = None \<Longrightarrow> serve p = SSpawn \<Longrightarrow>
    server_step testMode boot p (p\<lparr>serve := SListen, stopper := PWait\<rparr>)"
| serves: "exited p = None \<Longrightarrow> serve p = SListen \<Longrightarrow>
    server_step testMode boot p (p\<lparr>serve := (if server_stopped p then SReturned else SServing)\<rparr>)"
| serve_returns: "exited p = None \<Longrightarrow> serve p = SServing \<Longrightarrow> server_stopped p \<Longrightarrow> calls p = 0 \<Longrightarrow>
    server_step testMode boot p (p\<lparr>serve := SReturned\<rparr>)"
| stopper_waits: "exited p = None \<Longrightarrow> stopper p = PWait \<Longrightarrow> Wait_returns (srv p) \<Longrightarrow>
    server_step testMode boot p (p\<lparr>stopper := PSleep\<rparr>)"
| stopper_stops: "exited p = None \<Longrightarrow> stopper p = PSleep \<Longrightarrow> Stop (srv p) = Inr s \<Longrightarrow>
    server_step testMode boot p (p\<lparr>srv := s, stopper := PStopping\<rparr>)"
| stopper_panics: "exited p = None \<Longrightarrow> stopper p = PSleep \<Longrightarrow> Stop (srv p) = Inl err \<Longrightarrow>
    server_step testMode boot p (p\<lparr>exited := Some err\<rparr>)"
| stopper_returns: "exited p = None \<Longrightarrow> stopper p = PStopping \<Longrightarrow> calls p = 0 \<Longrightarrow>
    server_step testMode boot p (p\<lparr>stopper := PDone\<rparr>)"
| call_ends: "exited p = None \<Longrightarrow> calls p = Suc n \<Longrightarrow> server_step testMode boot p (p\<lparr>calls := n\<rparr>)"

text \<open>
  A step of the environment: a call comes in, accepting connections fails for good, or another
  goroutine stops the server.
\<close>

inductive env_step :: "process \<Rightarrow> process \<Rightarrow> bool" where
  call_begins: "exited p = None \<Longrightarrow> serve p \<in> {SServing, SReturned} \<Longrightarrow> \<not> server_stopped p \<Longrightarrow>
    env_step p (p\<lparr>calls := Suc (calls p)\<rparr>)"
| serve_fails: "exited p = None \<Longrightarrow> serve p = SServing \<Longrightarrow> env_step p (p\<lparr>serve := SReturned\<rparr>)"
| stops: "exited p = None \<Longrightarrow> Stop (srv p) = Inr s \<Longrightarrow> env_step p (p\<lparr>srv := s\<rparr>)"
| force_stops: "exited p = None \<Longrightarrow> ForceStop (srv p) (calls p) = Inr (s, n) \<Longrightarrow>
    env_step p (p\<lparr>srv := s, calls := n\<rparr>)"

inductive server_reachable :: "bool \<Rightarrow> error option \<Rightarrow> process \<Rightarrow> bool" for testMode boot where
  init: "server_reachable testMode boot process_init"
| step: "server_reachable testMode boot p \<Longrightarrow> server_step testMode boot p q \<Longrightarrow> server_reachable testMode boot q"
| env: "server_reachable testMode boot p \<Longrightarrow> env_step p q \<Longrightarrow> server_reachable testMode boot q"

inductive_cases server_stepE: "server_step testMode boot p q"
inductive_cases env_stepE: "env_step p q"

lemmas server_defs = Start_def Wait_returns_def wg_Done_def Stop_def ForceStop_def serve_setup_def Let_def
  server_stopped_def process_init_def NewNonBlockingGRPCServer_def

section \<open>Termination\<close>

text \<open>
  Every step of the program moves a goroutine forward or ends a call. A goroutine that starts
  another one gives it a share of its own rank.
\<close>

fun main_rank :: "main_pc \<Rightarrow> nat" where
  "main_rank MStart = 12" | "main_rank MWait = 1" | "main_rank MDone = 0"

fun serve_rank :: "serve_pc \<Rightarrow> nat" where
  "serve_rank SNone = 0" | "serve_rank SInit = 10" | "serve_rank SReady = 9" | "serve_rank SSpawn = 8"
| "serve_rank SListen = 2" | "serve_rank SServing = 1" | "serve_rank SReturned = 0"

fun stopper_rank :: "stopper_pc \<Rightarrow> nat" where
  "stopper_rank PNone = 0" | "stopper_rank PWait = 4" | "stopper_rank PSleep = 3"
| "stopper_rank PStopping = 2" | "stopper_rank PDone = 0"

definition process_rank :: "process \<Rightarrow> nat" where
  "process_rank p = main_rank (main p) + serve_rank (serve p) + stopper_rank (stopper p) + calls p +
     (if exited p = None then 1 else 0)"

section \<open>The invariant\<close>

text \<open>The counter is one from \<^verbatim>\<open>Start\<close> on, until \<^verbatim>\<open>wg.Done\<close> is called; outside test mode it never is.\<close>

fun wg_at :: "bool \<Rightarrow> serve_pc \<Rightarrow> nat" where
  "wg_at testMode SNone = 0"
| "wg_at testMode SInit = 1"
| "wg_at testMode SReady = 1"
| "wg_at testMode _ = (if testMode then 0 else 1)"

lemma wg_at_production [simp]: "wg_at False pc = 0 \<longleftrightarrow> pc = SNone"
  by (cases pc) simp_all

definition server_inv :: "bool \<Rightarrow> error option \<Rightarrow> process \<Rightarrow> bool" where
  "server_inv testMode boot p \<longleftrightarrow>
     (main p = MStart \<longleftrightarrow> serve p = SNone) \<and>
     wg (srv p) = wg_at testMode (serve p) \<and>
     (main p = MDone \<longrightarrow> wg (srv p) = 0) \<and>
     (server (srv p) = None \<longleftrightarrow> serve p \<in> {SNone, SInit}) \<and>
     (serve p = SSpawn \<longrightarrow> testMode) \<and>
     (stopper p \<noteq> PNone \<longleftrightarrow> testMode \<and> serve p \<in> {SListen, SServing, SReturned}) \<and>
     (stopper p \<in> {PStopping, PDone} \<longrightarrow> server_stopped p) \<and>
     (stopper p = PDone \<longrightarrow> calls p = 0) \<and>
     (boot = None \<or> serve p \<in> {SNone, SInit}) \<and>
     (exited p = None \<or> exited p = boot \<and> serve p = SInit)"

lemma process_rank_decreases: "server_step testMode boot p q \<Longrightarrow> process_rank q < process_rank p"
  by (erule server_stepE) (simp_all add: process_rank_def)

lemma server_inv_step: "server_step testMode boot p q \<Longrightarrow> server_inv testMode boot p \<Longrightarrow> server_inv testMode boot q"
  by (erule server_stepE; cases "stopper p"; clarsimp simp: server_inv_def server_defs split: option.splits if_splits)
     (elim disjE; simp)

lemma server_inv_env: "env_step p q \<Longrightarrow> server_inv testMode boot p \<Longrightarrow> server_inv testMode boot q"
  by (erule env_stepE; cases "stopper p"; clarsimp simp: server_inv_def server_defs split: option.splits if_splits)

lemma server_reachable_inv: "server_reachable testMode boot p \<Longrightarrow> server_inv testMode boot p"
proof (induction rule: server_reachable.induct)
  case init
  show ?case by (auto simp: server_inv_def server_defs)
qed (auto intro: server_inv_step server_inv_env)

text \<open>A process that has not ended can step as long as a goroutine is not done, outside test mode but for \<^verbatim>\<open>Wait\<close>.\<close>

lemma server_stuck_booted:
  assumes "server_inv testMode boot p" "exited p = None" "\<nexists>q. server_step testMode boot p q"
  shows "main p \<noteq> MStart" "serve p \<in> {SServing, SReturned}" "calls p = 0"
proof -
  show "main p \<noteq> MStart" using assms(2,3) start [of p] by blast
  then have "serve p \<noteq> SNone" using assms(1) by (simp add: server_inv_def)
  moreover have "serve p \<noteq> SInit"
    using assms(2,3) boots [of p] boot_fails [of p] by (metis option.exhaust)
  moreover have "serve p \<noteq> SReady"
    using assms(2,3) plain [of p] test_done [of p] test_panics [of p] by (metis sum.exhaust)
  moreover have "serve p \<noteq> SSpawn" "serve p \<noteq> SListen" using assms(2,3) spawn [of p] serves [of p] by blast+
  ultimately show "serve p \<in> {SServing, SReturned}" by (cases "serve p") auto
  show "calls p = 0" using assms(2,3) call_ends [of p] by (cases "calls p") auto
qed

lemma server_stuck_test:
  assumes "server_inv True boot p" "exited p = None" "\<nexists>q. server_step True boot p q"
  shows "main p = MDone \<and> serve p = SReturned \<and> stopper p = PDone"
proof -
  note b = server_stuck_booted [OF assms]
  have wait: "Wait_returns (srv p)" using assms(1) b(2) by (auto simp: server_inv_def Wait_returns_def)
  have "stopper p \<noteq> PNone" using assms(1) b(2) by (auto simp: server_inv_def)
  moreover have "stopper p \<noteq> PWait" using assms(2,3) wait stopper_waits [of p] by blast
  moreover have "stopper p \<noteq> PSleep"
    using assms(2,3) stopper_stops [of p] stopper_panics [of p] by (metis sum.exhaust)
  moreover have "stopper p \<noteq> PStopping" using assms(2,3) b(3) stopper_returns [of p] by blast
  ultimately have d: "stopper p = PDone" by (cases "stopper p") auto
  then have "server_stopped p" using assms(1) by (simp add: server_inv_def)
  then have "serve p = SReturned" using assms(2,3) b(2,3) serve_returns [of p] by blast
  moreover have "main p = MDone" using assms(2,3) b(1) wait wait_over [of p] by (cases "main p") auto
  ultimately show ?thesis using d by simp
qed

lemma server_idle_forever:
  assumes "server_inv False boot p" "serve p = SReturned" "calls p = 0"
  shows "\<nexists>q. server_step False boot p q"
  using assms by (auto simp: server_inv_def Wait_returns_def elim!: server_stepE)

section \<open>Properties\<close>

text \<open>
  C15. The goroutines of the server terminate in test mode and only there. Whatever calls come in
  and whoever stops the server, the steps of the program itself are well-founded. In test mode a
  process in which no step is left has ended with the error of \<^verbatim>\<open>serve\<close>, or \<^verbatim>\<open>Wait\<close> and \<^verbatim>\<open>Serve\<close> have
  returned and the server was stopped. Outside test mode \<^verbatim>\<open>Wait\<close> never returns; once \<^verbatim>\<open>Serve\<close> has
  returned and the last call has ended, the process has no step left and has not ended either.
\<close>

theorem server_lifecycle:
  "wfP (\<lambda>q p. server_step testMode boot p q) \<and>
   (server_reachable True boot p \<longrightarrow> (\<nexists>q. server_step True boot p q) \<longrightarrow>
      (case boot of
         Some err \<Rightarrow> exited p = Some err
       | None \<Rightarrow> exited p = None \<and> main p = MDone \<and> serve p = SReturned \<and> stopper p = PDone \<and> calls p = 0)) \<and>
   (server_reachable False boot p \<longrightarrow>
      main p \<noteq> MDone \<and>
      (serve p = SReturned \<longrightarrow> calls p = 0 \<longrightarrow>
         main p = MWait \<and> exited p = None \<and> (\<nexists>q. server_step False boot p q)))"
proof (intro conjI impI)
  show "wfP (\<lambda>q p. server_step testMode boot p q)"
    by (rule wfp_if_convertible_to_nat [of _ process_rank]) (rule process_rank_decreases)
next
  assume r: "server_reachable True boot p" and n: "\<nexists>q. server_step True boot p q"
  note i = server_reachable_inv [OF r]
  show "case boot of Some err \<Rightarrow> exited p = Some err
    | None \<Rightarrow> exited p = None \<and> main p = MDone \<and> serve p = SReturned \<and> stopper p = PDone \<and> calls p = 0"
  proof (cases "exited p")
    case None
    then show ?thesis
      using i server_stuck_test [OF i None n] server_stuck_booted(3) [OF i None n]
      by (auto simp: server_inv_def split: option.splits)
  next
    case (Some e)
    then show ?thesis using i by (auto simp: server_inv_def split: option.splits)
  qed
next
  assume "server_reachable False boot p"
  then have i: "server_inv False boot p" by (rule server_reachable_inv)
  show "main p \<noteq> MDone" using i by (cases "main p") (auto simp: server_inv_def split: if_splits)
  then show "main p = MWait" if "serve p = SReturned"
    using that i by (cases "main p") (auto simp: server_inv_def)
  show "exited p = None" if "serve p = SReturned" using that i by (auto simp: server_inv_def)
  show "\<nexists>q. server_step False boot p q" if "serve p = SReturned" "calls p = 0"
    using i that by (rule server_idle_forever)
qed

text \<open>A server in production whose listener broke, and a server in test mode that ran to its end.\<close>

definition all_services :: "bool \<Rightarrow> grpc_Server" where
  "all_services b = \<lparr>services = [IdentityService, ControllerService, NodeService], stopped = b\<rparr>"

definition process_broken :: process where
  "process_broken = \<lparr>srv = \<lparr>wg = 1, server = Some (all_services False)\<rparr>, main = MWait, serve = SReturned,
     stopper = PNone, calls = 0, exited = None\<rparr>"

definition process_tested :: process where
  "process_tested = \<lparr>srv = \<lparr>wg = 0, server = Some (all_services True)\<rparr>, main = MDone, serve = SReturned,
     stopper = PDone, calls = 0, exited = None\<rparr>"

lemmas server_run_simps = server_defs all_services_def grpc_NewServer_def RegisterService_def

lemma reachable_up:
  "server_reachable testMode None \<lparr>srv = \<lparr>wg = 1, server = Some (all_services False)\<rparr>, main = MWait,
     serve = SReady, stopper = PNone, calls = 0, exited = None\<rparr>"
  using server_reachable.step [OF server_reachable.step [OF server_reachable.init start] boots]
  by (simp add: server_run_simps)

lemma process_broken_reachable: "server_reachable False None process_broken"
proof -
  have "server_reachable False None \<lparr>srv = \<lparr>wg = 1, server = Some (all_services False)\<rparr>, main = MWait,
     serve = SServing, stopper = PNone, calls = 0, exited = None\<rparr>"
    using server_reachable.step [OF server_reachable.step [OF reachable_up [of False] plain] serves]
    by (simp add: server_run_simps)
  from server_reachable.env [OF this serve_fails] show ?thesis by (simp add: process_broken_def)
qed

lemma process_tested_reachable: "server_reachable True None process_tested"
proof -
  have "server_reachable True None \<lparr>srv = \<lparr>wg = 0, server = Some (all_services False)\<rparr>, main = MDone,
     serve = SServing, stopper = PWait, calls = 0, exited = None\<rparr>"
    using server_reachable.step [OF server_reachable.step [OF server_reachable.step
      [OF server_reachable.step [OF reachable_up [of True]
        test_done [where s = "\<lparr>wg = 0, server = Some (all_services False)\<rparr>"]] spawn] serves] wait_over]
    by (simp add: server_run_simps)
  from server_reachable.step [OF server_reachable.step [OF this stopper_waits]
    stopper_stops [where s = "\<lparr>wg = 0, server = Some (all_services True)\<rparr>"]]
  have "server_reachable True None \<lparr>srv = \<lparr>wg = 0, server = Some (all_services True)\<rparr>, main = MDone,
     serve = SServing, stopper = PStopping, calls = 0, exited = None\<rparr>"
    by (simp add: server_run_simps)
  from server_reachable.step [OF server_reachable.step [OF this stopper_returns] serve_returns]
  show ?thesis by (simp add: server_run_simps process_tested_def)
qed

lemma process_tested_stuck: "\<nexists>q. server_step True None process_tested q"
  by (auto simp: process_tested_def elim!: server_stepE)

theorem server_lifecycle_witness:
  "exited process_tested = None \<and> main process_tested = MDone \<and> serve process_tested = SReturned \<and>
   main process_broken = MWait \<and> (\<nexists>q. server_step False None process_broken q)"
  using server_lifecycle [of True None process_tested] server_lifecycle [of False None process_broken]
    process_tested_reachable process_tested_stuck process_broken_reachable
  by (simp add: process_broken_def)

end
