(* ===== verification/Program.thy ===== *)
theory Program
  imports Driver GrpcServer
begin

text \<open>
  The program around the driver: the command line (\<^verbatim>\<open>cmd/smbplugin/main.go\<close>), the version
  information (\<^verbatim>\<open>pkg/smb/version.go\<close>), the start of the gRPC server (\<^verbatim>\<open>pkg/csi-common/server.go\<close>) and
  the mounter of the unit tests (\<^verbatim>\<open>pkg/smb/fake_mounter.go\<close>). Sockets, HTTP and gRPC themselves are
  parameters; serving requests is the subject of the other theories.
\<close>

section \<open>Version information\<close>

text \<open>What the build and the Go runtime know.\<close>

record build_info =
  b_driverVersion :: string
  b_gitCommit :: string
  b_buildDate :: string
  b_goVersion :: string
  b_compiler :: string
  b_goos :: string
  b_goarch :: string

record VersionInfo =
  vi_DriverName :: string
  vi_DriverVersion :: string
  vi_GitCommit :: string
  vi_BuildDate :: string
  vi_GoVersion :: string
  vi_Compiler :: string
  vi_Platform :: string

definition GetVersion :: "build_info \<Rightarrow> string \<Rightarrow> VersionInfo" where
  "GetVersion b driverName = \<lparr>
     vi_DriverName = driverName, vi_DriverVersion = b_driverVersion b, vi_GitCommit = b_gitCommit b,
     vi_BuildDate = b_buildDate b, vi_GoVersion = b_goVersion b, vi_Compiler = b_compiler b,
     vi_Platform = b_goos b @ ''/'' @ b_goarch b\<rparr>"

text \<open>\<open>marshal\<close> stands for \<^verbatim>\<open>yaml.Marshal\<close>.\<close>

definition GetVersionYAML :: "(VersionInfo \<Rightarrow> error + string) \<Rightarrow> build_info \<Rightarrow> string \<Rightarrow> error + string" where
  "GetVersionYAML marshal b driverName =
     (case marshal (GetVersion b driverName) of
        Inl err \<Rightarrow> Inl err
      | Inr marshalled \<Rightarrow> Inr (TrimSpace marshalled))"

section \<open>The gRPC server\<close>

text \<open>
  \<^verbatim>\<open>serve\<close> up to the point where it accepts connections: the address it listens on, or the error with
  which the program ends. \<open>listen\<close> stands for \<^verbatim>\<open>net.Listen\<close>.
\<close>

definition grpc_serve ::
  "'w os \<Rightarrow> (string \<Rightarrow> string \<Rightarrow> 'w \<Rightarrow> error option) \<Rightarrow> string \<Rightarrow> 'w \<Rightarrow> (error + string \<times> string) \<times> 'w" where
  "grpc_serve os listen endpoint =
     (case ParseEndpoint endpoint of
        Inl err \<Rightarrow> fails err
      | Inr (proto, addr) \<Rightarrow>
          let addr = (if proto = ''unix'' \<and> GOOS os \<noteq> Windows then ''/'' @ addr else addr)
          in bind_st (if proto = ''unix'' then sys os (Remove addr) else reply None) (\<lambda>err.
               if (case err of None \<Rightarrow> False | Some e \<Rightarrow> \<not> IsNotExist e)
               then fails (Errorf ''Failed to remove %s, error: %s'' err)
               else asks (\<lambda>w. case listen proto addr w of
                      Some err \<Rightarrow> fails (Errorf ''Failed to listen: %v'' (Some err))
                    | None \<Rightarrow> returns (proto, addr))))"

section \<open>Running the driver\<close>

text \<open>The mounter of a node that is not a Windows node; \<open>unix_mounter\<close> stands for \<^verbatim>\<open>mount.New\<close>.\<close>

definition NewSafeMounter_unix :: "'m \<Rightarrow> bool \<Rightarrow> bool \<Rightarrow> error + 'm" where
  "NewSafeMounter_unix unix_mounter _ _ = Inr unix_mounter"

text \<open>
  \<^verbatim>\<open>Run\<close> up to the point where the server accepts connections: the driver with its capabilities, its
  mounter and the address, or the error with which the program ends. \<open>newSafeMounter\<close> is
  \<^verbatim>\<open>mounter.NewSafeMounter\<close> of the platform. The second argument of \<^verbatim>\<open>Run\<close>, the path of a
  configuration, has no name in the code and is not looked at. What follows is the life of the
  server, \<^const>\<open>server_step\<close>, whose \<open>boot\<close> is the error of \<^const>\<open>grpc_serve\<close>.
\<close>

definition driver_Run ::
  "(VersionInfo \<Rightarrow> error + string) \<Rightarrow> build_info \<Rightarrow> (bool \<Rightarrow> bool \<Rightarrow> error + 'm) \<Rightarrow> 'w os \<Rightarrow>
   (string \<Rightarrow> string \<Rightarrow> 'w \<Rightarrow> error option) \<Rightarrow> string \<Rightarrow> string \<Rightarrow> Driver \<Rightarrow> 'w \<Rightarrow>
   (error + Driver \<times> 'm \<times> string \<times> string) \<times> 'w" where
  "driver_Run marshal b newSafeMounter os listen endpoint _ d =
     (case GetVersionYAML marshal b (Name d) of
        Inl err \<Rightarrow> fails err
      | Inr versionMeta \<Rightarrow>
          (case newSafeMounter (enableWindowsHostProcess d) (removeSMBMappingDuringUnmount d) of
             Inl err \<Rightarrow> fails (Errorf ''Failed to get safe mounter. Error: %v'' (Some err))
           | Inr m \<Rightarrow>
               bind_st (grpc_serve os listen endpoint) (\<lambda>r. case r of
                 Inl err \<Rightarrow> fails err
               | Inr addr \<Rightarrow> returns (Run d, m, addr))))"

section \<open>The command line\<close>

record flags =
  f_endpoint :: string
  f_nodeID :: string
  f_driverName :: string
  f_ver :: bool
  f_metricsAddress :: string
  f_kubeconfig :: string
  f_enableGetVolumeStats :: bool
  f_removeSMBMappingDuringUnmount :: bool
  f_workingMountDir :: string
  f_volStatsCacheExpireInMinutes :: "64 word"
  f_krb5CacheDirectory :: string
  f_krb5Prefix :: string
  f_defaultOnDeletePolicy :: string
  f_removeArchivedVolumePath :: bool
  f_enableWindowsHostProcess :: bool

definition default_flags :: flags where
  "default_flags = \<lparr>
     f_endpoint = ''unix://tmp/csi.sock'', f_nodeID = '''', f_driverName = DefaultDriverName, f_ver = False,
     f_metricsAddress = '''', f_kubeconfig = '''', f_enableGetVolumeStats = True,
     f_removeSMBMappingDuringUnmount = True, f_workingMountDir = ''/tmp'',
     f_volStatsCacheExpireInMinutes = 10, f_krb5CacheDirectory = DefaultKrb5CacheDirectory,
     f_krb5Prefix = DefaultKrb5CCName, f_defaultOnDeletePolicy = '''', f_removeArchivedVolumePath = True,
     f_enableWindowsHostProcess = False\<rparr>"

text \<open>The options \<^verbatim>\<open>handle\<close> builds; a field it does not set is the empty string.\<close>

definition driverOptions :: "flags \<Rightarrow> DriverOptions" where
  "driverOptions f = \<lparr>
     o_NodeID = f_nodeID f,
     o_DriverName = f_driverName f,
     o_EnableGetVolumeStats = f_enableGetVolumeStats f,
     o_RemoveSMBMappingDuringUnmount = f_removeSMBMappingDuringUnmount f,
     o_WorkingMountDir = f_workingMountDir f,
     o_VolStatsCacheExpireInMinutes = f_volStatsCacheExpireInMinutes f,
     o_Krb5CacheDirectory = f_krb5CacheDirectory f,
     o_Krb5Prefix = f_krb5Prefix f,
     o_DefaultOnDeletePolicy = f_defaultOnDeletePolicy f,
     o_RemoveArchivedVolumePath = f_removeArchivedVolumePath f,
     o_EnableWindowsHostProcess = f_enableWindowsHostProcess f,
     o_Kubeconfig = ''''\<rparr>"

definition handle ::
  "(VersionInfo \<Rightarrow> error + string) \<Rightarrow> build_info \<Rightarrow> kube_env \<Rightarrow> (bool \<Rightarrow> bool \<Rightarrow> error + 'm) \<Rightarrow> 'w os \<Rightarrow>
   (string \<Rightarrow> string \<Rightarrow> 'w \<Rightarrow> error option) \<Rightarrow> flags \<Rightarrow> 'w \<Rightarrow> (error + Driver \<times> 'm \<times> string \<times> string) \<times> 'w" where
  "handle marshal b env newSafeMounter os listen f =
     driver_Run marshal b newSafeMounter os listen (f_endpoint f) (f_kubeconfig f) (NewDriver env (driverOptions f))"

text \<open>The address on which the metrics are served, if they are.\<close>

definition exportMetrics :: "(string \<Rightarrow> string \<Rightarrow> 'w \<Rightarrow> error option) \<Rightarrow> flags \<Rightarrow> 'w \<Rightarrow> string option" where
  "exportMetrics listen f w =
     (if f_metricsAddress f = '''' then None
      else (case listen ''tcp'' (f_metricsAddress f) w of Some err \<Rightarrow> None | None \<Rightarrow> Some (f_metricsAddress f)))"

text \<open>\<open>text_of\<close> stands for the method \<^verbatim>\<open>Error\<close> of an error.\<close>

definition trapClosedConnErr :: "(error \<Rightarrow> string) \<Rightarrow> error option \<Rightarrow> error option" where
  "trapClosedConnErr text_of err =
     (case err of
        None \<Rightarrow> None
      | Some e \<Rightarrow> if Contains (text_of e) ''use of closed network connection'' then None else Some e)"

text \<open>\<open>http_Serve\<close> stands for \<^verbatim>\<open>http.Serve\<close> with the handler of the given path.\<close>

definition serveMetrics :: "(error \<Rightarrow> string) \<Rightarrow> ('l \<Rightarrow> string \<Rightarrow> error option) \<Rightarrow> 'l \<Rightarrow> error option" where
  "serveMetrics text_of http_Serve l = trapClosedConnErr text_of (http_Serve l ''/metrics'')"

text \<open>
  The goroutine of \<^verbatim>\<open>serve\<close>: the error with which it ends the process, if it does, and otherwise whether
  the listener was closed, as the deferred call does; ending the process runs no deferred call.
\<close>

definition metrics_serve :: "('l \<Rightarrow> error option) \<Rightarrow> 'l \<Rightarrow> error + bool" where
  "metrics_serve serveFunc l =
     (case serveFunc l of
        Some err \<Rightarrow> Inl (Errorf ''serve failure(%v), address(%v)'' (Some err))
      | None \<Rightarrow> Inr True)"

datatype 'm outcome = Printed string | Serving Driver 'm "string \<times> string" "string option" | Fatal error

definition smbplugin_main ::
  "(VersionInfo \<Rightarrow> error + string) \<Rightarrow> build_info \<Rightarrow> kube_env \<Rightarrow> (bool \<Rightarrow> bool \<Rightarrow> error + 'm) \<Rightarrow> 'w os \<Rightarrow>
   (string \<Rightarrow> string \<Rightarrow> 'w \<Rightarrow> error option) \<Rightarrow> flags \<Rightarrow> 'w \<Rightarrow> 'm outcome \<times> 'w" where
  "smbplugin_main marshal b env newSafeMounter os listen f =
     (if f_ver f
      then (case GetVersionYAML marshal b (f_driverName f) of
              Inl err \<Rightarrow> reply (Fatal err)
            | Inr info \<Rightarrow> reply (Printed info))
      else asks (\<lambda>w. let metrics = exportMetrics listen f w
             in bind_st (handle marshal b env newSafeMounter os listen f) (\<lambda>r. case r of
                  Inl err \<Rightarrow> reply (Fatal err)
                | Inr (driver, m, addr) \<Rightarrow> reply (Serving driver m addr metrics))))"

section \<open>The mounter of the tests\<close>

definition fake_Mount :: "string \<Rightarrow> string \<Rightarrow> error option" where
  "fake_Mount source target =
     (if Contains source ''error_mount'' then Some (Errorf ''fake Mount: source error'' None)
      else if Contains target ''error_mount'' then Some (Errorf ''fake Mount: target error'' None)
      else None)"

definition fake_MountSensitive :: "string \<Rightarrow> string \<Rightarrow> error option" where
  "fake_MountSensitive source target =
     (if Contains source ''error_mount_sens'' then Some (Errorf ''fake MountSensitive: source error'' None)
      else if Contains target ''error_mount_sens'' then Some (Errorf ''fake MountSensitive: target error'' None)
      else None)"

definition fake_IsLikelyNotMountPoint :: "string \<Rightarrow> bool \<times> error option" where
  "fake_IsLikelyNotMountPoint file =
     (if Contains file ''error_is_likely'' then (False, Some (Errorf ''fake IsLikelyNotMountPoint: fake error'' None))
      else if Contains file ''false_is_likely'' then (False, None)
      else (True, None))"

definition NewFakeMounter :: "goos \<Rightarrow> (bool \<Rightarrow> bool \<Rightarrow> error + 'm) \<Rightarrow> 'm \<Rightarrow> error + 'm" where
  "NewFakeMounter g newSafeMounter fakeMounter =
     (if g = Windows then newSafeMounter True True else Inr fakeMounter)"

section \<open>Properties\<close>

lemma ToLower_proto: "ToLower ''unix'' = ''unix''" "ToLower ''tcp'' = ''tcp''" "ToLower ''://'' = ''://''"
  by code_simp+

lemma ParseEndpoint_ok:
  assumes "proto \<in> {''unix'', ''tcp''}" "addr \<noteq> ''''"
  shows "ParseEndpoint (proto @ ''://'' @ addr) = Inr (proto, addr)"
proof -
  have "ToLower (proto @ ''://'' @ addr) = proto @ ''://'' @ ToLower addr"
    using assms(1) by (auto simp only: ToLower_append ToLower_proto)
  then have p: "HasPrefix (ToLower (proto @ ''://'' @ addr)) ''unix://'' \<or> HasPrefix (ToLower (proto @ ''://'' @ addr)) ''tcp://''"
    using assms(1) by auto
  have "CHR '':'' \<notin> set proto" using assms(1) by auto
  then have s: "split_at ''://'' (proto @ ''://'' @ addr) = Some (proto, addr)" by (rule split_at_append)
  show ?thesis unfolding ParseEndpoint_def if_P [OF p] s using assms(2) by simp
qed

text \<open>
  C35. An endpoint is taken apart the way it was put together: outside Windows, with the protocol
  \<^verbatim>\<open>unix\<close> or \<^verbatim>\<open>tcp\<close> and an address that is not empty, the only call before listening is to remove the old socket, and the
  server comes up, on that protocol and address (below the root for a socket), exactly if there is no
  socket left and the address can be listened on; otherwise the program ends with an error.
\<close>

theorem endpoint_served:
  assumes "proto \<in> {''unix'', ''tcp''}" "addr \<noteq> ''''" "GOOS os \<noteq> Windows"
    and "grpc_serve (log_os os) listen (proto @ ''://'' @ addr) (w, []) = (r, (w', cs))"
  defines "path \<equiv> if proto = ''unix'' then ''/'' @ addr else addr"
  shows "cs = (if proto = ''unix'' then [Remove path] else []) \<and>
    (if (proto = ''unix'' \<longrightarrow> (case fst (sys os (Remove path) w) of None \<Rightarrow> True | Some e \<Rightarrow> IsNotExist e)) \<and>
        listen proto path (w', cs) = None
     then r = Inr (proto, path) else \<exists>err. r = Inl err)"
proof -
  have g: "GOOS (log_os os) \<noteq> Windows" using assms(3) by (simp add: log_os_def)
  note s = assms(4) [unfolded grpc_serve_def ParseEndpoint_ok [OF assms(1,2)]]
  show ?thesis
    using s g
    by (auto simp: path_def control_defs sys_def exec_log_os Let_def split: if_splits option.splits prod.splits)
qed

text \<open>The flag \<^verbatim>\<open>--kubeconfig\<close> has no effect.\<close>

lemma kubeconfig_ignored:
  "smbplugin_main marshal b env newSafeMounter os listen (f\<lparr>f_kubeconfig := path\<rparr>) =
   smbplugin_main marshal b env newSafeMounter os listen f"
proof -
  have "handle marshal b env newSafeMounter os listen (f\<lparr>f_kubeconfig := path\<rparr>) =
      handle marshal b env newSafeMounter os listen f"
    by (simp add: handle_def driver_Run_def driverOptions_def)
  moreover have "exportMetrics listen (f\<lparr>f_kubeconfig := path\<rparr>) = exportMetrics listen f"
    by (simp add: exportMetrics_def fun_eq_iff split: option.splits)
  ultimately show ?thesis by (simp add: smbplugin_main_def)
qed

text \<open>
  A driver serves only if its version could be printed and it has a mounter, on the address of the
  server, and with the capabilities of \<^const>\<open>Run\<close>.
\<close>

lemma smbplugin_main_serving:
  assumes "smbplugin_main marshal b env newSafeMounter os listen f w = (Serving d m addr metrics, w')"
  shows "d = Run (NewDriver env (driverOptions f)) \<and>
    newSafeMounter (f_enableWindowsHostProcess f) (f_removeSMBMappingDuringUnmount f) = Inr m \<and>
    grpc_serve os listen (f_endpoint f) w = (Inr addr, w') \<and> \<not> f_ver f"
  using assms
  by (auto simp: smbplugin_main_def handle_def driver_Run_def control_defs Let_def driverOptions_def NewDriver_def
      split: if_splits sum.splits prod.splits)

text \<open>A listener for the metrics that was closed does not end the process.\<close>

lemma metrics_closed:
  assumes "http_Serve l ''/metrics'' = Some e" "Contains (text_of e) ''use of closed network connection''"
  shows "metrics_serve (serveMetrics text_of http_Serve) l = Inr True"
  using assms by (simp add: metrics_serve_def serveMetrics_def trapClosedConnErr_def)

text \<open>A protocol in upper case is accepted, but is not taken for a socket.\<close>

lemma upper_case_endpoint: "ParseEndpoint ''UNIX://tmp/csi.sock'' = Inr (''UNIX'', ''tmp/csi.sock'')"
  by code_simp

end
