(* ===== verification/FilterJunit.thy ===== *)
theory FilterJunit
  imports System
begin

text \<open>
  The tool that merges and filters JUnit files (\<^verbatim>\<open>release-tools/filter-junit.go\<close>). The regular
  expression, the XML decoder and encoder and the files are parameters.
\<close>

section \<open>Data\<close>

record TestCase =
  tc_Name :: string
  tc_Time :: string
  tc_SystemOut :: string
  tc_SystemErr :: string
  tc_Failure :: string
  tc_Skipped :: string

text \<open>The text of the element \<^verbatim>\<open>skipped\<close>: an empty one is kept as a blank, so that it is not lost.\<close>

definition UnmarshalText :: "string \<Rightarrow> string" where
  "UnmarshalText text = (if text = '''' then '' '' else text)"

definition MarshalText :: "string \<Rightarrow> string" where
  "MarshalText s = (if s = '' '' then '''' else s)"

section \<open>Reading\<close>

text \<open>
  What the tool uses of its environment. \<open>j_Unmarshal\<close> stands for \<^verbatim>\<open>xml.Unmarshal\<close> into a suite and
  \<open>j_Unmarshal2\<close> into the results of Ginkgo v2: both give the test cases of the file, which the decoder
  appends to the slice it is given. \<open>j_Stdin n\<close> reads at most \<open>n\<close> bytes of the standard input.
\<close>

record 'w junit_env =
  j_ReadFile :: "string \<Rightarrow> 'w \<Rightarrow> error + string"
  j_Stdin :: "nat \<Rightarrow> 'w \<Rightarrow> (error + string) \<times> 'w"
  j_Unmarshal :: "string \<Rightarrow> error + TestCase list"
  j_Unmarshal2 :: "string \<Rightarrow> error + TestCase list"
  j_MarshalIndent :: "TestCase list \<Rightarrow> error + string"
  j_Stdout :: "string \<Rightarrow> 'w \<Rightarrow> error option \<times> 'w"
  j_WriteFile :: "string \<Rightarrow> string \<Rightarrow> int \<Rightarrow> 'w \<Rightarrow> error option \<times> 'w"

definition v2_format :: error where
  "v2_format = Errorf ''expected element type <testsuite> but have <testsuites>'' None"

text \<open>
  \<^verbatim>\<open>os.Stdin.Read(data)\<close> overwrites the front of the data of the input before: nothing at all if there
  was none, since a slice of length zero has no room.
\<close>

definition read_stdin :: "'w junit_env \<Rightarrow> string \<Rightarrow> 'w \<Rightarrow> (error + string) \<times> 'w" where
  "read_stdin env data =
     (if data = '''' then returns ''''
      else bind_st (j_Stdin env (length data)) (\<lambda>r. case r of
             Inl err \<Rightarrow> fails err
           | Inr got \<Rightarrow> returns (got @ drop (length got) data)))"

text \<open>The first loop of \<^verbatim>\<open>main\<close>; a panic ends the program.\<close>

fun read_inputs :: "'w junit_env \<Rightarrow> string list \<Rightarrow> string \<Rightarrow> TestCase list \<Rightarrow> 'w \<Rightarrow> (error + TestCase list) \<times> 'w" where
  "read_inputs env [] data junit = returns junit"
| "read_inputs env (input # inputs) data junit =
     bind_st (if input = ''-'' then read_stdin env data else asks (\<lambda>w. reply (j_ReadFile env input w))) (\<lambda>r. case r of
        Inl err \<Rightarrow> fails err
      | Inr data \<Rightarrow>
          (case j_Unmarshal env data of
             Inr cases \<Rightarrow> read_inputs env inputs data (junit @ cases)
           | Inl err \<Rightarrow>
               if err \<noteq> v2_format then fails err
               else (case j_Unmarshal2 env data of
                       Inl err \<Rightarrow> fails err
                     | Inr cases \<Rightarrow> read_inputs env inputs data (junit @ cases))))"

section \<open>Filtering\<close>

type_synonym filtered = "(string \<times> TestCase) list"

definition filter_step :: "(string \<Rightarrow> bool) \<Rightarrow> TestCase \<Rightarrow> filtered \<Rightarrow> filtered" where
  "filter_step matches testcase f =
     (if \<not> matches (tc_Name testcase) then f
      else (case map_of f (tc_Name testcase) of
              None \<Rightarrow> map_put (tc_Name testcase) testcase f
            | Some entry \<Rightarrow>
                if tc_Skipped entry \<noteq> '''' \<and> tc_Skipped testcase = ''''
                then map_put (tc_Name testcase) testcase f else f))"

text \<open>The second loop visits the map in an order that is not specified: the model fixes one.\<close>

definition filter_cases :: "(string \<Rightarrow> bool) \<Rightarrow> TestCase list \<Rightarrow> TestCase list" where
  "filter_cases matches cases = map snd (fold (filter_step matches) cases [])"

text \<open>\<^verbatim>\<open>main\<close>: \<open>matches\<close> is the compiled regular expression, \<open>Some\<close> the error of a panic.\<close>

definition filter_main :: "'w junit_env \<Rightarrow> (string \<Rightarrow> bool) \<Rightarrow> string \<Rightarrow> string list \<Rightarrow> 'w \<Rightarrow> error option \<times> 'w" where
  "filter_main env matches output args =
     bind_st (read_inputs env args '''' []) (\<lambda>r. case r of
        Inl err \<Rightarrow> reply (Some err)
      | Inr cases \<Rightarrow>
          (case j_MarshalIndent env (filter_cases matches cases) of
             Inl err \<Rightarrow> reply (Some err)
           | Inr data \<Rightarrow>
               if output = ''-'' then j_Stdout env data else j_WriteFile env output data 0x1A4))"

section \<open>Properties\<close>

lemma skip_roundtrip: "text \<noteq> '' '' \<Longrightarrow> MarshalText (UnmarshalText text) = text"
  by (simp add: UnmarshalText_def MarshalText_def)

text \<open>The standard input, when it comes first, is never read: the decoder gets no data.\<close>

lemma stdin_ignored:
  "read_inputs env (''-'' # inputs) '''' junit w =
     (case j_Unmarshal env '''' of
        Inr cases \<Rightarrow> read_inputs env inputs '''' (junit @ cases) w
      | Inl err \<Rightarrow>
          if err \<noteq> v2_format then (Inl err, w)
          else (case j_Unmarshal2 env '''' of
                  Inl err \<Rightarrow> (Inl err, w)
                | Inr cases \<Rightarrow> read_inputs env inputs '''' (junit @ cases) w))"
  by (simp add: read_stdin_def bind_st_def reply_def split: sum.splits)

text \<open>The entry of a name among test cases: the first that was not skipped, or else the first.\<close>

definition best_case :: "string \<Rightarrow> TestCase list \<Rightarrow> TestCase option" where
  "best_case n cases =
     (case find (\<lambda>t. tc_Name t = n \<and> tc_Skipped t = '''') cases of
        Some t \<Rightarrow> Some t
      | None \<Rightarrow> find (\<lambda>t. tc_Name t = n) cases)"

lemma find_snoc: "find P (xs @ [x]) = (case find P xs of Some y \<Rightarrow> Some y | None \<Rightarrow> if P x then Some x else None)"
  by (induction xs) auto

text \<open>One more test case replaces the entry of its name only if the entry was skipped and it was not.\<close>

lemma best_case_snoc:
  "best_case n (ts @ [t]) =
     (if tc_Name t \<noteq> n then best_case n ts
      else (case best_case n ts of
              None \<Rightarrow> Some t
            | Some entry \<Rightarrow> if tc_Skipped entry \<noteq> '''' \<and> tc_Skipped t = '''' then Some t else Some entry))"
proof (cases "find (\<lambda>t. tc_Name t = n \<and> tc_Skipped t = '''') ts")
  case (Some u)
  then have "tc_Skipped u = ''''" by (auto simp: find_Some_iff)
  then show ?thesis using Some by (simp add: best_case_def find_snoc)
next
  case None
  have "tc_Skipped u \<noteq> ''''" if "find (\<lambda>t. tc_Name t = n) ts = Some u" for u
    using None that by (auto simp: find_None_iff find_Some_iff)
  then show ?thesis
    using None by (cases "find (\<lambda>t. tc_Name t = n) ts") (simp_all add: best_case_def find_snoc)
qed

lemma map_of_filter_step:
  "map_of (filter_step matches t f) n =
     (if tc_Name t \<noteq> n \<or> \<not> matches n then map_of f n
      else (case map_of f n of
              None \<Rightarrow> Some t
            | Some entry \<Rightarrow> if tc_Skipped entry \<noteq> '''' \<and> tc_Skipped t = '''' then Some t else Some entry))"
  by (auto simp: filter_step_def split: option.splits)

lemma fold_filter_best:
  "map_of (fold (filter_step matches) cases []) n = (if matches n then best_case n cases else None)"
proof (induction cases rule: rev_induct)
  case (snoc t ts)
  then show ?case by (simp add: map_of_filter_step best_case_snoc)
qed (simp add: best_case_def)

definition keyed :: "filtered \<Rightarrow> bool" where
  "keyed m \<longleftrightarrow> wf_map m \<and> (\<forall>k t. (k, t) \<in> set m \<longrightarrow> tc_Name t = k)"

lemma keyed_put: "keyed m \<Longrightarrow> keyed (map_put (tc_Name t) t m)"
proof -
  have "(k, u) \<in> set (map_put a b m) \<Longrightarrow> (k, u) = (a, b) \<or> (k, u) \<in> set m" for k u a b
    by (induction m) (auto split: if_splits)
  then show "keyed m \<Longrightarrow> keyed (map_put (tc_Name t) t m)" unfolding keyed_def by blast
qed

lemma keyed_fold: "keyed m \<Longrightarrow> keyed (fold (filter_step matches) cases m)"
  by (induction cases arbitrary: m) (auto simp: filter_step_def keyed_put split: option.splits)

text \<open>
  C36. Filtering keeps one entry for every name that matches and occurs, and no other: the first test
  case with that name that was not skipped, or the first one if all were skipped.
\<close>

theorem filter_cases_spec:
  "distinct (map tc_Name (filter_cases matches cases)) \<and>
   set (filter_cases matches cases) = {t. matches (tc_Name t) \<and> best_case (tc_Name t) cases = Some t}"
proof -
  let ?f = "fold (filter_step matches) cases []"
  have "keyed ?f" by (rule keyed_fold) (simp add: keyed_def)
  then have wf: "distinct (map fst ?f)" and n: "\<And>k t. (k, t) \<in> set ?f \<Longrightarrow> tc_Name t = k"
    by (auto simp: keyed_def wf_map_def)
  have "map tc_Name (filter_cases matches cases) = map fst ?f"
    using n by (auto simp: filter_cases_def)
  then have d: "distinct (map tc_Name (filter_cases matches cases))" using wf by simp
  have "t \<in> set (filter_cases matches cases) \<longleftrightarrow> (tc_Name t, t) \<in> set ?f" for t
  proof
    assume "t \<in> set (filter_cases matches cases)"
    then obtain k where "(k, t) \<in> set ?f" by (auto simp: filter_cases_def)
    then show "(tc_Name t, t) \<in> set ?f" using n by blast
  next
    assume "(tc_Name t, t) \<in> set ?f"
    then show "t \<in> set (filter_cases matches cases)" unfolding filter_cases_def by (metis image_eqI list.set_map snd_conv)
  qed
  then have "t \<in> set (filter_cases matches cases) \<longleftrightarrow> map_of ?f (tc_Name t) = Some t" for t
    using wf by simp
  then have "t \<in> set (filter_cases matches cases) \<longleftrightarrow> matches (tc_Name t) \<and> best_case (tc_Name t) cases = Some t" for t
    unfolding fold_filter_best by simp
  then show ?thesis using d by blast
qed

end
