(* ===== verification/Spec2Isabelle.thy ===== *)
theory Spec2Isabelle
  imports Lifecycle DriverRun WindowsRun Program FilterJunit
begin

text \<open>
  A verification of the SMB CSI driver (\<^verbatim>\<open>csi-driver-smb\<close>).

  \<^bold>\<open>The program.\<close> A Container Storage Interface driver gives pods file systems from SMB shares. Its
  controller service creates and deletes volumes: a volume is a sub-directory of a share, which the
  controller mounts below a working directory, and its identifier is a string that holds all it needs
  to find the sub-directory again. Its node service stages a volume (mounts the share), publishes it
  to a pod (a bind mount or a link), undoes both, and measures file systems. Handlers of one volume
  exclude each other by a set of keys; statistics and deletions are cached for a time; Kerberos tickets
  come with the request and are kept in a directory of caches. On Linux and macOS mounting is done by
  \<^verbatim>\<open>k8s.io/mount-utils\<close>; on Windows by one of three mounters of the driver, which map shares through the CSI
  proxy or PowerShell and count the volumes that use a mapping.

  \<^bold>\<open>Layers.\<close> The theories follow the packages of the source.

  \<^item> \<^verbatim>\<open>Prelude\<close>: errors (system errors, formatted errors, gRPC statuses, panics), association lists as
    Go maps. \<^verbatim>\<open>GoStrings\<close>, \<^verbatim>\<open>GoPath\<close>, \<^verbatim>\<open>GoConv\<close>, \<^verbatim>\<open>Base64\<close>, \<^verbatim>\<open>Md5\<close>, \<^verbatim>\<open>WinPath\<close>: what the source uses of
    the Go standard library (strings, path/filepath on both systems, strconv, encoding/base64,
    crypto/md5), with the laws the other theories need.
  \<^item> \<^verbatim>\<open>System\<close>: the environment of the driver, a record of queries and of one function that carries out
    calls; the calls are a datatype, so that theorems speak about the calls a handler makes. It holds
    the control flow of Go (early returns, \<^verbatim>\<open>defer\<close>) and the two ways to reason about it: a relation
    that every call respects is respected by the function (\<open>keeps\<close>, locales \<open>effect\<close> and \<open>effect_os\<close>),
    and what a result says about the final state (\<open>ensures\<close>). \<open>log_os\<close> runs any environment and writes
    down its calls; the safety properties are about this log, for every environment.
  \<^item> \<^verbatim>\<open>SmbUtil\<close> (helpers of \<^verbatim>\<open>smb.go\<close> and \<^verbatim>\<open>pkg/util\<close>), \<^verbatim>\<open>CSICommon\<close> (\<^verbatim>\<open>pkg/csi-common\<close>), \<^verbatim>\<open>VolumeLock\<close>
    (\<^verbatim>\<open>volume_lock.go\<close>), \<^verbatim>\<open>TimedCache\<close> (the vendored cache of cloud-provider-azure), \<^verbatim>\<open>MountUtils\<close> (the
    helpers of the vendored mount-utils the driver calls), \<^verbatim>\<open>Driver\<close> (\<^verbatim>\<open>smb.go\<close>, \<^verbatim>\<open>identityserver.go\<close>: the
    driver object, its options, its state and \<open>with_lock\<close>).
  \<^item> \<^verbatim>\<open>VolumeID\<close> (identifiers, paths and parameters of \<^verbatim>\<open>controllerserver.go\<close>) and \<^verbatim>\<open>Controller\<close> (its
    handlers); \<^verbatim>\<open>Kerberos\<close>, \<^verbatim>\<open>Platform\<close> (\<^verbatim>\<open>smb_common_*.go\<close>) and \<^verbatim>\<open>NodeServer\<close> (\<^verbatim>\<open>nodeserver.go\<close>).
  \<^item> \<^verbatim>\<open>WinSystem\<close> (\<^verbatim>\<open>pkg/os\<close> and what it uses of Windows), \<^verbatim>\<open>WinSync\<close> (the mutexes of mapping paths and
    the semaphore of PowerShell), \<^verbatim>\<open>RefCounter\<close> and \<^verbatim>\<open>WinMounter\<close> (\<^verbatim>\<open>pkg/mounter\<close>).
  \<^item> \<^verbatim>\<open>MountContract\<close>, \<^verbatim>\<open>WinContract\<close>, \<^verbatim>\<open>WinDriver\<close>: the interfaces between the services and the system
    as locales. \<open>node_env\<close> has what the node service relies on; \<open>mount_env\<close> (the documented behaviour of
    Linux and mount-utils) and \<open>link_mounter\<close> (a Windows mounter) are sublocales of it, and
    \<open>windows_env\<close> (the documented behaviour of a Windows node and of the CSI proxy) gives
    \<open>link_mounter\<close> for each of the three mounters. \<open>ref_store\<close> and \<open>share_refs\<close> are the file system
    under the reference counter, \<open>proxy_mounter\<close> what the three mounters have in common.
  \<^item> \<^verbatim>\<open>LinuxNode\<close>, \<^verbatim>\<open>WindowsNode\<close>, \<^verbatim>\<open>WindowsRun\<close>: concrete nodes with a file system, mounts, links and
    mappings, on which every one of these locales is interpreted and the handlers run. They show that
    the laws can hold together, and they are the inputs of the witnesses.
  \<^item> \<^verbatim>\<open>Lifecycle\<close>: the two services together, one volume through both. \<^verbatim>\<open>DriverRun\<close>: the driver over any
    sequence of requests, background mounts and changes outside, with the well-formedness of its state;
    the locale \<open>clock_env\<close> has the one law it needs, a clock that does not go back.
  \<^item> \<^verbatim>\<open>GrpcServer\<close> (\<^verbatim>\<open>server.go\<close> and the interceptor of \<^verbatim>\<open>utils.go\<close>): the goroutines that start the server,
    serve, wait and stop it, as one step relation. \<^verbatim>\<open>Program\<close>: command line, version, \<^verbatim>\<open>Run\<close> up to the
    point where the server accepts connections, the metrics, the mounter of the tests; and
    \<^verbatim>\<open>FilterJunit\<close> (the tool that filters test results).

  \<^bold>\<open>State.\<close> A handler takes a state \<open>st\<close>: the driver object (configuration, lock keys, the two caches), the
  world of the environment, and the mounts that timed out and go on in the background. A mount that
  does not end in time is put there by \<open>WaitUntilTimeout\<close> and the handler returns an error.

  \<^bold>\<open>What is shown.\<close>
  \<^item> Deleting is safe: for every environment, the directory trees that \<^verbatim>\<open>DeleteVolume\<close> removes, renames or
    changes the modes of are below the path at which it mounted the share, unless the sub-directory
    itself steps upwards (which the code accepts: \<open>subDir_escapes_mount\<close>); nothing is touched when the
    volume is to be retained.
  \<^item> Handlers give back their locks on every path; two handlers with the same key never work at the
    same time, and no key is left when none works. The same for the mutexes of Windows mappings and the
    places of PowerShell, in every interleaving of goroutines. After any history of requests the state
    of the driver is well-formed: no key held, the configuration it was built with, no cache entry from
    the future, and no background mount without a volume and a target.
  \<^item> The goroutines of the gRPC server always run out of steps of their own; in test mode they have all
    ended then, and in production \<^verbatim>\<open>Wait\<close> never returns, not even when serving has failed.
  \<^item> Staging mounts, unstaging cleans up, on every platform, if the system keeps the laws of its
    locale; a plain mount with user and password on Linux succeeds, with exactly the expected calls,
    when no call fails; the node mounts the directory that the controller made; staging touches
    nothing but its own path, its temporary credentials, its own ticket cache and the one link of the
    user that its flags name; on Linux a password with a special character goes through a file that
    is written, used and removed in exactly that order.
  \<^item> Identifiers: the round trip holds exactly for volumes without a \<^verbatim>\<open>#\<close>; among those identifiers are
    unique; names that are path components get disjoint mount paths, and volume paths are contained as
    long as nothing steps upwards; exactly which storage classes are accepted, and independence of
    the order of the map for keys that differ in more than case and for templates.
  \<^item> The timed cache refines a map that never forgets, filtered by age; over any history of requests
    the statistics of a volume are measured once per time to live.
  \<^item> Kerberos: names that do not collide, the round trip of a ticket cache under a key in lower case,
    deletion that spares the caches of other volumes, and its exact calls.
  \<^item> Windows: a mapping is not removed while another volume is mounted from its share, for every
    history of mounts and unmounts, as long as no unmount of that volume failed; after a failed one
    it may be, since its reference is gone (\<open>unmount_not_retryable\<close>); unmounting is confined to its
    target, for all three mounters; when exactly the host process mounter removes a mapping; exactly
    which paths are accepted.
  \<^item> A staging that times out is reported as an error, with its mount left in the background and its
    lock released; two attempts then mount a share twice (\<open>timeout_mounts_twice\<close>).
  \<^item> The properties at the end describe behaviour that is a defect: sub-directories that lead out of a
    share, a link that goes although other volumes of the user need it, an unmount that can not be
    repeated, a search for other mounts in the directory of another driver. Lemmas beside the
    definitions show others: runs in which a link and a mapping in use are lost
    (\<open>shared_krb5cc_link_lost\<close>, \<open>host_process_removes_mapping_in_use\<close>), options that have no effect,
    prefixes and protocols in upper case.

  \<^bold>\<open>Bounds.\<close> No function has fuel: the loops of the source go over finite slices and maps and are
  structural recursion here; the other recursions (replacing in a string, digits of a number, blocks
  of MD5) have a termination proof. Integers whose overflow matters (times in \<^verbatim>\<open>time.Duration\<close>, quantities, the words of
  MD5) are words. Go's iteration order over maps is a list order, and the results are shown not to
  depend on it, or a query of the environment gives it.

  \<^bold>\<open>Not modelled.\<close> The transport of gRPC requests and the HTTP server of the metrics: they are calls of
  libraries. Of \<^verbatim>\<open>grpc.Server\<close> only what its documentation promises of \<^verbatim>\<open>Serve\<close>, \<^verbatim>\<open>Stop\<close> and
  \<^verbatim>\<open>GracefulStop\<close> is there; of mount-utils the helpers that the driver calls, while the mounter itself is
  a parameter. The text of an error keeps its format and the error it wraps, not the other arguments;
  logging is left out, but for the interceptor of the server. Strings are lists of bytes, and lower
  case is that of ASCII. Walking a tree to change the modes, and copying one, is a single call of the
  environment; theorems about the paths of calls are about the paths as they are written, and
  symbolic links are followed by the environment only. Appending to a slice gives a new list: that
  the mount options of a staging may share the array of the request's flags cannot be seen here. The
  nil volume of \<^verbatim>\<open>getInternalMountPath\<close> is left out, since no caller passes it. Handlers run as atomic steps in the
  theorems about a single request and about histories of requests; interleavings are modelled where the
  code synchronises, in \<^verbatim>\<open>VolumeLock\<close>, \<^verbatim>\<open>WinSync\<close> and \<^verbatim>\<open>GrpcServer\<close>.
\<close>

text \<open>
  C2. Every request handler of the node and the controller service leaves the set of held keys and
  the configuration of the driver as it found them, on every path, errors and panics included: no
  lock is leaked and no lock of another request is released.
\<close>

theorem handlers_restore_locks:
  "locked (snd (CreateVolume os cv s)) = locked s \<and> config (snd (CreateVolume os cv s)) = config s \<and>
   locked (snd (DeleteVolume os dv s)) = locked s \<and> config (snd (DeleteVolume os dv s)) = config s \<and>
   locked (snd (NodeStageVolume os ns s)) = locked s \<and> config (snd (NodeStageVolume os ns s)) = config s \<and>
   locked (snd (NodeUnstageVolume os nu s)) = locked s \<and> config (snd (NodeUnstageVolume os nu s)) = config s \<and>
   locked (snd (NodePublishVolume os np s)) = locked s \<and> config (snd (NodePublishVolume os np s)) = config s \<and>
   locked (snd (NodeUnpublishVolume os nx s)) = locked s \<and> config (snd (NodeUnpublishVolume os nx s)) = config s \<and>
   locked (snd (NodeGetVolumeStats os ng s)) = locked s \<and> config (snd (NodeGetVolumeStats os ng s)) = config s"
  using driver_kept_create [of os cv] driver_kept_delete [of os dv] driver_kept_stage [of os ns]
    driver_kept_unstage [of os nu] driver_kept_publish [of os np] driver_kept_unpublish [of os nx]
    driver_kept_stats [of os ng]
  by (simp add: keeps_def driver_kept_def)

text \<open>Deleting the volume whose identifier the node request names.\<close>

definition delete_request :: "string \<Rightarrow> DeleteVolumeRequest" where
  "delete_request onDel =
     \<lparr>dv_VolumeId = ''srv/share#data#pv1#'' @ onDel, dv_Secrets = [(''username'', ''u''), (''password'', ''p'')]\<rparr>"

theorem delete_confined_witness:
  "list_all (\<lambda>c. list_all (\<lambda>p. prefix (comps ''/tmp/pv1'') (comps p)) (destroys c))
     (snd (world (snd (DeleteVolume (log_os linux_os) (delete_request '''') logged_state))))"
proof -
  let ?vol = "empty_vol\<lparr>vol_id := ''srv/share#data#pv1#'', source := ''//srv/share'', subDir := ''data'', uuid := ''pv1''\<rparr>"
  have v: "getSmbVolFromID (dv_VolumeId (delete_request '''')) = Inr ?vol" by code_simp
  have ok: "IsAbs (workingMountDir (drv logged_state))" "no_dotdot (subDir ?vol)" by code_simp+
  have path: "getInternalMountPath (workingMountDir (drv logged_state)) ?vol = ''/tmp/pv1''" by code_simp
  have w: "world logged_state = (node_world, [])" by (simp add: logged_state_def)
  show ?thesis
    using delete_confined [OF _ w v ok, of linux_os]
    unfolding path list_all_iff by (metis prod.collapse)
qed

theorem delete_retains_witness:
  "world (snd (DeleteVolume linux_os (delete_request ''Retain'') node_state)) = world node_state"
proof -
  have "dv_VolumeId (delete_request ''Retain'') \<noteq> ''''" "keeps_volume (drv node_state) (delete_request ''Retain'')"
    by code_simp+
  then show ?thesis using delete_retains by (metis prod.collapse)
qed

theorem endpoint_served_witness:
  "case grpc_serve (log_os linux_os) (\<lambda>_ _ _. None) (''unix'' @ ''://'' @ ''tmp/csi.sock'') (node_world, []) of
     (r, (w, cs)) \<Rightarrow> r = Inr (''unix'', ''/tmp/csi.sock'') \<and> cs = [Remove ''/tmp/csi.sock'']"
proof -
  have g: "GOOS linux_os \<noteq> Windows" by (simp add: linux_os_def)
  have m: "case fst (sys linux_os (Remove ''/tmp/csi.sock'') node_world) of None \<Rightarrow> True | Some e \<Rightarrow> IsNotExist e"
    by code_simp
  obtain r w cs where s: "grpc_serve (log_os linux_os) (\<lambda>_ _ _. None) (''unix'' @ ''://'' @ ''tmp/csi.sock'') (node_world, []) = (r, (w, cs))"
    by (metis prod.collapse)
  show ?thesis using endpoint_served [OF _ _ g s] m unfolding s by simp
qed

end
